(* ===== verification/Prelude.thy ===== *)
theory Prelude
  imports Main "HOL-Library.Word" "HOL-Library.Sublist" "HOL-Library.Char_ord"
    "HOL-Library.List_Lexorder"
begin

text \<open>
  What the component theories share: Go strings and byte slices as lists of 8-bit characters, the
  parts of \<^verbatim>\<open>strings\<close> and \<^verbatim>\<open>strconv\<close> the program calls, and the generic lemmas about them.
  Every integer conversion keeps the range check of the 64-bit (or 32-bit) type it parses into.
\<close>

named_theorems go_defs \<open>definitions of library calls that unfold completely\<close>

type_synonym bytes = string
type_synonym go_time = int
type_synonym duration = int

text \<open>Go durations count nanoseconds in an \<^verbatim>\<open>int64\<close>.\<close>

abbreviation millisecond :: duration where "millisecond \<equiv> 1000000"
abbreviation second :: duration where "second \<equiv> 1000000000"
abbreviation minute :: duration where "minute \<equiv> 60000000000"

definition int64_max :: int where "int64_max = 9223372036854775807"
definition int64_min :: int where "int64_min = -9223372036854775808"
definition int32_max :: int where "int32_max = 2147483647"
definition int32_min :: int where "int32_min = -2147483648"

text \<open>\<^verbatim>\<open>Time.Sub\<close> (and so \<^verbatim>\<open>time.Until\<close>) saturates at the ends of \<^verbatim>\<open>int64\<close>.\<close>

definition time_until :: "go_time \<Rightarrow> go_time \<Rightarrow> duration" where
  "time_until now t = max int64_min (min int64_max (t - now))"

text \<open>\<^verbatim>\<open>int(d.Seconds())\<close> for a non-negative duration: whole seconds, the fraction dropped.\<close>

definition whole_seconds :: "duration \<Rightarrow> int" where
  "whole_seconds d = (if 0 \<le> d then d div second else - ((- d) div second))"

lemma time_until_pos: "0 < time_until now t \<longleftrightarrow> now < t"
  by (auto simp: time_until_def int64_min_def int64_max_def max_def min_def)

lemma time_until_le: "now < t \<Longrightarrow> time_until now t \<le> t - now"
  by (auto simp: time_until_def int64_min_def int64_max_def max_def min_def)

section \<open>Characters\<close>

abbreviation ord :: "char \<Rightarrow> nat" where "ord c \<equiv> of_char c"

definition is_digit :: "char \<Rightarrow> bool" where
  "is_digit c \<longleftrightarrow> 48 \<le> ord c \<and> ord c \<le> 57"

definition is_lower :: "char \<Rightarrow> bool" where
  "is_lower c \<longleftrightarrow> 97 \<le> ord c \<and> ord c \<le> 122"

definition is_upper :: "char \<Rightarrow> bool" where
  "is_upper c \<longleftrightarrow> 65 \<le> ord c \<and> ord c \<le> 90"

definition is_alnum :: "char \<Rightarrow> bool" where
  "is_alnum c \<longleftrightarrow> is_digit c \<or> is_lower c \<or> is_upper c"

definition chr :: "nat \<Rightarrow> char" where "chr n = char_of n"

lemma ord_chr [simp]: "n < 256 \<Longrightarrow> ord (chr n) = n"
  by (simp add: chr_def of_char_of)

lemma chr_ord [simp]: "chr (ord c) = c"
  by (simp add: chr_def)

lemma ord_less [simp]: "ord c < 256"
  using of_char_of [of "ord c"] by (metis char_of_char mod_less_divisor of_char_of zero_less_numeral)

lemma ord_inject [simp]: "ord c = ord d \<longleftrightarrow> c = d"
  by simp

section \<open>The package \<open>strings\<close>\<close>

definition trim_right_char :: "char \<Rightarrow> string \<Rightarrow> string" where
  "trim_right_char c s = rev (dropWhile ((=) c) (rev s))"

text \<open>\<^verbatim>\<open>strings.Split\<close> on one character: always at least one piece.\<close>

fun split_on :: "char \<Rightarrow> string \<Rightarrow> string list" where
  "split_on d [] = [[]]"
| "split_on d (c # cs) =
     (if c = d then [] # split_on d cs
      else (case split_on d cs of [] \<Rightarrow> [[c]] | p # ps \<Rightarrow> (c # p) # ps))"

text \<open>\<^verbatim>\<open>strings.Cut\<close> on one character: the text before and after the first occurrence.\<close>

fun cut_at :: "char \<Rightarrow> string \<Rightarrow> (string \<times> string) option" where
  "cut_at d [] = None"
| "cut_at d (c # cs) =
     (if c = d then Some ([], cs)
      else (case cut_at d cs of None \<Rightarrow> None | Some (a, b) \<Rightarrow> Some (c # a, b)))"

fun join_with :: "'a list \<Rightarrow> 'a list list \<Rightarrow> 'a list" where
  "join_with sep [] = []"
| "join_with sep [x] = x"
| "join_with sep (x # y # ys) = x @ sep @ join_with sep (y # ys)"

definition trim_set :: "char list \<Rightarrow> string \<Rightarrow> string" where
  "trim_set cs s = rev (dropWhile (\<lambda>c. c \<in> set cs) (rev (dropWhile (\<lambda>c. c \<in> set cs) s)))"

lemma split_on_nonempty [simp]: "split_on d s \<noteq> []"
  by (induction s) (auto split: list.splits)

lemma split_on_no_sep: "d \<notin> set s \<Longrightarrow> split_on d s = [s]"
  by (induction s) auto

lemma split_on_append: "d \<notin> set a \<Longrightarrow> split_on d (a @ d # b) = a # split_on d b"
  by (induction a) auto

lemma cut_at_append: "d \<notin> set a \<Longrightarrow> cut_at d (a @ d # b) = Some (a, b)"
  by (induction a) auto

lemma split_on_pieces: "p \<in> set (split_on d s) \<Longrightarrow> d \<notin> set p"
  by (induction s arbitrary: p) (auto split: list.splits if_splits)

lemma cut_at_None [simp]: "cut_at d s = None \<longleftrightarrow> d \<notin> set s"
  by (induction s) (auto split: option.splits)

lemma trim_right_char_last: "trim_right_char c s = [] \<or> last (trim_right_char c s) \<noteq> c"
  using hd_dropWhile [of "(=) c" "rev s"]
  by (cases "dropWhile ((=) c) (rev s)") (auto simp: trim_right_char_def)

section \<open>The package \<open>strconv\<close>\<close>

definition digit_chr :: "nat \<Rightarrow> char" where "digit_chr n = chr (48 + n)"
definition digit_val :: "char \<Rightarrow> nat" where "digit_val c = ord c - 48"

fun dec_nat :: "nat \<Rightarrow> string" where
  "dec_nat n = (if n < 10 then [digit_chr n] else dec_nat (n div 10) @ [digit_chr (n mod 10)])"

declare dec_nat.simps [simp del]

definition formatInt :: "int \<Rightarrow> string" where
  "formatInt n = (if n < 0 then CHR ''-'' # dec_nat (nat (- n)) else dec_nat (nat n))"

fun dec_val :: "nat \<Rightarrow> string \<Rightarrow> nat option" where
  "dec_val acc [] = Some acc"
| "dec_val acc (c # cs) = (if is_digit c then dec_val (10 * acc + digit_val c) cs else None)"

definition parse_digits :: "string \<Rightarrow> nat option" where
  "parse_digits s = (if s = [] then None else dec_val 0 s)"

text \<open>
  \<^verbatim>\<open>strconv.ParseInt(s, 10, bits)\<close>: an optional sign, decimal digits only (base 10 admits no
  underscores), and the range of the signed type; \<open>None\<close> is the error.
\<close>

definition parseInt :: "int \<Rightarrow> int \<Rightarrow> string \<Rightarrow> int option" where
  "parseInt lo hi s =
     (let (neg, ds) = (case s of c # cs \<Rightarrow> if c = CHR ''-'' then (True, cs)
                                            else if c = CHR ''+'' then (False, cs) else (False, s)
                               | [] \<Rightarrow> (False, []))
      in case parse_digits ds of None \<Rightarrow> None
         | Some n \<Rightarrow> (let v = (if neg then - int n else int n)
                      in if lo \<le> v \<and> v \<le> hi then Some v else None))"

abbreviation parseInt64 :: "string \<Rightarrow> int option" where
  "parseInt64 \<equiv> parseInt int64_min int64_max"

text \<open>\<^verbatim>\<open>strconv.ParseBool\<close>.\<close>

definition parseBool :: "string \<Rightarrow> bool option" where
  "parseBool s =
     (if s \<in> set [''1'', ''t'', ''T'', ''true'', ''TRUE'', ''True''] then Some True
      else if s \<in> set [''0'', ''f'', ''F'', ''false'', ''FALSE'', ''False''] then Some False
      else None)"

lemma is_digit_digit_chr [simp]: "n < 10 \<Longrightarrow> is_digit (digit_chr n)"
  by (simp add: is_digit_def digit_chr_def)

lemma digit_val_digit_chr [simp]: "n < 10 \<Longrightarrow> digit_val (digit_chr n) = n"
  by (simp add: digit_val_def digit_chr_def)

lemma dec_nat_nonempty [simp]: "dec_nat n \<noteq> []"
  by (subst dec_nat.simps) simp

lemma dec_nat_digits: "list_all is_digit (dec_nat n)"
proof (induction n rule: dec_nat.induct)
  case (1 n)
  then show ?case by (subst dec_nat.simps) auto
qed

lemma dec_val_append:
  "dec_val acc (a @ b) = (case dec_val acc a of None \<Rightarrow> None | Some v \<Rightarrow> dec_val v b)"
  by (induction a arbitrary: acc) auto

lemma dec_val_dec_nat: "dec_val 0 (dec_nat n) = Some n"
proof (induction n rule: dec_nat.induct)
  case (1 n)
  show ?case
  proof (cases "n < 10")
    case True
    then show ?thesis by (subst dec_nat.simps) simp
  next
    case False
    with "1.IH" show ?thesis by (subst dec_nat.simps) (simp add: dec_val_append)
  qed
qed

lemma parse_digits_dec_nat [simp]: "parse_digits (dec_nat n) = Some n"
  by (simp add: parse_digits_def dec_val_dec_nat)

lemma dec_nat_hd: "is_digit (hd (dec_nat n))"
  using dec_nat_digits [of n] by (cases "dec_nat n") auto

lemma not_digit_sign [simp]: "\<not> is_digit CHR ''-''" "\<not> is_digit CHR ''+''"
  by (simp_all add: is_digit_def)

lemma dec_nat_Cons:
  obtains c cs where "dec_nat n = c # cs" "is_digit c" "c \<noteq> CHR ''-''" "c \<noteq> CHR ''+''"
proof -
  obtain c cs where c: "dec_nat n = c # cs" by (cases "dec_nat n") auto
  with dec_nat_hd [of n] have d: "is_digit c" by simp
  with not_digit_sign have "c \<noteq> CHR ''-''" "c \<noteq> CHR ''+''" by auto
  with c d show thesis by (rule that)
qed

lemma parseInt_formatInt: "lo \<le> n \<Longrightarrow> n \<le> hi \<Longrightarrow> parseInt lo hi (formatInt n) = Some n"
proof (cases "n < 0")
  case True
  assume "lo \<le> n" "n \<le> hi"
  with True show ?thesis by (simp add: parseInt_def formatInt_def)
next
  case False
  assume "lo \<le> n" "n \<le> hi"
  moreover obtain c cs where c: "dec_nat (nat n) = c # cs" "c \<noteq> CHR ''-''" "c \<noteq> CHR ''+''"
    by (rule dec_nat_Cons)
  moreover have "parse_digits (c # cs) = Some (nat n)"
    using c(1) parse_digits_dec_nat [of "nat n"] by simp
  ultimately show ?thesis using False by (simp add: parseInt_def formatInt_def)
qed

lemma parseInt_range: "parseInt lo hi s = Some n \<Longrightarrow> lo \<le> n \<and> n \<le> hi"
  by (auto simp: parseInt_def Let_def split: option.splits if_splits prod.splits)

end
