(* ===== verification/Url.thy ===== *)
theory Url
  imports Prelude
begin

text \<open>
  The parts of \<^verbatim>\<open>net/url\<close> and \<^verbatim>\<open>path\<close> the program uses: percent-decoding of query components and
  path segments, \<^verbatim>\<open>url.ParseQuery\<close> with \<^verbatim>\<open>Values.Get\<close>, \<^verbatim>\<open>Values.Encode\<close>, \<^verbatim>\<open>path.Clean\<close>
  and the path cleaning of \<^verbatim>\<open>http.ServeMux\<close>.
\<close>

definition unhex :: "char \<Rightarrow> nat option" where
  "unhex c = (if is_digit c then Some (ord c - 48)
              else if 97 \<le> ord c \<and> ord c \<le> 102 then Some (ord c - 87)
              else if 65 \<le> ord c \<and> ord c \<le> 70 then Some (ord c - 55) else None)"

text \<open>\<^verbatim>\<open>unescape\<close>; \<open>pl\<close> says whether \<^verbatim>\<open>+\<close> stands for a space (query components).\<close>

function unescape :: "bool \<Rightarrow> string \<Rightarrow> string option" where
  "unescape pl [] = Some []"
| "unescape pl (c # cs) =
     (if c = CHR ''%'' then
        (case cs of
           a # b # r \<Rightarrow>
             (case (unhex a, unhex b) of
                (Some p, Some q) \<Rightarrow> map_option ((#) (chr (16 * p + q))) (unescape pl r)
              | _ \<Rightarrow> None)
         | _ \<Rightarrow> None)
      else map_option ((#) (if pl \<and> c = CHR ''+'' then CHR '' '' else c)) (unescape pl cs))"
  by pat_completeness auto
termination
  by (relation "measure (length \<circ> snd)") auto

abbreviation query_unescape :: "string \<Rightarrow> string option" where "query_unescape \<equiv> unescape True"

text \<open>\<^verbatim>\<open>pathUnescape\<close> of the mux: a segment that does not decode stands for itself.\<close>

definition path_unescape :: "string \<Rightarrow> string" where
  "path_unescape s = (case unescape False s of None \<Rightarrow> s | Some t \<Rightarrow> t)"

definition upper_hex :: string where "upper_hex = ''0123456789ABCDEF''"

definition unreserved :: "char \<Rightarrow> bool" where
  "unreserved c \<longleftrightarrow> is_alnum c \<or> c = CHR ''-'' \<or> c = CHR ''_'' \<or> c = CHR ''.'' \<or> c = CHR ''~''"

text \<open>\<^verbatim>\<open>url.QueryEscape\<close>.\<close>

definition escape_char :: "char \<Rightarrow> string" where
  "escape_char c =
     (if c = CHR '' '' then ''+''
      else if unreserved c then [c]
      else [CHR ''%'', upper_hex ! (ord c div 16), upper_hex ! (ord c mod 16)])"

definition query_escape :: "string \<Rightarrow> string" where
  "query_escape s = concat (map escape_char s)"

type_synonym qvalues = "(string \<times> string) list"

text \<open>One \<^verbatim>\<open>key=value\<close> piece of a query string; a piece the parser rejects is dropped.\<close>

definition parse_pair :: "string \<Rightarrow> qvalues" where
  "parse_pair p =
     (if CHR '';'' \<in> set p \<or> p = '''' then []
      else let (k, v) = (case cut_at (CHR ''='') p of None \<Rightarrow> (p, '''') | Some kv \<Rightarrow> kv)
           in case (query_unescape k, query_unescape v) of
                (Some k', Some v') \<Rightarrow> [(k', v')]
              | _ \<Rightarrow> [])"

definition parse_query :: "string \<Rightarrow> qvalues" where
  "parse_query raw = concat (map parse_pair (split_on (CHR ''&'') raw))"

text \<open>\<^verbatim>\<open>Values.Get\<close>: the first value of the key, or the empty string.\<close>

definition query_get :: "qvalues \<Rightarrow> string \<Rightarrow> string" where
  "query_get q k = (case map_of q k of None \<Rightarrow> '''' | Some v \<Rightarrow> v)"

text \<open>\<^verbatim>\<open>Values.Set\<close> and \<^verbatim>\<open>Values.Encode\<close>, for one value per key: keys in order.\<close>

definition query_set :: "string \<Rightarrow> string \<Rightarrow> qvalues \<Rightarrow> qvalues" where
  "query_set k v q = filter (\<lambda>(k', _). k' \<noteq> k) q @ [(k, v)]"

definition query_encode :: "qvalues \<Rightarrow> string" where
  "query_encode q =
     join_with ''&'' (map (\<lambda>(k, v). query_escape k @ ''='' @ query_escape v) (sort_key fst q))"

section \<open>Paths\<close>

text \<open>
  \<^verbatim>\<open>path.Clean\<close> of a rooted path, segment by segment: empty segments and \<^verbatim>\<open>.\<close> go away,
  \<^verbatim>\<open>..\<close> removes the segment before it.
\<close>

fun clean_segs :: "string list \<Rightarrow> string list \<Rightarrow> string list" where
  "clean_segs acc [] = rev acc"
| "clean_segs acc (s # ss) =
     (if s = '''' \<or> s = ''.'' then clean_segs acc ss
      else if s = ''..'' then clean_segs (tl acc) ss
      else clean_segs (s # acc) ss)"

definition path_clean_rooted :: "string \<Rightarrow> string" where
  "path_clean_rooted p = CHR ''/'' # join_with ''/'' (clean_segs [] (split_on (CHR ''/'') p))"

text \<open>\<^verbatim>\<open>cleanPath\<close> of \<^verbatim>\<open>http.ServeMux\<close>: rooted, cleaned, a trailing slash kept.\<close>

definition clean_path :: "string \<Rightarrow> string" where
  "clean_path p =
     (if p = '''' then ''/''
      else let r = (if hd p = CHR ''/'' then p else CHR ''/'' # p);
               np = path_clean_rooted r
           in if last r = CHR ''/'' \<and> np \<noteq> ''/'' then np @ ''/'' else np)"

section \<open>Lemmas\<close>

lemma upper_hex_table:
  "\<forall>k\<in>set [0..<16]. unhex (upper_hex ! k) = Some k"
  by code_simp

lemma unhex_upper_hex [simp]: "k < 16 \<Longrightarrow> unhex (upper_hex ! k) = Some k"
  using upper_hex_table by simp

lemma unreserved_plain: "unreserved c \<Longrightarrow> c \<noteq> CHR ''%'' \<and> c \<noteq> CHR ''+''"
  by (auto simp: unreserved_def is_alnum_def is_digit_def is_lower_def is_upper_def)

lemma unescape_escape_char: "unescape True (escape_char c @ t) = map_option ((#) c) (unescape True t)"
proof -
  have "ord c div 16 < 16" by (rule less_mult_imp_div_less) simp
  moreover have "16 * (ord c div 16) + ord c mod 16 = ord c" by simp
  ultimately show ?thesis
    using unreserved_plain [of c] by (auto simp: escape_char_def)
qed

lemma unescape_query_escape: "query_unescape (query_escape s) = Some s"
  by (induction s) (simp_all add: query_escape_def unescape_escape_char)

lemma path_unescape_plain: "CHR ''%'' \<notin> set s \<Longrightarrow> path_unescape s = s"
proof -
  have "CHR ''%'' \<notin> set s \<Longrightarrow> unescape False s = Some s" by (induction s) auto
  then show "CHR ''%'' \<notin> set s \<Longrightarrow> path_unescape s = s" by (simp add: path_unescape_def)
qed

lemma query_set_get: "query_get (query_set k v q) k' = (if k' = k then v else query_get q k')"
proof -
  have "map_of (filter (\<lambda>(x, _). x \<noteq> k) q) k' = (if k' = k then None else map_of q k')"
    by (induction q) auto
  then show ?thesis by (auto simp: query_get_def query_set_def map_add_def split: option.splits)
qed

section \<open>Query strings round-trip\<close>

lemma upper_hex_alnum: "k < 16 \<Longrightarrow> is_alnum (upper_hex ! k)"
proof -
  have "\<forall>k\<in>set [0..<16]. is_alnum (upper_hex ! k)" by code_simp
  then show "k < 16 \<Longrightarrow> is_alnum (upper_hex ! k)" by simp
qed

definition escaped_char :: "char \<Rightarrow> bool" where
  "escaped_char c \<longleftrightarrow> c \<noteq> CHR ''&'' \<and> c \<noteq> CHR ''='' \<and> c \<noteq> CHR '';''"

lemma alnum_escaped: "is_alnum c \<Longrightarrow> escaped_char c"
  by (auto simp: is_alnum_def is_digit_def is_lower_def is_upper_def escaped_char_def)

lemma escape_char_escaped: "d \<in> set (escape_char c) \<Longrightarrow> escaped_char d"
proof -
  have "ord c div 16 < 16" by (rule less_mult_imp_div_less) simp
  then have "escaped_char (upper_hex ! (ord c div 16))" "escaped_char (upper_hex ! (ord c mod 16))"
    by (simp_all add: alnum_escaped upper_hex_alnum)
  moreover have "unreserved c \<Longrightarrow> escaped_char c"
    using alnum_escaped [of c] by (auto simp: unreserved_def escaped_char_def)
  ultimately show "d \<in> set (escape_char c) \<Longrightarrow> escaped_char d"
    by (auto simp: escape_char_def escaped_char_def split: if_splits)
qed

lemma query_escape_escaped: "d \<in> set (query_escape s) \<Longrightarrow> escaped_char d"
  by (auto simp: query_escape_def dest: escape_char_escaped)

definition encode_pair :: "string \<times> string \<Rightarrow> string" where
  "encode_pair = (\<lambda>(k, v). query_escape k @ ''='' @ query_escape v)"

lemma encode_pair_plain: "CHR ''&'' \<notin> set (encode_pair p)" "CHR '';'' \<notin> set (encode_pair p)" "encode_pair p \<noteq> ''''"
  by (auto simp: encode_pair_def escaped_char_def split: prod.splits dest: query_escape_escaped)

lemma cut_encode_pair: "cut_at (CHR ''='') (encode_pair (k, v)) = Some (query_escape k, query_escape v)"
proof -
  have "CHR ''='' \<notin> set (query_escape k)" by (auto simp: escaped_char_def dest: query_escape_escaped)
  from cut_at_append [OF this, of "query_escape v"] show ?thesis by (simp add: encode_pair_def)
qed

lemma parse_encode_pair: "parse_pair (encode_pair p) = [p]"
  using encode_pair_plain [of p] by (cases p) (simp add: parse_pair_def cut_encode_pair unescape_query_escape)

lemma split_join_amp:
  "\<forall>x\<in>set xs. CHR ''&'' \<notin> set x \<Longrightarrow> xs \<noteq> [] \<Longrightarrow> split_on (CHR ''&'') (join_with ''&'' xs) = xs"
  by (induction "''&''" xs rule: join_with.induct) (auto simp: split_on_no_sep split_on_append)

lemma parse_query_pieces:
  "\<forall>x\<in>set xs. CHR ''&'' \<notin> set x \<Longrightarrow> parse_query (join_with ''&'' xs) = concat (map parse_pair xs)"
  by (cases "xs = []") (simp_all add: parse_query_def split_join_amp, simp add: parse_pair_def)

lemma query_encode_pieces: "query_encode q = join_with ''&'' (map encode_pair (sort_key fst q))"
  by (simp add: query_encode_def encode_pair_def)

lemma parse_query_encode: "parse_query (query_encode q) = sort_key fst q"
proof -
  have "concat (map (parse_pair \<circ> encode_pair) ps) = ps" for ps
    by (induction ps) (simp_all add: parse_encode_pair)
  then show ?thesis
    unfolding query_encode_pieces by (simp add: parse_query_pieces encode_pair_plain)
qed

lemma query_get_encode:
  assumes "distinct (map fst q)"
  shows "query_get (parse_query (query_encode q)) k = query_get q k"
proof -
  have "map_of (sort_key fst q) = map_of q"
    using assms by (subst map_of_inject_set) (simp_all add: distinct_map)
  then show ?thesis by (simp add: parse_query_encode query_get_def)
qed

end
