(* ===== verification/Http.thy ===== *)
theory Http
  imports Url
begin

text \<open>
  The parts of \<^verbatim>\<open>net/http\<close> the program uses, on the server side: requests with their header map
  and context value, cookies in both directions, and response writers. A header map sends a
  canonical name to its list of values (empty when absent). \<^verbatim>\<open>WriteHeader\<close> freezes the status and
  the headers; what is changed later is not sent.
\<close>

type_synonym header = "string \<Rightarrow> string list"

definition hdr_get :: "header \<Rightarrow> string \<Rightarrow> string" where
  "hdr_get h k = (case h k of [] \<Rightarrow> '''' | v # _ \<Rightarrow> v)"

text \<open>A message body: the chunks its reads deliver, then the end of file or a read error.\<close>

record reader =
  rd_chunks :: "string list"
  rd_fails :: bool

text \<open>
  A request: method, escaped path (\<^verbatim>\<open>URL.EscapedPath()\<close>), raw query, header map, body, the path
  values the mux bound, and the one context value the program stores (\<^verbatim>\<open>sessionContextKey\<close>).
\<close>

record 'c request =
  rq_method :: string
  rq_path :: string
  rq_query :: string
  rq_header :: header
  rq_body :: reader
  rq_pathvalue :: "string \<Rightarrow> string"
  rq_ctx :: "'c option"

definition query_of :: "('c, 'z) request_scheme \<Rightarrow> qvalues" where
  "query_of r = parse_query (rq_query r)"

section \<open>Cookies in requests\<close>

definition is_token_char :: "char \<Rightarrow> bool" where
  "is_token_char c \<longleftrightarrow> is_alnum c \<or> c \<in> set ''!#$%&*+-.^_`|~'' \<or> c = CHR 0x27"

definition is_token :: "string \<Rightarrow> bool" where
  "is_token s \<longleftrightarrow> s \<noteq> '''' \<and> list_all is_token_char s"

definition cookie_value_char :: "char \<Rightarrow> bool" where
  "cookie_value_char c \<longleftrightarrow> 32 \<le> ord c \<and> ord c < 127 \<and> c \<noteq> CHR 0x22 \<and> c \<noteq> CHR '';'' \<and> c \<noteq> CHR 0x5C"

definition parse_cookie_value :: "string \<Rightarrow> string option" where
  "parse_cookie_value raw =
     (let v = (if 1 < length raw \<and> hd raw = CHR 0x22 \<and> last raw = CHR 0x22
               then butlast (tl raw) else raw)
      in if list_all cookie_value_char v then Some v else None)"

abbreviation trim_blank :: "string \<Rightarrow> string" where
  "trim_blank \<equiv> trim_set [CHR '' '', CHR 0x09]"

definition parse_cookie_part :: "string \<Rightarrow> (string \<times> string) list" where
  "parse_cookie_part part =
     (let p = trim_blank part;
          (n, v) = (case cut_at (CHR ''='') p of None \<Rightarrow> (p, '''') | Some nv \<Rightarrow> nv);
          n' = trim_blank n
      in if \<not> is_token n' then []
         else (case parse_cookie_value v of None \<Rightarrow> [] | Some v' \<Rightarrow> [(n', v')]))"

definition read_cookies :: "header \<Rightarrow> (string \<times> string) list" where
  "read_cookies h = concat (map (\<lambda>l. concat (map parse_cookie_part (split_on (CHR '';'') l))) (h ''Cookie''))"

text \<open>\<^verbatim>\<open>r.Cookie(name)\<close>: the value of the first cookie of that name, \<open>None\<close> for \<^verbatim>\<open>ErrNoCookie\<close>.\<close>

definition req_cookie :: "('c, 'z) request_scheme \<Rightarrow> string \<Rightarrow> string option" where
  "req_cookie r n = (if n = '''' then None else map_of (read_cookies (rq_header r)) n)"

section \<open>Response writers\<close>

text \<open>
  \<open>rw_accept\<close> is the number of further body writes the peer accepts before the connection fails
  (\<open>None\<close>: it never does), and \<open>rw_flushes\<close> counts calls of \<^verbatim>\<open>Flush\<close>.
\<close>

record rw =
  rw_hdr :: header
  rw_status :: "nat option"
  rw_sent :: header
  rw_body :: string
  rw_flushes :: nat
  rw_accept :: "nat option"

definition new_rw :: "nat option \<Rightarrow> rw" where
  "new_rw a = \<lparr>rw_hdr = (\<lambda>_. []), rw_status = None, rw_sent = (\<lambda>_. []), rw_body = '''',
               rw_flushes = 0, rw_accept = a\<rparr>"

definition set_header :: "string \<Rightarrow> string \<Rightarrow> rw \<Rightarrow> rw" where
  "set_header k v w = w\<lparr>rw_hdr := (rw_hdr w)(k := [v])\<rparr>"

definition add_header :: "string \<Rightarrow> string \<Rightarrow> rw \<Rightarrow> rw" where
  "add_header k v w = w\<lparr>rw_hdr := (rw_hdr w)(k := rw_hdr w k @ [v])\<rparr>"

definition del_header :: "string \<Rightarrow> rw \<Rightarrow> rw" where
  "del_header k w = w\<lparr>rw_hdr := (rw_hdr w)(k := [])\<rparr>"

definition write_header :: "nat \<Rightarrow> rw \<Rightarrow> rw" where
  "write_header code w =
     (case rw_status w of Some _ \<Rightarrow> w | None \<Rightarrow> w\<lparr>rw_status := Some code, rw_sent := rw_hdr w\<rparr>)"

text \<open>\<^verbatim>\<open>w.Write\<close>: the writer afterwards and whether the write succeeded.\<close>

definition write_bytes :: "string \<Rightarrow> rw \<Rightarrow> rw \<times> bool" where
  "write_bytes bs w0 =
     (let w = write_header 200 w0
      in if rw_accept w = Some 0 then (w, False)
         else (w\<lparr>rw_body := rw_body w @ bs, rw_accept := map_option (\<lambda>n. n - 1) (rw_accept w)\<rparr>, True))"

definition write_body :: "string \<Rightarrow> rw \<Rightarrow> rw" where
  "write_body bs w = fst (write_bytes bs w)"

definition flush :: "rw \<Rightarrow> rw" where
  "flush w = (write_header 200 w)\<lparr>rw_flushes := Suc (rw_flushes w)\<rparr>"

text \<open>What the server does when the handler returns: a response nobody started is a 200.\<close>

definition finish :: "rw \<Rightarrow> rw" where "finish w = write_header 200 w"

definition http_error :: "string \<Rightarrow> nat \<Rightarrow> rw \<Rightarrow> rw" where
  "http_error msg code w =
     write_body (msg @ [CHR 0x0A])
       (write_header code
         (set_header ''X-Content-Type-Options'' ''nosniff''
           (set_header ''Content-Type'' ''text/plain; charset=utf-8''
             (del_header ''Content-Length'' w))))"

definition html_escape_char :: "char \<Rightarrow> string" where
  "html_escape_char c =
     (if c = CHR ''&'' then ''&amp;'' else if c = CHR ''<'' then ''&lt;''
      else if c = CHR ''>'' then ''&gt;'' else if c = CHR 0x22 then ''&#34;''
      else if c = CHR 0x27 then ''&#39;'' else [c])"

text \<open>
  \<^verbatim>\<open>http.Redirect\<close> with status 302, once the target is resolved: it goes to \<^verbatim>\<open>Location\<close> (as \<open>loc\<close>) and,
  for GET and HEAD, into a short HTML body. For a target that is already absolute, clean and ASCII,
  the only kind the server of \<^verbatim>\<open>cmd/tenantdeck\<close> passes, \<open>loc\<close> is the target itself.
\<close>

definition redirect_to :: "('c, 'z) request_scheme \<Rightarrow> string \<Rightarrow> string \<Rightarrow> rw \<Rightarrow> rw" where
  "redirect_to r loc url w =
     (let had_ct = rw_hdr w ''Content-Type'' \<noteq> [];
          w1 = set_header ''Location'' loc w;
          w2 = (if \<not> had_ct \<and> (rq_method r = ''GET'' \<or> rq_method r = ''HEAD'')
                then set_header ''Content-Type'' ''text/html; charset=utf-8'' w1 else w1);
          w3 = write_header 302 w2
      in if \<not> had_ct \<and> rq_method r = ''GET''
         then write_body (''<a href='' @ [CHR 0x22] @ concat (map html_escape_char url) @ [CHR 0x22]
                          @ ''>Found</a>.'' @ [CHR 0x0A, CHR 0x0A]) w3
         else w3)"

definition http_redirect :: "('c, 'z) request_scheme \<Rightarrow> string \<Rightarrow> rw \<Rightarrow> rw" where
  "http_redirect r url = redirect_to r url url"

section \<open>Cookies in responses\<close>

datatype same_site = SameSiteLaxMode | SameSiteStrictMode

record cookie =
  ck_name :: string
  ck_value :: string
  ck_path :: string
  ck_http_only :: bool
  ck_secure :: bool
  ck_same_site :: same_site
  ck_max_age :: int

definition sanitize_cookie_value :: "string \<Rightarrow> string" where
  "sanitize_cookie_value v =
     (let u = filter cookie_value_char v
      in if CHR '' '' \<in> set u \<or> CHR '','' \<in> set u then [CHR 0x22] @ u @ [CHR 0x22] else u)"

definition cookie_string :: "cookie \<Rightarrow> string" where
  "cookie_string c =
     (if \<not> is_token (ck_name c) then ''''
      else ck_name c @ ''='' @ sanitize_cookie_value (ck_value c)
        @ (if ck_path c = '''' then '''' else ''; Path='' @ filter (\<lambda>b. 32 \<le> ord b \<and> ord b < 127 \<and> b \<noteq> CHR '';'') (ck_path c))
        @ (if 0 < ck_max_age c then ''; Max-Age='' @ formatInt (ck_max_age c)
           else if ck_max_age c < 0 then ''; Max-Age=0'' else '''')
        @ (if ck_http_only c then ''; HttpOnly'' else '''')
        @ (if ck_secure c then ''; Secure'' else '''')
        @ (case ck_same_site c of SameSiteLaxMode \<Rightarrow> ''; SameSite=Lax''
                                | SameSiteStrictMode \<Rightarrow> ''; SameSite=Strict''))"

definition set_cookie :: "cookie \<Rightarrow> rw \<Rightarrow> rw" where
  "set_cookie c w = (if cookie_string c = '''' then w else add_header ''Set-Cookie'' (cookie_string c) w)"

section \<open>Client requests\<close>

text \<open>A request the program sends upstream, and what \<^verbatim>\<open>http.Client.Do\<close> gives back.\<close>

record out_req =
  or_method :: string
  or_url :: string
  or_header :: "(string \<times> string) list"

datatype do_result = Do_Error | Do_Response nat reader

lemmas writer_defs = set_header_def add_header_def del_header_def write_header_def write_bytes_def
  write_body_def flush_def finish_def http_error_def set_cookie_def

section \<open>Lemmas\<close>

text \<open>
  Response headers set before the handler runs survive it when the handler leaves them alone: every
  writer operation keeps what is neither sent yet nor named by it.
\<close>

definition carries :: "string \<Rightarrow> string list \<Rightarrow> rw \<Rightarrow> bool" where
  "carries k vs w \<longleftrightarrow> rw_hdr w k = vs \<and> (rw_status w \<noteq> None \<longrightarrow> rw_sent w k = vs)"

named_theorems carriesI

lemma carries_set_header [carriesI]: "carries k vs w \<Longrightarrow> k' \<noteq> k \<Longrightarrow> carries k vs (set_header k' v w)"
  by (simp add: carries_def set_header_def)

lemma carries_add_header [carriesI]: "carries k vs w \<Longrightarrow> k' \<noteq> k \<Longrightarrow> carries k vs (add_header k' v w)"
  by (simp add: carries_def add_header_def)

lemma carries_del_header [carriesI]: "carries k vs w \<Longrightarrow> k' \<noteq> k \<Longrightarrow> carries k vs (del_header k' w)"
  by (simp add: carries_def del_header_def)

lemma carries_write_header [carriesI]: "carries k vs w \<Longrightarrow> carries k vs (write_header c w)"
  by (auto simp: carries_def write_header_def split: option.split)

lemma carries_write_bytes [carriesI]: "carries k vs w \<Longrightarrow> carries k vs (fst (write_bytes b w))"
  using carries_write_header [of k vs w 200] by (auto simp: carries_def write_bytes_def Let_def)

lemma carries_write_body [carriesI]: "carries k vs w \<Longrightarrow> carries k vs (write_body b w)"
  by (simp add: write_body_def carries_write_bytes)

lemma carries_flush [carriesI]: "carries k vs w \<Longrightarrow> carries k vs (flush w)"
  using carries_write_header [of k vs w 200] by (simp add: carries_def flush_def)

lemma carries_finish [carriesI]: "carries k vs w \<Longrightarrow> carries k vs (finish w)"
  by (simp add: finish_def carries_write_header)

lemma carries_set_cookie [carriesI]:
  "carries k vs w \<Longrightarrow> k \<noteq> ''Set-Cookie'' \<Longrightarrow> carries k vs (set_cookie c w)"
  by (simp add: set_cookie_def carries_add_header)

lemma carries_finished: "carries k vs (finish w) \<Longrightarrow> rw_sent (finish w) k = vs"
  by (auto simp: carries_def finish_def write_header_def split: option.splits)

lemma status_write_header [simp]: "rw_status (write_header c w) = (case rw_status w of None \<Rightarrow> Some c | Some d \<Rightarrow> Some d)"
  by (simp add: write_header_def split: option.split)

lemma status_headers [simp]:
  "rw_status (set_header k v w) = rw_status w" "rw_status (add_header k v w) = rw_status w"
  "rw_status (del_header k w) = rw_status w" "rw_status (set_cookie c w) = rw_status w"
  by (simp_all add: writer_defs)

lemma status_write_body [simp]:
  "rw_status (write_body b w) = (case rw_status w of None \<Rightarrow> Some 200 | Some d \<Rightarrow> Some d)"
  by (simp add: write_body_def write_bytes_def Let_def)

lemma status_http_error [simp]:
  "rw_status (http_error m c w) = (case rw_status w of None \<Rightarrow> Some c | Some d \<Rightarrow> Some d)"
  by (simp add: http_error_def split: option.split)

lemma status_redirect_to [simp]:
  "rw_status (redirect_to r l u w) = (case rw_status w of None \<Rightarrow> Some 302 | Some d \<Rightarrow> Some d)"
  by (simp add: redirect_to_def Let_def split: option.split)

lemma status_http_redirect [simp]:
  "rw_status (http_redirect r u w) = (case rw_status w of None \<Rightarrow> Some 302 | Some d \<Rightarrow> Some d)"
  by (simp add: http_redirect_def)

lemma status_finish [simp]: "rw_status (finish w) = (case rw_status w of None \<Rightarrow> Some 200 | Some d \<Rightarrow> Some d)"
  by (simp add: finish_def)

lemma status_new_rw [simp]: "rw_status (new_rw a) = None"
  by (simp add: new_rw_def)

text \<open>Base64url values pass through cookies unchanged.\<close>

lemma alnum_cookie_char: "is_alnum c \<Longrightarrow> cookie_value_char c \<and> c \<noteq> CHR '' '' \<and> c \<noteq> CHR '',''"
  by (auto simp: is_alnum_def is_digit_def is_lower_def is_upper_def cookie_value_char_def)

lemma sanitize_plain:
  "list_all cookie_value_char v \<Longrightarrow> CHR '' '' \<notin> set v \<Longrightarrow> CHR '','' \<notin> set v \<Longrightarrow> sanitize_cookie_value v = v"
  by (simp add: sanitize_cookie_value_def list_all_iff filter_id_conv)

end
