(* ===== verification/World.thy ===== *)
theory World
  imports Http
begin

text \<open>
  The state the handlers run on: the session store's server, the identity provider, the random
  source, the clock, and the log of requests sent upstream. \<^verbatim>\<open>crypto/rand.Reader\<close> (the value of
  both packages' \<^verbatim>\<open>randReader\<close>) is the bytes it will still deliver; a read beyond them is its
  error. The clock does not move while a handler runs.
\<close>

record ('s, 'i) world =
  w_kv :: 's
  w_idp :: 'i
  w_entropy :: bytes
  w_now :: go_time
  w_sent :: "out_req list"

text \<open>\<^verbatim>\<open>io.ReadFull(randReader, make([]byte, n))\<close>.\<close>

definition read_random :: "nat \<Rightarrow> ('s, 'i) world \<Rightarrow> bytes option \<times> ('s, 'i) world" where
  "read_random n w =
     (if n \<le> length (w_entropy w)
      then (Some (take n (w_entropy w)), w\<lparr>w_entropy := drop n (w_entropy w)\<rparr>)
      else (None, w\<lparr>w_entropy := []\<rparr>))"

type_synonym ('c, 's, 'i) handler =
  "'c request \<Rightarrow> rw \<Rightarrow> ('s, 'i) world \<Rightarrow> rw \<times> ('s, 'i) world"

text \<open>Steps that use up randomness and change nothing else.\<close>

definition quiet :: "('s, 'i) world \<Rightarrow> ('s, 'i) world \<Rightarrow> bool" where
  "quiet w w' \<longleftrightarrow> w' = w\<lparr>w_entropy := w_entropy w'\<rparr>"

lemma quiet_refl [simp]: "quiet w w"
  by (simp add: quiet_def)

lemma quiet_trans: "quiet w w1 \<Longrightarrow> quiet w1 w2 \<Longrightarrow> quiet w w2"
  by (cases w; cases w1; cases w2) (simp add: quiet_def)

lemma quietD:
  "quiet w w' \<Longrightarrow> w_kv w' = w_kv w" "quiet w w' \<Longrightarrow> w_idp w' = w_idp w"
  "quiet w w' \<Longrightarrow> w_now w' = w_now w" "quiet w w' \<Longrightarrow> w_sent w' = w_sent w"
  by (cases w; cases w'; simp add: quiet_def)+

lemma quiet_read_random: "read_random n w = (r, w') \<Longrightarrow> quiet w w'"
  by (auto simp: read_random_def quiet_def split: if_splits)

lemma read_random_Some: "read_random n w = (Some bs, w') \<Longrightarrow>
  bs = take n (w_entropy w) \<and> length bs = n \<and> w' = w\<lparr>w_entropy := drop n (w_entropy w)\<rparr>"
  by (auto simp: read_random_def split: if_splits)

end
