(* ===== verification/Backend.thy ===== *)
theory Backend
  imports World
begin

text \<open>
  \<^verbatim>\<open>internal/session/backend.go\<close> and \<^verbatim>\<open>redis_backend.go\<close>: the key/value interface of the session
  store, its Redis implementation over the go-redis client, and the two implementations of the
  package's tests. The client library is a parameter (a record of its calls); what the program
  relies on from it is the locale \<open>redis_service\<close>, and \<open>ref_client\<close> is a concrete server with that
  behaviour. The interface is stated as the locale \<open>kv_contract\<close>, and with key expiry as
  \<open>kv_expiring\<close>.
\<close>

datatype store_err = ErrNotFound | ErrOther

type_synonym 's set_op = "'s \<Rightarrow> go_time \<Rightarrow> string \<Rightarrow> bytes \<Rightarrow> duration \<Rightarrow> store_err option \<times> 's"
type_synonym 's get_op = "'s \<Rightarrow> go_time \<Rightarrow> string \<Rightarrow> (store_err + bytes) \<times> 's"
type_synonym 's del_op = "'s \<Rightarrow> go_time \<Rightarrow> string \<Rightarrow> store_err option \<times> 's"
type_synonym 's ping_op = "'s \<Rightarrow> go_time \<Rightarrow> store_err option \<times> 's"

record 's backend =
  b_set :: "'s set_op"
  b_get :: "'s get_op"
  b_getdel :: "'s get_op"
  b_del :: "'s del_op"
  b_ping :: "'s ping_op"

section \<open>The Redis implementation\<close>

text \<open>The replies of go-redis: \<^verbatim>\<open>redis.Nil\<close> for a missing key, any other error, or a value.\<close>

datatype redis_err = Redis_Nil | Redis_Failure

record 's redis_client =
  rc_set :: "'s \<Rightarrow> go_time \<Rightarrow> string \<Rightarrow> bytes \<Rightarrow> duration \<Rightarrow> redis_err option \<times> 's"
  rc_get :: "'s \<Rightarrow> go_time \<Rightarrow> string \<Rightarrow> (redis_err + bytes) \<times> 's"
  rc_getdel :: "'s \<Rightarrow> go_time \<Rightarrow> string \<Rightarrow> (redis_err + bytes) \<times> 's"
  rc_del :: "'s \<Rightarrow> go_time \<Rightarrow> string \<Rightarrow> redis_err option \<times> 's"
  rc_ping :: "'s \<Rightarrow> go_time \<Rightarrow> redis_err option \<times> 's"

definition pass_err :: "redis_err option \<times> 's \<Rightarrow> store_err option \<times> 's" where
  "pass_err = (\<lambda>(e, s). (map_option (\<lambda>_. ErrOther) e, s))"

definition redis_set :: "'s redis_client \<Rightarrow> 's set_op" where
  "redis_set c s t key v ttl = pass_err (rc_set c s t key v ttl)"

definition redis_get :: "'s redis_client \<Rightarrow> 's get_op" where
  "redis_get c s t key =
     (case rc_get c s t key of
        (Inl Redis_Nil, s') \<Rightarrow> (Inl ErrNotFound, s')
      | (Inl Redis_Failure, s') \<Rightarrow> (Inl ErrOther, s')
      | (Inr v, s') \<Rightarrow> (Inr v, s'))"

definition redis_getdel :: "'s redis_client \<Rightarrow> 's get_op" where
  "redis_getdel c s t key =
     (case rc_getdel c s t key of
        (Inl Redis_Nil, s') \<Rightarrow> (Inl ErrNotFound, s')
      | (Inl Redis_Failure, s') \<Rightarrow> (Inl ErrOther, s')
      | (Inr v, s') \<Rightarrow> (Inr v, s'))"

definition redis_del :: "'s redis_client \<Rightarrow> 's del_op" where
  "redis_del c s t key = pass_err (rc_del c s t key)"

definition redis_ping :: "'s redis_client \<Rightarrow> 's ping_op" where
  "redis_ping c s t = pass_err (rc_ping c s t)"

definition redis_backend :: "'s redis_client \<Rightarrow> 's backend" where
  "redis_backend c = \<lparr>b_set = redis_set c, b_get = redis_get c, b_getdel = redis_getdel c,
                       b_del = redis_del c, b_ping = redis_ping c\<rparr>"

lemma redis_backend_simps [simp]:
  "b_set (redis_backend c) = redis_set c" "b_get (redis_backend c) = redis_get c"
  "b_getdel (redis_backend c) = redis_getdel c" "b_del (redis_backend c) = redis_del c"
  "b_ping (redis_backend c) = redis_ping c"
  by (simp_all add: redis_backend_def)

section \<open>The contract\<close>

text \<open>
  A store holds, per key, a value and the instant it expires (\<open>None\<close>: never). A key is live while
  that instant lies ahead.
\<close>

type_synonym kv_view = "string \<rightharpoonup> bytes \<times> go_time option"

definition live :: "kv_view \<Rightarrow> go_time \<Rightarrow> string \<Rightarrow> bytes option" where
  "live m t k = (case m k of None \<Rightarrow> None
     | Some (v, e) \<Rightarrow> (case e of None \<Rightarrow> Some v | Some x \<Rightarrow> if t < x then Some v else None))"

definition stored_as :: "kv_view \<Rightarrow> kv_view \<Rightarrow> go_time \<Rightarrow> string \<Rightarrow> bytes \<Rightarrow> duration \<Rightarrow> bool" where
  "stored_as m m' t k v ttl \<longleftrightarrow>
     (\<exists>e. m' = m(k \<mapsto> (v, e)) \<and> (\<forall>x. e = Some x \<longrightarrow> t < x \<and> t + ttl - millisecond < x))"

definition removed :: "kv_view \<Rightarrow> kv_view \<Rightarrow> string \<Rightarrow> bool" where
  "removed m m' k \<longleftrightarrow> m' = m(k := None)"

text \<open>
  Every call may fail, and a call that fails may or may not have had its effect. A successful
  \<open>GetDel\<close> returns the live value and removes the key; \<open>ErrNotFound\<close> means there was none.
\<close>

locale kv_contract =
  fixes b :: "'s backend" and view :: "'s \<Rightarrow> kv_view"
  assumes set_ok: "b_set b s t k v ttl = (None, s') \<Longrightarrow> 0 < ttl \<Longrightarrow> stored_as (view s) (view s') t k v ttl"
    and set_err: "b_set b s t k v ttl = (Some er, s') \<Longrightarrow> 0 < ttl \<Longrightarrow>
      view s' = view s \<or> stored_as (view s) (view s') t k v ttl"
    and get_view: "b_get b s t k = (r, s') \<Longrightarrow> view s' = view s"
    and get_value: "b_get b s t k = (Inr v, s') \<Longrightarrow> live (view s) t k = Some v"
    and get_absent: "b_get b s t k = (Inl ErrNotFound, s') \<Longrightarrow> live (view s) t k = None"
    and getdel_value: "b_getdel b s t k = (Inr v, s') \<Longrightarrow>
      live (view s) t k = Some v \<and> removed (view s) (view s') k"
    and getdel_absent: "b_getdel b s t k = (Inl ErrNotFound, s') \<Longrightarrow> live (view s) t k = None"
    and getdel_view: "b_getdel b s t k = (r, s') \<Longrightarrow> view s' = view s \<or> removed (view s) (view s') k"
    and del_ok: "b_del b s t k = (None, s') \<Longrightarrow> removed (view s) (view s') k"
    and del_err: "b_del b s t k = (Some er, s') \<Longrightarrow> view s' = view s \<or> removed (view s) (view s') k"
    and ping_view: "b_ping b s t = (pr, s') \<Longrightarrow> view s' = view s"
begin

lemma set_other: "b_set b s t k v ttl = (r, s') \<Longrightarrow> 0 < ttl \<Longrightarrow> k' \<noteq> k \<Longrightarrow> view s' k' = view s k'"
  using set_ok set_err by (cases r) (auto simp: stored_as_def dest!: set_ok set_err)

lemma set_live: "b_set b s t k v ttl = (None, s') \<Longrightarrow> 0 < ttl \<Longrightarrow> live (view s') t k = Some v"
  by (auto simp: stored_as_def live_def split: option.split dest!: set_ok)

lemma getdel_other: "b_getdel b s t k = (r, s') \<Longrightarrow> k' \<noteq> k \<Longrightarrow> view s' k' = view s k'"
  by (auto simp: removed_def dest!: getdel_view)

lemma del_other: "b_del b s t k = (r, s') \<Longrightarrow> k' \<noteq> k \<Longrightarrow> view s' k' = view s k'"
  by (cases r) (auto simp: removed_def dest!: del_ok del_err)

lemma getdel_once:
  "b_getdel b s t k = (Inr v, s') \<Longrightarrow> live (view s') t' k = None"
  by (auto simp: removed_def live_def dest!: getdel_value)

lemma live_removed: "removed (view s) (view s') k \<Longrightarrow> live (view s') t k = None"
  by (simp add: removed_def live_def)

lemma get_dead: "live (view s) t k = None \<Longrightarrow> b_get b s t k = (r, s') \<Longrightarrow> \<exists>e. r = Inl e"
  using get_value by (cases r) fastforce+

lemma getdel_dead: "live (view s) t k = None \<Longrightarrow> b_getdel b s t k = (r, s') \<Longrightarrow> \<exists>e. r = Inl e"
  using getdel_value by (cases r) fastforce+

end

text \<open>With expiry: a key stored with a lifetime is gone once it has passed (to the millisecond).\<close>

locale kv_expiring = kv_contract b view for b :: "'s backend" and view :: "'s \<Rightarrow> kv_view" +
  assumes set_expiry: "b_set b s t k v ttl = (r, s') \<Longrightarrow> 0 < ttl \<Longrightarrow> view s' k = view s k \<or>
      (\<exists>x. view s' k = Some (v, Some x) \<and> x \<le> t + max ttl millisecond)"
begin

lemma set_expires:
  assumes "b_set b s t k v ttl = (None, s')" "0 < ttl" "view s k = None" "t + max ttl millisecond \<le> t'"
  shows "live (view s') t' k = None"
  using set_ok [OF assms(1,2)] set_expiry [OF assms(1,2)] assms(3,4)
  by (auto simp: stored_as_def live_def)

end

section \<open>The go-redis client and its documented behaviour\<close>

locale redis_service =
  fixes c :: "'s redis_client" and view :: "'s \<Rightarrow> kv_view"
  assumes rc_set_ok: "rc_set c s t k v ttl = (None, s') \<Longrightarrow> 0 < ttl \<Longrightarrow>
      (\<exists>x. view s' = (view s)(k \<mapsto> (v, Some x)) \<and> t < x \<and> t + ttl - millisecond < x \<and> x \<le> t + max ttl millisecond)"
    and rc_set_err: "rc_set c s t k v ttl = (Some er, s') \<Longrightarrow> 0 < ttl \<Longrightarrow> view s' = view s \<or>
      (\<exists>x. view s' = (view s)(k \<mapsto> (v, Some x)) \<and> t < x \<and> t + ttl - millisecond < x \<and> x \<le> t + max ttl millisecond)"
    and rc_get_view: "rc_get c s t k = (r, s') \<Longrightarrow> view s' = view s"
    and rc_get_value: "rc_get c s t k = (Inr v, s') \<Longrightarrow> live (view s) t k = Some v"
    and rc_get_nil: "rc_get c s t k = (Inl Redis_Nil, s') \<Longrightarrow> live (view s) t k = None"
    and rc_getdel_value: "rc_getdel c s t k = (Inr v, s') \<Longrightarrow>
      live (view s) t k = Some v \<and> removed (view s) (view s') k"
    and rc_getdel_nil: "rc_getdel c s t k = (Inl Redis_Nil, s') \<Longrightarrow> live (view s) t k = None"
    and rc_getdel_view: "rc_getdel c s t k = (r, s') \<Longrightarrow> view s' = view s \<or> removed (view s) (view s') k"
    and rc_del_ok: "rc_del c s t k = (None, s') \<Longrightarrow> removed (view s) (view s') k"
    and rc_del_err: "rc_del c s t k = (Some er, s') \<Longrightarrow> view s' = view s \<or> removed (view s) (view s') k"
    and rc_ping_view: "rc_ping c s t = (pr, s') \<Longrightarrow> view s' = view s"
begin

lemmas redis_op_defs = redis_set_def redis_get_def redis_getdel_def redis_del_def redis_ping_def
  pass_err_def

end

sublocale redis_service \<subseteq> rb: kv_expiring "redis_backend c" view
proof (unfold_locales, goal_cases)
  case (1 s t k v ttl s')
  then show ?case
    by (auto simp: redis_op_defs stored_as_def split: prod.splits dest!: rc_set_ok)
next
  case (2 s t k v ttl er s')
  then show ?case
    by (auto simp: redis_op_defs stored_as_def split: prod.splits dest!: rc_set_err)
next
  case (3 s t k r s')
  then show ?case
    by (auto simp: redis_op_defs split: prod.splits sum.splits redis_err.splits dest: rc_get_view)
next
  case (4 s t k v s')
  then show ?case
    by (auto simp: redis_op_defs split: prod.splits sum.splits redis_err.splits dest: rc_get_value)
next
  case (5 s t k s')
  then show ?case
    by (auto simp: redis_op_defs split: prod.splits sum.splits redis_err.splits dest: rc_get_nil)
next
  case (6 s t k v s')
  then show ?case
    by (auto simp: redis_op_defs split: prod.splits sum.splits redis_err.splits dest: rc_getdel_value)
next
  case (7 s t k s')
  then show ?case
    by (auto simp: redis_op_defs split: prod.splits sum.splits redis_err.splits dest: rc_getdel_nil)
next
  case (8 s t k r s')
  then show ?case
    by (auto simp: redis_op_defs split: prod.splits sum.splits redis_err.splits dest: rc_getdel_view)
next
  case (9 s t k s')
  then show ?case
    by (auto simp: redis_op_defs split: prod.splits dest!: rc_del_ok)
next
  case (10 s t k er s')
  then show ?case
    by (auto simp: redis_op_defs split: prod.splits dest!: rc_del_err)
next
  case (11 s t r s')
  then show ?case
    by (auto simp: redis_op_defs split: prod.splits dest!: rc_ping_view)
next
  case (12 s t k v ttl r s')
  then show ?case
    by (cases "fst (rc_set c s t k v ttl)")
      (fastforce simp: redis_op_defs split: prod.splits dest: rc_set_ok rc_set_err)+
qed

end
