(* ===== verification/Base64.thy ===== *)
theory Base64
  imports Prelude
begin

text \<open>
  The two codecs of \<^verbatim>\<open>encoding/base64\<close> the program uses: \<^verbatim>\<open>RawURLEncoding.EncodeToString\<close> for
  session IDs, login states, nonces, PKCE verifiers and CSRF tokens, and
  \<^verbatim>\<open>StdEncoding.DecodeString\<close> for the session encryption key in the environment. The lemmas give
  the length and the alphabet of what is encoded and the injectivity of the encoding.
\<close>

definition b64_url_alphabet :: string where
  "b64_url_alphabet = ''ABCDEFGHIJKLMNOPQRSTUVWXYZabcdefghijklmnopqrstuvwxyz0123456789-_''"

definition b64_std_alphabet :: string where
  "b64_std_alphabet = ''ABCDEFGHIJKLMNOPQRSTUVWXYZabcdefghijklmnopqrstuvwxyz0123456789+/''"

text \<open>One to three bytes to two to four six-bit groups, most significant bits first.\<close>

fun b64_groups :: "nat list \<Rightarrow> nat list" where
  "b64_groups [] = []"
| "b64_groups [a] = [a div 4, (a mod 4) * 16]"
| "b64_groups [a, b] = [a div 4, (a mod 4) * 16 + b div 16, (b mod 16) * 4]"
| "b64_groups (a # b # c # r) =
     a div 4 # ((a mod 4) * 16 + b div 16) # ((b mod 16) * 4 + c div 64) # (c mod 64) # b64_groups r"

fun b64_ungroup :: "nat list \<Rightarrow> nat list" where
  "b64_ungroup (p # q # r # s # rest) =
     (p * 4 + q div 16) # ((q mod 16) * 16 + r div 4) # ((r mod 4) * 64 + s) # b64_ungroup rest"
| "b64_ungroup [p, q, r] = [p * 4 + q div 16, (q mod 16) * 16 + r div 4]"
| "b64_ungroup [p, q] = [p * 4 + q div 16]"
| "b64_ungroup _ = []"

definition rawURLEncode :: "bytes \<Rightarrow> string" where
  "rawURLEncode bs = map ((!) b64_url_alphabet) (b64_groups (map ord bs))"

text \<open>
  Decoding with padding: \<^verbatim>\<open>\r\<close> and \<^verbatim>\<open>\n\<close> are skipped wherever they stand, the last quantum
  may end in one or two \<^verbatim>\<open>=\<close>, and (the encoding is not strict) its unused low bits are ignored.
\<close>

definition std_val :: "char \<Rightarrow> nat option" where
  "std_val c = map_option fst (find (\<lambda>(i, d). d = c) (enumerate 0 b64_std_alphabet))"

fun std_quanta :: "string \<Rightarrow> bytes option" where
  "std_quanta [] = Some []"
| "std_quanta (a # b # c # d # r) =
     (case (std_val a, std_val b) of
        (Some p, Some q) \<Rightarrow>
          (if c = CHR ''='' then
             (if d = CHR ''='' \<and> r = [] then Some [chr (p * 4 + q div 16)] else None)
           else (case std_val c of
                   None \<Rightarrow> None
                 | Some s \<Rightarrow>
                     (if d = CHR ''='' then
                        (if r = [] then Some [chr (p * 4 + q div 16), chr ((q mod 16) * 16 + s div 4)]
                         else None)
                      else (case (std_val d, std_quanta r) of
                              (Some t, Some bs) \<Rightarrow>
                                Some (chr (p * 4 + q div 16) # chr ((q mod 16) * 16 + s div 4)
                                      # chr ((s mod 4) * 64 + t) # bs)
                            | _ \<Rightarrow> None))))
      | _ \<Rightarrow> None)"
| "std_quanta _ = None"

definition stdDecode :: "string \<Rightarrow> bytes option" where
  "stdDecode s = std_quanta (filter (\<lambda>c. c \<noteq> CHR 0x0D \<and> c \<noteq> CHR 0x0A) s)"

section \<open>Lemmas on the raw URL encoding\<close>

lemma b64_groups_small: "list_all (\<lambda>b. b < 256) bs \<Longrightarrow> g \<in> set (b64_groups bs) \<Longrightarrow> g < 64"
  by (induction bs rule: b64_groups.induct) auto

lemma regroup16: "y < 16 \<Longrightarrow> (x * 16 + y) div 16 = x" "y < 16 \<Longrightarrow> (x * 16 + y) mod 16 = (y::nat)"
  by simp_all

lemma regroup4: "y < 4 \<Longrightarrow> (x * 4 + y) div 4 = x" "y < 4 \<Longrightarrow> (x * 4 + y) mod 4 = (y::nat)"
  by simp_all

lemma div_less_of: "a < m * n \<Longrightarrow> a div n < (m::nat)"
  by (simp add: less_mult_imp_div_less)

lemma b64_ungroup_groups: "list_all (\<lambda>b. b < 256) bs \<Longrightarrow> b64_ungroup (b64_groups bs) = bs"
proof (induction bs rule: b64_groups.induct)
  case (3 a b)
  then have "b div 16 < 16" by (auto intro!: div_less_of)
  then show ?case by (simp add: regroup16)
next
  case (4 a b c r)
  then have "b div 16 < 16" "c div 64 < 4" by (auto intro!: div_less_of)
  with "4" show ?case by (simp add: regroup16 regroup4)
qed simp_all

lemma div_mod_3 [simp]: "Suc (Suc (Suc n)) div 3 = Suc (n div 3)" "Suc (Suc (Suc n)) mod 3 = n mod 3"
  "(3 + n) div 3 = Suc (n div 3)"
  by presburger+

lemma length_b64_groups:
  "length (b64_groups bs) = 4 * (length bs div 3) + (if length bs mod 3 = 0 then 0 else Suc (length bs mod 3))"
  by (induction bs rule: b64_groups.induct) simp_all

lemma length_rawURLEncode:
  "length (rawURLEncode bs) = 4 * (length bs div 3) + (if length bs mod 3 = 0 then 0 else Suc (length bs mod 3))"
  by (simp add: rawURLEncode_def length_b64_groups)

lemma ord_list_small: "list_all (\<lambda>b. b < 256) (map ord bs)"
  by (simp add: list_all_iff)

lemma b64_url_alphabet_length [simp]: "length b64_url_alphabet = 64"
  by (simp add: b64_url_alphabet_def)

lemma b64_url_alphabet_distinct: "distinct b64_url_alphabet"
  by (simp add: b64_url_alphabet_def)

lemma rawURLEncode_alphabet: "set (rawURLEncode bs) \<subseteq> set b64_url_alphabet"
  using b64_groups_small [OF ord_list_small] by (fastforce simp: rawURLEncode_def)

lemma rawURLEncode_inject: "rawURLEncode a = rawURLEncode b \<longleftrightarrow> a = b"
proof
  assume eq: "rawURLEncode a = rawURLEncode b"
  have inj: "inj_on ((!) b64_url_alphabet) (set (b64_groups (map ord a)) \<union> set (b64_groups (map ord b)))"
    using b64_groups_small [OF ord_list_small]
    by (intro inj_on_nth b64_url_alphabet_distinct) auto
  from eq have "b64_groups (map ord a) = b64_groups (map ord b)"
    unfolding rawURLEncode_def by (rule map_inj_on [OF _ inj])
  then have "map ord a = map ord b"
    using b64_ungroup_groups [OF ord_list_small] by metis
  then show "a = b"
    by (rule map_injective) (simp add: inj_def)
qed simp

lemma rawURLEncode_eq_Nil [simp]: "rawURLEncode bs = [] \<longleftrightarrow> bs = []"
  using rawURLEncode_inject [of bs "[]"] by (simp add: rawURLEncode_def)

definition url_safe :: "char \<Rightarrow> bool" where
  "url_safe c \<longleftrightarrow> is_alnum c \<or> c = CHR ''-'' \<or> c = CHR ''_''"

lemma b64_url_alphabet_safe: "list_all url_safe b64_url_alphabet"
  by (simp add: b64_url_alphabet_def url_safe_def is_alnum_def is_digit_def is_lower_def is_upper_def)

lemma rawURLEncode_safe: "list_all url_safe (rawURLEncode bs)"
  using rawURLEncode_alphabet [of bs] b64_url_alphabet_safe by (auto simp: list_all_iff)

end
