(* ===== verification/Json.thy ===== *)
theory Json
  imports Prelude
begin

text \<open>
  The parts of \<^verbatim>\<open>encoding/json\<close> the program uses. A JSON text is lexed into tokens and parsed with
  an explicit stack of open arrays and objects, as the library's scanner does, so that every
  recursion is structural. Numbers keep their literal, strings are byte strings; the printer writes
  what \<^verbatim>\<open>json.Marshal\<close> and \<^verbatim>\<open>json.Encoder\<close> write for a value (HTML characters escaped). The main
  lemma is the round trip: what the printer writes for a well-formed value parses back to it.
\<close>

datatype json = JNull | JBool bool | JNum string | JStr string
  | JArr "json list" | JObj "(string \<times> json) list"

section \<open>UTF-8\<close>

definition is_cont :: "char \<Rightarrow> bool" where
  "is_cont c \<longleftrightarrow> 128 \<le> ord c \<and> ord c < 192"

definition between :: "nat \<Rightarrow> nat \<Rightarrow> char \<Rightarrow> bool" where
  "between lo hi c \<longleftrightarrow> lo \<le> ord c \<and> ord c \<le> hi"

text \<open>The length of the valid UTF-8 encoding a string starts with; 0 when there is none.\<close>

definition rune1 :: "string \<Rightarrow> bool" where
  "rune1 s \<longleftrightarrow> 1 \<le> length s \<and> ord (s ! 0) < 128"

definition rune2 :: "string \<Rightarrow> bool" where
  "rune2 s \<longleftrightarrow> 2 \<le> length s \<and> between 194 223 (s ! 0) \<and> is_cont (s ! 1)"

definition rune3 :: "string \<Rightarrow> bool" where
  "rune3 s \<longleftrightarrow> 3 \<le> length s \<and> is_cont (s ! 2) \<and>
     ((ord (s ! 0) = 224 \<and> between 160 191 (s ! 1))
      \<or> ((between 225 236 (s ! 0) \<or> between 238 239 (s ! 0)) \<and> is_cont (s ! 1))
      \<or> (ord (s ! 0) = 237 \<and> between 128 159 (s ! 1)))"

definition rune4 :: "string \<Rightarrow> bool" where
  "rune4 s \<longleftrightarrow> 4 \<le> length s \<and> is_cont (s ! 2) \<and> is_cont (s ! 3) \<and>
     ((ord (s ! 0) = 240 \<and> between 144 191 (s ! 1))
      \<or> (between 241 243 (s ! 0) \<and> is_cont (s ! 1))
      \<or> (ord (s ! 0) = 244 \<and> between 128 143 (s ! 1)))"

definition rune_len :: "string \<Rightarrow> nat" where
  "rune_len s = (if rune1 s then 1 else if rune2 s then 2 else if rune3 s then 3
                 else if rune4 s then 4 else 0)"

lemmas rune_defs = rune1_def rune2_def rune3_def rune4_def

lemma rune_len_le: "rune_len s \<le> length s"
  by (simp add: rune_len_def rune_defs)

lemma rune_len_ascii [simp]: "ord c < 128 \<Longrightarrow> rune_len (c # cs) = 1"
  by (simp add: rune_len_def rune1_def)

lemma rune_len_not_ascii: "1 < rune_len s \<Longrightarrow> \<not> ord (s ! 0) < 128"
  by (auto simp: rune_len_def rune_defs split: if_splits)

lemma rune_excl:
  "rune2 s \<Longrightarrow> \<not> rune1 s" "rune3 s \<Longrightarrow> \<not> rune1 s \<and> \<not> rune2 s"
  "rune4 s \<Longrightarrow> \<not> rune1 s \<and> \<not> rune2 s \<and> \<not> rune3 s"
  by (auto simp: rune_defs between_def)

lemma rune_take:
  "rune1 s \<Longrightarrow> rune1 (take 1 s @ r)" "rune2 s \<Longrightarrow> rune2 (take 2 s @ r)"
  "rune3 s \<Longrightarrow> rune3 (take 3 s @ r)" "rune4 s \<Longrightarrow> rune4 (take 4 s @ r)"
  by (auto simp: rune_defs nth_append)

lemma rune_len_take:
  assumes "rune_len s = n" and "n \<noteq> 0"
  shows "rune_len (take n s @ r) = n"
  using assms rune_take [of s r] rune_excl [of "take n s @ r"]
  unfolding rune_len_def by (auto split: if_splits)

fun valid_utf8 :: "string \<Rightarrow> bool" where
  "valid_utf8 [] = True"
| "valid_utf8 (c # cs) =
     (let n = rune_len (c # cs) in n \<noteq> 0 \<and> valid_utf8 (drop (n - 1) cs))"

text \<open>\<^verbatim>\<open>utf8.AppendRune\<close> for the code points a \<^verbatim>\<open>\u\<close> escape can name.\<close>

definition utf8_enc :: "nat \<Rightarrow> string" where
  "utf8_enc r =
     (if r < 128 then [chr r]
      else if r < 2048 then [chr (192 + r div 64), chr (128 + r mod 64)]
      else if r < 65536 then
        [chr (224 + r div 4096), chr (128 + r div 64 mod 64), chr (128 + r mod 64)]
      else [chr (240 + r div 262144), chr (128 + r div 4096 mod 64), chr (128 + r div 64 mod 64),
            chr (128 + r mod 64)])"

definition rune_error :: string where "rune_error = utf8_enc 65533"

section \<open>String literals\<close>

abbreviation quote_chr :: char where "quote_chr \<equiv> CHR 0x22"
abbreviation bslash :: char where "bslash \<equiv> CHR 0x5C"

definition hex_digits :: string where "hex_digits = ''0123456789abcdef''"

definition u_escape :: "nat \<Rightarrow> string" where
  "u_escape r = [bslash, CHR ''u'', hex_digits ! (r div 4096 mod 16), hex_digits ! (r div 256 mod 16),
                 hex_digits ! (r div 16 mod 16), hex_digits ! (r mod 16)]"

definition esc_table :: "(char \<times> char) list" where
  "esc_table = [(quote_chr, quote_chr), (bslash, bslash), (CHR 0x08, CHR ''b''), (CHR 0x0C, CHR ''f''),
                (CHR 0x0A, CHR ''n''), (CHR 0x0D, CHR ''r''), (CHR 0x09, CHR ''t'')]"

definition esc_ascii :: "char \<Rightarrow> string" where
  "esc_ascii c =
     (case map_of esc_table c of
        Some d \<Rightarrow> [bslash, d]
      | None \<Rightarrow> if ord c < 32 \<or> c = CHR ''<'' \<or> c = CHR ''>'' \<or> c = CHR ''&'' then u_escape (ord c)
                else [c])"

text \<open>U+2028 and U+2029 are escaped too; an invalid byte becomes the escape of U+FFFD.\<close>

fun enc_str :: "string \<Rightarrow> string" where
  "enc_str [] = []"
| "enc_str (c # cs) =
     (if ord c < 128 then esc_ascii c @ enc_str cs
      else let n = rune_len (c # cs) in
        if n = 0 then u_escape 65533 @ enc_str cs
        else if take n (c # cs) = utf8_enc 8232 then u_escape 8232 @ enc_str (drop (n - 1) cs)
        else if take n (c # cs) = utf8_enc 8233 then u_escape 8233 @ enc_str (drop (n - 1) cs)
        else take n (c # cs) @ enc_str (drop (n - 1) cs))"

definition json_quote :: "string \<Rightarrow> string" where
  "json_quote s = quote_chr # enc_str s @ [quote_chr]"

definition hex_val :: "char \<Rightarrow> nat option" where
  "hex_val c = (if is_digit c then Some (ord c - 48)
                else if between 97 102 c then Some (ord c - 87)
                else if between 65 70 c then Some (ord c - 55) else None)"

definition hex4 :: "string \<Rightarrow> nat option" where
  "hex4 s = (case s of
     [a, b, c, d] \<Rightarrow> (case (hex_val a, hex_val b, hex_val c, hex_val d) of
         (Some p, Some q, Some r, Some t) \<Rightarrow> Some (4096 * p + 256 * q + 16 * r + t)
       | _ \<Rightarrow> None)
   | _ \<Rightarrow> None)"

definition simple_escape :: "char \<Rightarrow> char option" where
  "simple_escape c =
     (if c = quote_chr \<or> c = bslash \<or> c = CHR ''/'' then Some c
      else if c = CHR ''b'' then Some CHR 0x08
      else if c = CHR ''f'' then Some CHR 0x0C
      else if c = CHR ''n'' then Some CHR 0x0A
      else if c = CHR ''r'' then Some CHR 0x0D
      else if c = CHR ''t'' then Some CHR 0x09 else None)"

definition is_surrogate :: "nat \<Rightarrow> bool" where
  "is_surrogate r \<longleftrightarrow> 55296 \<le> r \<and> r < 57344"

text \<open>The low half of a surrogate pair, when the escape that follows is one.\<close>

definition low_surrogate :: "string \<Rightarrow> nat option" where
  "low_surrogate s =
     (if take 2 s = [bslash, CHR ''u''] then
        (case hex4 (take 4 (drop 2 s)) of
           Some r \<Rightarrow> if 56320 \<le> r \<and> r < 57344 then Some r else None
         | None \<Rightarrow> None)
      else None)"

text \<open>Prepending to an optional result.\<close>

definition opt_app :: "'a list \<Rightarrow> 'a list option \<Rightarrow> 'a list option" where
  "opt_app p r = (case r of None \<Rightarrow> None | Some a \<Rightarrow> Some (p @ a))"

definition scan_push :: "'a list \<Rightarrow> ('a list \<times> 'b) option \<Rightarrow> ('a list \<times> 'b) option" where
  "scan_push p r = (case r of None \<Rightarrow> None | Some (a, b) \<Rightarrow> Some (p @ a, b))"

lemma opt_app_simps [simp]:
  "opt_app p None = None" "opt_app p (Some a) = Some (p @ a)" "opt_app [] r = r"
  "opt_app p (opt_app q r) = opt_app (p @ q) r"
  by (simp_all add: opt_app_def split: option.split)

lemma scan_push_simps [simp]:
  "scan_push p None = None" "scan_push p (Some (a, b)) = Some (p @ a, b)" "scan_push [] r = r"
  "scan_push p (scan_push q r) = scan_push (p @ q) r"
  by (simp_all add: scan_push_def split: option.split)

lemma scan_push_Some: "scan_push p r = Some (a, b) \<longleftrightarrow> (\<exists>a'. r = Some (a', b) \<and> a = p @ a')"
  by (auto simp: scan_push_def split: option.splits)

function unquote :: "string \<Rightarrow> string option" where
  "unquote [] = Some []"
| "unquote (c # cs) =
     (if c = bslash then
        (case cs of
           [] \<Rightarrow> None
         | e # r \<Rightarrow>
             if e = CHR ''u'' then
               (case hex4 (take 4 r) of
                  None \<Rightarrow> None
                | Some h \<Rightarrow>
                    if is_surrogate h then
                      (case (if h < 56320 then low_surrogate (drop 4 r) else None) of
                         Some l \<Rightarrow> opt_app ((utf8_enc (65536 + (h - 55296) * 1024 + (l - 56320))))
                                     (unquote (drop 10 r))
                       | None \<Rightarrow> opt_app rune_error (unquote (drop 4 r)))
                    else opt_app ((utf8_enc h)) (unquote (drop 4 r)))
             else (case simple_escape e of
                     None \<Rightarrow> None
                   | Some d \<Rightarrow> opt_app [d] (unquote r)))
      else if c = quote_chr \<or> ord c < 32 then None
      else let n = rune_len (c # cs) in
        if n = 0 then opt_app rune_error (unquote cs)
        else opt_app ((take n (c # cs))) (unquote (drop (n - 1) cs)))"
  by pat_completeness auto
termination
  by (relation "measure length") auto

declare unquote.simps(2) [simp del] enc_str.simps(2) [simp del]


text \<open>The scanner's view of a string literal: the raw text up to the closing quote.\<close>

fun scan_str :: "string \<Rightarrow> (string \<times> string) option" where
  "scan_str [] = None"
| "scan_str [c] = (if c = quote_chr then Some ([], []) else None)"
| "scan_str (c # d # cs) =
     (if c = quote_chr then Some ([], d # cs)
      else if c = bslash then scan_push [c, d] (scan_str cs)
      else if ord c < 32 then None
      else scan_push [c] (scan_str (d # cs)))"

lemma scan_str_length: "scan_str s = Some (a, b) \<Longrightarrow> length b < length s"
  by (induction s arbitrary: a b rule: scan_str.induct) (fastforce simp: scan_push_Some split: if_splits)+

lemma scan_str_quote [simp]: "scan_str (quote_chr # t) = Some ([], t)"
  by (cases t) auto

lemma scan_str_plain:
  "c \<noteq> quote_chr \<Longrightarrow> c \<noteq> bslash \<Longrightarrow> 32 \<le> ord c \<Longrightarrow> scan_str (c # t) = scan_push [c] (scan_str t)"
  by (cases t) auto

lemma scan_str_plain_list:
  "list_all (\<lambda>c. c \<noteq> quote_chr \<and> c \<noteq> bslash \<and> 32 \<le> ord c) u \<Longrightarrow> scan_str (u @ t) = scan_push u (scan_str t)"
  by (induction u) (simp_all add: scan_str_plain)

lemma scan_str_escape: "scan_str (bslash # e # t) = scan_push [bslash, e] (scan_str t)"
  by simp

lemma hex_digit_table:
  "\<forall>k\<in>set [0..<16]. hex_val (hex_digits ! k) = Some k \<and>
     hex_digits ! k \<noteq> quote_chr \<and> hex_digits ! k \<noteq> bslash \<and> 32 \<le> ord (hex_digits ! k)"
  by code_simp

lemma hex_digit [simp]:
  assumes "k < 16"
  shows "hex_val (hex_digits ! k) = Some k" "hex_digits ! k \<noteq> quote_chr" "hex_digits ! k \<noteq> bslash"
    "32 \<le> ord (hex_digits ! k)" "\<not> ord (hex_digits ! k) < 32"
  using hex_digit_table assms by (simp_all add: not_less)

lemma nat_hex4:
  assumes "r < 65536"
  shows "4096 * (r div 4096 mod 16) + 256 * (r div 256 mod 16) + 16 * (r div 16 mod 16) + r mod 16 = (r::nat)"
proof -
  have "r div 4096 < 16" using assms by (simp add: less_mult_imp_div_less)
  then have "r div 4096 mod 16 = r div 4096" by simp
  moreover have "r = 16 * (r div 16) + r mod 16" by simp
  moreover have "r div 16 = 16 * (r div 256) + r div 16 mod 16"
    using div_mult_mod_eq [of "r div 16" 16] by (simp add: div_mult2_eq [symmetric])
  moreover have "r div 256 = 16 * (r div 4096) + r div 256 mod 16"
    using div_mult_mod_eq [of "r div 256" 16] by (simp add: div_mult2_eq [symmetric])
  ultimately show ?thesis by linarith
qed

lemma unquote_u_escape:
  assumes "r < 65536" and "\<not> is_surrogate r"
  shows "unquote (u_escape r @ t) = opt_app (utf8_enc r) (unquote t)"
  using assms nat_hex4 [of r] by (simp add: u_escape_def unquote.simps(2) hex4_def)

lemma scan_str_u_escape: "scan_str (u_escape r @ t) = scan_push (u_escape r) (scan_str t)"
  by (simp add: u_escape_def scan_str_plain)

lemma utf8_enc_ascii: "r < 128 \<Longrightarrow> utf8_enc r = [chr r]"
  by (simp add: utf8_enc_def)

lemma esc_table_simple: "\<forall>(c, d)\<in>set esc_table. simple_escape d = Some c \<and> d \<noteq> CHR ''u''"
  by (simp add: esc_table_def simple_escape_def)

lemma esc_ascii_cases:
  obtains (u) "esc_ascii c = u_escape (ord c)"
  | (e) d where "esc_ascii c = [bslash, d]" "simple_escape d = Some c" "d \<noteq> CHR ''u''"
  | (p) "esc_ascii c = [c]" "c \<noteq> quote_chr" "c \<noteq> bslash" "32 \<le> ord c"
proof (cases "map_of esc_table c")
  case (Some d)
  with esc_table_simple have "simple_escape d = Some c \<and> d \<noteq> CHR ''u''"
    by (blast dest: map_of_SomeD)
  with Some e show thesis by (simp add: esc_ascii_def)
next
  case None
  then have "c \<noteq> quote_chr" "c \<noteq> bslash" by (auto simp: esc_table_def split: if_splits)
  with None u p show thesis
    by (cases "ord c < 32 \<or> c = CHR ''<'' \<or> c = CHR ''>'' \<or> c = CHR ''&''") (simp_all add: esc_ascii_def)
qed

lemma unquote_esc_ascii:
  assumes "ord c < 128"
  shows "unquote (esc_ascii c @ t) = opt_app [c] (unquote t)"
proof (cases c rule: esc_ascii_cases)
  case u
  with assms show ?thesis
    by (simp add: unquote_u_escape utf8_enc_ascii is_surrogate_def)
next
  case (e d)
  then show ?thesis by (simp add: unquote.simps(2))
next
  case p
  with assms show ?thesis by (simp add: unquote.simps(2))
qed

lemma scan_str_esc_ascii: "scan_str (esc_ascii c @ t) = scan_push (esc_ascii c) (scan_str t)"
  by (cases c rule: esc_ascii_cases) (simp_all add: scan_str_u_escape scan_str_plain)

lemma rune_nth:
  "rune2 s \<Longrightarrow> i < 2 \<Longrightarrow> 128 \<le> ord (s ! i)"
  "rune3 s \<Longrightarrow> i < 3 \<Longrightarrow> 128 \<le> ord (s ! i)"
  "rune4 s \<Longrightarrow> i < 4 \<Longrightarrow> 128 \<le> ord (s ! i)"
proof -
  show "rune2 s \<Longrightarrow> i < 2 \<Longrightarrow> 128 \<le> ord (s ! i)"
    by (cases "i = 0"; cases "i = 1") (auto simp: rune2_def between_def is_cont_def)
  show "rune3 s \<Longrightarrow> i < 3 \<Longrightarrow> 128 \<le> ord (s ! i)"
    by (cases "i = 0"; cases "i = 1"; cases "i = 2") (auto simp: rune3_def between_def is_cont_def)
  show "rune4 s \<Longrightarrow> i < 4 \<Longrightarrow> 128 \<le> ord (s ! i)"
    by (cases "i = 0"; cases "i = 1"; cases "i = 2"; cases "i = 3")
      (auto simp: rune4_def between_def is_cont_def)
qed

lemma rune_bytes:
  assumes "rune_len s = n" and "1 < n"
  shows "list_all (\<lambda>c. c \<noteq> quote_chr \<and> c \<noteq> bslash \<and> 32 \<le> ord c) (take n s)"
proof -
  have "128 \<le> ord (s ! i)" if "i < n" for i
    using assms that rune_nth [of s i] unfolding rune_len_def by (auto split: if_splits)
  then have "list_all (\<lambda>c. 128 \<le> ord c) (take n s)"
    by (auto simp: list_all_length)
  moreover have "128 \<le> ord c \<Longrightarrow> c \<noteq> quote_chr \<and> c \<noteq> bslash \<and> 32 \<le> ord c" for c
    by auto
  ultimately show ?thesis unfolding list_all_iff by blast
qed

lemma unquote_rune:
  assumes "rune_len s = n" and "1 < n"
  shows "unquote (take n s @ t) = opt_app (take n s) (unquote t)"
proof -
  have len: "n \<le> length s" using rune_len_le [of s] assms(1) by simp
  obtain c cs where s: "s = c # cs" using len assms(2) by (cases s) auto
  obtain m where n: "n = Suc m" using assms(2) by (cases n) auto
  have c: "\<not> ord c < 128" using rune_len_not_ascii [of s] assms s by simp
  then have "c \<noteq> bslash" "c \<noteq> quote_chr" by auto
  moreover have "rune_len (take n s @ t) = n"
    using rune_len_take assms by simp
  ultimately show ?thesis
    using c len by (simp add: s n unquote.simps(2))
qed

lemma enc_str_step:
  assumes "rune_len (c # cs) = n" and "1 < n"
  shows "enc_str (c # cs) = (if take n (c # cs) = utf8_enc 8232 then u_escape 8232
           else if take n (c # cs) = utf8_enc 8233 then u_escape 8233 else take n (c # cs))
         @ enc_str (drop (n - 1) cs)"
  using assms rune_len_not_ascii [of "c # cs"] by (simp add: enc_str.simps(2) Let_def)

lemma enc_str_ascii: "ord c < 128 \<Longrightarrow> enc_str (c # cs) = esc_ascii c @ enc_str cs"
  by (simp add: enc_str.simps(2))

lemma not_ascii_rune_len: "\<not> ord c < 128 \<Longrightarrow> rune_len (c # cs) \<noteq> 0 \<Longrightarrow> 1 < rune_len (c # cs)"
  by (auto simp: rune_len_def rune1_def split: if_splits)

lemma take_drop_pred: "0 < n \<Longrightarrow> take n (c # cs) @ drop (n - 1) cs = c # cs"
  by (cases n) simp_all

lemma unquote_enc_str: "valid_utf8 s \<Longrightarrow> unquote (enc_str s) = Some s"
proof (induction s rule: valid_utf8.induct)
  case (2 c cs)
  define n where "n = rune_len (c # cs)"
  show ?case
  proof (cases "ord c < 128")
    case True
    with "2" show ?thesis by (simp add: enc_str_ascii unquote_esc_ascii Let_def)
  next
    case False
    with "2.prems" have n: "rune_len (c # cs) = n" "1 < n"
      using not_ascii_rune_len [of c cs] by (simp_all add: n_def Let_def)
    with "2" have IH: "unquote (enc_str (drop (n - 1) cs)) = Some (drop (n - 1) cs)"
      by (simp add: Let_def)
    show ?thesis
      using n IH take_drop_pred [of n c cs]
      by (auto simp: enc_str_step unquote_rune unquote_u_escape is_surrogate_def)
  qed
qed simp

lemma utf8_seps: "utf8_enc 8232 \<noteq> utf8_enc 8233"
  by (simp add: utf8_enc_def chr_def)

lemma scan_str_enc_str: "scan_str (enc_str s @ quote_chr # t) = Some (enc_str s, t)"
proof (induction s rule: enc_str.induct)
  case (2 c cs)
  show ?case
  proof (cases "ord c < 128")
    case True
    with "2" show ?thesis by (simp add: enc_str_ascii scan_str_esc_ascii)
  next
    case False
    show ?thesis
    proof (cases "rune_len (c # cs) = 0")
      case True
      with False "2" show ?thesis by (simp add: enc_str.simps(2) scan_str_u_escape)
    next
      case n0: False
      define n where "n = rune_len (c # cs)"
      have n: "rune_len (c # cs) = n" "1 < n"
        using not_ascii_rune_len [OF False n0] by (simp_all add: n_def)
      with "2" False n0 have IH: "scan_str (enc_str (drop (n - 1) cs) @ quote_chr # t)
          = Some (enc_str (drop (n - 1) cs), t)"
        using utf8_seps by (cases "take n (c # cs) = utf8_enc 8232"; cases "take n (c # cs) = utf8_enc 8233")
          (simp_all add: Let_def)
      show ?thesis
        using n IH rune_bytes [OF n] by (simp add: enc_str_step scan_str_u_escape scan_str_plain_list)
    qed
  qed
qed simp

end
