(* ===== verification/JsonText.thy ===== *)
theory JsonText
  imports Json
begin

text \<open>
  JSON texts: the lexer, the stack parser behind \<^verbatim>\<open>json.Unmarshal\<close>, the printer behind
  \<^verbatim>\<open>json.Marshal\<close>, and their round trip. The library's nesting limit (10000) is not modelled.
\<close>

datatype tok = TLBrace | TRBrace | TLBrack | TRBrack | TColon | TComma
  | TNull | TBool bool | TNum string | TStr string

section \<open>Lexer\<close>

definition is_space :: "char \<Rightarrow> bool" where
  "is_space c \<longleftrightarrow> c = CHR '' '' \<or> c = CHR 0x09 \<or> c = CHR 0x0A \<or> c = CHR 0x0D"

definition is_word :: "char \<Rightarrow> bool" where
  "is_word c \<longleftrightarrow> is_alnum c \<or> c = CHR ''-'' \<or> c = CHR ''+'' \<or> c = CHR ''.''"

definition exp_ok :: "string \<Rightarrow> bool" where
  "exp_ok s = (s = [] \<or> ((hd s = CHR ''e'' \<or> hd s = CHR ''E'') \<and>
     (let r = (if tl s \<noteq> [] \<and> (hd (tl s) = CHR ''+'' \<or> hd (tl s) = CHR ''-'') then tl (tl s) else tl s)
      in r \<noteq> [] \<and> list_all is_digit r)))"

definition frac_ok :: "string \<Rightarrow> bool" where
  "frac_ok s = (if s \<noteq> [] \<and> hd s = CHR ''.''
     then tl s \<noteq> [] \<and> is_digit (hd (tl s)) \<and> exp_ok (dropWhile is_digit (tl s))
     else exp_ok s)"

definition number_ok :: "string \<Rightarrow> bool" where
  "number_ok s =
     (let r = (if s \<noteq> [] \<and> hd s = CHR ''-'' then tl s else s)
      in r \<noteq> [] \<and> (if hd r = CHR ''0'' then frac_ok (tl r)
                     else is_digit (hd r) \<and> frac_ok (dropWhile is_digit r)))"

definition word_tok :: "string \<Rightarrow> tok option" where
  "word_tok w =
     (if w = ''null'' then Some TNull
      else if w = ''true'' then Some (TBool True)
      else if w = ''false'' then Some (TBool False)
      else if number_ok w then Some (TNum w) else None)"

definition punct :: "char \<Rightarrow> tok option" where
  "punct c = map_of [(CHR ''{'', TLBrace), (CHR ''}'', TRBrace), (CHR ''['', TLBrack),
     (CHR '']'', TRBrack), (CHR '':'', TColon), (CHR '','', TComma)] c"

definition tok_cons :: "tok \<Rightarrow> tok list option \<Rightarrow> tok list option" where
  "tok_cons t = opt_app [t]"

function json_lex :: "string \<Rightarrow> tok list option" where
  "json_lex [] = Some []"
| "json_lex (c # cs) =
     (if is_space c then json_lex cs
      else if c = quote_chr then
        (case scan_str cs of
           None \<Rightarrow> None
         | Some (raw, rest) \<Rightarrow>
             (case unquote raw of None \<Rightarrow> None | Some s \<Rightarrow> tok_cons (TStr s) (json_lex rest)))
      else if is_word c then
        (case word_tok (takeWhile is_word (c # cs)) of
           None \<Rightarrow> None
         | Some t \<Rightarrow> tok_cons t (json_lex (dropWhile is_word cs)))
      else (case punct c of None \<Rightarrow> None | Some t \<Rightarrow> tok_cons t (json_lex cs)))"
  by pat_completeness auto
termination
  by (relation "measure length") (auto simp: le_imp_less_Suc length_dropWhile_le dest!: scan_str_length)

section \<open>Parser\<close>

text \<open>What is open around the value being read: an array, or an object and the key just read.\<close>

datatype frame = FArr "json list" | FObj "(string \<times> json) list" string

definition scalar :: "tok \<Rightarrow> json option" where
  "scalar t = (case t of TNull \<Rightarrow> Some JNull | TBool b \<Rightarrow> Some (JBool b) | TNum n \<Rightarrow> Some (JNum n)
                | TStr s \<Rightarrow> Some (JStr s) | _ \<Rightarrow> None)"

text \<open>An object key and the colon after it.\<close>

definition key_colon :: "tok list \<Rightarrow> (string \<times> tok list) option" where
  "key_colon ts = (case ts of TStr k # u # r \<Rightarrow> if u = TColon then Some (k, r) else None | _ \<Rightarrow> None)"

lemma key_colon_length [termination_simp]: "key_colon ts = Some (k, r) \<Longrightarrow> length r < length ts"
  by (auto simp: key_colon_def split: list.splits tok.splits if_splits)

function pval :: "frame list \<Rightarrow> tok list \<Rightarrow> json option"
  and plug :: "json \<Rightarrow> frame list \<Rightarrow> tok list \<Rightarrow> json option" where
  "pval st [] = None"
| "pval st (t # ts) =
     (case scalar t of
        Some v \<Rightarrow> plug v st ts
      | None \<Rightarrow>
          if t = TLBrack then
            (if ts \<noteq> [] \<and> hd ts = TRBrack then plug (JArr []) st (tl ts) else pval (FArr [] # st) ts)
          else if t = TLBrace then
            (if ts \<noteq> [] \<and> hd ts = TRBrace then plug (JObj []) st (tl ts)
             else (case key_colon ts of None \<Rightarrow> None | Some (k, r) \<Rightarrow> pval (FObj [] k # st) r))
          else None)"
| "plug v [] ts = (if ts = [] then Some v else None)"
| "plug v (f # st) [] = None"
| "plug v (f # st) (t # ts) =
     (case f of
        FArr vs \<Rightarrow>
          if t = TComma then pval (FArr (vs @ [v]) # st) ts
          else if t = TRBrack then plug (JArr (vs @ [v])) st ts else None
      | FObj ms k \<Rightarrow>
          if t = TComma then
            (case key_colon ts of None \<Rightarrow> None
             | Some (k', r) \<Rightarrow> pval (FObj (ms @ [(k, v)]) k' # st) r)
          else if t = TRBrace then plug (JObj (ms @ [(k, v)])) st ts else None)"
  by pat_completeness auto
termination
  by (relation "measure (\<lambda>x. case x of Inl (st, ts) \<Rightarrow> length ts | Inr (v, st, ts) \<Rightarrow> length ts)")
    (auto dest: key_colon_length)

definition json_parse :: "string \<Rightarrow> json option" where
  "json_parse s = (case json_lex s of None \<Rightarrow> None | Some ts \<Rightarrow> pval [] ts)"

section \<open>Printer\<close>

fun json_print :: "json \<Rightarrow> string" where
  "json_print JNull = ''null''"
| "json_print (JBool b) = (if b then ''true'' else ''false'')"
| "json_print (JNum n) = n"
| "json_print (JStr s) = json_quote s"
| "json_print (JArr vs) = ''['' @ join_with '','' (map json_print vs) @ '']''"
| "json_print (JObj ms) =
     ''{'' @ join_with '','' (map (\<lambda>(k, v). json_quote k @ '':'' @ json_print v) ms) @ ''}''"

fun json_ok :: "json \<Rightarrow> bool" where
  "json_ok (JNum n) = (number_ok n \<and> list_all is_word n \<and> n \<notin> set [''null'', ''true'', ''false''])"
| "json_ok (JStr s) = valid_utf8 s"
| "json_ok (JArr vs) = list_all json_ok vs"
| "json_ok (JObj ms) = list_all (\<lambda>(k, v). valid_utf8 k \<and> json_ok v) ms"
| "json_ok _ = True"

fun toks :: "json \<Rightarrow> tok list" where
  "toks JNull = [TNull]"
| "toks (JBool b) = [TBool b]"
| "toks (JNum n) = [TNum n]"
| "toks (JStr s) = [TStr s]"
| "toks (JArr vs) = TLBrack # join_with [TComma] (map toks vs) @ [TRBrack]"
| "toks (JObj ms) =
     TLBrace # join_with [TComma] (map (\<lambda>(k, v). TStr k # TColon # toks v) ms) @ [TRBrace]"

section \<open>Round trip\<close>

lemma join_with_Cons: "join_with sep (x # xs) = x @ concat (map ((@) sep) xs)"
  by (induction xs arbitrary: x) auto

lemma hd_toks: "\<exists>t r. toks v = t # r \<and> t \<noteq> TRBrack \<and> t \<noteq> TRBrace"
  by (cases v) auto

lemma key_colon_simp [simp]: "key_colon (TStr k # TColon # r) = Some (k, r)"
  by (simp add: key_colon_def)

lemma pval_array_rest:
  assumes "\<And>x st ts. x \<in> set vs \<Longrightarrow> pval st (toks x @ ts) = plug x st ts"
  shows "plug v (FArr acc # st) (concat (map ((@) [TComma]) (map toks vs)) @ TRBrack # ts)
         = plug (JArr (acc @ v # vs)) st ts"
  using assms
proof (induction vs arbitrary: v acc)
  case Nil
  then show ?case by simp
next
  case (Cons x vs)
  then show ?case by simp
qed

lemma pval_object_rest:
  assumes "\<And>x st ts. x \<in> snd ` set ms \<Longrightarrow> pval st (toks x @ ts) = plug x st ts"
  shows "plug v (FObj acc k # st)
           (concat (map ((@) [TComma]) (map (\<lambda>(k, v). TStr k # TColon # toks v) ms)) @ TRBrace # ts)
         = plug (JObj (acc @ (k, v) # ms)) st ts"
  using assms
proof (induction ms arbitrary: v k acc)
  case Nil
  then show ?case by simp
next
  case (Cons m ms)
  then show ?case by (cases m) simp
qed

lemma pval_toks: "pval st (toks v @ ts) = plug v st ts"
proof (induction v arbitrary: st ts)
  case (JArr vs)
  show ?case
  proof (cases vs)
    case Nil
    then show ?thesis by (simp add: scalar_def)
  next
    case (Cons x xs)
    obtain t r where t: "toks x = t # r" "t \<noteq> TRBrack" using hd_toks [of x] by blast
    have "pval st' (toks y @ ts') = plug y st' ts'" if "y \<in> set (x # xs)" for y st' ts'
      using JArr Cons that by simp
    then have "pval (FArr [] # st) (toks x @ concat (map ((@) [TComma]) (map toks xs)) @ TRBrack # ts)
        = plug (JArr (x # xs)) st ts"
      using pval_array_rest [of xs x "[]" st ts] by simp
    with t Cons show ?thesis by (simp add: scalar_def join_with_Cons)
  qed
next
  case (JObj ms)
  show ?case
  proof (cases ms)
    case Nil
    then show ?thesis by (simp add: scalar_def)
  next
    case (Cons m xs)
    obtain k x where m: "m = (k, x)" by (cases m)
    have IH: "pval st' (toks y @ ts') = plug y st' ts'" if "y \<in> snd ` set (m # xs)" for y st' ts'
    proof -
      from that Cons obtain m' where "m' \<in> set ms" "y = snd m'" by (metis imageE)
      then show ?thesis by (intro JObj [of m']) (simp_all add: snds.simps)
    qed
    have "pval (FObj [] k # st) (toks x @ concat (map ((@) [TComma])
             (map (\<lambda>(k, v). TStr k # TColon # toks v) xs)) @ TRBrace # ts)
        = plug (JObj (m # xs)) st ts"
      using pval_object_rest [of xs x "[]" k st ts] IH m by simp
    with m Cons show ?thesis by (simp add: scalar_def join_with_Cons)
  qed
qed (simp_all add: scalar_def)

lemma lex_Nil [simp]: "json_lex [] = Some []"
  by simp

declare json_lex.simps [simp del]
declare lex_Nil [simp]

lemma lex_punct:
  "json_lex (CHR ''{'' # s) = tok_cons TLBrace (json_lex s)" "json_lex (CHR ''}'' # s) = tok_cons TRBrace (json_lex s)"
  "json_lex (CHR ''['' # s) = tok_cons TLBrack (json_lex s)" "json_lex (CHR '']'' # s) = tok_cons TRBrack (json_lex s)"
  "json_lex (CHR '':'' # s) = tok_cons TColon (json_lex s)" "json_lex (CHR '','' # s) = tok_cons TComma (json_lex s)"
  by (simp_all add: json_lex.simps is_space_def is_word_def is_alnum_def is_digit_def is_lower_def is_upper_def punct_def)

lemma lex_quote: "valid_utf8 s \<Longrightarrow> json_lex (json_quote s @ r) = opt_app [TStr s] (json_lex r)"
  by (simp add: json_lex.simps json_quote_def is_space_def scan_str_enc_str unquote_enc_str tok_cons_def)

definition word_end :: "string \<Rightarrow> bool" where
  "word_end r \<longleftrightarrow> r = [] \<or> \<not> is_word (hd r)"

lemma takeWhile_word:
  "list_all P w \<Longrightarrow> r = [] \<or> \<not> P (hd r) \<Longrightarrow> takeWhile P (w @ r) = w \<and> dropWhile P (w @ r) = r"
  by (induction w; cases r) auto

lemma word_not_special: "is_word c \<Longrightarrow> \<not> is_space c \<and> c \<noteq> quote_chr"
  by (auto simp: is_word_def is_space_def is_alnum_def is_digit_def is_lower_def is_upper_def)

lemma lex_word:
  assumes "list_all is_word w" "w \<noteq> []" "word_end r" "word_tok w = Some t"
  shows "json_lex (w @ r) = opt_app [t] (json_lex r)"
proof -
  obtain c cs where w: "w = c # cs" using assms(2) by (cases w) auto
  have "takeWhile is_word (w @ r) = w \<and> dropWhile is_word (w @ r) = r"
    using assms takeWhile_word [of is_word w r] by (simp add: word_end_def)
  with assms w word_not_special [of c] show ?thesis by (simp add: json_lex.simps tok_cons_def)
qed

lemma lex_literals:
  assumes "word_end r"
  shows "json_lex (''null'' @ r) = opt_app [TNull] (json_lex r)" "json_lex (''true'' @ r) = opt_app [TBool True] (json_lex r)"
    "json_lex (''false'' @ r) = opt_app [TBool False] (json_lex r)"
  using assms
  by (intro lex_word; simp add: word_tok_def is_word_def is_alnum_def is_digit_def is_lower_def)+

lemma number_nonempty: "number_ok n \<Longrightarrow> n \<noteq> []"
  by (auto simp: number_ok_def Let_def)

lemma lex_number:
  "json_ok (JNum n) \<Longrightarrow> word_end r \<Longrightarrow> json_lex (n @ r) = opt_app [TNum n] (json_lex r)"
  by (rule lex_word) (auto simp: word_tok_def number_nonempty)

lemma word_end_punct [simp]: "word_end (CHR '']'' # r)" "word_end (CHR ''}'' # r)" "word_end (CHR '','' # r)"
  by (simp_all add: word_end_def is_word_def is_alnum_def is_digit_def is_lower_def is_upper_def)

lemma lex_rest:
  assumes "\<And>x r. x \<in> set xs \<Longrightarrow> word_end r \<Longrightarrow> json_lex (p x @ r) = opt_app (q x) (json_lex r)"
    and "\<And>r. word_end (e # r)" and "\<And>r. json_lex (e # r) = opt_app [t] (json_lex r)"
  shows "json_lex (join_with '','' (map p xs) @ e # r) = opt_app (join_with [TComma] (map q xs) @ [t]) (json_lex r)"
  using assms(1)
proof (induction xs)
  case Nil
  then show ?case by (simp add: assms)
next
  case (Cons x xs)
  show ?case
  proof (cases xs)
    case Nil
    then show ?thesis using Cons.prems assms by simp
  next
    case c: (Cons y ys)
    have "word_end (CHR '','' # join_with '','' (map p xs) @ e # r)" by simp
    with Cons have "json_lex (p x @ CHR '','' # join_with '','' (map p xs) @ e # r)
        = opt_app (q x @ TComma # join_with [TComma] (map q xs) @ [t]) (json_lex r)"
      by (simp add: lex_punct tok_cons_def)
    then show ?thesis by (simp add: c)
  qed
qed

lemma lex_json_print: "json_ok v \<Longrightarrow> word_end r \<Longrightarrow> json_lex (json_print v @ r) = opt_app (toks v) (json_lex r)"
proof (induction v arbitrary: r)
  case JNull
  then show ?case using lex_literals [of r] by simp
next
  case (JBool b)
  then show ?case using lex_literals [of r] by simp
next
  case (JNum n)
  then show ?case using lex_number by (simp del: json_ok.simps)
next
  case (JStr s)
  then show ?case by (simp add: lex_quote)
next
  case (JArr vs)
  have "json_lex (join_with '','' (map json_print vs) @ CHR '']'' # r)
      = opt_app (join_with [TComma] (map toks vs) @ [TRBrack]) (json_lex r)"
    using JArr by (intro lex_rest) (auto simp: lex_punct tok_cons_def list_all_iff)
  then show ?case by (simp add: lex_punct tok_cons_def)
next
  case (JObj ms)
  have "json_lex (join_with '','' (map (\<lambda>(k, v). json_quote k @ '':'' @ json_print v) ms) @ CHR ''}'' # r)
      = opt_app (join_with [TComma] (map (\<lambda>(k, v). TStr k # TColon # toks v) ms) @ [TRBrace]) (json_lex r)"
    using JObj
    by (intro lex_rest) (auto simp: lex_punct tok_cons_def list_all_iff lex_quote)
  then show ?case by (simp add: lex_punct tok_cons_def)
qed

lemma json_parse_print: "json_ok v \<Longrightarrow> json_parse (json_print v) = Some v"
  using lex_json_print [of v "[]"] pval_toks [of "[]" v "[]"]
  by (simp add: json_parse_def word_end_def)

end
