(* ===== verification/GoFloat.thy ===== *)
theory GoFloat
  imports Prelude
begin

text \<open>
  \<^verbatim>\<open>float64\<close> as far as the program needs it: a number literal of a JSON text decoded into an
  \<^verbatim>\<open>any\<close> becomes the nearest double, and \<^verbatim>\<open>fmt.Sprint\<close> prints the shortest decimal that
  reads back as that double, in the form \<^verbatim>\<open>%g\<close> chooses. A positive double is a mantissa and an
  exponent of two, \<open>m * 2 ^ k\<close> with \<open>m < 2 ^ 53\<close> and \<open>-1074 \<le> k\<close>.
\<close>

section \<open>Literals\<close>

text \<open>The sign, the digits with the point taken out, and the exponent of ten of a number literal.\<close>

definition dec_parts :: "string \<Rightarrow> bool \<times> string \<times> int" where
  "dec_parts s =
     (let (neg, u) = (if s \<noteq> [] \<and> hd s = CHR ''-'' then (True, tl s) else (False, s));
          mant = takeWhile (\<lambda>c. c \<noteq> CHR ''e'' \<and> c \<noteq> CHR ''E'') u;
          ex = drop (Suc (length mant)) u;
          (ip, fp) = (case cut_at (CHR ''.'') mant of None \<Rightarrow> (mant, []) | Some p \<Rightarrow> p);
          e = (case ex of [] \<Rightarrow> 0
               | c # cs \<Rightarrow> if c = CHR ''-'' then - int (the (dec_val 0 cs))
                          else if c = CHR ''+'' then int (the (dec_val 0 cs))
                          else int (the (dec_val 0 ex)))
      in (neg, ip @ fp, e - int (length fp)))"

text \<open>The value as a fraction of naturals.\<close>

definition dec_fraction :: "nat \<Rightarrow> int \<Rightarrow> nat \<times> nat" where
  "dec_fraction d e = (if 0 \<le> e then (d * 10 ^ nat e, 1) else (d, 10 ^ nat (- e)))"

section \<open>The nearest double\<close>

fun bit_len :: "nat \<Rightarrow> nat" where
  "bit_len n = (if n = 0 then 0 else Suc (bit_len (n div 2)))"

declare bit_len.simps [simp del]

text \<open>Round half to even.\<close>

definition round_div :: "nat \<Rightarrow> nat \<Rightarrow> nat" where
  "round_div a b =
     (let q = a div b; r = a mod b
      in if b < 2 * r \<or> (2 * r = b \<and> odd q) then Suc q else q)"

definition scale2 :: "nat \<Rightarrow> nat \<Rightarrow> int \<Rightarrow> nat \<times> nat" where
  "scale2 a b k = (if 0 \<le> k then (a, b * 2 ^ nat k) else (a * 2 ^ nat (- k), b))"

text \<open>The double nearest to \<open>a / b\<close> (both positive); \<open>None\<close> when it overflows.\<close>

definition to_double :: "nat \<Rightarrow> nat \<Rightarrow> (nat \<times> int) option" where
  "to_double a b =
     (let k0 = int (bit_len a) - int (bit_len b) - 53;
          k1 = (let (x, y) = scale2 a b k0 in if x div y < 2 ^ 53 then k0 else k0 + 1);
          k = max (-1074) k1;
          m = (let (x, y) = scale2 a b k in round_div x y);
          (m', k') = (if m = 2 ^ 53 then (2 ^ 52, k + 1) else (m, k))
      in if 971 < k' then None else Some (m', k'))"

definition double_fraction :: "nat \<times> int \<Rightarrow> nat \<times> nat" where
  "double_fraction = (\<lambda>(m, k). if 0 \<le> k then (m * 2 ^ nat k, 1) else (m, 2 ^ nat (- k)))"

text \<open>\<^verbatim>\<open>strconv.ParseFloat\<close> on a literal the JSON grammar admits: sign and magnitude.\<close>

definition parse_float :: "string \<Rightarrow> (bool \<times> (nat \<times> int)) option" where
  "parse_float s =
     (let (neg, ds, e) = dec_parts s; d = the (dec_val 0 ds)
      in if d = 0 then Some (neg, (0, 0))
         else map_option (Pair neg) (let (a, b) = dec_fraction d e in to_double a b))"

section \<open>The shortest decimal\<close>

text \<open>The place of the first digit: the \<open>p\<close> with \<open>10 ^ (p - 1) \<le> a / b < 10 ^ p\<close>.\<close>

definition dec_point :: "nat \<Rightarrow> nat \<Rightarrow> int" where
  "dec_point a b =
     (if b \<le> a then int (length (dec_nat (a div b)))
      else 1 - int (length (dec_nat ((b + a - 1) div a)))
           + (if 10 ^ (length (dec_nat ((b + a - 1) div a)) - 1) = (b + a - 1) div a then 1 else 0))"

text \<open>
  The decimals of \<open>n\<close> digits next to the value, nearest first, that read back as the same double.
\<close>

definition digits_at :: "nat \<times> int \<Rightarrow> nat \<Rightarrow> (nat \<times> int) list" where
  "digits_at x n =
     (let (a, b) = double_fraction x;
          e = dec_point a b - int n;
          (p, q) = (if 0 \<le> e then (a, b * 10 ^ nat e) else (a * 10 ^ nat (- e), b));
          lo = p div q;
          ds = (if round_div p q = lo then [lo, Suc lo] else [Suc lo, lo])
      in filter (\<lambda>(d, e). (let (u, v) = dec_fraction d e in to_double u v) = Some x)
           (map (\<lambda>d. (d, e)) ds))"

definition shortest :: "nat \<times> int \<Rightarrow> nat \<times> int" where
  "shortest x = hd (concat (map (digits_at x) [1..<18]) @ [(0, 0)])"

text \<open>\<^verbatim>\<open>%g\<close> of the shortest digits: exponent form below \<open>1e-4\<close> and from \<open>1e6\<close> on.\<close>

definition exp_text :: "int \<Rightarrow> string" where
  "exp_text e = (if e < 0 then ''-'' else ''+'') @ (if \<bar>e\<bar> < 10 then ''0'' else '''') @ dec_nat (nat \<bar>e\<bar>)"

definition float_exp_threshold :: int where "float_exp_threshold = 6"

definition format_digits :: "string \<Rightarrow> int \<Rightarrow> string" where
  "format_digits ds dp =
     (if dp - 1 < -4 \<or> float_exp_threshold \<le> dp - 1
      then [hd ds] @ (if tl ds = [] then [] else CHR ''.'' # tl ds) @ ''e'' @ exp_text (dp - 1)
      else if dp \<le> 0 then ''0.'' @ replicate (nat (- dp)) (CHR ''0'') @ ds
      else if int (length ds) \<le> dp then ds @ replicate (nat dp - length ds) (CHR ''0'')
      else take (nat dp) ds @ ''.'' @ drop (nat dp) ds)"

definition format_double :: "bool \<times> (nat \<times> int) \<Rightarrow> string" where
  "format_double = (\<lambda>(neg, x).
     (if neg then ''-'' else '''') @
     (if fst x = 0 then ''0''
      else let (d, e) = shortest x; ds = dec_nat d
           in format_digits (trim_right_char (CHR ''0'') ds) (int (length ds) + e)))"

end
