(* ===== verification/JsonDecode.thy ===== *)
theory JsonDecode
  imports JsonText GoFloat
begin

text \<open>
  \<^verbatim>\<open>json.Unmarshal\<close> into the program's structs, field by field. An object member is stored in
  the field whose name it equals up to case folding; the members of one object are stored in order,
  so a later one overwrites an earlier one and an object member is merged into the struct it
  decodes to. \<open>null\<close> leaves a scalar or a struct as it is and clears a slice, a map or a pointer.
  A member of the wrong JSON type is an error of the whole call. \<open>None\<close> is that error.
  One corner is simplified: when an object repeats a member that decodes to a slice, the library
  reuses the backing array of the first, where this model starts a fresh one.
\<close>

type_synonym members = "(string \<times> json) list"

text \<open>
  The library's case folding, on the names the structs use: ASCII letters, and the two characters
  outside ASCII that fold to ASCII letters (U+017F to \<open>s\<close>, U+212A to \<open>k\<close>).
\<close>

function fold_name :: "string \<Rightarrow> string" where
  "fold_name [] = []"
| "fold_name (c # cs) =
     (if c = CHR 0xC5 \<and> take 1 cs = [CHR 0xBF] then CHR ''s'' # fold_name (drop 1 cs)
      else if c = CHR 0xE2 \<and> take 2 cs = [CHR 0x84, CHR 0xAA] then CHR ''k'' # fold_name (drop 2 cs)
      else (if is_upper c then chr (ord c + 32) else c) # fold_name cs)"
  by pat_completeness auto
termination
  by (relation "measure length") auto

definition jvals :: "string \<Rightarrow> members \<Rightarrow> json list" where
  "jvals f ms = map snd (filter (\<lambda>(k, v). fold_name k = fold_name f) ms)"

fun fold_opt :: "('a \<Rightarrow> 'b \<Rightarrow> 'a option) \<Rightarrow> 'a \<Rightarrow> 'b list \<Rightarrow> 'a option" where
  "fold_opt f a [] = Some a"
| "fold_opt f a (x # xs) = (case f a x of None \<Rightarrow> None | Some b \<Rightarrow> fold_opt f b xs)"

text \<open>The members of a value decoded into a struct that may already hold some.\<close>

definition into_struct :: "members \<Rightarrow> json \<Rightarrow> members option" where
  "into_struct ms v = (case v of JNull \<Rightarrow> Some ms | JObj ns \<Rightarrow> Some (ms @ ns) | _ \<Rightarrow> None)"

definition into_string :: "string \<Rightarrow> json \<Rightarrow> string option" where
  "into_string s v = (case v of JNull \<Rightarrow> Some s | JStr t \<Rightarrow> Some t | _ \<Rightarrow> None)"

definition into_bool :: "bool \<Rightarrow> json \<Rightarrow> bool option" where
  "into_bool b v = (case v of JNull \<Rightarrow> Some b | JBool c \<Rightarrow> Some c | _ \<Rightarrow> None)"

text \<open>\<^verbatim>\<open>int32\<close>: the literal must be an integer without fraction or exponent, in range.\<close>

definition into_int32 :: "int \<Rightarrow> json \<Rightarrow> int option" where
  "into_int32 i v = (case v of JNull \<Rightarrow> Some i | JNum n \<Rightarrow> parseInt int32_min int32_max n | _ \<Rightarrow> None)"

definition into_strptr :: "string option \<Rightarrow> json \<Rightarrow> string option option" where
  "into_strptr p v = (case v of JNull \<Rightarrow> Some None | JStr t \<Rightarrow> Some (Some t) | _ \<Rightarrow> None)"

text \<open>\<^verbatim>\<open>any\<close>: every number in the value must fit a \<^verbatim>\<open>float64\<close>.\<close>

fun floats_ok :: "json \<Rightarrow> bool" where
  "floats_ok (JNum n) = (parse_float n \<noteq> None)"
| "floats_ok (JArr vs) = (\<forall>v\<in>set vs. floats_ok v)"
| "floats_ok (JObj ms) = (\<forall>m\<in>set ms. floats_ok (snd m))"
| "floats_ok _ = True"

definition into_any :: "json \<Rightarrow> json \<Rightarrow> json option" where
  "into_any a v = (if floats_ok v then Some v else None)"

text \<open>A slice is \<open>None\<close> (nil) or the list of its elements, here still raw.\<close>

definition into_slice :: "json list option \<Rightarrow> json \<Rightarrow> json list option option" where
  "into_slice p v = (case v of JNull \<Rightarrow> Some None | JArr vs \<Rightarrow> Some (Some vs) | _ \<Rightarrow> None)"

definition upd_entry :: "string \<Rightarrow> 'v \<Rightarrow> (string \<times> 'v) list \<Rightarrow> (string \<times> 'v) list" where
  "upd_entry k v es = filter (\<lambda>(k', _). k' \<noteq> k) es @ [(k, v)]"

text \<open>\<^verbatim>\<open>map[string]string\<close>: \<open>None\<close> is nil, and an object's entries are added to those there.\<close>

definition add_entry :: "(string \<times> string) list \<Rightarrow> string \<times> json \<Rightarrow> (string \<times> string) list option" where
  "add_entry es m = map_option (\<lambda>s. upd_entry (fst m) s es) (into_string '''' (snd m))"

definition into_map :: "(string \<times> string) list option \<Rightarrow> json \<Rightarrow> (string \<times> string) list option option" where
  "into_map p v = (case v of JNull \<Rightarrow> Some None
     | JObj ms \<Rightarrow> map_option Some (fold_opt add_entry (case p of None \<Rightarrow> [] | Some es \<Rightarrow> es) ms)
     | _ \<Rightarrow> None)"

fun traverse :: "('a \<Rightarrow> 'b option) \<Rightarrow> 'a list \<Rightarrow> 'b list option" where
  "traverse f [] = Some []"
| "traverse f (x # xs) =
     (case f x of None \<Rightarrow> None | Some y \<Rightarrow> (case traverse f xs of None \<Rightarrow> None | Some ys \<Rightarrow> Some (y # ys)))"

definition fStruct :: "string \<Rightarrow> members \<Rightarrow> members option" where
  "fStruct f ms = fold_opt into_struct [] (jvals f ms)"

definition fString :: "string \<Rightarrow> members \<Rightarrow> string option" where
  "fString f ms = fold_opt into_string '''' (jvals f ms)"

definition fBool :: "string \<Rightarrow> members \<Rightarrow> bool option" where
  "fBool f ms = fold_opt into_bool False (jvals f ms)"

definition fInt32 :: "string \<Rightarrow> members \<Rightarrow> int option" where
  "fInt32 f ms = fold_opt into_int32 0 (jvals f ms)"

definition fStrPtr :: "string \<Rightarrow> members \<Rightarrow> string option option" where
  "fStrPtr f ms = fold_opt into_strptr None (jvals f ms)"

definition fAny :: "string \<Rightarrow> members \<Rightarrow> json option" where
  "fAny f ms = fold_opt into_any JNull (jvals f ms)"

definition fSlice :: "string \<Rightarrow> members \<Rightarrow> json list option option" where
  "fSlice f ms = fold_opt into_slice None (jvals f ms)"

definition fMap :: "string \<Rightarrow> members \<Rightarrow> (string \<times> string) list option option" where
  "fMap f ms = fold_opt into_map None (jvals f ms)"

text \<open>The elements of a slice (nil has none).\<close>

definition slice_elems :: "json list option \<Rightarrow> json list" where
  "slice_elems p = (case p of None \<Rightarrow> [] | Some vs \<Rightarrow> vs)"

text \<open>The top-level value decoded into a zero struct.\<close>

definition top_struct :: "json \<Rightarrow> members option" where
  "top_struct v = into_struct [] v"

lemmas field_defs = fStruct_def fString_def fBool_def fInt32_def fStrPtr_def fAny_def fSlice_def
  fMap_def

lemmas into_defs = into_struct_def into_string_def into_bool_def into_int32_def into_strptr_def
  into_any_def into_slice_def into_map_def

text \<open>Building the JSON values the program's response structs marshal to.\<close>

definition jInt :: "int \<Rightarrow> json" where "jInt i = JNum (formatInt i)"

text \<open>A map marshals with its keys sorted; nil marshals to \<open>null\<close>.\<close>

definition jMap :: "(string \<times> string) list option \<Rightarrow> json" where
  "jMap p = (case p of None \<Rightarrow> JNull | Some es \<Rightarrow> JObj (map (\<lambda>(k, v). (k, JStr v)) (sort_key fst es)))"

text \<open>\<^verbatim>\<open>omitempty\<close>: the member is left out for an empty string, nil or empty map, nil pointer.\<close>

definition omit_str :: "string \<Rightarrow> string \<Rightarrow> members" where
  "omit_str f s = (if s = '''' then [] else [(f, JStr s)])"

definition omit_ptr :: "string \<Rightarrow> string option \<Rightarrow> members" where
  "omit_ptr f p = (case p of None \<Rightarrow> [] | Some s \<Rightarrow> [(f, JStr s)])"

definition omit_map :: "string \<Rightarrow> (string \<times> string) list option \<Rightarrow> members" where
  "omit_map f p = (if p = None \<or> p = Some [] then [] else [(f, jMap p)])"

lemma traverse_length: "traverse f xs = Some ys \<Longrightarrow> length ys = length xs"
  by (induction xs arbitrary: ys) (auto split: option.splits)

lemma traverse_Some_iff: "traverse f xs = Some ys \<longleftrightarrow> map f xs = map Some ys"
proof (induction xs arbitrary: ys)
  case (Cons x xs)
  show ?case
  proof (cases ys)
    case Nil
    then show ?thesis by (auto split: option.splits)
  next
    case c: (Cons z zs)
    then show ?thesis using Cons [of zs] by (cases "traverse f xs") (auto split: option.splits)
  qed
qed auto

lemma traverse_None_iff: "traverse f xs = None \<longleftrightarrow> (\<exists>x\<in>set xs. f x = None)"
  by (induction xs) (auto split: option.splits)

lemma traverse_nth:
  assumes "traverse f xs = Some ys" "i < length xs"
  shows "f (xs ! i) = Some (ys ! i)"
proof -
  have m: "map f xs = map Some ys" using assms(1) by (simp add: traverse_Some_iff)
  then have "length ys = length xs" by (metis length_map)
  with m assms(2) show ?thesis by (metis nth_map)
qed

end
