(* ===== verification/GoTime.thy ===== *)
theory GoTime
  imports Prelude
begin

text \<open>
  \<^verbatim>\<open>time.Time\<close> as JSON: RFC 3339 with nanoseconds. An instant is its number of nanoseconds since
  1970-01-01 UTC, and the process runs in UTC (the image has no zone data), so what is written ends
  in \<^verbatim>\<open>Z\<close>; a numeric offset is accepted when read. Dates are proleptic Gregorian, computed in
  400-year eras that start on 1 March. Marshalling fails outside the years 0 to 9999.
\<close>

section \<open>Calendar\<close>

text \<open>The year of the era and the day of that year, for a day of the era; years start on 1 March.\<close>

definition year_of_era :: "int \<Rightarrow> int \<times> int" where
  "year_of_era doe =
     (let n100 = min 3 (doe div 36524); r = doe - n100 * 36524;
          n4 = r div 1461; r4 = r mod 1461; n1 = min 3 (r4 div 365)
      in (100 * n100 + 4 * n4 + n1, r4 - 365 * n1))"

definition civil :: "int \<Rightarrow> int \<times> int \<times> int" where
  "civil z =
     (let s = z + 719468; era = s div 146097; (yoe, doy) = year_of_era (s mod 146097);
          mp = (5 * doy + 2) div 153; d = doy - (153 * mp + 2) div 5 + 1;
          m = (if mp < 10 then mp + 3 else mp - 9)
      in (yoe + era * 400 + (if m \<le> 2 then 1 else 0), m, d))"

definition days_of :: "int \<times> int \<times> int \<Rightarrow> int" where
  "days_of = (\<lambda>(y, m, d).
     let y' = (if m \<le> 2 then y - 1 else y); era = y' div 400; yoe = y' mod 400;
         mp = (if 2 < m then m - 3 else m + 9); doy = (153 * mp + 2) div 5 + d - 1
     in era * 146097 + (yoe * 365 + yoe div 4 - yoe div 100 + doy) - 719468)"

lemma year_of_era:
  assumes "0 \<le> doe" "doe < 146097" "year_of_era doe = (yoe, doy)"
  shows "0 \<le> yoe \<and> yoe < 400 \<and> 0 \<le> doy \<and> doy \<le> 365 \<and> yoe * 365 + yoe div 4 - yoe div 100 + doy = doe"
proof -
  define n100 where "n100 = min 3 (doe div 36524)"
  define r where "r = doe - n100 * 36524"
  define n4 where "n4 = r div 1461"
  define r4 where "r4 = r mod 1461"
  define n1 where "n1 = min 3 (r4 div 365)"
  have y: "yoe = 100 * n100 + 4 * n4 + n1" and d: "doy = r4 - 365 * n1"
    using assms(3) by (simp_all add: year_of_era_def Let_def n100_def r_def n4_def r4_def n1_def)
  have n100: "0 \<le> n100" "n100 \<le> 3" using assms(1) by (auto simp: n100_def)
  have r: "0 \<le> r" "r \<le> 36524"
    using assms(1,2) unfolding r_def n100_def by (auto simp: min_def)
  have n4: "0 \<le> n4" "n4 \<le> 24" using r unfolding n4_def by linarith+
  have r4: "0 \<le> r4" "r4 < 1461" by (simp_all add: r4_def)
  have n1: "0 \<le> n1" "n1 \<le> 3" using r4 by (auto simp: n1_def)
  have doy: "0 \<le> doy" "doy \<le> 365"
    using r4 unfolding d n1_def by (auto simp: min_def)
  have "yoe div 4 = 25 * n100 + n4" using y n1 by linarith
  moreover have "yoe div 100 = n100" using y n1 n4 by linarith
  moreover have "r = n4 * 1461 + r4" by (simp add: n4_def r4_def)
  ultimately show ?thesis using y n1 n4 n100 doy d r_def by auto
qed

lemma month_bounds:
  assumes "0 \<le> doy" "doy \<le> 365"
  defines "mp \<equiv> (5 * doy + 2) div (153::int)"
  shows "0 \<le> mp" "mp \<le> 11" "1 \<le> doy - (153 * mp + 2) div 5 + 1" "doy - (153 * mp + 2) div 5 + 1 \<le> 31"
  using assms(1,2) unfolding mp_def by linarith+

lemma civil_bounds: "civil z = (y, m, d) \<Longrightarrow> 1 \<le> m \<and> m \<le> 12 \<and> 1 \<le> d \<and> d \<le> 31"
proof -
  assume c: "civil z = (y, m, d)"
  obtain yoe doy where e: "year_of_era ((z + 719468) mod 146097) = (yoe, doy)" by fastforce
  have "0 \<le> doy" "doy \<le> 365" using year_of_era [OF _ _ e] by auto
  from month_bounds [OF this] c e show ?thesis
    by (auto simp: civil_def Let_def split: if_splits)
qed

lemma days_of_civil: "days_of (civil z) = z"
proof -
  define s where "s = z + 719468"
  obtain yoe doy where e: "year_of_era (s mod 146097) = (yoe, doy)" by fastforce
  have yoe: "0 \<le> yoe" "yoe < 400" "0 \<le> doy" "doy \<le> 365"
    and doe: "yoe * 365 + yoe div 4 - yoe div 100 + doy = s mod 146097"
    using year_of_era [OF _ _ e] by auto
  define mp where "mp = (5 * doy + 2) div 153"
  have mp: "0 \<le> mp" "mp \<le> 11" using month_bounds yoe by (simp_all add: mp_def)
  define m where "m = (if mp < 10 then mp + 3 else mp - 9)"
  define d where "d = doy - (153 * mp + 2) div 5 + 1"
  have c: "civil z = (yoe + s div 146097 * 400 + (if m \<le> 2 then 1 else 0), m, d)"
    unfolding civil_def Let_def s_def [symmetric] e prod.case m_def d_def mp_def by (rule refl)
  have m: "(if 2 < m then m - 3 else m + 9) = mp" using mp by (auto simp: m_def)
  have y: "(yoe + s div 146097 * 400) div 400 = s div 146097" "(yoe + s div 146097 * 400) mod 400 = yoe"
    using yoe by simp_all
  have "yoe mod 400 = yoe" using yoe by simp
  with m have "days_of (civil z) = s div 146097 * 146097 + (yoe * 365 + yoe div 4 - yoe div 100 + doy) - 719468"
    unfolding c days_of_def Let_def prod.case by (auto simp: y d_def)
  also have "\<dots> = s - 719468" unfolding doe by simp
  finally show ?thesis by (simp add: s_def)
qed

section \<open>Text\<close>

text \<open>A number in a fixed count of decimal digits.\<close>

fun digs :: "nat \<Rightarrow> nat \<Rightarrow> string" where
  "digs 0 n = []"
| "digs (Suc w) n = digs w (n div 10) @ [digit_chr (n mod 10)]"

definition strip_zeros :: "string \<Rightarrow> string" where
  "strip_zeros s = rev (dropWhile ((=) CHR ''0'') (rev s))"

abbreviation digi :: "nat \<Rightarrow> int \<Rightarrow> string" where "digi w n \<equiv> digs w (nat n)"

definition frac_text :: "int \<Rightarrow> string" where
  "frac_text ns = (let f = strip_zeros (digi 9 ns) in if f = [] then [] else CHR ''.'' # f)"

definition day_ns :: int where "day_ns = 86400 * second"

definition format_time :: "go_time \<Rightarrow> string" where
  "format_time t =
     (let (y, m, d) = civil (t div day_ns); r = t mod day_ns; sec = r div second
      in digi 4 y @ ''-'' @ digi 2 m @ ''-'' @ digi 2 d @ ''T'' @ digi 2 (sec div 3600) @ '':''
         @ digi 2 (sec div 60 mod 60) @ '':'' @ digi 2 (sec mod 60) @ frac_text (r mod second) @ ''Z'')"

text \<open>\<^verbatim>\<open>Time.MarshalJSON\<close> (without the quotes): an error outside the years 0 to 9999.\<close>

definition year_of :: "go_time \<Rightarrow> int" where "year_of t = fst (civil (t div day_ns))"

definition marshal_time :: "go_time \<Rightarrow> string option" where
  "marshal_time t = (if 0 \<le> year_of t \<and> year_of t \<le> 9999 then Some (format_time t) else None)"

text \<open>\<^verbatim>\<open>Time.UnmarshalJSON\<close> (without the quotes).\<close>

definition num_at :: "nat \<Rightarrow> nat \<Rightarrow> string \<Rightarrow> int option" where
  "num_at i w s = map_option int (parse_digits (take w (drop i s)))"

definition parse_zone :: "string \<Rightarrow> int option" where
  "parse_zone z =
     (if z = ''Z'' then Some 0
      else if length z = 6 \<and> (z ! 0 = CHR ''+'' \<or> z ! 0 = CHR ''-'') \<and> z ! 3 = CHR '':'' then
        (case (num_at 1 2 z, num_at 4 2 z) of
           (Some h, Some m) \<Rightarrow>
             (if h \<le> 24 \<and> m < 60 then Some ((if z ! 0 = CHR ''-'' then -1 else 1) * (h * 60 + m) * minute)
              else None)
         | _ \<Rightarrow> None)
      else None)"

definition split_frac :: "string \<Rightarrow> (string \<times> string) option" where
  "split_frac s =
     (if s \<noteq> [] \<and> hd s = CHR ''.'' then
        (if tl s \<noteq> [] \<and> is_digit (hd (tl s)) then Some (takeWhile is_digit (tl s), dropWhile is_digit (tl s))
         else None)
      else Some ([], s))"

definition frac_val :: "string \<Rightarrow> int" where
  "frac_val f = (case parse_digits (take 9 (f @ replicate 9 CHR ''0'')) of None \<Rightarrow> 0 | Some n \<Rightarrow> int n)"

definition clock_ok :: "int \<Rightarrow> int \<Rightarrow> int \<Rightarrow> bool" where
  "clock_ok h mi sec \<longleftrightarrow> h < 24 \<and> mi < 60 \<and> sec < 60"

definition parse_time :: "string \<Rightarrow> go_time option" where
  "parse_time s =
     (if 20 \<le> length s \<and> s ! 4 = CHR ''-'' \<and> s ! 7 = CHR ''-'' \<and> s ! 10 = CHR ''T''
         \<and> s ! 13 = CHR '':'' \<and> s ! 16 = CHR '':'' then
        (case (num_at 0 4 s, num_at 5 2 s, num_at 8 2 s, num_at 11 2 s, num_at 14 2 s, num_at 17 2 s) of
           (Some y, Some m, Some d, Some h, Some mi, Some sec) \<Rightarrow>
             (if civil (days_of (y, m, d)) = (y, m, d) \<and> clock_ok h mi sec then
                (case split_frac (drop 19 s) of
                   None \<Rightarrow> None
                 | Some (f, z) \<Rightarrow>
                     (case parse_zone z of
                        None \<Rightarrow> None
                      | Some off \<Rightarrow>
                          Some (days_of (y, m, d) * day_ns + ((h * 60 + mi) * 60 + sec) * second + frac_val f - off)))
              else None)
         | _ \<Rightarrow> None)
      else None)"

section \<open>Round trip\<close>

lemma length_digs [simp]: "length (digs w n) = w"
  by (induction w arbitrary: n) auto

lemma digs_digits: "list_all is_digit (digs w n)"
  by (induction w arbitrary: n) auto

lemma dec_val_digs: "dec_val 0 (digs w n) = Some (n mod 10 ^ w)"
proof (induction w arbitrary: n)
  case (Suc w)
  have "10 * (n div 10 mod 10 ^ w) + n mod 10 = n mod (10 * 10 ^ w)"
    by (simp add: mod_mult2_eq)
  with Suc show ?case by (simp add: dec_val_append)
qed simp

lemma parse_digits_digs: "0 < w \<Longrightarrow> n < 10 ^ w \<Longrightarrow> parse_digits (digs w n) = Some n"
  by (auto simp: parse_digits_def dec_val_digs simp flip: length_0_conv)

lemma strip_zeros_replicate: "\<exists>k. s = strip_zeros s @ replicate k CHR ''0''"
proof -
  have "rev s = takeWhile ((=) CHR ''0'') (rev s) @ dropWhile ((=) CHR ''0'') (rev s)" by simp
  moreover have "takeWhile ((=) CHR ''0'') (rev s)
      = replicate (length (takeWhile ((=) CHR ''0'') (rev s))) CHR ''0''"
    by (rule replicate_eqI [symmetric, THEN sym]) (auto dest: set_takeWhileD)
  ultimately have "rev s = replicate (length (takeWhile ((=) CHR ''0'') (rev s))) CHR ''0''
      @ dropWhile ((=) CHR ''0'') (rev s)" by simp
  then show ?thesis
    by (metis rev_append rev_replicate rev_rev_ident strip_zeros_def)
qed

lemma frac_val_strip:
  assumes "0 \<le> ns" "ns < second"
  shows "frac_val (strip_zeros (digi 9 ns)) = ns"
proof -
  obtain k where k: "digi 9 ns = strip_zeros (digi 9 ns) @ replicate k CHR ''0''"
    using strip_zeros_replicate by blast
  define f where "f = strip_zeros (digi 9 ns)"
  have "k \<le> 9" "length f = 9 - k"
    using arg_cong [OF k, of length] by (simp_all add: f_def)
  then have "take 9 (f @ replicate 9 CHR ''0'') = f @ replicate k CHR ''0''"
    by (simp add: min_def)
  with k have "take 9 (f @ replicate 9 CHR ''0'') = digi 9 ns" by (simp add: f_def)
  moreover have "parse_digits (digi 9 ns) = Some (nat ns)"
    using assms by (intro parse_digits_digs) auto
  ultimately show ?thesis using assms by (simp add: frac_val_def f_def)
qed

lemma strip_zeros_digits: "list_all is_digit s \<Longrightarrow> list_all is_digit (strip_zeros s)"
  by (auto simp: strip_zeros_def list_all_iff dest: set_dropWhileD)

lemma split_frac_text:
  assumes "0 \<le> ns" "ns < second"
  shows "\<exists>f. split_frac (frac_text ns @ ''Z'') = Some (f, ''Z'') \<and> frac_val f = ns"
proof (cases "strip_zeros (digi 9 ns)")
  case Nil
  then show ?thesis using frac_val_strip [OF assms] by (simp add: frac_text_def split_frac_def)
next
  case (Cons c cs)
  have "list_all is_digit (c # cs)"
    using strip_zeros_digits [OF digs_digits, of 9 "nat ns"] Cons by simp
  moreover have "\<not> is_digit CHR ''Z''" by (simp add: is_digit_def)
  ultimately have "takeWhile is_digit ((c # cs) @ ''Z'') = c # cs" "dropWhile is_digit ((c # cs) @ ''Z'') = ''Z''"
    "is_digit c"
    by (auto simp: takeWhile_append dropWhile_append list_all_iff)
  then show ?thesis
    using frac_val_strip [OF assms] Cons by (simp add: frac_text_def split_frac_def)
qed

lemma digs2: obtains a b where "digs 2 n = [a, b]"
proof -
  have "length (digs 2 n) = Suc (Suc 0)" by simp
  then show thesis using that unfolding length_Suc_conv by blast
qed

lemma digs4: obtains a b c d where "digs 4 n = [a, b, c, d]"
proof -
  have "length (digs 4 n) = Suc (Suc (Suc (Suc 0)))" by simp
  then show thesis using that unfolding length_Suc_conv by blast
qed

lemma num_at_digi:
  assumes "0 \<le> n" "n < 10 ^ w" "0 < w" "take w (drop i s) = digi w n"
  shows "num_at i w s = Some n"
  using assms by (simp add: num_at_def parse_digits_digs nat_less_iff)

lemma parse_time_layout:
  assumes "0 \<le> y" "y \<le> 9999" "0 \<le> m" "m < 100" "0 \<le> d" "d < 100" "0 \<le> h" "h < 24"
    "0 \<le> mi" "mi < 60" "0 \<le> sec" "sec < 60" "0 \<le> ns" "ns < second"
    and "civil (days_of (y, m, d)) = (y, m, d)"
  shows "parse_time (digi 4 y @ ''-'' @ digi 2 m @ ''-'' @ digi 2 d @ ''T'' @ digi 2 h @ '':''
      @ digi 2 mi @ '':'' @ digi 2 sec @ frac_text ns @ ''Z'')
    = Some (days_of (y, m, d) * day_ns + ((h * 60 + mi) * 60 + sec) * second + ns)"
proof -
  obtain y1 y2 y3 y4 where y: "digi 4 y = [y1, y2, y3, y4]" by (rule digs4)
  obtain m1 m2 where m: "digi 2 m = [m1, m2]" by (rule digs2)
  obtain d1 d2 where d: "digi 2 d = [d1, d2]" by (rule digs2)
  obtain h1 h2 where h: "digi 2 h = [h1, h2]" by (rule digs2)
  obtain i1 i2 where i: "digi 2 mi = [i1, i2]" by (rule digs2)
  obtain s1 s2 where s: "digi 2 sec = [s1, s2]" by (rule digs2)
  define S where "S = [y1, y2, y3, y4, CHR ''-'', m1, m2, CHR ''-'', d1, d2, CHR ''T'', h1, h2, CHR '':'', i1, i2,
      CHR '':'', s1, s2] @ frac_text ns @ ''Z''"
  have num: "num_at 0 4 S = Some y" "num_at 5 2 S = Some m" "num_at 8 2 S = Some d"
    "num_at 11 2 S = Some h" "num_at 14 2 S = Some mi" "num_at 17 2 S = Some sec"
    by (rule num_at_digi; use assms in \<open>simp add: S_def y m d h i s\<close>)+
  have marks: "20 \<le> length S" "S ! 4 = CHR ''-''" "S ! 7 = CHR ''-''" "S ! 10 = CHR ''T''"
    "S ! 13 = CHR '':''" "S ! 16 = CHR '':''" "drop 19 S = frac_text ns @ ''Z''"
    by (simp_all add: S_def)
  obtain f where f: "split_frac (frac_text ns @ ''Z'') = Some (f, ''Z'')" "frac_val f = ns"
    using split_frac_text assms by blast
  have "parse_time S = Some (days_of (y, m, d) * day_ns + ((h * 60 + mi) * 60 + sec) * second + ns)"
    using assms f by (simp add: parse_time_def num marks parse_zone_def clock_ok_def)
  then show ?thesis by (simp add: S_def y m d h i s)
qed

lemma parse_format_time:
  assumes "marshal_time t = Some s"
  shows "parse_time s = Some t"
proof -
  obtain y m d where c: "civil (t div day_ns) = (y, m, d)" by (cases "civil (t div day_ns)")
  have y: "0 \<le> y" "y \<le> 9999" and s: "s = format_time t"
    using assms c by (auto simp: marshal_time_def year_of_def split: if_splits)
  have md: "1 \<le> m" "m \<le> 12" "1 \<le> d" "d \<le> 31" using civil_bounds [OF c] by auto
  have day: "days_of (y, m, d) = t div day_ns" using days_of_civil [of "t div day_ns"] c by simp
  define r where "r = t mod day_ns"
  define sec where "sec = r div second"
  have r: "0 \<le> r" "r < day_ns" by (simp_all add: r_def day_ns_def)
  then have sec: "0 \<le> sec" "sec < 86400" by (auto simp: sec_def day_ns_def)
  have bounds: "0 \<le> sec div 3600" "sec div 3600 < 24" "0 \<le> sec div 60 mod 60" "sec div 60 mod 60 < 60"
    "0 \<le> sec mod 60" "sec mod 60 < 60" "0 \<le> r mod second" "r mod second < second"
    using sec by auto
  have "parse_time s = Some (days_of (y, m, d) * day_ns
      + ((sec div 3600 * 60 + sec div 60 mod 60) * 60 + sec mod 60) * second + r mod second)"
    unfolding s format_time_def c Let_def prod.case r_def [symmetric] sec_def [symmetric]
    by (rule parse_time_layout [OF y _ _ _ _ bounds]) (use md day c in simp_all)
  also have "(sec div 3600 * 60 + sec div 60 mod 60) * 60 + sec mod 60 = sec"
    using div_mult_mod_eq [of "sec div 60" 60] div_mult_mod_eq [of sec 60]
    by (simp add: zdiv_zmult2_eq [symmetric])
  also have "days_of (y, m, d) * day_ns + sec * second + r mod second = t"
    unfolding day sec_def r_def by (metis add.assoc div_mult_mod_eq mult.commute)
  finally show ?thesis .
qed

end
