(* ===== verification/AesGcm.thy ===== *)
theory AesGcm
  imports Prelude
begin

text \<open>
  AES-256-GCM, the cipher behind \<^verbatim>\<open>aes.NewCipher\<close> and \<^verbatim>\<open>cipher.NewGCM\<close> (FIPS 197 and NIST
  SP 800-38D, 12-byte nonces, 16-byte tags, no additional data), as executable functions on bytes.
  The lemmas at the end are what the session store relies on: a sealed text opens to its plaintext,
  and nothing else opens. They are stated as the interface \<open>aead\<close> of \<^verbatim>\<open>cipher.AEAD\<close>.
\<close>

unbundle bit_operations_syntax

type_synonym byte = "8 word"

definition bytes_of :: "bytes \<Rightarrow> byte list" where
  "bytes_of s = map (\<lambda>c. word_of_nat (ord c)) s"

definition string_of :: "byte list \<Rightarrow> bytes" where
  "string_of bs = map (\<lambda>b. chr (unat b)) bs"

section \<open>The block cipher\<close>

definition sbox_table :: "nat list" where
  "sbox_table = [
     99, 124, 119, 123, 242, 107, 111, 197, 48, 1, 103, 43, 254, 215, 171, 118,
     202, 130, 201, 125, 250, 89, 71, 240, 173, 212, 162, 175, 156, 164, 114, 192,
     183, 253, 147, 38, 54, 63, 247, 204, 52, 165, 229, 241, 113, 216, 49, 21,
     4, 199, 35, 195, 24, 150, 5, 154, 7, 18, 128, 226, 235, 39, 178, 117,
     9, 131, 44, 26, 27, 110, 90, 160, 82, 59, 214, 179, 41, 227, 47, 132,
     83, 209, 0, 237, 32, 252, 177, 91, 106, 203, 190, 57, 74, 76, 88, 207,
     208, 239, 170, 251, 67, 77, 51, 133, 69, 249, 2, 127, 80, 60, 159, 168,
     81, 163, 64, 143, 146, 157, 56, 245, 188, 182, 218, 33, 16, 255, 243, 210,
     205, 12, 19, 236, 95, 151, 68, 23, 196, 167, 126, 61, 100, 93, 25, 115,
     96, 129, 79, 220, 34, 42, 144, 136, 70, 238, 184, 20, 222, 94, 11, 219,
     224, 50, 58, 10, 73, 6, 36, 92, 194, 211, 172, 98, 145, 149, 228, 121,
     231, 200, 55, 109, 141, 213, 78, 169, 108, 86, 244, 234, 101, 122, 174, 8,
     186, 120, 37, 46, 28, 166, 180, 198, 232, 221, 116, 31, 75, 189, 139, 138,
     112, 62, 181, 102, 72, 3, 246, 14, 97, 53, 87, 185, 134, 193, 29, 158,
     225, 248, 152, 17, 105, 217, 142, 148, 155, 30, 135, 233, 206, 85, 40, 223,
     140, 161, 137, 13, 191, 230, 66, 104, 65, 153, 45, 15, 176, 84, 187, 22]"

definition sbox :: "byte \<Rightarrow> byte" where
  "sbox b = word_of_nat (sbox_table ! unat b)"

definition xor_list :: "'a::semiring_bit_operations list \<Rightarrow> 'a list \<Rightarrow> 'a list" where
  "xor_list a b = map (\<lambda>(x, y). x XOR y) (zip a b)"

definition xtime :: "byte \<Rightarrow> byte" where
  "xtime b = push_bit 1 b XOR (if bit b 7 then 0x1b else 0)"

definition shift_rows :: "byte list \<Rightarrow> byte list" where
  "shift_rows s = map (\<lambda>i. s ! ((i + 4 * (i mod 4)) mod 16)) [0..<16]"

definition mix_column :: "byte list \<Rightarrow> byte list" where
  "mix_column c = map (\<lambda>i. xtime (c ! i) XOR (xtime (c ! ((i + 1) mod 4)) XOR c ! ((i + 1) mod 4))
                            XOR c ! ((i + 2) mod 4) XOR c ! ((i + 3) mod 4)) [0..<4]"

definition mix_columns :: "byte list \<Rightarrow> byte list" where
  "mix_columns s = concat (map (\<lambda>j. mix_column (take 4 (drop (4 * j) s))) [0..<4])"

text \<open>The key schedule for a 32-byte key: 60 words of four bytes.\<close>

definition rcon :: "nat \<Rightarrow> byte" where
  "rcon i = push_bit (i - 1) 1"

definition next_word :: "byte list list \<Rightarrow> byte list" where
  "next_word ws =
     (let i = length ws; t = last ws;
          u = (if i mod 8 = 0 then xor_list (map sbox (rotate1 t)) [rcon (i div 8), 0, 0, 0]
               else if i mod 8 = 4 then map sbox t else t)
      in xor_list (ws ! (i - 8)) u)"

definition key_words :: "byte list \<Rightarrow> byte list list" where
  "key_words k = ((\<lambda>ws. ws @ [next_word ws]) ^^ 52) (map (\<lambda>j. take 4 (drop (4 * j) k)) [0..<8])"

definition round_key :: "byte list list \<Rightarrow> nat \<Rightarrow> byte list" where
  "round_key ws r = concat (take 4 (drop (4 * r) ws))"

definition aes_block :: "byte list \<Rightarrow> byte list \<Rightarrow> byte list" where
  "aes_block k p =
     (let ws = key_words k;
          s0 = xor_list p (round_key ws 0);
          s13 = fold (\<lambda>r s. xor_list (mix_columns (shift_rows (map sbox s))) (round_key ws r)) [1..<14] s0
      in xor_list (shift_rows (map sbox s13)) (round_key ws 14))"

section \<open>Galois counter mode\<close>

definition block_word :: "byte list \<Rightarrow> 128 word" where
  "block_word bs = fold (\<lambda>b acc. push_bit 8 acc OR ucast b) (bs @ replicate (16 - length bs) 0) 0"

definition word_block :: "128 word \<Rightarrow> byte list" where
  "word_block w = map (\<lambda>i. ucast (drop_bit (8 * (15 - i)) w)) [0..<16]"

definition gf_mul :: "128 word \<Rightarrow> 128 word \<Rightarrow> 128 word" where
  "gf_mul x y =
     fst (fold (\<lambda>i (z, v).
            (if bit x (127 - i) then z XOR v else z,
             drop_bit 1 v XOR (if bit v 0 then push_bit 120 0xe1 else 0)))
          [0..<128] (0, y))"

fun chunks16 :: "'a list \<Rightarrow> 'a list list" where
  "chunks16 [] = []"
| "chunks16 (x # xs) = take 16 (x # xs) # chunks16 (drop 15 xs)"

definition ghash :: "128 word \<Rightarrow> 128 word list \<Rightarrow> 128 word" where
  "ghash h xs = fold (\<lambda>x y. gf_mul (y XOR x) h) xs 0"

definition counter_block :: "byte list \<Rightarrow> nat \<Rightarrow> byte list" where
  "counter_block nonce i =
     nonce @ map (\<lambda>j. word_of_nat (i div 256 ^ (3 - j) mod 256)) [0..<4]"

definition block16 :: "byte list \<Rightarrow> byte list" where
  "block16 b = take 16 (b @ replicate 16 0)"

definition key_stream :: "byte list \<Rightarrow> byte list \<Rightarrow> nat \<Rightarrow> byte list" where
  "key_stream k nonce n =
     take n (concat (map (\<lambda>i. block16 (aes_block k (counter_block nonce (i + 2)))) [0..<n div 16 + 1]))"

definition gcm_tag :: "byte list \<Rightarrow> byte list \<Rightarrow> byte list \<Rightarrow> byte list" where
  "gcm_tag k nonce c =
     word_block
       (ghash (block_word (aes_block k (replicate 16 0)))
          (map block_word (chunks16 c) @ [word_of_nat (8 * length c)])
        XOR block_word (aes_block k (counter_block nonce 1)))"

text \<open>\<^verbatim>\<open>gcm.Seal(nil, nonce, plaintext, nil)\<close> and \<^verbatim>\<open>gcm.Open(nil, nonce, ciphertext, nil)\<close>.\<close>

definition gcm_nonce_size :: nat where "gcm_nonce_size = 12"

definition gcm_seal :: "bytes \<Rightarrow> bytes \<Rightarrow> bytes \<Rightarrow> bytes" where
  "gcm_seal key nonce pt =
     (let k = bytes_of key; n = bytes_of nonce; p = bytes_of pt;
          c = xor_list p (key_stream k n (length p))
      in string_of (c @ gcm_tag k n c))"

definition gcm_open :: "bytes \<Rightarrow> bytes \<Rightarrow> bytes \<Rightarrow> bytes option" where
  "gcm_open key nonce ct =
     (if length ct < 16 then None
      else let k = bytes_of key; n = bytes_of nonce; b = bytes_of ct;
               c = take (length b - 16) b; t = drop (length b - 16) b
           in if gcm_tag k n c = t then Some (string_of (xor_list c (key_stream k n (length c)))) else None)"

section \<open>Correctness of the mode\<close>

lemma string_of_bytes_of [simp]: "string_of (bytes_of s) = s"
  by (induction s) (simp_all add: string_of_def bytes_of_def unat_of_nat)

lemma bytes_of_string_of [simp]: "bytes_of (string_of b) = b"
proof (induction b)
  case (Cons x xs)
  have "unat x < 256" using unsigned_less [of x] by simp
  with Cons show ?case by (simp add: string_of_def bytes_of_def)
qed (simp add: string_of_def bytes_of_def)

lemma length_bytes_of [simp]: "length (bytes_of s) = length s"
  by (simp add: bytes_of_def)

lemma length_string_of [simp]: "length (string_of s) = length s"
  by (simp add: string_of_def)

lemma length_xor_list [simp]: "length (xor_list a b) = min (length a) (length b)"
  by (simp add: xor_list_def)

lemma xor_list_cancel:
  fixes a :: "'a::ring_bit_operations list"
  shows "length a \<le> length b \<Longrightarrow> xor_list (xor_list a b) b = a"
proof (induction a arbitrary: b)
  case (Cons x a)
  then show ?case by (cases b) (simp_all add: xor_list_def xor.assoc)
qed (simp add: xor_list_def)

lemma length_block16 [simp]: "length (block16 b) = 16"
  by (simp add: block16_def)

lemma length_key_stream [simp]: "length (key_stream k n m) = m"
proof -
  have "length (concat (map (\<lambda>i. block16 (aes_block k (counter_block n (i + 2)))) [0..<m div 16 + 1]))
      = 16 * (m div 16 + 1)"
    by (simp add: length_concat o_def sum_list_triv)
  then show ?thesis by (simp add: key_stream_def)
qed

lemma length_gcm_tag [simp]: "length (gcm_tag k n c) = 16"
  by (simp add: gcm_tag_def word_block_def)

lemma length_gcm_seal: "length (gcm_seal k n p) = length p + 16"
  by (simp add: gcm_seal_def Let_def)

lemma gcm_open_seal: "gcm_open k n (gcm_seal k n p) = Some p"
  by (simp add: gcm_open_def gcm_seal_def Let_def xor_list_cancel)

lemma gcm_open_authentic:
  assumes "gcm_open k n c = Some p"
  shows "c = gcm_seal k n p"
proof -
  define b where "b = bytes_of c"
  define body where "body = take (length b - 16) b"
  from assms have len: "16 \<le> length b"
    and tag: "gcm_tag (bytes_of k) (bytes_of n) body = drop (length b - 16) b"
    and p: "bytes_of p = xor_list body (key_stream (bytes_of k) (bytes_of n) (length body))"
    by (auto simp: gcm_open_def Let_def b_def body_def split: if_splits)
  have "xor_list (bytes_of p) (key_stream (bytes_of k) (bytes_of n) (length (bytes_of p))) = body"
    unfolding p by (simp add: xor_list_cancel)
  then have "bytes_of (gcm_seal k n p) = body @ drop (length b - 16) b"
    using tag by (simp add: gcm_seal_def Let_def)
  also have "\<dots> = bytes_of c" by (simp add: body_def b_def)
  finally show ?thesis by (metis string_of_bytes_of)
qed

section \<open>The interface\<close>

locale aead =
  fixes seal :: "bytes \<Rightarrow> bytes \<Rightarrow> bytes \<Rightarrow> bytes"
    and unseal :: "bytes \<Rightarrow> bytes \<Rightarrow> bytes \<Rightarrow> bytes option"
    and overhead :: nat
  assumes unseal_seal: "unseal k n (seal k n p) = Some p"
    and unseal_authentic: "unseal k n c = Some p \<Longrightarrow> c = seal k n p"
    and length_seal: "length (seal k n p) = length p + overhead"
begin

lemma unseal_iff: "unseal k n c = Some p \<longleftrightarrow> c = seal k n p"
  using unseal_seal unseal_authentic by blast

lemma seal_inject: "seal k n p = seal k n q \<longleftrightarrow> p = q"
  using unseal_iff by (metis option.inject)

lemma seal_nonempty: "0 < overhead \<Longrightarrow> seal k n p \<noteq> []"
  using length_seal [of k n p] by auto

end

interpretation gcm: aead gcm_seal gcm_open 16
  by unfold_locales (simp_all add: gcm_open_seal gcm_open_authentic length_gcm_seal)

end
