(* ===== verification/Session.thy ===== *)
theory Session
  imports Backend Base64 JsonDecode GoTime AesGcm
begin

text \<open>
  \<^verbatim>\<open>internal/session/crypto.go\<close> and \<^verbatim>\<open>store.go\<close>: the encryptor (AES-256-GCM with a random nonce in
  front), the two record types with their JSON form, and the store's operations over a backend.
\<close>

section \<open>Encryptor (crypto.go)\<close>

definition SessionKeySize :: nat where "SessionKeySize = 32"

record encryptor =
  enc_key :: bytes

definition newEncryptor :: "bytes \<Rightarrow> encryptor option" where
  "newEncryptor key = (if length key \<noteq> SessionKeySize then None else Some \<lparr>enc_key = key\<rparr>)"

text \<open>The nonce is read from the random source and put in front of what GCM returns.\<close>

definition enc_seal :: "encryptor \<Rightarrow> bytes \<Rightarrow> ('s, 'i) world \<Rightarrow> bytes option \<times> ('s, 'i) world" where
  "enc_seal e plaintext w =
     (case read_random gcm_nonce_size w of
        (None, w1) \<Rightarrow> (None, w1)
      | (Some nonce, w1) \<Rightarrow> (Some (nonce @ gcm_seal (enc_key e) nonce plaintext), w1))"

definition enc_open :: "encryptor \<Rightarrow> bytes \<Rightarrow> bytes option" where
  "enc_open e ciphertext =
     (if length ciphertext < gcm_nonce_size then None
      else gcm_open (enc_key e) (take gcm_nonce_size ciphertext) (drop gcm_nonce_size ciphertext))"

lemma enc_open_seal:
  "enc_seal e p w = (Some c, w') \<Longrightarrow> enc_open e c = Some p"
  by (auto simp: enc_seal_def enc_open_def gcm.unseal_seal dest!: read_random_Some split: prod.splits option.splits)

lemma enc_open_authentic:
  assumes "enc_open e c = Some p"
  shows "\<exists>nonce. length nonce = gcm_nonce_size \<and> c = nonce @ gcm_seal (enc_key e) nonce p"
proof (intro exI conjI)
  show "length (take gcm_nonce_size c) = gcm_nonce_size"
    using assms by (auto simp: enc_open_def split: if_splits)
  have "drop gcm_nonce_size c = gcm_seal (enc_key e) (take gcm_nonce_size c) p"
    using assms by (auto simp: enc_open_def gcm.unseal_iff split: if_splits)
  then show "c = take gcm_nonce_size c @ gcm_seal (enc_key e) (take gcm_nonce_size c) p"
    by (metis append_take_drop_id)
qed

lemma quiet_enc_seal: "enc_seal e p w = (r, w') \<Longrightarrow> quiet w w'"
  by (auto simp: enc_seal_def split: prod.splits option.splits dest: quiet_read_random)

section \<open>Records and their JSON form (store.go)\<close>

record Record =
  Subject :: string
  IDToken :: string
  ExpiresAt :: go_time
  CreatedAt :: go_time
  CSRFToken :: string

record LoginTransaction =
  Nonce :: string
  PKCEVerifier :: string
  TxnCreatedAt :: go_time

text \<open>\<^verbatim>\<open>json.Marshal\<close>: an error when a time does not marshal.\<close>

definition marshalRecord :: "Record \<Rightarrow> string option" where
  "marshalRecord rec =
     (case (marshal_time (ExpiresAt rec), marshal_time (CreatedAt rec)) of
        (Some e, Some c) \<Rightarrow> Some (json_print (JObj
          [(''subject'', JStr (Subject rec)), (''id_token'', JStr (IDToken rec)), (''expires_at'', JStr e),
           (''created_at'', JStr c), (''csrf_token'', JStr (CSRFToken rec))]))
      | _ \<Rightarrow> None)"

definition marshalTxn :: "LoginTransaction \<Rightarrow> string option" where
  "marshalTxn txn =
     (case marshal_time (TxnCreatedAt txn) of
        Some c \<Rightarrow> Some (json_print (JObj
          [(''nonce'', JStr (Nonce txn)), (''pkce_verifier'', JStr (PKCEVerifier txn)), (''created_at'', JStr c)]))
      | None \<Rightarrow> None)"

definition zero_time :: go_time where "zero_time = -62135596800 * second"

definition into_time :: "go_time \<Rightarrow> json \<Rightarrow> go_time option" where
  "into_time t v = (case v of JNull \<Rightarrow> Some t | JStr s \<Rightarrow> parse_time s | _ \<Rightarrow> None)"

definition fTime :: "string \<Rightarrow> members \<Rightarrow> go_time option" where
  "fTime f ms = fold_opt into_time zero_time (jvals f ms)"

definition unmarshalRecord :: "string \<Rightarrow> Record option" where
  "unmarshalRecord s =
     (case Option.bind (json_parse s) top_struct of
        None \<Rightarrow> None
      | Some ms \<Rightarrow>
          (case (fString ''subject'' ms, fString ''id_token'' ms, fTime ''expires_at'' ms,
                 fTime ''created_at'' ms, fString ''csrf_token'' ms) of
             (Some su, Some idt, Some ex, Some cr, Some cs) \<Rightarrow>
               Some \<lparr>Subject = su, IDToken = idt, ExpiresAt = ex, CreatedAt = cr, CSRFToken = cs\<rparr>
           | _ \<Rightarrow> None))"

definition unmarshalTxn :: "string \<Rightarrow> LoginTransaction option" where
  "unmarshalTxn s =
     (case Option.bind (json_parse s) top_struct of
        None \<Rightarrow> None
      | Some ms \<Rightarrow>
          (case (fString ''nonce'' ms, fString ''pkce_verifier'' ms, fTime ''created_at'' ms) of
             (Some no, Some ve, Some cr) \<Rightarrow> Some \<lparr>Nonce = no, PKCEVerifier = ve, TxnCreatedAt = cr\<rparr>
           | _ \<Rightarrow> None))"

text \<open>Strings the JSON form keeps: valid UTF-8.\<close>

definition record_text_ok :: "Record \<Rightarrow> bool" where
  "record_text_ok rec \<longleftrightarrow> valid_utf8 (Subject rec) \<and> valid_utf8 (IDToken rec) \<and> valid_utf8 (CSRFToken rec)"

definition txn_text_ok :: "LoginTransaction \<Rightarrow> bool" where
  "txn_text_ok txn \<longleftrightarrow> valid_utf8 (Nonce txn) \<and> valid_utf8 (PKCEVerifier txn)"

lemma valid_utf8_ascii: "list_all (\<lambda>c. ord c < 128) s \<Longrightarrow> valid_utf8 s"
  by (induction s) (auto simp: Let_def)

lemma valid_utf8_append_ascii: "list_all (\<lambda>c. ord c < 128) s \<Longrightarrow> valid_utf8 (s @ t) = valid_utf8 t"
  by (induction s) (auto simp: Let_def)

lemma digit_ascii: "is_digit c \<Longrightarrow> ord c < 128"
  by (simp add: is_digit_def)

lemma digs_ascii: "list_all (\<lambda>c. ord c < 128) (digs w n)"
  using digs_digits [of w n] digit_ascii by (auto simp: list_all_iff)

lemma marshal_time_utf8:
  assumes "marshal_time t = Some s"
  shows "valid_utf8 s"
proof -
  have "list_all is_digit (strip_zeros (digs 9 n))" for n
    by (intro strip_zeros_digits digs_digits)
  then have "list_all (\<lambda>c. ord c < 128) (strip_zeros (digs 9 n))" for n
    using digit_ascii by (auto simp: list_all_iff)
  then have "list_all (\<lambda>c. ord c < 128) (format_time t)"
    by (simp add: format_time_def frac_text_def Let_def digs_ascii split: prod.split)
  with assms show ?thesis by (auto simp: marshal_time_def valid_utf8_ascii split: if_splits)
qed

lemma url_safe_ascii: "url_safe c \<Longrightarrow> ord c < 128"
  by (auto simp: url_safe_def is_alnum_def is_digit_def is_lower_def is_upper_def)

lemma rawURLEncode_utf8: "valid_utf8 (rawURLEncode bs)"
  using rawURLEncode_safe [of bs] url_safe_ascii by (intro valid_utf8_ascii) (auto simp: list_all_iff)

lemma utf8_lits [simp]:
  "valid_utf8 ''subject''" "valid_utf8 ''id_token''" "valid_utf8 ''expires_at''"
  "valid_utf8 ''created_at''" "valid_utf8 ''csrf_token''" "valid_utf8 ''nonce''" "valid_utf8 ''pkce_verifier''"
  by (simp_all add: valid_utf8_ascii)

lemma fold_names [simp]:
  "fold_name ''subject'' = ''subject''" "fold_name ''id_token'' = ''id_token''"
  "fold_name ''expires_at'' = ''expires_at''" "fold_name ''created_at'' = ''created_at''"
  "fold_name ''csrf_token'' = ''csrf_token''" "fold_name ''nonce'' = ''nonce''"
  "fold_name ''pkce_verifier'' = ''pkce_verifier''"
  by (simp_all add: is_upper_def)

lemma unmarshal_marshalRecord:
  assumes "marshalRecord rec = Some s" "record_text_ok rec"
  shows "unmarshalRecord s = Some rec"
  using assms
  by (auto simp: marshalRecord_def unmarshalRecord_def record_text_ok_def json_parse_print marshal_time_utf8
      top_struct_def into_defs fString_def fTime_def into_time_def jvals_def parse_format_time
      split: option.splits simp del: json_print.simps fold_name.simps)

lemma unmarshal_marshalTxn:
  assumes "marshalTxn txn = Some s" "txn_text_ok txn"
  shows "unmarshalTxn s = Some txn"
  using assms
  by (auto simp: marshalTxn_def unmarshalTxn_def txn_text_ok_def json_parse_print marshal_time_utf8
      top_struct_def into_defs fString_def fTime_def into_time_def jvals_def parse_format_time
      split: option.splits simp del: json_print.simps fold_name.simps)

end
