(* ===== verification/Config.thy ===== *)
theory Config
  imports Session
begin

text \<open>
  \<^verbatim>\<open>internal/config\<close>: loading the configuration from the environment, which collects every
  problem before it fails, and the TLS configuration of the Redis connection. The environment is a
  function from names to values (empty when unset), as \<^verbatim>\<open>os.Getenv\<close> reads it. An error keeps
  its kind and its variable; the text around it is left out.
\<close>

section \<open>strings.Fields\<close>

text \<open>
  The number of bytes of the white space a string starts with, 0 for none: the ASCII ones and the
  other characters of \<^verbatim>\<open>unicode.IsSpace\<close> in UTF-8.
\<close>

definition space_len :: "string \<Rightarrow> nat" where
  "space_len s =
     (if s = [] then 0
      else if hd s = CHR '' '' \<or> (9 \<le> ord (hd s) \<and> ord (hd s) \<le> 13) then 1
      else if take 2 s \<in> {[CHR 0xC2, CHR 0x85], [CHR 0xC2, CHR 0xA0]} then 2
      else if take 3 s \<in> {[CHR 0xE1, CHR 0x9A, CHR 0x80], [CHR 0xE2, CHR 0x80, CHR 0xA8], [CHR 0xE2, CHR 0x80, CHR 0xA9],
                          [CHR 0xE2, CHR 0x80, CHR 0xAF], [CHR 0xE2, CHR 0x81, CHR 0x9F], [CHR 0xE3, CHR 0x80, CHR 0x80]}
              \<or> (take 2 s = [CHR 0xE2, CHR 0x80] \<and> 2 < length s \<and> 128 \<le> ord (s ! 2) \<and> ord (s ! 2) \<le> 138)
           then 3 else 0)"

text \<open>\<open>acc\<close> is the field being read, backwards; an empty field is dropped.\<close>

function fields_from :: "string \<Rightarrow> string \<Rightarrow> string list" where
  "fields_from acc s =
     (if s = [] then (if acc = [] then [] else [rev acc])
      else if 0 < space_len s
        then (if acc = [] then [] else [rev acc]) @ fields_from [] (drop (space_len s) s)
      else fields_from (hd s # acc) (tl s))"
  by pat_completeness auto
termination
  by (relation "measure (length \<circ> snd)") (auto simp: neq_Nil_conv)

declare fields_from.simps [simp del]

definition splitScopes :: "string \<Rightarrow> string list" where
  "splitScopes v = fields_from [] v"

section \<open>Load\<close>

type_synonym environ = "string \<Rightarrow> string"

definition getEnvDefault :: "environ \<Rightarrow> string \<Rightarrow> string \<Rightarrow> string" where
  "getEnvDefault env name def = (if env name \<noteq> '''' then env name else def)"

record OIDCConfig =
  IssuerURL :: string
  ClientID :: string
  ClientSecret :: string
  Scopes :: "string list"

record SessionConfig =
  RedisAddr :: string
  RedisUsername :: string
  RedisPassword :: string
  RedisTLS :: bool
  RedisCAFile :: string
  EncryptionKey :: bytes

record UpstreamConfig =
  CapsuleProxyURL :: string

record Config =
  ListenAddr :: string
  ExternalURL :: string
  Insecure :: bool
  OIDC :: OIDCConfig
  Session :: SessionConfig
  Upstream :: UpstreamConfig

datatype config_error =
    IsRequired string
  | NotBool string
  | KeyNotBase64
  | KeyLength nat
  | NotHttps

text \<open>The closure \<^verbatim>\<open>req\<close>: the value, and the error it appends when the variable is empty.\<close>

definition req :: "environ \<Rightarrow> string \<Rightarrow> string \<times> config_error list" where
  "req env name = (env name, if env name = '''' then [IsRequired name] else [])"

text \<open>An optional boolean variable: false with an error when it does not parse.\<close>

definition opt_bool :: "environ \<Rightarrow> string \<Rightarrow> bool \<times> config_error list" where
  "opt_bool env name =
     (if env name = '''' then (False, [])
      else case parseBool (env name) of None \<Rightarrow> (False, [NotBool name]) | Some b \<Rightarrow> (b, []))"

definition encryption_key :: "string \<Rightarrow> bytes \<times> config_error list" where
  "encryption_key keyB64 =
     (if keyB64 = '''' then ([], [])
      else case stdDecode keyB64 of
        None \<Rightarrow> ([], [KeyNotBase64])
      | Some key \<Rightarrow> if length key \<noteq> SessionKeySize then ([], [KeyLength (length key)]) else (key, []))"

definition Load :: "environ \<Rightarrow> config_error list + Config" where
  "Load env =
     (let listen = getEnvDefault env ''TENANTDECK_LISTEN_ADDR'' '':8080'';
          (external, e1) = req env ''TENANTDECK_EXTERNAL_URL'';
          (issuer, e2) = req env ''TENANTDECK_OIDC_ISSUER_URL'';
          (clientID, e3) = req env ''TENANTDECK_OIDC_CLIENT_ID'';
          (clientSecret, e4) = req env ''TENANTDECK_OIDC_CLIENT_SECRET'';
          scopes = splitScopes (getEnvDefault env ''TENANTDECK_OIDC_SCOPES'' ''openid profile'');
          (redisAddr, e5) = req env ''TENANTDECK_REDIS_ADDR'';
          (capsuleURL, e6) = req env ''TENANTDECK_CAPSULE_PROXY_URL'';
          (insecure, e7) = opt_bool env ''TENANTDECK_INSECURE'';
          (redisTLS, e8) = opt_bool env ''TENANTDECK_REDIS_TLS'';
          (keyB64, e9) = req env ''TENANTDECK_SESSION_ENCRYPTION_KEY'';
          (key, e10) = encryption_key keyB64;
          e11 = (if \<not> insecure \<and> prefix ''http://'' external then [NotHttps] else []);
          errs = e1 @ e2 @ e3 @ e4 @ e5 @ e6 @ e7 @ e8 @ e9 @ e10 @ e11
      in if 0 < length errs then Inl errs
         else Inr \<lparr>ListenAddr = listen, ExternalURL = external, Insecure = insecure,
           OIDC = \<lparr>IssuerURL = issuer, ClientID = clientID, ClientSecret = clientSecret, Scopes = scopes\<rparr>,
           Session = \<lparr>RedisAddr = redisAddr, RedisUsername = env ''TENANTDECK_REDIS_USERNAME'',
             RedisPassword = env ''TENANTDECK_REDIS_PASSWORD'', RedisTLS = redisTLS,
             RedisCAFile = env ''TENANTDECK_REDIS_CA_FILE'', EncryptionKey = key\<rparr>,
           Upstream = \<lparr>CapsuleProxyURL = capsuleURL\<rparr>\<rparr>)"

section \<open>BuildRedisTLSConfig (redis_tls.go)\<close>

text \<open>
  \<open>tls_roots = None\<close> trusts the system's certificates. \<open>read_file\<close> is \<^verbatim>\<open>os.ReadFile\<close>, and
  \<open>pem_certs\<close> lists the certificates \<^verbatim>\<open>AppendCertsFromPEM\<close> finds (it returns false for none).
\<close>

record 'cert tls_config =
  tls_roots :: "'cert list option"

datatype tls_error = CAUnreadable | CANoCertificates

definition BuildRedisTLSConfig ::
    "(string \<Rightarrow> bytes option) \<Rightarrow> (bytes \<Rightarrow> 'cert list) \<Rightarrow> SessionConfig \<Rightarrow> tls_error + 'cert tls_config option" where
  "BuildRedisTLSConfig read_file pem_certs s =
     (if \<not> RedisTLS s then Inr None
      else if RedisCAFile s = '''' then Inr (Some \<lparr>tls_roots = None\<rparr>)
      else case read_file (RedisCAFile s) of
        None \<Rightarrow> Inl CAUnreadable
      | Some pem \<Rightarrow>
          (let pool = pem_certs pem
           in if pool = [] then Inl CANoCertificates else Inr (Some \<lparr>tls_roots = Some pool\<rparr>)))"

section \<open>What a loaded configuration guarantees\<close>

definition required_vars :: "string list" where
  "required_vars = [''TENANTDECK_EXTERNAL_URL'', ''TENANTDECK_OIDC_ISSUER_URL'', ''TENANTDECK_OIDC_CLIENT_ID'',
     ''TENANTDECK_OIDC_CLIENT_SECRET'', ''TENANTDECK_REDIS_ADDR'', ''TENANTDECK_CAPSULE_PROXY_URL'',
     ''TENANTDECK_SESSION_ENCRYPTION_KEY'']"

definition bool_var_ok :: "environ \<Rightarrow> string \<Rightarrow> bool" where
  "bool_var_ok env name \<longleftrightarrow> env name = '''' \<or> parseBool (env name) \<noteq> None"

definition insecure_mode :: "environ \<Rightarrow> bool" where
  "insecure_mode env \<longleftrightarrow> parseBool (env ''TENANTDECK_INSECURE'') = Some True"

lemma opt_bool_ok: "snd (opt_bool env n) = [] \<longleftrightarrow> bool_var_ok env n"
  by (auto simp: opt_bool_def bool_var_ok_def split: option.split)

lemma parseBool_empty: "parseBool '''' = None"
  by (simp add: parseBool_def)

lemma opt_bool_value: "fst (opt_bool env n) \<longleftrightarrow> parseBool (env n) = Some True"
  by (auto simp: opt_bool_def parseBool_empty split: option.split)

lemma encryption_key_ok: "snd (encryption_key k) = [] \<longleftrightarrow> k = '''' \<or> (\<exists>key. stdDecode k = Some key \<and> length key = SessionKeySize)"
  by (auto simp: encryption_key_def split: option.split)

lemma encryption_key_value: "stdDecode k = Some key \<Longrightarrow> length key = SessionKeySize \<Longrightarrow> k \<noteq> '''' \<Longrightarrow> fst (encryption_key k) = key"
  by (simp add: encryption_key_def)

lemma req_ok: "snd (req env n) = [] \<longleftrightarrow> env n \<noteq> ''''" and req_value: "fst (req env n) = env n"
  by (simp_all add: req_def)

text \<open>The environments \<^verbatim>\<open>Load\<close> accepts.\<close>

definition env_ok :: "environ \<Rightarrow> bool" where
  "env_ok env \<longleftrightarrow> (\<forall>n\<in>set required_vars. env n \<noteq> '''')
     \<and> bool_var_ok env ''TENANTDECK_INSECURE'' \<and> bool_var_ok env ''TENANTDECK_REDIS_TLS''
     \<and> (\<exists>key. stdDecode (env ''TENANTDECK_SESSION_ENCRYPTION_KEY'') = Some key \<and> length key = 32)
     \<and> (insecure_mode env \<or> \<not> prefix ''http://'' (env ''TENANTDECK_EXTERNAL_URL''))"

text \<open>\<open>Load\<close> as the list of its errors and the configuration it builds.\<close>

definition load_errors :: "environ \<Rightarrow> config_error list" where
  "load_errors env = concat (map (\<lambda>n. snd (req env n)) (butlast required_vars))
     @ snd (opt_bool env ''TENANTDECK_INSECURE'') @ snd (opt_bool env ''TENANTDECK_REDIS_TLS'')
     @ snd (req env ''TENANTDECK_SESSION_ENCRYPTION_KEY'')
     @ snd (encryption_key (env ''TENANTDECK_SESSION_ENCRYPTION_KEY''))
     @ (if \<not> fst (opt_bool env ''TENANTDECK_INSECURE'') \<and> prefix ''http://'' (env ''TENANTDECK_EXTERNAL_URL'')
        then [NotHttps] else [])"

definition load_config :: "environ \<Rightarrow> Config" where
  "load_config env = \<lparr>ListenAddr = getEnvDefault env ''TENANTDECK_LISTEN_ADDR'' '':8080'',
     ExternalURL = env ''TENANTDECK_EXTERNAL_URL'', Insecure = fst (opt_bool env ''TENANTDECK_INSECURE''),
     OIDC = \<lparr>IssuerURL = env ''TENANTDECK_OIDC_ISSUER_URL'', ClientID = env ''TENANTDECK_OIDC_CLIENT_ID'',
       ClientSecret = env ''TENANTDECK_OIDC_CLIENT_SECRET'',
       Scopes = splitScopes (getEnvDefault env ''TENANTDECK_OIDC_SCOPES'' ''openid profile'')\<rparr>,
     Session = \<lparr>RedisAddr = env ''TENANTDECK_REDIS_ADDR'', RedisUsername = env ''TENANTDECK_REDIS_USERNAME'',
       RedisPassword = env ''TENANTDECK_REDIS_PASSWORD'', RedisTLS = fst (opt_bool env ''TENANTDECK_REDIS_TLS''),
       RedisCAFile = env ''TENANTDECK_REDIS_CA_FILE'',
       EncryptionKey = fst (encryption_key (env ''TENANTDECK_SESSION_ENCRYPTION_KEY''))\<rparr>,
     Upstream = \<lparr>CapsuleProxyURL = env ''TENANTDECK_CAPSULE_PROXY_URL''\<rparr>\<rparr>"

lemma Load_alt: "Load env = (if load_errors env = [] then Inr (load_config env) else Inl (load_errors env))"
  unfolding Load_def load_errors_def load_config_def required_vars_def Let_def split_beta req_value
  by (simp add: req_value)

lemma load_errors_Nil: "load_errors env = [] \<longleftrightarrow> env_ok env"
  unfolding load_errors_def env_ok_def append_is_Nil_conv opt_bool_ok encryption_key_ok req_ok
  by (auto simp: required_vars_def req_ok opt_bool_value insecure_mode_def SessionKeySize_def)

text \<open>
  C26: Loading the configuration succeeds exactly for the environments that set every required
  variable, give valid booleans, a session key of 32 bytes in base64, and, outside the insecure
  mode, an external URL that does not start with \<^verbatim>\<open>http://\<close>; nothing else is an error and nothing
  required has a default.
\<close>

theorem load_ok_iff: "(\<exists>cfg. Load env = Inr cfg) \<longleftrightarrow> env_ok env"
  by (simp add: Load_alt load_errors_Nil)

lemma loaded_values:
  assumes "Load env = Inr cfg"
  shows "ExternalURL cfg = env ''TENANTDECK_EXTERNAL_URL'' \<and> ExternalURL cfg \<noteq> ''''
    \<and> CapsuleProxyURL (Upstream cfg) = env ''TENANTDECK_CAPSULE_PROXY_URL'' \<and> CapsuleProxyURL (Upstream cfg) \<noteq> ''''
    \<and> Insecure cfg = insecure_mode env
    \<and> (Insecure cfg \<or> \<not> prefix ''http://'' (ExternalURL cfg))
    \<and> stdDecode (env ''TENANTDECK_SESSION_ENCRYPTION_KEY'') = Some (EncryptionKey (Session cfg))
    \<and> length (EncryptionKey (Session cfg)) = 32
    \<and> RedisTLS (Session cfg) = (parseBool (env ''TENANTDECK_REDIS_TLS'') = Some True)
    \<and> ListenAddr cfg = (if env ''TENANTDECK_LISTEN_ADDR'' = '''' then '':8080'' else env ''TENANTDECK_LISTEN_ADDR'')"
proof -
  have ok: "env_ok env" and cfg: "cfg = load_config env"
    using assms by (auto simp: Load_alt load_errors_Nil split: if_splits)
  from ok obtain key where k: "stdDecode (env ''TENANTDECK_SESSION_ENCRYPTION_KEY'') = Some key" "length key = 32"
    by (auto simp: env_ok_def)
  have ne: "env n \<noteq> ''''" if "n \<in> set required_vars" for n using ok that by (simp add: env_ok_def)
  have "fst (encryption_key (env ''TENANTDECK_SESSION_ENCRYPTION_KEY'')) = key"
    using encryption_key_value k ne by (simp add: SessionKeySize_def required_vars_def)
  with ok k ne show ?thesis
    by (simp add: cfg load_config_def env_ok_def required_vars_def opt_bool_value insecure_mode_def getEnvDefault_def)
qed


text \<open>
  C35: A failed load reports everything that is missing: the errors name a required variable
  exactly when it is unset, so one run shows an operator all of them.
\<close>

theorem load_reports_missing:
  assumes "Load env = Inl errs"
  shows "IsRequired n \<in> set errs \<longleftrightarrow> n \<in> set required_vars \<and> env n = ''''"
proof -
  have errs: "errs = load_errors env" using assms by (simp add: Load_alt split: if_splits)
  have no: "IsRequired n \<notin> set (snd (opt_bool env m))" "IsRequired n \<notin> set (snd (encryption_key k))" for m k
    by (auto simp: opt_bool_def encryption_key_def split: option.splits)
  have one: "IsRequired n \<in> set (snd (req env m)) \<longleftrightarrow> n = m \<and> env n = ''''" for m
    by (auto simp: req_def)
  have "IsRequired n \<in> set (concat (map (\<lambda>m. snd (req env m)) ns)) \<longleftrightarrow> n \<in> set ns \<and> env n = ''''" for ns
    by (auto simp: one)
  moreover have "set required_vars = insert ''TENANTDECK_SESSION_ENCRYPTION_KEY'' (set (butlast required_vars))"
    unfolding required_vars_def by (simp add: insert_commute)
  ultimately show ?thesis
    unfolding errs load_errors_def set_append Un_iff by (simp add: no one) blast
qed

text \<open>
  The Redis connection never silently loses its trust configuration: TLS is on in the result exactly
  when it was asked for, and with a CA file the roots are the certificates of that file, at least one.
\<close>

lemma redis_tls_fails_closed:
  assumes "BuildRedisTLSConfig read_file pem_certs s = Inr r"
  shows "(r \<noteq> None) = RedisTLS s"
    and "r = Some c \<Longrightarrow> RedisCAFile s \<noteq> '''' \<Longrightarrow>
      \<exists>pem. read_file (RedisCAFile s) = Some pem \<and> pem_certs pem \<noteq> [] \<and> tls_roots c = Some (pem_certs pem)"
  using assms by (auto simp: BuildRedisTLSConfig_def Let_def split: option.splits if_splits)

section \<open>Witnesses and a finding\<close>

definition demo_env :: "string \<Rightarrow> environ" where
  "demo_env url n =
     (case map_of [(''TENANTDECK_EXTERNAL_URL'', url), (''TENANTDECK_OIDC_ISSUER_URL'', ''https://idp''),
        (''TENANTDECK_OIDC_CLIENT_ID'', ''td''), (''TENANTDECK_OIDC_CLIENT_SECRET'', ''s''),
        (''TENANTDECK_REDIS_ADDR'', ''redis:6379''), (''TENANTDECK_CAPSULE_PROXY_URL'', ''https://capsule''),
        (''TENANTDECK_SESSION_ENCRYPTION_KEY'', ''AAAAAAAAAAAAAAAAAAAAAAAAAAAAAAAAAAAAAAAAAAA='')] n of
      None \<Rightarrow> '''' | Some v \<Rightarrow> v)"

lemma demo_env_key: "stdDecode ''AAAAAAAAAAAAAAAAAAAAAAAAAAAAAAAAAAAAAAAAAAA='' = Some (replicate 32 (CHR 0x00))"
  by code_simp

lemma demo_env_ok: "\<not> prefix ''http://'' url \<Longrightarrow> url \<noteq> '''' \<Longrightarrow> env_ok (demo_env url)"
  using demo_env_key by (simp add: env_ok_def required_vars_def demo_env_def bool_var_ok_def)


lemma load_reports_missing_witness: "IsRequired ''TENANTDECK_REDIS_ADDR'' \<in> set (load_errors (\<lambda>_. ''''))"
proof -
  have "Load (\<lambda>_. '''') = Inl (load_errors (\<lambda>_. ''''))"
    by (auto simp: Load_alt load_errors_Nil env_ok_def required_vars_def)
  from load_reports_missing [OF this, of "''TENANTDECK_REDIS_ADDR''"] show ?thesis by (simp add: required_vars_def)
qed

text \<open>
  The check for https looks for one spelling only: outside the insecure mode the program still
  starts with an external URL such as \<^verbatim>\<open>HTTP://td\<close>, and even with one that has no scheme.
\<close>

theorem https_check_is_lexical:
  "(\<exists>cfg. Load (demo_env ''HTTP://td'') = Inr cfg \<and> \<not> Insecure cfg \<and> ExternalURL cfg = ''HTTP://td'')
   \<and> (\<exists>cfg. Load (demo_env ''td'') = Inr cfg \<and> \<not> Insecure cfg \<and> ExternalURL cfg = ''td'')"
proof -
  have "Load (demo_env url) = Inr (load_config (demo_env url)) \<and> \<not> Insecure (load_config (demo_env url))
      \<and> ExternalURL (load_config (demo_env url)) = url" if "\<not> prefix ''http://'' url" "url \<noteq> ''''" for url
    using demo_env_ok [OF that]
    by (simp add: Load_alt load_errors_Nil load_config_def opt_bool_def demo_env_def)
  then show ?thesis by simp
qed

end
