(* ===== verification/Webassets.thy ===== *)
theory Webassets
  imports Http World
begin

text \<open>
  \<^verbatim>\<open>internal/webassets/handler.go\<close> and \<^verbatim>\<open>web/embed.go\<close>: the embedded frontend with its
  single-page fallback, over \<^verbatim>\<open>http.FileServer\<close>. The file system is a function from slash-separated
  names (\<^verbatim>\<open>.\<close> is its root) to files and directories. How the file server finds the file is modelled;
  how it answers for a file it found (content type, ranges, conditional requests) is the argument
  \<open>content\<close>, and its directory listing the argument \<open>listing\<close>.
\<close>

datatype fs_node = File bytes | Dir

type_synonym file_system = "string \<Rightarrow> fs_node option"

text \<open>\<^verbatim>\<open>fs.ValidPath\<close>: no empty, \<^verbatim>\<open>.\<close> or \<^verbatim>\<open>..\<close> segment, except that the root is \<^verbatim>\<open>.\<close>.\<close>

definition valid_fs_path :: "string \<Rightarrow> bool" where
  "valid_fs_path p \<longleftrightarrow> p = ''.'' \<or> list_all (\<lambda>s. s \<notin> {'''', ''.'', ''..''}) (split_on (CHR ''/'') p)"

definition fs_stat :: "file_system \<Rightarrow> string \<Rightarrow> fs_node option" where
  "fs_stat dist p = (if valid_fs_path p then dist p else None)"

text \<open>
  \<^verbatim>\<open>path.Clean\<close> of any path: without a leading slash, \<^verbatim>\<open>..\<close> at the front stays, and nothing
  left is \<^verbatim>\<open>.\<close>.
\<close>

fun clean_rel :: "string list \<Rightarrow> string list \<Rightarrow> string list" where
  "clean_rel acc [] = rev acc"
| "clean_rel acc (s # ss) =
     (if s = '''' \<or> s = ''.'' then clean_rel acc ss
      else if s = ''..'' \<and> acc \<noteq> [] \<and> hd acc \<noteq> ''..'' then clean_rel (tl acc) ss
      else clean_rel (s # acc) ss)"

definition path_Clean :: "string \<Rightarrow> string" where
  "path_Clean p =
     (if p \<noteq> '''' \<and> hd p = CHR ''/'' then path_clean_rooted p
      else let ss = clean_rel [] (split_on (CHR ''/'') p)
           in if ss = [] then ''.'' else join_with ''/'' ss)"

definition trim_slash :: "string \<Rightarrow> string" where
  "trim_slash p = (if p \<noteq> '''' \<and> hd p = CHR ''/'' then tl p else p)"

definition is_file :: "fs_node option \<Rightarrow> bool" where
  "is_file n \<longleftrightarrow> (case n of Some (File _) \<Rightarrow> True | _ \<Rightarrow> False)"

definition fileExists :: "file_system \<Rightarrow> string \<Rightarrow> bool" where
  "fileExists dist urlPath =
     (let clean = trim_slash (path_Clean urlPath);
          clean = (if clean = ''.'' then ''index.html'' else clean)
      in is_file (fs_stat dist clean))"

text \<open>The decoded path of a request; \<open>rq_path\<close> is its escaped form.\<close>

definition url_path :: "('c, 'z) request_scheme \<Rightarrow> string" where
  "url_path r = path_unescape (rq_path r)"

section \<open>The file server\<close>

definition path_base :: "string \<Rightarrow> string" where
  "path_base p =
     (let q = trim_right_char (CHR ''/'') p
      in if p = '''' then ''.'' else if q = '''' then ''/'' else last (split_on (CHR ''/'') q))"

definition localRedirect :: "string \<Rightarrow> ('c, 's, 'i) handler" where
  "localRedirect newPath r rw w =
     (let loc = (if rq_query r \<noteq> '''' then newPath @ ''?'' @ rq_query r else newPath)
      in (write_header 301 (set_header ''Location'' loc rw), w))"

definition ends_slash :: "string \<Rightarrow> bool" where "ends_slash p \<longleftrightarrow> p \<noteq> '''' \<and> last p = CHR ''/''"

text \<open>
  \<^verbatim>\<open>http.FS\<close> opens the name without its leading slash (the root as \<^verbatim>\<open>.\<close>).
\<close>

definition http_open :: "file_system \<Rightarrow> string \<Rightarrow> fs_node option" where
  "http_open dist name = fs_stat dist (if name = ''/'' then ''.'' else trim_slash name)"

definition index_suffix :: string where "index_suffix = ''/index.html''"

text \<open>
  \<^verbatim>\<open>serveError\<close> of the file server removes the caching headers before it answers.
\<close>

definition serveError :: "string \<Rightarrow> nat \<Rightarrow> rw \<Rightarrow> rw" where
  "serveError msg code rw =
     http_error msg code (del_header ''Last-Modified'' (del_header ''Etag'' (del_header ''Content-Encoding''
       (del_header ''Cache-Control'' rw))))"

definition serveFile :: "(string \<Rightarrow> bytes \<Rightarrow> ('c, 's, 'i) handler) \<Rightarrow> (string \<Rightarrow> ('c, 's, 'i) handler) \<Rightarrow>
    file_system \<Rightarrow> string \<Rightarrow> ('c, 's, 'i) handler" where
  "serveFile content listing dist upath r rw w =
     (let name = path_Clean upath in
      if suffix index_suffix upath then localRedirect ''./'' r rw w
      else case http_open dist name of
        None \<Rightarrow> (serveError ''404 page not found'' 404 rw, w)
      | Some Dir \<Rightarrow>
          (if \<not> ends_slash upath then localRedirect (path_base upath @ ''/'') r rw w
           else case http_open dist (trim_right_char (CHR ''/'') name @ index_suffix) of
             Some (File bs) \<Rightarrow> content index_suffix bs r rw w
           | _ \<Rightarrow> listing name r rw w)
      | Some (File bs) \<Rightarrow>
          (if ends_slash upath then
             (if path_base upath \<in> {''/'', ''.''}
              then (serveError ''http: attempting to traverse a non-directory'' 500 rw, w)
              else localRedirect (''../'' @ path_base upath) r rw w)
           else content name bs r rw w))"

definition fileServer :: "(string \<Rightarrow> bytes \<Rightarrow> ('c, 's, 'i) handler) \<Rightarrow> (string \<Rightarrow> ('c, 's, 'i) handler) \<Rightarrow>
    file_system \<Rightarrow> ('c, 's, 'i) handler" where
  "fileServer content listing dist r rw w =
     (let p = url_path r; upath = (if p \<noteq> '''' \<and> hd p = CHR ''/'' then p else CHR ''/'' # p)
      in serveFile content listing dist upath r rw w)"

section \<open>The handler\<close>

definition requestForRoot :: "('c, 'z) request_scheme \<Rightarrow> ('c, 'z) request_scheme" where
  "requestForRoot r = r\<lparr>rq_path := ''/''\<rparr>"

definition HandlerFromFS :: "(string \<Rightarrow> bytes \<Rightarrow> ('c, 's, 'i) handler) \<Rightarrow> (string \<Rightarrow> ('c, 's, 'i) handler) \<Rightarrow>
    file_system \<Rightarrow> ('c, 's, 'i) handler" where
  "HandlerFromFS content listing dist r rw w =
     (let r = (if \<not> fileExists dist (url_path r) then requestForRoot r else r)
      in fileServer content listing dist r rw w)"

text \<open>
  \<^verbatim>\<open>Handler\<close>: \<^verbatim>\<open>fs.Sub(web.DistFS, "dist")\<close> of the embedded tree; it fails only for an invalid name.
\<close>

definition fs_Sub :: "file_system \<Rightarrow> string \<Rightarrow> file_system option" where
  "fs_Sub fs dir =
     (if \<not> valid_fs_path dir then None
      else Some (\<lambda>p. fs (if p = ''.'' then dir else if dir = ''.'' then p else dir @ ''/'' @ p)))"

definition frontendHandler :: "(string \<Rightarrow> bytes \<Rightarrow> ('c, 's, 'i) handler) \<Rightarrow> (string \<Rightarrow> ('c, 's, 'i) handler) \<Rightarrow>
    file_system \<Rightarrow> ('c, 's, 'i) handler option" where
  "frontendHandler content listing distFS =
     map_option (HandlerFromFS content listing) (fs_Sub distFS ''dist'')"

section \<open>Lemmas\<close>

lemma rooted_clean: "hd (path_clean_rooted p) = CHR ''/''" "path_clean_rooted p \<noteq> ''''"
  by (simp_all add: path_clean_rooted_def)

lemma url_path_root [simp]: "url_path (requestForRoot r) = ''/''"
  by (simp add: url_path_def requestForRoot_def path_unescape_def)

lemma path_Clean_root [simp]: "path_Clean ''/'' = ''/''"
  by (simp add: path_Clean_def path_clean_rooted_def)

lemma serve_root:
  assumes "dist ''.'' = Some Dir" "dist ''index.html'' = Some (File idx)"
  shows "serveFile content listing dist ''/'' r rw w = content index_suffix idx r rw w"
proof -
  have "\<not> suffix index_suffix ''/''" by (simp add: index_suffix_def suffix_def)
  moreover have "http_open dist ''/'' = Some Dir" using assms by (simp add: http_open_def fs_stat_def valid_fs_path_def)
  moreover have "http_open dist (trim_right_char (CHR ''/'') ''/'' @ index_suffix) = Some (File idx)"
    using assms by (simp add: http_open_def fs_stat_def valid_fs_path_def index_suffix_def trim_right_char_def trim_slash_def)
  ultimately show ?thesis by (simp add: serveFile_def ends_slash_def)
qed

lemma root_fallback:
  assumes "dist ''.'' = Some Dir" "dist ''index.html'' = Some (File idx)" "\<not> fileExists dist (url_path r)"
  shows "HandlerFromFS content listing dist r rw w = content index_suffix idx (requestForRoot r) rw w"
  using serve_root [OF assms(1,2)] assms(3) by (simp add: HandlerFromFS_def fileServer_def)

text \<open>A cleaned rooted path never consists of one dot.\<close>

lemma clean_segs_dotless: "''.'' \<notin> set acc \<Longrightarrow> ''.'' \<notin> set (clean_segs acc ss)"
proof (induction acc ss rule: clean_segs.induct)
  case (2 acc s ss)
  have "''.'' \<notin> set (tl acc)" using 2(4) by (cases acc) auto
  with 2 show ?case by auto
qed simp

lemma join_dot: "join_with ''/'' ss = ''.'' \<Longrightarrow> ss = [''.''] \<or> (\<exists>s\<in>set ss. s = ''.'')"
  by (cases ss rule: remdups_adj.cases) (auto simp: append_eq_Cons_conv)

lemma existing_file:
  assumes "fileExists dist p" "p \<noteq> ''''" "hd p = CHR ''/''"
  obtains bs where "http_open dist (path_Clean p) = Some (File bs)" "dist (tl (path_Clean p)) = Some (File bs)"
proof -
  let ?q = "tl (path_Clean p)"
  have c: "path_Clean p = CHR ''/'' # ?q" using assms(2,3) by (simp add: path_Clean_def path_clean_rooted_def)
  have t: "trim_slash (path_Clean p) = ?q" by (subst c) (simp add: trim_slash_def)
  have nd: "?q \<noteq> ''.''"
  proof
    assume q: "?q = ''.''"
    have "join_with ''/'' (clean_segs [] (split_on (CHR ''/'') p)) = ''.''"
      using q assms(2,3) by (simp add: path_Clean_def path_clean_rooted_def)
    then show False using clean_segs_dotless [of "[]" "split_on (CHR ''/'') p"] by (auto dest: join_dot)
  qed
  with assms(1) t obtain bs where bs: "fs_stat dist ?q = Some (File bs)"
    by (auto simp: fileExists_def Let_def is_file_def split: option.splits fs_node.splits)
  then have v: "valid_fs_path ?q" "dist ?q = Some (File bs)" by (auto simp: fs_stat_def split: if_splits)
  then have "?q \<noteq> ''''" by (auto simp: valid_fs_path_def)
  then have "path_Clean p \<noteq> ''/''" using c by auto
  with bs t have "http_open dist (path_Clean p) = Some (File bs)" by (simp add: http_open_def)
  with v(2) that show thesis by blast
qed


end
