(* ===== verification/BackendInstances.thy ===== *)
theory BackendInstances
  imports Backend
begin

text \<open>
  Providers of the store's interface: a Redis server with the documented behaviour (one key space,
  lifetimes in whole milliseconds, at least one; it can be unreachable), and the in-memory and
  always-failing backends of the session package's tests. Each interprets the contract.
\<close>

section \<open>A Redis server\<close>

record redis_db =
  db_map :: kv_view
  db_up :: bool

definition wire_ttl :: "duration \<Rightarrow> duration" where
  "wire_ttl ttl = max millisecond (ttl div millisecond * millisecond)"

definition ref_client :: "redis_db redis_client" where
  "ref_client = \<lparr>
     rc_set = (\<lambda>s t k v ttl. if \<not> db_up s then (Some Redis_Failure, s)
       else (None, s\<lparr>db_map := (db_map s)(k \<mapsto> (v, if 0 < ttl then Some (t + wire_ttl ttl) else None))\<rparr>)),
     rc_get = (\<lambda>s t k. if \<not> db_up s then (Inl Redis_Failure, s)
       else (case live (db_map s) t k of None \<Rightarrow> (Inl Redis_Nil, s) | Some v \<Rightarrow> (Inr v, s))),
     rc_getdel = (\<lambda>s t k. if \<not> db_up s then (Inl Redis_Failure, s)
       else (case live (db_map s) t k of None \<Rightarrow> (Inl Redis_Nil, s)
             | Some v \<Rightarrow> (Inr v, s\<lparr>db_map := (db_map s)(k := None)\<rparr>))),
     rc_del = (\<lambda>s t k. if \<not> db_up s then (Some Redis_Failure, s)
       else (None, s\<lparr>db_map := (db_map s)(k := None)\<rparr>)),
     rc_ping = (\<lambda>s t. if db_up s then (None, s) else (Some Redis_Failure, s))\<rparr>"

definition empty_db :: redis_db where "empty_db = \<lparr>db_map = Map.empty, db_up = True\<rparr>"

lemma wire_ttl_bounds:
  assumes "0 < ttl"
  shows "0 < wire_ttl ttl" "ttl - millisecond < wire_ttl ttl" "wire_ttl ttl \<le> max ttl millisecond"
proof -
  have "ttl - millisecond < ttl div millisecond * millisecond" "ttl div millisecond * millisecond \<le> ttl"
    using div_mult_mod_eq [of ttl millisecond] pos_mod_bound [of millisecond ttl]
      pos_mod_sign [of millisecond ttl] by linarith+
  then show "0 < wire_ttl ttl" "ttl - millisecond < wire_ttl ttl" "wire_ttl ttl \<le> max ttl millisecond"
    by (auto simp: wire_ttl_def)
qed

interpretation ref: redis_service ref_client db_map
proof (unfold_locales, goal_cases)
  case (1 s t k v ttl s')
  then show ?case using wire_ttl_bounds [of ttl]
    by (auto simp: ref_client_def split: if_splits)
next
  case (2 s t k v ttl er s')
  then show ?case by (auto simp: ref_client_def split: if_splits)
qed (auto simp: ref_client_def removed_def split: if_splits option.splits)

section \<open>The backends of the tests\<close>

text \<open>
  \<^verbatim>\<open>fakeBackend\<close>: a map from keys to values, lifetimes ignored; \<^verbatim>\<open>GetDel\<close> is \<^verbatim>\<open>Get\<close> and a
  delete.
\<close>

type_synonym fake_state = "string \<rightharpoonup> bytes"

definition fake_get :: "fake_state get_op" where
  "fake_get s t key = (case s key of None \<Rightarrow> (Inl ErrNotFound, s) | Some v \<Rightarrow> (Inr v, s))"

definition fake_getdel :: "fake_state get_op" where
  "fake_getdel s t key =
     (case fake_get s t key of
        (Inl e, s') \<Rightarrow> (Inl e, s')
      | (Inr v, s') \<Rightarrow> (Inr v, s'(key := None)))"

definition fake_backend :: "fake_state backend" where
  "fake_backend = \<lparr>
     b_set = (\<lambda>s t key v ttl. (None, s(key \<mapsto> v))),
     b_get = fake_get,
     b_getdel = fake_getdel,
     b_del = (\<lambda>s t key. (None, s(key := None))),
     b_ping = (\<lambda>s t. (None, s))\<rparr>"

definition fake_view :: "fake_state \<Rightarrow> kv_view" where
  "fake_view s = (\<lambda>k. map_option (\<lambda>v. (v, None)) (s k))"

lemma fake_view_simps:
  "fake_view (s(k \<mapsto> v)) = (fake_view s)(k \<mapsto> (v, None))" "fake_view (s(k := None)) = (fake_view s)(k := None)"
  "live (fake_view s) t k = s k"
  by (auto simp: fake_view_def live_def fun_eq_iff split: option.split)

interpretation fake: kv_contract fake_backend fake_view
  by unfold_locales
    (auto simp: fake_backend_def fake_get_def fake_getdel_def stored_as_def removed_def fake_view_simps
      split: option.splits)

text \<open>\<^verbatim>\<open>unavailableBackend\<close>: every call fails.\<close>

definition unavailable_backend :: "unit backend" where
  "unavailable_backend = \<lparr>
     b_set = (\<lambda>s t key v ttl. (Some ErrOther, s)),
     b_get = (\<lambda>s t key. (Inl ErrOther, s)),
     b_getdel = (\<lambda>s t key. (Inl ErrOther, s)),
     b_del = (\<lambda>s t key. (Some ErrOther, s)),
     b_ping = (\<lambda>s t. (Some ErrOther, s))\<rparr>"

interpretation unavailable: kv_expiring unavailable_backend "\<lambda>_. Map.empty"
  by unfold_locales (auto simp: unavailable_backend_def removed_def)

end
