(* ===== verification/Store.thy ===== *)
theory Store
  imports Session BackendInstances
begin

text \<open>
  \<^verbatim>\<open>internal/session/store.go\<close>: the operations of the session store, over any backend. The lemmas
  in the context of \<open>kv_contract\<close> give their meaning in terms of the sessions and transactions the
  backend's view holds; nothing but the named key is ever touched.
\<close>

datatype session_error = EBackend store_err | ERandom | EMarshal | EDecrypt | EUnmarshal

definition sessionKeyPrefix :: string where "sessionKeyPrefix = ''session:''"
definition loginKeyPrefix :: string where "loginKeyPrefix = ''login:''"
definition idByteLength :: nat where "idByteLength = 32"

record 's Store =
  st_backend :: "'s backend"
  st_enc :: encryptor

definition NewStore :: "'s backend \<Rightarrow> bytes \<Rightarrow> 's Store option" where
  "NewStore b encryptionKey =
     (case newEncryptor encryptionKey of None \<Rightarrow> None
      | Some enc \<Rightarrow> Some \<lparr>st_backend = b, st_enc = enc\<rparr>)"

definition store_ping :: "'s Store \<Rightarrow> ('s, 'i) world \<Rightarrow> store_err option \<times> ('s, 'i) world" where
  "store_ping st w = (case b_ping (st_backend st) (w_kv w) (w_now w) of (e, s') \<Rightarrow> (e, w\<lparr>w_kv := s'\<rparr>))"

definition generateID :: "('s, 'i) world \<Rightarrow> string option \<times> ('s, 'i) world" where
  "generateID w =
     (case read_random idByteLength w of
        (None, w1) \<Rightarrow> (None, w1)
      | (Some raw, w1) \<Rightarrow> (Some (rawURLEncode raw), w1))"

text \<open>\<^verbatim>\<open>put\<close>, with the marshalled value (\<open>None\<close> when marshalling failed) as its argument.\<close>

definition store_put :: "'s Store \<Rightarrow> string \<Rightarrow> string option \<Rightarrow> duration \<Rightarrow> ('s, 'i) world \<Rightarrow>
    session_error option \<times> ('s, 'i) world" where
  "store_put st key v ttl w =
     (case v of
        None \<Rightarrow> (Some EMarshal, w)
      | Some plaintext \<Rightarrow>
          (case enc_seal (st_enc st) plaintext w of
             (None, w1) \<Rightarrow> (Some ERandom, w1)
           | (Some sealed, w1) \<Rightarrow>
               (case b_set (st_backend st) (w_kv w1) (w_now w1) key sealed ttl of
                  (e, s') \<Rightarrow> (map_option EBackend e, w1\<lparr>w_kv := s'\<rparr>))))"

definition createSession :: "'s Store \<Rightarrow> Record \<Rightarrow> duration \<Rightarrow> ('s, 'i) world \<Rightarrow>
    (session_error + string) \<times> ('s, 'i) world" where
  "createSession st rec ttl w =
     (case generateID w of
        (None, w1) \<Rightarrow> (Inl ERandom, w1)
      | (Some sid, w1) \<Rightarrow>
          (case store_put st (sessionKeyPrefix @ sid) (marshalRecord rec) ttl w1 of
             (Some e, w2) \<Rightarrow> (Inl e, w2)
           | (None, w2) \<Rightarrow> (Inr sid, w2)))"

definition getSession :: "'s Store \<Rightarrow> string \<Rightarrow> ('s, 'i) world \<Rightarrow> (session_error + Record) \<times> ('s, 'i) world" where
  "getSession st sid w =
     (case b_get (st_backend st) (w_kv w) (w_now w) (sessionKeyPrefix @ sid) of
        (Inl e, s') \<Rightarrow> (Inl (EBackend e), w\<lparr>w_kv := s'\<rparr>)
      | (Inr sealed, s') \<Rightarrow>
          (case enc_open (st_enc st) sealed of
             None \<Rightarrow> (Inl EDecrypt, w\<lparr>w_kv := s'\<rparr>)
           | Some plaintext \<Rightarrow>
               (case unmarshalRecord plaintext of
                  None \<Rightarrow> (Inl EUnmarshal, w\<lparr>w_kv := s'\<rparr>)
                | Some rec \<Rightarrow> (Inr rec, w\<lparr>w_kv := s'\<rparr>))))"

definition deleteSession :: "'s Store \<Rightarrow> string \<Rightarrow> ('s, 'i) world \<Rightarrow> session_error option \<times> ('s, 'i) world" where
  "deleteSession st sid w =
     (case b_del (st_backend st) (w_kv w) (w_now w) (sessionKeyPrefix @ sid) of
        (e, s') \<Rightarrow> (map_option EBackend e, w\<lparr>w_kv := s'\<rparr>))"

definition createLoginTransaction :: "'s Store \<Rightarrow> LoginTransaction \<Rightarrow> duration \<Rightarrow> ('s, 'i) world \<Rightarrow>
    (session_error + string) \<times> ('s, 'i) world" where
  "createLoginTransaction st txn ttl w =
     (case generateID w of
        (None, w1) \<Rightarrow> (Inl ERandom, w1)
      | (Some state, w1) \<Rightarrow>
          (case store_put st (loginKeyPrefix @ state) (marshalTxn txn) ttl w1 of
             (Some e, w2) \<Rightarrow> (Inl e, w2)
           | (None, w2) \<Rightarrow> (Inr state, w2)))"

definition takeLoginTransaction :: "'s Store \<Rightarrow> string \<Rightarrow> ('s, 'i) world \<Rightarrow>
    (session_error + LoginTransaction) \<times> ('s, 'i) world" where
  "takeLoginTransaction st state w =
     (case b_getdel (st_backend st) (w_kv w) (w_now w) (loginKeyPrefix @ state) of
        (Inl e, s') \<Rightarrow> (Inl (EBackend e), w\<lparr>w_kv := s'\<rparr>)
      | (Inr sealed, s') \<Rightarrow>
          (case enc_open (st_enc st) sealed of
             None \<Rightarrow> (Inl EDecrypt, w\<lparr>w_kv := s'\<rparr>)
           | Some plaintext \<Rightarrow>
               (case unmarshalTxn plaintext of
                  None \<Rightarrow> (Inl EUnmarshal, w\<lparr>w_kv := s'\<rparr>)
                | Some txn \<Rightarrow> (Inr txn, w\<lparr>w_kv := s'\<rparr>))))"

lemmas store_defs = store_ping_def store_put_def createSession_def getSession_def deleteSession_def
  createLoginTransaction_def takeLoginTransaction_def

section \<open>What the operations leave alone\<close>

text \<open>Everything but the store's server, and the random source for the two that draw from it.\<close>

definition store_step :: "('s, 'i) world \<Rightarrow> ('s, 'i) world \<Rightarrow> bool" where
  "store_step w w' \<longleftrightarrow> w' = w\<lparr>w_kv := w_kv w', w_entropy := w_entropy w'\<rparr>"

lemma store_stepD:
  "store_step w w' \<Longrightarrow> w_idp w' = w_idp w" "store_step w w' \<Longrightarrow> w_now w' = w_now w"
  "store_step w w' \<Longrightarrow> w_sent w' = w_sent w"
  by (cases w; cases w'; simp add: store_step_def)+

lemma store_step_refl [simp]: "store_step w w"
  by (simp add: store_step_def)

lemma store_step_trans: "store_step w w1 \<Longrightarrow> store_step w1 w2 \<Longrightarrow> store_step w w2"
  by (cases w; cases w1; cases w2) (simp add: store_step_def)

lemma store_step_kv [simp]: "store_step w (w\<lparr>w_kv := s\<rparr>)"
  by (simp add: store_step_def)

lemma store_step_quiet: "quiet w w' \<Longrightarrow> store_step w w'"
  by (cases w; cases w') (simp add: store_step_def quiet_def)

lemma quiet_generateID: "generateID w = (r, w') \<Longrightarrow> quiet w w'"
  by (auto simp: generateID_def split: prod.splits option.splits dest: quiet_read_random)

lemma generateID_Some: "generateID w = (Some sid, w') \<Longrightarrow>
  sid = rawURLEncode (take idByteLength (w_entropy w)) \<and> length sid = 43 \<and> list_all url_safe sid"
  by (auto simp: generateID_def idByteLength_def length_rawURLEncode rawURLEncode_safe
      split: prod.splits option.splits dest!: read_random_Some)

lemma store_step_put: "store_put st key v ttl w = (r, w') \<Longrightarrow> store_step w w'"
  by (auto simp: store_put_def split: option.splits prod.splits
      dest!: quiet_enc_seal store_step_quiet intro: store_step_trans)

lemma store_step_createSession: "createSession st rec ttl w = (r, w') \<Longrightarrow> store_step w w'"
  by (auto simp: createSession_def split: option.splits prod.splits
      dest!: quiet_generateID store_step_quiet store_step_put intro: store_step_trans)

lemma store_step_createLogin: "createLoginTransaction st txn ttl w = (r, w') \<Longrightarrow> store_step w w'"
  by (auto simp: createLoginTransaction_def split: option.splits prod.splits
      dest!: quiet_generateID store_step_quiet store_step_put intro: store_step_trans)

lemma store_step_getSession: "getSession st sid w = (r, w') \<Longrightarrow> store_step w w'"
  by (auto simp: getSession_def split: option.splits prod.splits sum.splits)

lemma store_step_take: "takeLoginTransaction st s w = (r, w') \<Longrightarrow> store_step w w'"
  by (auto simp: takeLoginTransaction_def split: option.splits prod.splits sum.splits)

lemma store_step_delete: "deleteSession st sid w = (r, w') \<Longrightarrow> store_step w w'"
  by (auto simp: deleteSession_def split: prod.splits)

lemma store_step_ping: "store_ping st w = (r, w') \<Longrightarrow> store_step w w'"
  by (auto simp: store_ping_def split: prod.splits)

lemmas store_steps = store_step_createSession store_step_createLogin store_step_getSession
  store_step_take store_step_delete store_step_ping

section \<open>Meaning over the backend's view\<close>

text \<open>The session an ID names, and the transaction a state names, at an instant.\<close>

definition session_at :: "encryptor \<Rightarrow> kv_view \<Rightarrow> go_time \<Rightarrow> string \<Rightarrow> Record option" where
  "session_at e m t sid =
     Option.bind (live m t (sessionKeyPrefix @ sid)) (\<lambda>c. Option.bind (enc_open e c) unmarshalRecord)"

definition login_at :: "encryptor \<Rightarrow> kv_view \<Rightarrow> go_time \<Rightarrow> string \<Rightarrow> LoginTransaction option" where
  "login_at e m t s =
     Option.bind (live m t (loginKeyPrefix @ s)) (\<lambda>c. Option.bind (enc_open e c) unmarshalTxn)"

lemma prefixes_apart [simp]: "sessionKeyPrefix @ a \<noteq> loginKeyPrefix @ b" "loginKeyPrefix @ b \<noteq> sessionKeyPrefix @ a"
  by (simp_all add: sessionKeyPrefix_def loginKeyPrefix_def)

lemma live_cong: "m k = m' k \<Longrightarrow> live m t k = live m' t k"
  by (simp add: live_def)

context kv_contract
begin

lemma getSession_view: "getSession \<lparr>st_backend = b, st_enc = e\<rparr> sid w = (r, w') \<Longrightarrow> view (w_kv w') = view (w_kv w)"
  by (auto simp: getSession_def split: prod.splits sum.splits option.splits dest!: get_view)

lemma getSession_Inr:
  "getSession \<lparr>st_backend = b, st_enc = e\<rparr> sid w = (Inr rec, w') \<Longrightarrow>
   session_at e (view (w_kv w)) (w_now w) sid = Some rec"
  by (auto simp: getSession_def session_at_def split: prod.splits sum.splits option.splits dest!: get_value)

lemma getSession_complete:
  assumes "session_at e (view (w_kv w)) (w_now w) sid = Some rec"
    and "getSession \<lparr>st_backend = b, st_enc = e\<rparr> sid w = (r, w')"
  shows "r = Inr rec \<or> r = Inl (EBackend ErrOther)"
proof -
  obtain c where c: "live (view (w_kv w)) (w_now w) (sessionKeyPrefix @ sid) = Some c"
      "Option.bind (enc_open e c) unmarshalRecord = Some rec"
    using assms(1) by (auto simp: session_at_def bind_eq_Some_conv)
  obtain x s' where g: "b_get b (w_kv w) (w_now w) (sessionKeyPrefix @ sid) = (x, s')"
    by fastforce
  show ?thesis
  proof (cases x)
    case (Inl er)
    with g c get_absent show ?thesis using assms(2) by (cases er) (auto simp: getSession_def)
  next
    case (Inr v)
    with g c get_value have "v = c" by fastforce
    with assms(2) g c(2) Inr show ?thesis by (auto simp: getSession_def bind_eq_Some_conv)
  qed
qed

lemma put_stored:
  assumes "store_put \<lparr>st_backend = b, st_enc = e\<rparr> k (Some p) ttl w = (None, w')" "0 < ttl"
  shows "\<exists>c. live (view (w_kv w')) (w_now w') k = Some c \<and> enc_open e c = Some p"
proof -
  obtain c w1 where s: "enc_seal e p w = (Some c, w1)"
    and b: "fst (b_set b (w_kv w1) (w_now w1) k c ttl) = None"
    and w': "w' = w1\<lparr>w_kv := snd (b_set b (w_kv w1) (w_now w1) k c ttl)\<rparr>"
    using assms(1) by (auto simp: store_put_def split: prod.splits option.splits)
  have "b_set b (w_kv w1) (w_now w1) k c ttl = (None, snd (b_set b (w_kv w1) (w_now w1) k c ttl))"
    using b by (metis prod.collapse)
  then have "live (view (w_kv w')) (w_now w') k = Some c" using set_live assms(2) w' by simp
  with s show ?thesis by (auto dest: enc_open_seal)
qed

lemma put_other:
  assumes "store_put \<lparr>st_backend = b, st_enc = e\<rparr> k v ttl w = (r, w')" "0 < ttl" "k' \<noteq> k"
  shows "view (w_kv w') k' = view (w_kv w) k'"
  using assms
  by (auto simp: store_put_def split: prod.splits option.splits
      dest!: quiet_enc_seal simp: quietD dest: set_other)

lemma createSession_Inr:
  assumes "createSession \<lparr>st_backend = b, st_enc = e\<rparr> rec ttl w = (Inr sid, w')" "0 < ttl" "record_text_ok rec"
  shows "session_at e (view (w_kv w')) (w_now w') sid = Some rec"
proof -
  obtain w1 where p: "store_put \<lparr>st_backend = b, st_enc = e\<rparr> (sessionKeyPrefix @ sid) (marshalRecord rec) ttl w1 = (None, w')"
    using assms(1) by (auto simp: createSession_def split: prod.splits option.splits)
  then obtain t where t: "marshalRecord rec = Some t"
    by (cases "marshalRecord rec") (auto simp: store_put_def)
  from put_stored [OF p [unfolded t] assms(2)] unmarshal_marshalRecord [OF t assms(3)]
  show ?thesis by (auto simp: session_at_def)
qed

lemma createLogin_Inr:
  assumes "createLoginTransaction \<lparr>st_backend = b, st_enc = e\<rparr> txn ttl w = (Inr s, w')" "0 < ttl" "txn_text_ok txn"
  shows "login_at e (view (w_kv w')) (w_now w') s = Some txn"
proof -
  obtain w1 where p: "store_put \<lparr>st_backend = b, st_enc = e\<rparr> (loginKeyPrefix @ s) (marshalTxn txn) ttl w1 = (None, w')"
    using assms(1) by (auto simp: createLoginTransaction_def split: prod.splits option.splits)
  then obtain t where t: "marshalTxn txn = Some t"
    by (cases "marshalTxn txn") (auto simp: store_put_def)
  from put_stored [OF p [unfolded t] assms(2)] unmarshal_marshalTxn [OF t assms(3)]
  show ?thesis by (auto simp: login_at_def)
qed

lemma deleteSession_gone:
  assumes "deleteSession \<lparr>st_backend = b, st_enc = e\<rparr> sid w = (None, w')"
  shows "live (view (w_kv w')) t (sessionKeyPrefix @ sid) = None"
  using assms by (auto simp: deleteSession_def split: prod.splits dest!: del_ok intro: live_removed)

lemma deleteSession_other:
  assumes "deleteSession \<lparr>st_backend = b, st_enc = e\<rparr> sid w = (r, w')" "k \<noteq> sessionKeyPrefix @ sid"
  shows "view (w_kv w') k = view (w_kv w) k"
  using assms by (auto simp: deleteSession_def split: prod.splits dest: del_other)

lemma take_Inr:
  assumes "takeLoginTransaction \<lparr>st_backend = b, st_enc = e\<rparr> s w = (Inr txn, w')"
  shows "login_at e (view (w_kv w)) (w_now w) s = Some txn"
    and "live (view (w_kv w')) t (loginKeyPrefix @ s) = None"
  using assms
  by (auto simp: takeLoginTransaction_def login_at_def split: prod.splits sum.splits option.splits
      dest!: getdel_value intro: live_removed)

lemma take_other:
  assumes "takeLoginTransaction \<lparr>st_backend = b, st_enc = e\<rparr> s w = (r, w')" "k \<noteq> loginKeyPrefix @ s"
  shows "view (w_kv w') k = view (w_kv w) k"
  using assms
  by (auto simp: takeLoginTransaction_def split: prod.splits sum.splits option.splits dest: getdel_other)

lemma take_dead:
  assumes "live (view (w_kv w)) (w_now w) (loginKeyPrefix @ s) = None"
    and "takeLoginTransaction \<lparr>st_backend = b, st_enc = e\<rparr> s w = (r, w')"
  shows "\<exists>er. r = Inl er"
  using assms by (auto simp: takeLoginTransaction_def split: prod.splits sum.splits option.splits dest: getdel_dead)

lemma getSession_dead:
  assumes "live (view (w_kv w)) (w_now w) (sessionKeyPrefix @ sid) = None"
    and "getSession \<lparr>st_backend = b, st_enc = e\<rparr> sid w = (r, w')"
  shows "\<exists>er. r = Inl er"
  using assms by (auto simp: getSession_def split: prod.splits sum.splits option.splits dest: get_dead)

end

end
