(* ===== verification/UrlParse.thy ===== *)
theory UrlParse
  imports Url
begin

text \<open>
  \<^verbatim>\<open>url.Parse\<close> and \<^verbatim>\<open>URL.String\<close>. Whether the text between brackets is an IPv6 address
  (\<^verbatim>\<open>netip.ParseAddr\<close>) is the argument \<open>ip6\<close>.
\<close>

record userinfo =
  ui_name :: string
  ui_password :: "string option"

text \<open>As in Go, the raw path and the raw fragment are kept only where escaping the decoded text differs.\<close>

record parsed_url =
  pu_scheme :: string
  pu_opaque :: string
  pu_user :: "userinfo option"
  pu_host :: string
  pu_path :: string
  pu_raw_path :: string
  pu_omit_host :: bool
  pu_force_query :: bool
  pu_query :: string
  pu_fragment :: string
  pu_raw_fragment :: string

section \<open>Escaping\<close>

datatype enc_mode = EncPath | EncUser | EncHost | EncFragment

definition should_escape :: "enc_mode \<Rightarrow> char \<Rightarrow> bool" where
  "should_escape m c =
     (if unreserved c then False
      else if m = EncHost \<and> (c \<in> set ''!$&()*+,;=:[]<>'' \<or> c = CHR 0x27 \<or> c = CHR 0x22) then False
      else if c \<in> set ''$&+,/:;=?@'' then
        (case m of EncPath \<Rightarrow> c = CHR ''?'' | EncUser \<Rightarrow> c \<in> set ''@/?:'' | EncFragment \<Rightarrow> False | EncHost \<Rightarrow> True)
      else \<not> (m = EncFragment \<and> c \<in> set ''!()*''))"

definition url_escape_char :: "enc_mode \<Rightarrow> char \<Rightarrow> string" where
  "url_escape_char m c =
     (if should_escape m c then [CHR ''%'', upper_hex ! (ord c div 16), upper_hex ! (ord c mod 16)] else [c])"

definition url_escape :: "enc_mode \<Rightarrow> string \<Rightarrow> string" where
  "url_escape m s = concat (map (url_escape_char m) s)"

definition valid_encoded :: "enc_mode \<Rightarrow> string \<Rightarrow> bool" where
  "valid_encoded m s = list_all (\<lambda>c. c \<in> set ''!$&()*+,;=:@[]%'' \<or> c = CHR 0x27 \<or> \<not> should_escape m c) s"

text \<open>\<^verbatim>\<open>setPath\<close> and \<^verbatim>\<open>setFragment\<close>: the decoded text, and the raw one where it is not the default encoding.\<close>

definition set_escaped :: "enc_mode \<Rightarrow> string \<Rightarrow> (string \<times> string) option" where
  "set_escaped m p =
     map_option (\<lambda>d. (d, if p = url_escape m d then '''' else p)) (unescape False p)"

definition raw_ok :: "enc_mode \<Rightarrow> string \<Rightarrow> string \<Rightarrow> bool" where
  "raw_ok m d raw \<longleftrightarrow> raw \<noteq> '''' \<and> valid_encoded m raw \<and> unescape False raw = Some d"

definition escaped :: "enc_mode \<Rightarrow> string \<Rightarrow> string \<Rightarrow> string" where
  "escaped m d raw = (if raw_ok m d raw then raw else url_escape m d)"

section \<open>Parsing\<close>

definition lower_char :: "char \<Rightarrow> char" where
  "lower_char c = (if is_upper c then chr (ord c + 32) else c)"

definition is_letter :: "char \<Rightarrow> bool" where "is_letter c \<longleftrightarrow> is_lower c \<or> is_upper c"

text \<open>\<^verbatim>\<open>getScheme\<close>: \<open>None\<close> is the error; no scheme is the empty string.\<close>

definition scheme_char :: "char \<Rightarrow> bool" where
  "scheme_char c \<longleftrightarrow> is_alnum c \<or> c = CHR ''+'' \<or> c = CHR ''-'' \<or> c = CHR ''.''"

definition get_scheme :: "string \<Rightarrow> (string \<times> string) option" where
  "get_scheme s =
     (let p = takeWhile scheme_char s; r = dropWhile scheme_char s
      in if p \<noteq> [] \<and> \<not> is_letter (hd p) then Some ('''', s)
         else if r \<noteq> [] \<and> hd r = CHR '':'' then (if p = [] then None else Some (p, tl r))
         else Some ('''', s))"

text \<open>The text before and after the last occurrence of a character.\<close>

definition cut_last :: "char \<Rightarrow> string \<Rightarrow> (string \<times> string) option" where
  "cut_last c s = (case cut_at c (rev s) of None \<Rightarrow> None | Some (a, b) \<Rightarrow> Some (rev b, rev a))"

definition valid_optional_port :: "string \<Rightarrow> bool" where
  "valid_optional_port p \<longleftrightarrow> p = '''' \<or> (hd p = CHR '':'' \<and> list_all is_digit (tl p))"

text \<open>\<^verbatim>\<open>unescape\<close> in the mode of a host: only bytes outside ASCII (and \<^verbatim>\<open>%25\<close>) may be escaped.\<close>

definition host_plain :: "char \<Rightarrow> bool" where
  "host_plain c \<longleftrightarrow> 128 \<le> ord c \<or> is_alnum c \<or> c \<in> set ''!$&()*+,;=:[]<>-_.~'' \<or> c = CHR 0x27 \<or> c = CHR 0x22"

function unescape_host :: "string \<Rightarrow> string option" where
  "unescape_host [] = Some []"
| "unescape_host (c # cs) =
     (if c = CHR ''%'' then
        (case cs of
           a # b # r \<Rightarrow>
             (case (unhex a, unhex b) of
                (Some p, Some q) \<Rightarrow>
                  if p < 8 \<and> \<not> (a = CHR ''2'' \<and> b = CHR ''5'') then None
                  else map_option ((#) (chr (16 * p + q))) (unescape_host r)
              | _ \<Rightarrow> None)
         | _ \<Rightarrow> None)
      else if host_plain c then map_option ((#) c) (unescape_host cs)
      else None)"
  by pat_completeness auto
termination
  by (relation "measure length") auto

text \<open>\<^verbatim>\<open>parseHost\<close> (a zone, which only link-local addresses have, is left to \<open>ip6\<close>).\<close>

definition parse_host :: "(string \<Rightarrow> bool) \<Rightarrow> string \<Rightarrow> string option" where
  "parse_host ip6 host =
     (if CHR ''['' \<in> set host then
        (if hd host \<noteq> CHR ''['' \<or> CHR ''['' \<in> set (tl host) then None
         else case cut_last (CHR '']'') (tl host) of
                None \<Rightarrow> None
              | Some (name, port) \<Rightarrow>
                  if valid_optional_port port \<and> ip6 name then Some (CHR ''['' # name @ CHR '']'' # port) else None)
      else if (case cut_last (CHR '':'') host of None \<Rightarrow> False
               | Some (_, p) \<Rightarrow> \<not> valid_optional_port (CHR '':'' # p)) then None
      else unescape_host host)"

definition userinfo_char :: "char \<Rightarrow> bool" where
  "userinfo_char c \<longleftrightarrow> is_alnum c \<or> c \<in> set ''-._:~!$&()*+,;=%@'' \<or> c = CHR 0x27"

definition parse_userinfo :: "string \<Rightarrow> userinfo option" where
  "parse_userinfo user =
     (if \<not> list_all userinfo_char user then None
      else case cut_at (CHR '':'') user of
        None \<Rightarrow> map_option (\<lambda>n. \<lparr>ui_name = n, ui_password = None\<rparr>) (unescape False user)
      | Some (name, password) \<Rightarrow>
          (case (unescape False name, unescape False password) of
             (Some n, Some p) \<Rightarrow> Some \<lparr>ui_name = n, ui_password = Some p\<rparr>
           | _ \<Rightarrow> None))"

definition parse_authority :: "(string \<Rightarrow> bool) \<Rightarrow> string \<Rightarrow> (userinfo option \<times> string) option" where
  "parse_authority ip6 a =
     (case cut_last (CHR ''@'') a of
        None \<Rightarrow> map_option (Pair None) (parse_host ip6 a)
      | Some (user, h) \<Rightarrow>
          (case (parse_host ip6 h, parse_userinfo user) of
             (Some host, Some ui) \<Rightarrow> Some (Some ui, host)
           | _ \<Rightarrow> None))"

definition ctl_byte :: "char \<Rightarrow> bool" where "ctl_byte c \<longleftrightarrow> ord c < 32 \<or> ord c = 127"

definition split_query :: "string \<Rightarrow> string \<times> string" where
  "split_query s = (case cut_at (CHR ''?'') s of None \<Rightarrow> (s, '''') | Some p \<Rightarrow> p)"

text \<open>The hierarchical part: user, host, path with its raw text, and whether an empty host was left out.\<close>

definition parse_hier :: "(string \<Rightarrow> bool) \<Rightarrow> string \<Rightarrow> string \<Rightarrow>
    ((userinfo option \<times> string) \<times> (string \<times> string) \<times> bool) option" where
  "parse_hier ip6 scheme rest =
     (if (scheme \<noteq> '''' \<or> take 3 rest \<noteq> ''///'') \<and> take 2 rest = ''//'' then
        (let auth = takeWhile (\<lambda>c. c \<noteq> CHR ''/'') (drop 2 rest);
             path = dropWhile (\<lambda>c. c \<noteq> CHR ''/'') (drop 2 rest)
         in case parse_authority ip6 auth of None \<Rightarrow> None
            | Some uh \<Rightarrow> map_option (\<lambda>p. (uh, p, False)) (set_escaped EncPath path))
      else map_option (\<lambda>p. ((None, ''''), p, scheme \<noteq> '''' \<and> take 1 rest = ''/'')) (set_escaped EncPath rest))"

definition parse_fragment :: "string \<Rightarrow> parsed_url \<Rightarrow> parsed_url option" where
  "parse_fragment frag u =
     (if frag = '''' then Some u
      else map_option (\<lambda>(d, raw). u\<lparr>pu_fragment := d, pu_raw_fragment := raw\<rparr>) (set_escaped EncFragment frag))"

definition empty_url :: parsed_url where
  "empty_url = \<lparr>pu_scheme = '''', pu_opaque = '''', pu_user = None, pu_host = '''', pu_path = '''',
     pu_raw_path = '''', pu_omit_host = False, pu_force_query = False, pu_query = '''', pu_fragment = '''',
     pu_raw_fragment = ''''\<rparr>"

text \<open>What comes before the fragment.\<close>

definition parse_absolute :: "(string \<Rightarrow> bool) \<Rightarrow> string \<Rightarrow> parsed_url option" where
  "parse_absolute ip6 u =
     (if list_ex ctl_byte u then None
      else if u = ''*'' then Some (empty_url\<lparr>pu_path := ''*''\<rparr>)
      else case get_scheme u of
        None \<Rightarrow> None
      | Some (sch, rest0) \<Rightarrow>
          (let scheme = map lower_char sch; (rest, query) = split_query rest0;
               base = empty_url\<lparr>pu_scheme := scheme, pu_query := query,
                 pu_force_query := CHR ''?'' \<in> set rest0 \<and> query = ''''\<rparr>
           in if take 1 rest \<noteq> ''/'' \<and> scheme \<noteq> '''' then Some (base\<lparr>pu_opaque := rest\<rparr>)
              else if take 1 rest \<noteq> ''/'' \<and> CHR '':'' \<in> set (takeWhile (\<lambda>c. c \<noteq> CHR ''/'') rest) then None
              else map_option (\<lambda>((user, host), (path, raw), omit).
                     base\<lparr>pu_user := user, pu_host := host, pu_path := path, pu_raw_path := raw, pu_omit_host := omit\<rparr>)
                   (parse_hier ip6 scheme rest)))"

definition url_parse :: "(string \<Rightarrow> bool) \<Rightarrow> string \<Rightarrow> parsed_url option" where
  "url_parse ip6 raw =
     (let (u, frag) = (case cut_at (CHR ''#'') raw of None \<Rightarrow> (raw, '''') | Some p \<Rightarrow> p)
      in Option.bind (parse_absolute ip6 u) (parse_fragment frag))"

section \<open>Printing\<close>

definition userinfo_string :: "userinfo \<Rightarrow> string" where
  "userinfo_string ui = url_escape EncUser (ui_name ui)
     @ (case ui_password ui of None \<Rightarrow> '''' | Some p \<Rightarrow> '':'' @ url_escape EncUser p)"

definition escaped_path :: "parsed_url \<Rightarrow> string" where
  "escaped_path u =
     (if \<not> raw_ok EncPath (pu_path u) (pu_raw_path u) \<and> pu_path u = ''*'' then ''*''
      else escaped EncPath (pu_path u) (pu_raw_path u))"

definition url_authority :: "parsed_url \<Rightarrow> string" where
  "url_authority u =
     (if pu_scheme u = '''' \<and> pu_host u = '''' \<and> pu_user u = None then ''''
      else if pu_omit_host u \<and> pu_host u = '''' \<and> pu_user u = None then ''''
      else (if pu_host u \<noteq> '''' \<or> pu_path u \<noteq> '''' \<or> pu_user u \<noteq> None then ''//'' else '''')
        @ (case pu_user u of None \<Rightarrow> '''' | Some ui \<Rightarrow> userinfo_string ui @ ''@'')
        @ url_escape EncHost (pu_host u))"

text \<open>The URL up to its query: a relative path whose first segment has a colon gets \<^verbatim>\<open>./\<close> in front.\<close>

definition url_front :: "parsed_url \<Rightarrow> string" where
  "url_front u =
     (let sch = (if pu_scheme u = '''' then '''' else pu_scheme u @ '':'') in
      if pu_opaque u \<noteq> '''' then sch @ pu_opaque u
      else
        (let path = escaped_path u;
             front = sch @ url_authority u
               @ (if path \<noteq> '''' \<and> hd path \<noteq> CHR ''/'' \<and> pu_host u \<noteq> '''' then ''/'' else '''')
         in front
            @ (if front = '''' \<and> CHR '':'' \<in> set (takeWhile (\<lambda>c. c \<noteq> CHR ''/'') path) then ''./'' else '''') @ path))"

definition url_string :: "parsed_url \<Rightarrow> string" where
  "url_string u = url_front u
     @ (if pu_force_query u \<or> pu_query u \<noteq> '''' then ''?'' @ pu_query u else '''')
     @ (if pu_fragment u \<noteq> '''' then ''#'' @ escaped EncFragment (pu_fragment u) (pu_raw_fragment u) else '''')"

end
