(* ===== verification/Auth.thy ===== *)
theory Auth
  imports Store UrlParse
begin

text \<open>
  \<^verbatim>\<open>internal/auth\<close>: cookies, random tokens, and the login, callback, session and logout handlers.
  The OIDC relying-party library is a parameter: \<open>rp_challenge\<close> is \<^verbatim>\<open>oidc.NewSHACodeChallenge\<close>,
  \<open>rp_auth_url\<close> is \<^verbatim>\<open>rp.AuthURL\<close> on state, challenge and further parameters, and \<open>rp_exchange\<close> is
  \<^verbatim>\<open>rp.CodeExchange\<close> with its verifier, on the nonce the verifier expects, the code and the PKCE
  verifier; it runs on the identity provider's state.
\<close>

text \<open>
  The context values of \<^verbatim>\<open>oidc.go\<close>: what is stored under keys of its own \<^verbatim>\<open>contextKey\<close> type, which
  no other package can set. \<^verbatim>\<open>rp.WithNonce\<close> makes the verifier read the expected nonce from there.
\<close>

type_synonym context_values = "string \<rightharpoonup> string"

definition expectedNonceContextKey :: string where
  "expectedNonceContextKey = ''tenantdeck-expected-nonce''"

definition contextWithExpectedNonce :: "context_values \<Rightarrow> string \<Rightarrow> context_values" where
  "contextWithExpectedNonce ctx nonce = ctx(expectedNonceContextKey \<mapsto> nonce)"

definition expectedNonceFromContext :: "context_values \<Rightarrow> string" where
  "expectedNonceFromContext ctx = (case ctx expectedNonceContextKey of Some v \<Rightarrow> v | None \<Rightarrow> '''')"

lemma expectedNonce_with [simp]: "expectedNonceFromContext (contextWithExpectedNonce ctx nonce) = nonce"
  by (simp add: expectedNonceFromContext_def contextWithExpectedNonce_def)

text \<open>The authorization URL gets the nonce as one more parameter.\<close>

type_synonym url_params = "(string \<times> string) list"

definition withNonceParam :: "string \<Rightarrow> url_params" where
  "withNonceParam nonce = [(''nonce'', nonce)]"

record tokens =
  tk_subject :: string
  tk_expiration :: go_time
  tk_id_token :: string

record 'i party =
  rp_challenge :: "string \<Rightarrow> string"
  rp_auth_url :: "string \<Rightarrow> string \<Rightarrow> url_params \<Rightarrow> string"
  rp_exchange :: "'i \<Rightarrow> go_time \<Rightarrow> string \<Rightarrow> string \<Rightarrow> string \<Rightarrow> tokens option \<times> 'i"

section \<open>random.go and cookies.go\<close>

definition randomTokenBytes :: nat where "randomTokenBytes = 32"

definition randomToken :: "('s, 'i) world \<Rightarrow> string option \<times> ('s, 'i) world" where
  "randomToken w =
     (case read_random randomTokenBytes w of
        (None, w1) \<Rightarrow> (None, w1)
      | (Some raw, w1) \<Rightarrow> (Some (rawURLEncode raw), w1))"

definition loginStateCookieBase :: string where "loginStateCookieBase = ''td-login-state''"
definition sessionCookieBase :: string where "sessionCookieBase = ''td-session''"

definition cookieName :: "string \<Rightarrow> bool \<Rightarrow> string" where
  "cookieName base insecure = (if insecure then base else ''__Host-'' @ base)"

definition LoginStateCookieName :: "bool \<Rightarrow> string" where
  "LoginStateCookieName insecure = cookieName loginStateCookieBase insecure"

definition SessionCookieName :: "bool \<Rightarrow> string" where
  "SessionCookieName insecure = cookieName sessionCookieBase insecure"

definition login_state_cookie :: "bool \<Rightarrow> string \<Rightarrow> duration \<Rightarrow> cookie" where
  "login_state_cookie insecure state ttl =
     \<lparr>ck_name = LoginStateCookieName insecure, ck_value = state, ck_path = ''/'', ck_http_only = True,
      ck_secure = (\<not> insecure), ck_same_site = SameSiteLaxMode, ck_max_age = whole_seconds ttl\<rparr>"

definition setLoginStateCookie :: "bool \<Rightarrow> string \<Rightarrow> duration \<Rightarrow> rw \<Rightarrow> rw" where
  "setLoginStateCookie insecure state ttl = set_cookie (login_state_cookie insecure state ttl)"

definition clearLoginStateCookie :: "bool \<Rightarrow> rw \<Rightarrow> rw" where
  "clearLoginStateCookie insecure = set_cookie
     \<lparr>ck_name = LoginStateCookieName insecure, ck_value = '''', ck_path = ''/'', ck_http_only = True,
      ck_secure = (\<not> insecure), ck_same_site = SameSiteLaxMode, ck_max_age = -1\<rparr>"

definition session_cookie :: "bool \<Rightarrow> string \<Rightarrow> duration \<Rightarrow> cookie" where
  "session_cookie insecure sessionID ttl =
     \<lparr>ck_name = SessionCookieName insecure, ck_value = sessionID, ck_path = ''/'', ck_http_only = True,
      ck_secure = (\<not> insecure), ck_same_site = SameSiteStrictMode, ck_max_age = whole_seconds ttl\<rparr>"

definition setSessionCookie :: "bool \<Rightarrow> string \<Rightarrow> duration \<Rightarrow> rw \<Rightarrow> rw" where
  "setSessionCookie insecure sessionID ttl = set_cookie (session_cookie insecure sessionID ttl)"

definition ClearSessionCookie :: "bool \<Rightarrow> rw \<Rightarrow> rw" where
  "ClearSessionCookie insecure = set_cookie
     \<lparr>ck_name = SessionCookieName insecure, ck_value = '''', ck_path = ''/'', ck_http_only = True,
      ck_secure = (\<not> insecure), ck_same_site = SameSiteStrictMode, ck_max_age = -1\<rparr>"

section \<open>Handler (oidc.go)\<close>

record ('s, 'i) Handler =
  h_party :: "'i party"
  h_store :: "'s Store"
  h_insecure :: bool
  h_externalOrigin :: string

definition loginTransactionTTL :: duration where "loginTransactionTTL = 5 * minute"
definition postLoginRedirect :: string where "postLoginRedirect = ''/''"

definition originOf :: "(string \<Rightarrow> bool) \<Rightarrow> string \<Rightarrow> string option" where
  "originOf ip6 rawURL =
     (case url_parse ip6 rawURL of None \<Rightarrow> None
      | Some u \<Rightarrow> Some (pu_scheme u @ ''://'' @ pu_host u))"

text \<open>
  \<^verbatim>\<open>NewHandler\<close>: \<open>discover\<close> is \<^verbatim>\<open>rp.NewRelyingPartyOIDC\<close> on issuer, client ID, client secret,
  redirect URL and scopes (\<open>None\<close> when discovery fails).
\<close>

definition NewHandler ::
    "(string \<Rightarrow> bool) \<Rightarrow> (string \<Rightarrow> string \<Rightarrow> string \<Rightarrow> string \<Rightarrow> string list \<Rightarrow> 'i party option) \<Rightarrow>
     string \<Rightarrow> string \<Rightarrow> string \<Rightarrow> string \<Rightarrow> string list \<Rightarrow> bool \<Rightarrow> 's Store \<Rightarrow> ('s, 'i) Handler option" where
  "NewHandler ip6 discover externalURL issuer clientID clientSecret scopes insecure store =
     (let redirectURL = trim_right_char (CHR ''/'') externalURL @ ''/auth/callback''
      in case originOf ip6 externalURL of
           None \<Rightarrow> None
         | Some origin \<Rightarrow>
             (case discover issuer clientID clientSecret redirectURL scopes of
                None \<Rightarrow> None
              | Some party \<Rightarrow>
                  Some \<lparr>h_party = party, h_store = store, h_insecure = insecure, h_externalOrigin = origin\<rparr>))"

text \<open>\<^verbatim>\<open>subtle.ConstantTimeCompare\<close>: the differences of all bytes, accumulated.\<close>

definition byte_of :: "char \<Rightarrow> 8 word" where "byte_of c = of_nat (ord c)"

fun ct_diff :: "8 word \<Rightarrow> bytes \<Rightarrow> bytes \<Rightarrow> 8 word" where
  "ct_diff v (x # xs) (y # ys) = ct_diff (or v (xor (byte_of x) (byte_of y))) xs ys"
| "ct_diff v _ _ = v"

definition constantTimeCompare :: "bytes \<Rightarrow> bytes \<Rightarrow> int" where
  "constantTimeCompare a b = (if length a \<noteq> length b then 0 else if ct_diff 0 a b = 0 then 1 else 0)"

definition constantTimeEqual :: "string \<Rightarrow> string \<Rightarrow> bool" where
  "constantTimeEqual a b \<longleftrightarrow> length a = length b \<and> constantTimeCompare a b = 1"

definition LoginHandler :: "('s, 'i) Handler \<Rightarrow> ('c, 's, 'i) handler" where
  "LoginHandler h r rw w =
     (case randomToken w of
        (None, w1) \<Rightarrow> (http_error ''internal error'' 500 rw, w1)
      | (Some nonce, w1) \<Rightarrow>
          (case randomToken w1 of
             (None, w2) \<Rightarrow> (http_error ''internal error'' 500 rw, w2)
           | (Some verifier, w2) \<Rightarrow>
               (let challenge = rp_challenge (h_party h) verifier in
                case createLoginTransaction (h_store h)
                       \<lparr>Nonce = nonce, PKCEVerifier = verifier, TxnCreatedAt = w_now w2\<rparr>
                       loginTransactionTTL w2 of
                  (Inl e, w3) \<Rightarrow> (http_error ''internal error'' 500 rw, w3)
                | (Inr state, w3) \<Rightarrow>
                    (let rw1 = setLoginStateCookie (h_insecure h) state loginTransactionTTL rw;
                         authURL = rp_auth_url (h_party h) state challenge (withNonceParam nonce)
                     in (http_redirect r authURL rw1, w3)))))"

text \<open>The callback, in three parts: the session, the exchange before it, the state check before that.\<close>

definition callback_session :: "('s, 'i) Handler \<Rightarrow> tokens \<Rightarrow> ('c, 's, 'i) handler" where
  "callback_session h tok r rw w =
     (let expiresAt = tk_expiration tok; ttl = time_until (w_now w) expiresAt in
      if ttl \<le> 0 then (http_error ''token already expired'' 401 rw, w)
      else case randomToken w of
        (None, w1) \<Rightarrow> (http_error ''internal error'' 500 rw, w1)
      | (Some csrfToken, w1) \<Rightarrow>
          (case createSession (h_store h)
                  \<lparr>Subject = tk_subject tok, IDToken = tk_id_token tok, ExpiresAt = expiresAt,
                   CreatedAt = w_now w1, CSRFToken = csrfToken\<rparr> ttl w1 of
             (Inl e, w2) \<Rightarrow> (http_error ''internal error'' 500 rw, w2)
           | (Inr sessionID, w2) \<Rightarrow>
               (http_redirect r postLoginRedirect (setSessionCookie (h_insecure h) sessionID ttl rw), w2)))"

definition callback_exchange :: "('s, 'i) Handler \<Rightarrow> LoginTransaction \<Rightarrow> ('c, 's, 'i) handler" where
  "callback_exchange h txn r rw w =
     (let errVal = query_get (query_of r) ''error''; code = query_get (query_of r) ''code'';
          ctx = contextWithExpectedNonce Map.empty (Nonce txn) in
      if errVal \<noteq> '''' then (http_error (''login failed: '' @ errVal) 400 rw, w)
      else if code = '''' then (http_error ''missing authorization code'' 400 rw, w)
      else case rp_exchange (h_party h) (w_idp w) (w_now w) (expectedNonceFromContext ctx) code (PKCEVerifier txn) of
        (None, i') \<Rightarrow> (http_error ''token exchange failed'' 401 rw, w\<lparr>w_idp := i'\<rparr>)
      | (Some tok, i') \<Rightarrow> callback_session h tok r rw (w\<lparr>w_idp := i'\<rparr>))"

definition CallbackHandler :: "('s, 'i) Handler \<Rightarrow> ('c, 's, 'i) handler" where
  "CallbackHandler h r rw0 w =
     (case req_cookie r (LoginStateCookieName (h_insecure h)) of
        None \<Rightarrow> (http_error ''missing or expired login'' 400 rw0, w)
      | Some cookie \<Rightarrow>
          (let rw = clearLoginStateCookie (h_insecure h) rw0;
               providedState = query_get (query_of r) ''state'' in
           if providedState = '''' \<or> \<not> constantTimeEqual providedState cookie
           then (http_error ''login state mismatch'' 400 rw, w)
           else case takeLoginTransaction (h_store h) providedState w of
             (Inl e, w1) \<Rightarrow> (http_error ''login expired or already used'' 400 rw, w1)
           | (Inr txn, w1) \<Rightarrow> callback_exchange h txn r rw w1))"

section \<open>session_handlers.go\<close>

record sessionStatusResponse =
  Authenticated :: bool
  StatusSubject :: string
  StatusCSRFToken :: string

definition sessionStatus_json :: "sessionStatusResponse \<Rightarrow> json" where
  "sessionStatus_json s = JObj ([(''authenticated'', JBool (Authenticated s))]
     @ omit_str ''subject'' (StatusSubject s) @ omit_str ''csrfToken'' (StatusCSRFToken s))"

text \<open>\<^verbatim>\<open>json.NewEncoder(w).Encode\<close>: the text and a newline, in one write.\<close>

definition encode_json :: "json \<Rightarrow> rw \<Rightarrow> rw" where
  "encode_json v rw = write_body (json_print v @ [CHR 0x0A]) rw"

definition write_json :: "json \<Rightarrow> rw \<Rightarrow> rw" where
  "write_json v rw = encode_json v (set_header ''Content-Type'' ''application/json'' rw)"

text \<open>The response the session cookie gives rise to (lines 29 to 34).\<close>

definition session_status :: "('s, 'i) Handler \<Rightarrow> 'c request \<Rightarrow> ('s, 'i) world \<Rightarrow>
    sessionStatusResponse \<times> ('s, 'i) world" where
  "session_status h r w =
     (let anon = \<lparr>Authenticated = False, StatusSubject = '''', StatusCSRFToken = ''''\<rparr> in
      case req_cookie r (SessionCookieName (h_insecure h)) of
        None \<Rightarrow> (anon, w)
      | Some cookie \<Rightarrow>
          (case getSession (h_store h) cookie w of
             (Inl e, w1) \<Rightarrow> (anon, w1)
           | (Inr rec, w1) \<Rightarrow>
               (\<lparr>Authenticated = True, StatusSubject = Subject rec, StatusCSRFToken = CSRFToken rec\<rparr>, w1)))"

definition SessionHandler :: "('s, 'i) Handler \<Rightarrow> ('c, 's, 'i) handler" where
  "SessionHandler h r rw w =
     (let origin = hdr_get (rq_header r) ''Origin'' in
      if origin \<noteq> '''' \<and> origin \<noteq> h_externalOrigin h then (http_error ''forbidden'' 403 rw, w)
      else (let (resp, w') = session_status h r w in (write_json (sessionStatus_json resp) rw, w')))"

definition LogoutHandler :: "('s, 'i) Handler \<Rightarrow> ('c, 's, 'i) handler" where
  "LogoutHandler h r rw w =
     (if hdr_get (rq_header r) ''Origin'' \<noteq> h_externalOrigin h then (http_error ''forbidden'' 403 rw, w)
      else case req_cookie r (SessionCookieName (h_insecure h)) of
        None \<Rightarrow> (http_error ''not logged in'' 401 rw, w)
      | Some cookie \<Rightarrow>
          (case getSession (h_store h) cookie w of
             (Inl e, w1) \<Rightarrow> (http_error ''not logged in'' 401 (ClearSessionCookie (h_insecure h) rw), w1)
           | (Inr rec, w1) \<Rightarrow>
               (if \<not> constantTimeEqual (hdr_get (rq_header r) ''X-Csrf-Token'') (CSRFToken rec)
                then (http_error ''forbidden'' 403 rw, w1)
                else case deleteSession (h_store h) cookie w1 of
                  (Some e, w2) \<Rightarrow> (http_error ''internal error'' 500 rw, w2)
                | (None, w2) \<Rightarrow> (write_header 204 (ClearSessionCookie (h_insecure h) rw), w2))))"

section \<open>Lemmas\<close>

lemma byte_of_inject: "byte_of x = byte_of y \<longleftrightarrow> x = y"
proof
  assume "byte_of x = byte_of y"
  then have "unat (byte_of x) = unat (byte_of y)" by simp
  then have "ord x mod 256 = ord y mod 256" by (simp add: byte_of_def unat_of_nat)
  then have "ord x = ord y" by simp
  then show "x = y" by simp
qed simp

lemma xor_zero_iff: "xor (a :: 8 word) b = 0 \<longleftrightarrow> a = b"
proof
  assume "xor a b = 0"
  then have "xor (xor a b) b = b" by simp
  then show "a = b" by (simp add: xor.assoc)
qed simp

lemma ct_diff_zero: "length a = length b \<Longrightarrow> ct_diff v a b = 0 \<longleftrightarrow> v = 0 \<and> a = b"
proof (induction v a b rule: ct_diff.induct)
  case (1 v x xs y ys)
  then show ?case by (auto simp: or_eq_0_iff xor_zero_iff byte_of_inject)
qed auto

lemma constantTimeEqual_iff [simp]: "constantTimeEqual a b \<longleftrightarrow> a = b"
  using ct_diff_zero [of a b 0] by (auto simp: constantTimeEqual_def constantTimeCompare_def)

lemma quiet_randomToken: "randomToken w = (r, w') \<Longrightarrow> quiet w w'"
  by (auto simp: randomToken_def split: prod.splits option.splits dest: quiet_read_random)

lemma randomToken_Some: "randomToken w = (Some t, w') \<Longrightarrow>
  t = rawURLEncode (take randomTokenBytes (w_entropy w)) \<and> length t = 43 \<and> list_all url_safe t \<and>
  w' = w\<lparr>w_entropy := drop randomTokenBytes (w_entropy w)\<rparr>"
  by (auto simp: randomToken_def randomTokenBytes_def length_rawURLEncode rawURLEncode_safe
      split: prod.splits option.splits dest!: read_random_Some)

end
