(* ===== verification/Transport.thy ===== *)
theory Transport
  imports Http
begin

text \<open>
  \<^verbatim>\<open>http.Client.Do\<close> under a deadline. The network is a transport: for the requests sent before and
  the request, what the peer will ever deliver and when, counted from the moment the request is sent.
  A client waits as long as its own timeout and the request's context allow; what arrives later is an
  error of the call or of the body. A peer that never answers is one whose answer comes later than any
  deadline. Reading is taken to keep up with arrival.
\<close>

record timed_reader =
  tr_chunks :: "(duration \<times> string) list"
  tr_end :: "duration \<times> bool"

text \<open>\<open>tr_end\<close> says when the body ends and whether by an error. \<open>Tr_Response\<close> has the time of the headers.\<close>

datatype arrival = Tr_Error | Tr_Response duration nat timed_reader

type_synonym transport = "out_req list \<Rightarrow> out_req \<Rightarrow> arrival"

definition in_time :: "duration option \<Rightarrow> duration \<Rightarrow> bool" where
  "in_time deadline t = (case deadline of None \<Rightarrow> True | Some d \<Rightarrow> t < d)"

text \<open>The body as it is read: a chunk that comes too late, or an end that does, is a read error.\<close>

definition body_until :: "duration option \<Rightarrow> timed_reader \<Rightarrow> reader" where
  "body_until deadline b =
     \<lparr>rd_chunks = map snd (takeWhile (\<lambda>c. in_time deadline (fst c)) (tr_chunks b)),
      rd_fails = (snd (tr_end b) \<or> \<not> in_time deadline (fst (tr_end b))
        \<or> \<not> list_all (\<lambda>c. in_time deadline (fst c)) (tr_chunks b))\<rparr>"

definition receive :: "duration option \<Rightarrow> arrival \<Rightarrow> do_result" where
  "receive deadline a =
     (case a of
        Tr_Error \<Rightarrow> Do_Error
      | Tr_Response t status b \<Rightarrow>
          (if in_time deadline t then Do_Response status (body_until deadline b) else Do_Error))"

text \<open>\<^verbatim>\<open>http.Client\<close>: a timeout of 0 is none.\<close>

record http_client =
  hc_timeout :: duration
  hc_transport :: transport

definition client_deadline :: "http_client \<Rightarrow> duration option \<Rightarrow> duration option" where
  "client_deadline hc ctx =
     (if hc_timeout hc = 0 then ctx
      else Some (case ctx of None \<Rightarrow> hc_timeout hc | Some d \<Rightarrow> min d (hc_timeout hc)))"

definition http_Do :: "http_client \<Rightarrow> duration option \<Rightarrow> out_req list \<Rightarrow> out_req \<Rightarrow> do_result" where
  "http_Do hc ctx sent req = receive (client_deadline hc ctx) (hc_transport hc sent req)"

section \<open>Lemmas\<close>

lemma body_until_prefix: "prefix (concat (rd_chunks (body_until d b))) (concat (map snd (tr_chunks b)))"
proof -
  have "tr_chunks b = takeWhile (\<lambda>c. in_time d (fst c)) (tr_chunks b) @ dropWhile (\<lambda>c. in_time d (fst c)) (tr_chunks b)"
    by simp
  then have "map snd (tr_chunks b) = rd_chunks (body_until d b) @ map snd (dropWhile (\<lambda>c. in_time d (fst c)) (tr_chunks b))"
    unfolding body_until_def by (metis map_append reader.select_convs(1))
  then show ?thesis by simp
qed

text \<open>An answer is late for a deadline when its headers, one of its chunks or its end is.\<close>

definition late :: "duration \<Rightarrow> arrival \<Rightarrow> bool" where
  "late d a = (case a of
     Tr_Error \<Rightarrow> True
   | Tr_Response t status b \<Rightarrow> d \<le> t \<or> d \<le> fst (tr_end b) \<or> list_ex (\<lambda>c. d \<le> fst c) (tr_chunks b))"

lemma receive_late:
  assumes "late d a" "receive (Some d) a = Do_Response status body"
  shows "rd_fails body"
  using assms by (fastforce simp: late_def receive_def body_until_def in_time_def list_ex_iff list_all_iff
      split: arrival.splits if_splits)

end
