(* ===== verification/Capsule.thy ===== *)
theory Capsule
  imports World JsonDecode Transport
begin

text \<open>
  \<^verbatim>\<open>internal/capsule\<close>: the upstream client. The network behind \<^verbatim>\<open>http.Client.Do\<close> is a parameter, the
  transport of the clients; \<open>cl_url_ok\<close> says which URLs \<^verbatim>\<open>http.NewRequest\<close> parses. Every request
  sent is appended to the world's log. A raw JSON value is kept parsed.
\<close>

definition defaultTimeout :: duration where "defaultTimeout = 10 * second"

record Client =
  cl_baseURL :: string
  cl_url_ok :: "string \<Rightarrow> bool"
  cl_httpClient :: http_client
  cl_streamClient :: http_client

text \<open>\<open>default_transport\<close> is \<^verbatim>\<open>http.DefaultTransport\<close>, which a client without a transport uses.\<close>

definition NewClient :: "string \<Rightarrow> (string \<Rightarrow> bool) \<Rightarrow> transport \<Rightarrow> http_client option \<Rightarrow> Client" where
  "NewClient baseURL url_ok default_transport httpClient =
     (let hc = (case httpClient of
                  None \<Rightarrow> \<lparr>hc_timeout = defaultTimeout, hc_transport = default_transport\<rparr>
                | Some hc \<Rightarrow> hc)
      in \<lparr>cl_baseURL = trim_right_char (CHR ''/'') baseURL, cl_url_ok = url_ok, cl_httpClient = hc,
          cl_streamClient = \<lparr>hc_timeout = 0, hc_transport = hc_transport hc\<rparr>\<rparr>)"

text \<open>The bounded client, for a request whose context has no deadline of its own.\<close>

definition cl_do :: "Client \<Rightarrow> out_req list \<Rightarrow> out_req \<Rightarrow> do_result" where
  "cl_do c = http_Do (cl_httpClient c) None"

datatype up_error = ErrUnauthorized | ErrForbidden | ErrUpstream

record GroupVersionResource =
  APIPrefix :: string
  Resource :: string

definition maxResponseBytes :: nat where "maxResponseBytes = 10485760"

section \<open>Readers\<close>

fun limit_chunks :: "nat \<Rightarrow> string list \<Rightarrow> string list" where
  "limit_chunks n [] = []"
| "limit_chunks n (c # cs) = (if n = 0 then [] else take n c # limit_chunks (n - length c) cs)"

text \<open>\<^verbatim>\<open>io.LimitReader\<close>: end of file after \<open>n\<close> bytes, even where the source would fail.\<close>

definition limitReader :: "reader \<Rightarrow> nat \<Rightarrow> reader" where
  "limitReader r n =
     \<lparr>rd_chunks = limit_chunks n (rd_chunks r),
      rd_fails = (rd_fails r \<and> length (concat (rd_chunks r)) < n)\<rparr>"

definition readAll :: "reader \<Rightarrow> string option" where
  "readAll r = (if rd_fails r then None else Some (concat (rd_chunks r)))"

definition readBounded :: "reader \<Rightarrow> nat \<Rightarrow> up_error + string" where
  "readBounded r limit =
     (case readAll (limitReader r (limit + 1)) of
        None \<Rightarrow> Inl ErrUpstream
      | Some data \<Rightarrow> if limit < length data then Inl ErrUpstream else Inr data)"

section \<open>Bounded requests\<close>

definition bearer :: "string \<Rightarrow> string" where "bearer idToken = ''Bearer '' @ idToken"

definition client_do :: "Client \<Rightarrow> string \<Rightarrow> string \<Rightarrow> ('s, 'i) world \<Rightarrow> (up_error + string) \<times> ('s, 'i) world" where
  "client_do c idToken path w =
     (let url = cl_baseURL c @ path;
          req = \<lparr>or_method = ''GET'', or_url = url,
                 or_header = [(''Authorization'', bearer idToken), (''Accept'', ''application/json'')]\<rparr>
      in if \<not> cl_url_ok c url then (Inl ErrUpstream, w)
         else let w' = w\<lparr>w_sent := w_sent w @ [req]\<rparr>
              in (case cl_do c (w_sent w) req of
                    Do_Error \<Rightarrow> (Inl ErrUpstream, w')
                  | Do_Response status body \<Rightarrow>
                      (if status = 200 then readBounded body maxResponseBytes
                       else if status = 401 then Inl ErrUnauthorized
                       else if status = 403 then Inl ErrForbidden
                       else Inl ErrUpstream, w')))"

text \<open>\<^verbatim>\<open>rawList\<close>: the items of a Kubernetes list, each kept as it is.\<close>

definition decode_list :: "string \<Rightarrow> json list option" where
  "decode_list data =
     map_option slice_elems
       (Option.bind (Option.bind (json_parse data) top_struct) (fSlice ''items''))"

definition namespace_name :: "json \<Rightarrow> string option" where
  "namespace_name item =
     Option.bind (Option.bind (top_struct item) (fStruct ''metadata'')) (fString ''name'')"

record Namespace = nsp_name :: string

definition ListNamespaces :: "Client \<Rightarrow> string \<Rightarrow> ('s, 'i) world \<Rightarrow> (up_error + Namespace list) \<times> ('s, 'i) world" where
  "ListNamespaces c idToken w =
     (case client_do c idToken ''/api/v1/namespaces'' w of
        (Inl e, w') \<Rightarrow> (Inl e, w')
      | (Inr data, w') \<Rightarrow>
          (case decode_list data of
             None \<Rightarrow> (Inl ErrUpstream, w')
           | Some items \<Rightarrow>
               (case traverse namespace_name items of
                  None \<Rightarrow> (Inl ErrUpstream, w')
                | Some names \<Rightarrow> (Inr (map (\<lambda>name. \<lparr>nsp_name = name\<rparr>) names), w'))))"

definition resource_path :: "GroupVersionResource \<Rightarrow> string \<Rightarrow> string" where
  "resource_path gvr namespace =
     ''/'' @ APIPrefix gvr @ ''/namespaces/'' @ namespace @ ''/'' @ Resource gvr"

definition ListNamespacedResource :: "Client \<Rightarrow> string \<Rightarrow> string \<Rightarrow> GroupVersionResource \<Rightarrow> int \<Rightarrow>
    ('s, 'i) world \<Rightarrow> (up_error + json list) \<times> ('s, 'i) world" where
  "ListNamespacedResource c idToken namespace gvr limit w =
     (let path = resource_path gvr namespace @ (if 0 < limit then ''?limit='' @ formatInt limit else '''')
      in case client_do c idToken path w of
           (Inl e, w') \<Rightarrow> (Inl e, w')
         | (Inr data, w') \<Rightarrow>
             (case decode_list data of None \<Rightarrow> (Inl ErrUpstream, w') | Some items \<Rightarrow> (Inr items, w')))"

definition GetNamespacedResource :: "Client \<Rightarrow> string \<Rightarrow> string \<Rightarrow> string \<Rightarrow> GroupVersionResource \<Rightarrow>
    ('s, 'i) world \<Rightarrow> (up_error + string) \<times> ('s, 'i) world" where
  "GetNamespacedResource c idToken namespace name gvr w =
     client_do c idToken (resource_path gvr namespace @ ''/'' @ name) w"

section \<open>Log streams (logs.go)\<close>

record LogOptions =
  Container :: string
  TailLines :: int
  LimitBytes :: int
  SinceSeconds :: int
  Follow :: bool

definition log_query :: "LogOptions \<Rightarrow> qvalues" where
  "log_query opts =
     (let q0 = [];
          q1 = (if Container opts \<noteq> '''' then query_set ''container'' (Container opts) q0 else q0);
          q2 = (if 0 < TailLines opts then query_set ''tailLines'' (formatInt (TailLines opts)) q1 else q1);
          q3 = (if 0 < LimitBytes opts then query_set ''limitBytes'' (formatInt (LimitBytes opts)) q2 else q2);
          q4 = (if 0 < SinceSeconds opts then query_set ''sinceSeconds'' (formatInt (SinceSeconds opts)) q3 else q3)
      in if Follow opts then query_set ''follow'' ''true'' q4 else q4)"

definition log_path :: "string \<Rightarrow> string \<Rightarrow> string" where
  "log_path namespace podName = ''/api/v1/namespaces/'' @ namespace @ ''/pods/'' @ podName @ ''/log''"

text \<open>\<open>ctx\<close> is the deadline of the caller's context, the only bound of a stream.\<close>

definition StreamPodLogs :: "Client \<Rightarrow> duration option \<Rightarrow> string \<Rightarrow> string \<Rightarrow> string \<Rightarrow> LogOptions \<Rightarrow>
    ('s, 'i) world \<Rightarrow> (up_error + reader) \<times> ('s, 'i) world" where
  "StreamPodLogs c ctx idToken namespace podName opts w =
     (let url = cl_baseURL c @ log_path namespace podName @ ''?'' @ query_encode (log_query opts);
          req = \<lparr>or_method = ''GET'', or_url = url,
                 or_header = [(''Authorization'', bearer idToken), (''Accept'', ''text/plain, */*'')]\<rparr>
      in if \<not> cl_url_ok c url then (Inl ErrUpstream, w)
         else let w' = w\<lparr>w_sent := w_sent w @ [req]\<rparr>
              in (case http_Do (cl_streamClient c) ctx (w_sent w) req of
                    Do_Error \<Rightarrow> (Inl ErrUpstream, w')
                  | Do_Response status body \<Rightarrow>
                      (if status = 200 then Inr body
                       else if status = 401 then Inl ErrUnauthorized
                       else if status = 403 then Inl ErrForbidden
                       else Inl ErrUpstream, w')))"

lemmas capsule_defs = client_do_def ListNamespaces_def ListNamespacedResource_def
  GetNamespacedResource_def StreamPodLogs_def

section \<open>Lemmas on readers\<close>

lemma concat_limit_chunks: "concat (limit_chunks n cs) = take n (concat cs)"
  by (induction n cs rule: limit_chunks.induct) auto

lemma readBounded_Inr: "readBounded r limit = Inr data \<longleftrightarrow>
  \<not> rd_fails r \<and> data = concat (rd_chunks r) \<and> length data \<le> limit"
  by (auto simp: readBounded_def readAll_def limitReader_def concat_limit_chunks split: if_splits)

lemma readBounded_Inl: "(\<exists>e. readBounded r limit = Inl e) \<longleftrightarrow>
  rd_fails r \<or> limit < length (concat (rd_chunks r))"
  by (auto simp: readBounded_def readAll_def limitReader_def concat_limit_chunks)

section \<open>What a call sends\<close>

text \<open>A step whose only effect is at most one request, of the given shape, in the log.\<close>

definition sends :: "(out_req \<Rightarrow> bool) \<Rightarrow> ('s, 'i) world \<Rightarrow> ('s, 'i) world \<Rightarrow> bool" where
  "sends P w w' \<longleftrightarrow> (\<exists>qs. w' = w\<lparr>w_sent := w_sent w @ qs\<rparr> \<and> list_all P qs)"

lemma sends_refl [simp]: "sends P w w"
  by (auto simp: sends_def intro: exI [of _ "[]"])

lemma sends_trans: "sends P w w1 \<Longrightarrow> sends P w1 w2 \<Longrightarrow> sends P w w2"
  unfolding sends_def
proof (elim exE conjE)
  fix q1 q2 assume "w1 = w\<lparr>w_sent := w_sent w @ q1\<rparr>" "list_all P q1"
    "w2 = w1\<lparr>w_sent := w_sent w1 @ q2\<rparr>" "list_all P q2"
  then have "w2 = w\<lparr>w_sent := w_sent w @ (q1 @ q2)\<rparr> \<and> list_all P (q1 @ q2)" by simp
  then show "\<exists>qs. w2 = w\<lparr>w_sent := w_sent w @ qs\<rparr> \<and> list_all P qs" by blast
qed

lemma sends_mono: "sends P w w' \<Longrightarrow> (\<And>q. P q \<Longrightarrow> Q q) \<Longrightarrow> sends Q w w'"
  by (auto simp: sends_def list_all_iff)

lemma sends_one: "P q \<Longrightarrow> sends P w (w\<lparr>w_sent := w_sent w @ [q]\<rparr>)"
  by (auto simp: sends_def intro: exI [of _ "[q]"])

lemma sendsD:
  assumes "sends P w w'"
  shows "w_kv w' = w_kv w" "w_idp w' = w_idp w" "w_now w' = w_now w" "w_entropy w' = w_entropy w"
    "\<exists>qs. w_sent w' = w_sent w @ qs \<and> list_all P qs"
  using assms by (auto simp: sends_def)

definition api_get :: "Client \<Rightarrow> string \<Rightarrow> string \<Rightarrow> out_req \<Rightarrow> bool" where
  "api_get c tok path q \<longleftrightarrow> or_method q = ''GET'' \<and> or_url q = cl_baseURL c @ path
     \<and> (\<exists>accept. or_header q = [(''Authorization'', bearer tok), (''Accept'', accept)])"

lemma client_do_sends: "client_do c tok path w = (r, w') \<Longrightarrow> sends (api_get c tok path) w w'"
  by (auto simp: client_do_def Let_def api_get_def intro!: sends_one split: if_splits do_result.splits)

lemma ListNamespaces_sends:
  "ListNamespaces c tok w = (r, w') \<Longrightarrow> sends (api_get c tok ''/api/v1/namespaces'') w w'"
  by (auto simp: ListNamespaces_def split: prod.splits sum.splits option.splits dest: client_do_sends)

lemma ListNamespacedResource_sends:
  "ListNamespacedResource c tok ns gvr limit w = (r, w') \<Longrightarrow>
   sends (api_get c tok (resource_path gvr ns @ (if 0 < limit then ''?limit='' @ formatInt limit else ''''))) w w'"
  unfolding ListNamespacedResource_def Let_def
  by (auto split: prod.splits sum.splits option.splits dest: client_do_sends)

lemma GetNamespacedResource_sends:
  "GetNamespacedResource c tok ns name gvr w = (r, w') \<Longrightarrow>
   sends (api_get c tok (resource_path gvr ns @ ''/'' @ name)) w w'"
  by (auto simp: GetNamespacedResource_def dest: client_do_sends)

lemma StreamPodLogs_sends:
  "StreamPodLogs c ctx tok ns pod opts w = (r, w') \<Longrightarrow>
   sends (api_get c tok (log_path ns pod @ ''?'' @ query_encode (log_query opts))) w w'"
  by (auto simp: StreamPodLogs_def Let_def api_get_def intro!: sends_one split: if_splits do_result.splits)

end
