(* ===== verification/Summaries.thy ===== *)
theory Summaries
  imports Capsule "HOL-Library.Monad_Syntax"
begin

text \<open>
  The summaries of \<^verbatim>\<open>internal/httpapi\<close> (\<^verbatim>\<open>workloads.go\<close>, \<^verbatim>\<open>network.go\<close>, \<^verbatim>\<open>storage.go\<close>,
  \<^verbatim>\<open>events.go\<close>, \<^verbatim>\<open>overview.go\<close>): per Kubernetes kind the path it lives under, the struct the
  program exposes, the decoder from the raw object, and the JSON form of the struct. \<open>None\<close> is a
  decoding error.
\<close>

type_synonym summarizeFunc = "json \<Rightarrow> json option"

section \<open>workloads.go\<close>

definition deploymentsGVR :: GroupVersionResource where
  "deploymentsGVR = \<lparr>APIPrefix = ''apis/apps/v1'', Resource = ''deployments''\<rparr>"
definition statefulSetsGVR :: GroupVersionResource where
  "statefulSetsGVR = \<lparr>APIPrefix = ''apis/apps/v1'', Resource = ''statefulsets''\<rparr>"
definition daemonSetsGVR :: GroupVersionResource where
  "daemonSetsGVR = \<lparr>APIPrefix = ''apis/apps/v1'', Resource = ''daemonsets''\<rparr>"
definition podsGVR :: GroupVersionResource where
  "podsGVR = \<lparr>APIPrefix = ''api/v1'', Resource = ''pods''\<rparr>"
definition jobsGVR :: GroupVersionResource where
  "jobsGVR = \<lparr>APIPrefix = ''apis/batch/v1'', Resource = ''jobs''\<rparr>"
definition cronJobsGVR :: GroupVersionResource where
  "cronJobsGVR = \<lparr>APIPrefix = ''apis/batch/v1'', Resource = ''cronjobs''\<rparr>"

text \<open>\<^verbatim>\<open>Metadata.Name\<close>, which every object but an event is named by.\<close>

definition metadata_name :: "members \<Rightarrow> string option" where
  "metadata_name obj = do { md \<leftarrow> fStruct ''metadata'' obj; fString ''name'' md }"

record deploymentSummary =
  dep_name :: string
  dep_replicas :: int
  dep_readyReplicas :: int
  dep_updatedReplicas :: int
  dep_availableReplicas :: int

definition deploymentSummary_json :: "deploymentSummary \<Rightarrow> json" where
  "deploymentSummary_json s = JObj [(''name'', JStr (dep_name s)), (''replicas'', jInt (dep_replicas s)),
     (''readyReplicas'', jInt (dep_readyReplicas s)), (''updatedReplicas'', jInt (dep_updatedReplicas s)),
     (''availableReplicas'', jInt (dep_availableReplicas s))]"

definition summarizeDeployment :: "json \<Rightarrow> deploymentSummary option" where
  "summarizeDeployment raw = do {
     obj \<leftarrow> top_struct raw;
     name \<leftarrow> metadata_name obj;
     spec \<leftarrow> fStruct ''spec'' obj;
     replicas \<leftarrow> fInt32 ''replicas'' spec;
     status \<leftarrow> fStruct ''status'' obj;
     ready \<leftarrow> fInt32 ''readyReplicas'' status;
     updated \<leftarrow> fInt32 ''updatedReplicas'' status;
     available \<leftarrow> fInt32 ''availableReplicas'' status;
     Some \<lparr>dep_name = name, dep_replicas = replicas, dep_readyReplicas = ready,
           dep_updatedReplicas = updated, dep_availableReplicas = available\<rparr> }"

record statefulSetSummary =
  sts_name :: string
  sts_replicas :: int
  sts_readyReplicas :: int
  sts_currentReplicas :: int

definition statefulSetSummary_json :: "statefulSetSummary \<Rightarrow> json" where
  "statefulSetSummary_json s = JObj [(''name'', JStr (sts_name s)), (''replicas'', jInt (sts_replicas s)),
     (''readyReplicas'', jInt (sts_readyReplicas s)), (''currentReplicas'', jInt (sts_currentReplicas s))]"

definition summarizeStatefulSet :: "json \<Rightarrow> statefulSetSummary option" where
  "summarizeStatefulSet raw = do {
     obj \<leftarrow> top_struct raw;
     name \<leftarrow> metadata_name obj;
     spec \<leftarrow> fStruct ''spec'' obj;
     replicas \<leftarrow> fInt32 ''replicas'' spec;
     status \<leftarrow> fStruct ''status'' obj;
     ready \<leftarrow> fInt32 ''readyReplicas'' status;
     current \<leftarrow> fInt32 ''currentReplicas'' status;
     Some \<lparr>sts_name = name, sts_replicas = replicas, sts_readyReplicas = ready,
           sts_currentReplicas = current\<rparr> }"

record daemonSetSummary =
  ds_name :: string
  ds_desiredNumberScheduled :: int
  ds_numberReady :: int
  ds_numberAvailable :: int

definition daemonSetSummary_json :: "daemonSetSummary \<Rightarrow> json" where
  "daemonSetSummary_json s = JObj [(''name'', JStr (ds_name s)),
     (''desiredNumberScheduled'', jInt (ds_desiredNumberScheduled s)),
     (''numberReady'', jInt (ds_numberReady s)), (''numberAvailable'', jInt (ds_numberAvailable s))]"

definition summarizeDaemonSet :: "json \<Rightarrow> daemonSetSummary option" where
  "summarizeDaemonSet raw = do {
     obj \<leftarrow> top_struct raw;
     name \<leftarrow> metadata_name obj;
     status \<leftarrow> fStruct ''status'' obj;
     desired \<leftarrow> fInt32 ''desiredNumberScheduled'' status;
     ready \<leftarrow> fInt32 ''numberReady'' status;
     available \<leftarrow> fInt32 ''numberAvailable'' status;
     Some \<lparr>ds_name = name, ds_desiredNumberScheduled = desired, ds_numberReady = ready,
           ds_numberAvailable = available\<rparr> }"

record containerSummary =
  cs_name :: string
  cs_image :: string
  cs_ready :: bool
  cs_restartCount :: int

definition containerSummary_json :: "containerSummary \<Rightarrow> json" where
  "containerSummary_json s = JObj [(''name'', JStr (cs_name s)), (''image'', JStr (cs_image s)),
     (''ready'', JBool (cs_ready s)), (''restartCount'', jInt (cs_restartCount s))]"

record podSummary =
  pod_name :: string
  pod_phase :: string
  pod_ready :: bool
  pod_containers :: "containerSummary list"

definition podSummary_json :: "podSummary \<Rightarrow> json" where
  "podSummary_json s = JObj [(''name'', JStr (pod_name s)), (''phase'', JStr (pod_phase s)),
     (''ready'', JBool (pod_ready s)), (''containers'', JArr (map containerSummary_json (pod_containers s)))]"

text \<open>The elements of \<^verbatim>\<open>spec.containers\<close> and of \<^verbatim>\<open>status.containerStatuses\<close>.\<close>

definition spec_container :: "json \<Rightarrow> (string \<times> string) option" where
  "spec_container raw = do {
     c \<leftarrow> top_struct raw; name \<leftarrow> fString ''name'' c; image \<leftarrow> fString ''image'' c; Some (name, image) }"

record containerStatus =
  st_name :: string
  st_image :: string
  st_ready :: bool
  st_restartCount :: int

definition container_status :: "json \<Rightarrow> containerStatus option" where
  "container_status raw = do {
     c \<leftarrow> top_struct raw;
     name \<leftarrow> fString ''name'' c;
     image \<leftarrow> fString ''image'' c;
     ready \<leftarrow> fBool ''ready'' c;
     restarts \<leftarrow> fInt32 ''restartCount'' c;
     Some \<lparr>st_name = name, st_image = image, st_ready = ready, st_restartCount = restarts\<rparr> }"

text \<open>The two loops of \<^verbatim>\<open>summarizePod\<close>: over the statuses, then, if none, over the spec.\<close>

fun pod_status_loop :: "containerSummary list \<Rightarrow> bool \<Rightarrow> containerStatus list \<Rightarrow> containerSummary list \<times> bool" where
  "pod_status_loop containers allReady [] = (containers, allReady)"
| "pod_status_loop containers allReady (cs # rest) =
     pod_status_loop
       (containers @ [\<lparr>cs_name = st_name cs, cs_image = st_image cs, cs_ready = st_ready cs,
                       cs_restartCount = st_restartCount cs\<rparr>])
       (if st_ready cs then allReady else False) rest"

fun pod_spec_loop :: "containerSummary list \<Rightarrow> (string \<times> string) list \<Rightarrow> containerSummary list" where
  "pod_spec_loop containers [] = containers"
| "pod_spec_loop containers ((n, i) # rest) =
     pod_spec_loop (containers @ [\<lparr>cs_name = n, cs_image = i, cs_ready = False, cs_restartCount = 0\<rparr>]) rest"

definition summarizePod :: "json \<Rightarrow> podSummary option" where
  "summarizePod raw = do {
     obj \<leftarrow> top_struct raw;
     name \<leftarrow> metadata_name obj;
     spec \<leftarrow> fStruct ''spec'' obj;
     rawContainers \<leftarrow> fSlice ''containers'' spec;
     specContainers \<leftarrow> traverse spec_container (slice_elems rawContainers);
     status \<leftarrow> fStruct ''status'' obj;
     phase \<leftarrow> fString ''phase'' status;
     rawStatuses \<leftarrow> fSlice ''containerStatuses'' status;
     statuses \<leftarrow> traverse container_status (slice_elems rawStatuses);
     let (containers, allReady) = pod_status_loop [] (0 < length statuses) statuses;
         (containers, allReady) =
           (if length containers = 0 then (pod_spec_loop containers specContainers, False)
            else (containers, allReady))
     in Some \<lparr>pod_name = name, pod_phase = phase, pod_ready = allReady, pod_containers = containers\<rparr> }"

record jobSummary =
  job_name :: string
  job_active :: int
  job_succeeded :: int
  job_failed :: int

definition jobSummary_json :: "jobSummary \<Rightarrow> json" where
  "jobSummary_json s = JObj [(''name'', JStr (job_name s)), (''active'', jInt (job_active s)),
     (''succeeded'', jInt (job_succeeded s)), (''failed'', jInt (job_failed s))]"

definition summarizeJob :: "json \<Rightarrow> jobSummary option" where
  "summarizeJob raw = do {
     obj \<leftarrow> top_struct raw;
     name \<leftarrow> metadata_name obj;
     status \<leftarrow> fStruct ''status'' obj;
     active \<leftarrow> fInt32 ''active'' status;
     succeeded \<leftarrow> fInt32 ''succeeded'' status;
     failed \<leftarrow> fInt32 ''failed'' status;
     Some \<lparr>job_name = name, job_active = active, job_succeeded = succeeded, job_failed = failed\<rparr> }"

record cronJobSummary =
  cj_name :: string
  cj_schedule :: string
  cj_suspend :: bool
  cj_lastScheduleTime :: "string option"

definition cronJobSummary_json :: "cronJobSummary \<Rightarrow> json" where
  "cronJobSummary_json s = JObj ([(''name'', JStr (cj_name s)), (''schedule'', JStr (cj_schedule s)),
     (''suspend'', JBool (cj_suspend s))] @ omit_ptr ''lastScheduleTime'' (cj_lastScheduleTime s))"

definition summarizeCronJob :: "json \<Rightarrow> cronJobSummary option" where
  "summarizeCronJob raw = do {
     obj \<leftarrow> top_struct raw;
     name \<leftarrow> metadata_name obj;
     spec \<leftarrow> fStruct ''spec'' obj;
     schedule \<leftarrow> fString ''schedule'' spec;
     suspend \<leftarrow> fBool ''suspend'' spec;
     status \<leftarrow> fStruct ''status'' obj;
     lastTime \<leftarrow> fStrPtr ''lastScheduleTime'' status;
     Some \<lparr>cj_name = name, cj_schedule = schedule, cj_suspend = suspend, cj_lastScheduleTime = lastTime\<rparr> }"

section \<open>network.go\<close>

definition servicesGVR :: GroupVersionResource where
  "servicesGVR = \<lparr>APIPrefix = ''api/v1'', Resource = ''services''\<rparr>"
definition ingressesGVR :: GroupVersionResource where
  "ingressesGVR = \<lparr>APIPrefix = ''apis/networking.k8s.io/v1'', Resource = ''ingresses''\<rparr>"

text \<open>
  \<^verbatim>\<open>fmt.Sprint\<close> of what \<^verbatim>\<open>json.Unmarshal\<close> leaves in an \<^verbatim>\<open>any\<close>: nil prints as \<^verbatim>\<open><nil>\<close>, a
  number as its \<^verbatim>\<open>float64\<close>, an array and an object (a map, keys sorted, the last of equal keys)
  by their elements.
\<close>

definition last_wins :: "(string \<times> 'v) list \<Rightarrow> (string \<times> 'v) list" where
  "last_wins ms = fold (\<lambda>(k, v). upd_entry k v) ms []"

fun sprint :: "json \<Rightarrow> string" where
  "sprint JNull = ''<nil>''"
| "sprint (JBool b) = (if b then ''true'' else ''false'')"
| "sprint (JNum n) = (case parse_float n of None \<Rightarrow> '''' | Some x \<Rightarrow> format_double x)"
| "sprint (JStr s) = s"
| "sprint (JArr vs) = ''['' @ join_with '' '' (map sprint vs) @ '']''"
| "sprint (JObj ms) =
     ''map['' @ join_with '' '' (map (\<lambda>(k, t). k @ '':'' @ t)
       (sort_key fst (last_wins (map (\<lambda>(k, v). (k, sprint v)) ms)))) @ '']''"

record servicePortSummary =
  svp_name :: string
  svp_port :: int
  svp_targetPort :: string
  svp_protocol :: string

definition servicePortSummary_json :: "servicePortSummary \<Rightarrow> json" where
  "servicePortSummary_json s = JObj (omit_str ''name'' (svp_name s) @ [(''port'', jInt (svp_port s))]
     @ omit_str ''targetPort'' (svp_targetPort s) @ [(''protocol'', JStr (svp_protocol s))])"

record serviceSummary =
  svc_name :: string
  svc_type :: string
  svc_clusterIP :: string
  svc_ports :: "servicePortSummary list"

definition serviceSummary_json :: "serviceSummary \<Rightarrow> json" where
  "serviceSummary_json s = JObj [(''name'', JStr (svc_name s)), (''type'', JStr (svc_type s)),
     (''clusterIP'', JStr (svc_clusterIP s)), (''ports'', JArr (map servicePortSummary_json (svc_ports s)))]"

definition service_port :: "json \<Rightarrow> servicePortSummary option" where
  "service_port raw = do {
     p \<leftarrow> top_struct raw;
     name \<leftarrow> fString ''name'' p;
     port \<leftarrow> fInt32 ''port'' p;
     targetPort \<leftarrow> fAny ''targetPort'' p;
     protocol \<leftarrow> fString ''protocol'' p;
     Some \<lparr>svp_name = name, svp_port = port, svp_targetPort = sprint targetPort, svp_protocol = protocol\<rparr> }"

definition summarizeService :: "json \<Rightarrow> serviceSummary option" where
  "summarizeService raw = do {
     obj \<leftarrow> top_struct raw;
     name \<leftarrow> metadata_name obj;
     spec \<leftarrow> fStruct ''spec'' obj;
     type \<leftarrow> fString ''type'' spec;
     clusterIP \<leftarrow> fString ''clusterIP'' spec;
     rawPorts \<leftarrow> fSlice ''ports'' spec;
     ports \<leftarrow> traverse service_port (slice_elems rawPorts);
     Some \<lparr>svc_name = name, svc_type = type, svc_clusterIP = clusterIP, svc_ports = ports\<rparr> }"

record ingressSummary =
  ing_name :: string
  ing_className :: "string option"
  ing_hosts :: "string list"

definition ingressSummary_json :: "ingressSummary \<Rightarrow> json" where
  "ingressSummary_json s = JObj ([(''name'', JStr (ing_name s))]
     @ omit_ptr ''ingressClassName'' (ing_className s) @ [(''hosts'', JArr (map JStr (ing_hosts s)))])"

definition ingress_rule :: "json \<Rightarrow> string option" where
  "ingress_rule raw = do { rule \<leftarrow> top_struct raw; fString ''host'' rule }"

fun host_loop :: "string list \<Rightarrow> string list \<Rightarrow> string list" where
  "host_loop hosts [] = hosts"
| "host_loop hosts (h # rest) = host_loop (if h \<noteq> '''' then hosts @ [h] else hosts) rest"

definition summarizeIngress :: "json \<Rightarrow> ingressSummary option" where
  "summarizeIngress raw = do {
     obj \<leftarrow> top_struct raw;
     name \<leftarrow> metadata_name obj;
     spec \<leftarrow> fStruct ''spec'' obj;
     className \<leftarrow> fStrPtr ''ingressClassName'' spec;
     rawRules \<leftarrow> fSlice ''rules'' spec;
     rules \<leftarrow> traverse ingress_rule (slice_elems rawRules);
     Some \<lparr>ing_name = name, ing_className = className, ing_hosts = host_loop [] rules\<rparr> }"

section \<open>storage.go\<close>

definition pvcGVR :: GroupVersionResource where
  "pvcGVR = \<lparr>APIPrefix = ''api/v1'', Resource = ''persistentvolumeclaims''\<rparr>"

record persistentVolumeClaimSummary =
  pvc_name :: string
  pvc_phase :: string
  pvc_capacity :: string
  pvc_accessModes :: "string list option"
  pvc_storageClass :: "string option"

definition jStrings :: "string list option \<Rightarrow> json" where
  "jStrings p = (case p of None \<Rightarrow> JNull | Some ss \<Rightarrow> JArr (map JStr ss))"

definition persistentVolumeClaimSummary_json :: "persistentVolumeClaimSummary \<Rightarrow> json" where
  "persistentVolumeClaimSummary_json s = JObj ([(''name'', JStr (pvc_name s)), (''phase'', JStr (pvc_phase s))]
     @ omit_str ''capacity'' (pvc_capacity s) @ [(''accessModes'', jStrings (pvc_accessModes s))]
     @ omit_ptr ''storageClassName'' (pvc_storageClass s))"

definition summarizePersistentVolumeClaim :: "json \<Rightarrow> persistentVolumeClaimSummary option" where
  "summarizePersistentVolumeClaim raw = do {
     obj \<leftarrow> top_struct raw;
     name \<leftarrow> metadata_name obj;
     spec \<leftarrow> fStruct ''spec'' obj;
     rawModes \<leftarrow> fSlice ''accessModes'' spec;
     modes \<leftarrow> traverse (into_string '''') (slice_elems rawModes);
     className \<leftarrow> fStrPtr ''storageClassName'' spec;
     status \<leftarrow> fStruct ''status'' obj;
     phase \<leftarrow> fString ''phase'' status;
     capacity \<leftarrow> fStruct ''capacity'' status;
     storage \<leftarrow> fString ''storage'' capacity;
     Some \<lparr>pvc_name = name, pvc_phase = phase, pvc_capacity = storage,
           pvc_accessModes = map_option (\<lambda>_. modes) rawModes, pvc_storageClass = className\<rparr> }"

section \<open>events.go\<close>

definition eventsGVR :: GroupVersionResource where
  "eventsGVR = \<lparr>APIPrefix = ''api/v1'', Resource = ''events''\<rparr>"

record eventSummary =
  ev_message :: string
  ev_reason :: string
  ev_type :: string
  ev_count :: int
  ev_lastTimestamp :: string
  ev_involvedObject :: string

definition eventSummary_json :: "eventSummary \<Rightarrow> json" where
  "eventSummary_json s = JObj [(''message'', JStr (ev_message s)), (''reason'', JStr (ev_reason s)),
     (''type'', JStr (ev_type s)), (''count'', jInt (ev_count s)),
     (''lastTimestamp'', JStr (ev_lastTimestamp s)), (''involvedObject'', JStr (ev_involvedObject s))]"

definition summarizeEvent :: "json \<Rightarrow> eventSummary option" where
  "summarizeEvent raw = do {
     obj \<leftarrow> top_struct raw;
     message \<leftarrow> fString ''message'' obj;
     reason \<leftarrow> fString ''reason'' obj;
     type \<leftarrow> fString ''type'' obj;
     count \<leftarrow> fInt32 ''count'' obj;
     lastTimestamp \<leftarrow> fString ''lastTimestamp'' obj;
     involved \<leftarrow> fStruct ''involvedObject'' obj;
     kind \<leftarrow> fString ''kind'' involved;
     name \<leftarrow> fString ''name'' involved;
     Some \<lparr>ev_message = message, ev_reason = reason, ev_type = type, ev_count = count,
           ev_lastTimestamp = lastTimestamp, ev_involvedObject = kind @ ''/'' @ name\<rparr> }"

section \<open>overview.go\<close>

definition resourceQuotasGVR :: GroupVersionResource where
  "resourceQuotasGVR = \<lparr>APIPrefix = ''api/v1'', Resource = ''resourcequotas''\<rparr>"
definition limitRangesGVR :: GroupVersionResource where
  "limitRangesGVR = \<lparr>APIPrefix = ''api/v1'', Resource = ''limitranges''\<rparr>"

type_synonym str_map = "(string \<times> string) list option"

record resourceQuotaSummary =
  quota_name :: string
  quota_hard :: str_map
  quota_used :: str_map

definition resourceQuotaSummary_json :: "resourceQuotaSummary \<Rightarrow> json" where
  "resourceQuotaSummary_json s = JObj [(''name'', JStr (quota_name s)), (''hard'', jMap (quota_hard s)),
     (''used'', jMap (quota_used s))]"

definition summarizeResourceQuota :: "json \<Rightarrow> resourceQuotaSummary option" where
  "summarizeResourceQuota raw = do {
     obj \<leftarrow> top_struct raw;
     name \<leftarrow> metadata_name obj;
     status \<leftarrow> fStruct ''status'' obj;
     hard \<leftarrow> fMap ''hard'' status;
     used \<leftarrow> fMap ''used'' status;
     Some \<lparr>quota_name = name, quota_hard = hard, quota_used = used\<rparr> }"

record limitRangeItemSummary =
  lri_type :: string
  lri_default :: str_map
  lri_defaultRequest :: str_map
  lri_max :: str_map
  lri_min :: str_map

definition limitRangeItemSummary_json :: "limitRangeItemSummary \<Rightarrow> json" where
  "limitRangeItemSummary_json s = JObj ([(''type'', JStr (lri_type s))] @ omit_map ''default'' (lri_default s)
     @ omit_map ''defaultRequest'' (lri_defaultRequest s) @ omit_map ''max'' (lri_max s)
     @ omit_map ''min'' (lri_min s))"

record limitRangeSummary =
  lr_name :: string
  lr_limits :: "limitRangeItemSummary list"

definition limitRangeSummary_json :: "limitRangeSummary \<Rightarrow> json" where
  "limitRangeSummary_json s = JObj [(''name'', JStr (lr_name s)),
     (''limits'', JArr (map limitRangeItemSummary_json (lr_limits s)))]"

definition limit_item :: "json \<Rightarrow> limitRangeItemSummary option" where
  "limit_item raw = do {
     l \<leftarrow> top_struct raw;
     type \<leftarrow> fString ''type'' l;
     dflt \<leftarrow> fMap ''default'' l;
     dfltRequest \<leftarrow> fMap ''defaultRequest'' l;
     mx \<leftarrow> fMap ''max'' l;
     mn \<leftarrow> fMap ''min'' l;
     Some \<lparr>lri_type = type, lri_default = dflt, lri_defaultRequest = dfltRequest, lri_max = mx, lri_min = mn\<rparr> }"

definition summarizeLimitRange :: "json \<Rightarrow> limitRangeSummary option" where
  "summarizeLimitRange raw = do {
     obj \<leftarrow> top_struct raw;
     name \<leftarrow> metadata_name obj;
     spec \<leftarrow> fStruct ''spec'' obj;
     rawLimits \<leftarrow> fSlice ''limits'' spec;
     limits \<leftarrow> traverse limit_item (slice_elems rawLimits);
     Some \<lparr>lr_name = name, lr_limits = limits\<rparr> }"

end
