(* ===== verification/Validate.thy ===== *)
theory Validate
  imports Prelude
begin

text \<open>
  \<^verbatim>\<open>internal/httpapi/validate.go\<close>: the pattern every namespace, object and container name must
  match, as a regular expression with a matcher, and its meaning character by character.
\<close>

datatype rx = RxEps | RxClass "char \<Rightarrow> bool" | RxSeq rx rx | RxOpt rx

text \<open>\<^verbatim>\<open>x{0,n}\<close>, which the regexp package rewrites to nested optional copies.\<close>

fun rx_upto :: "nat \<Rightarrow> rx \<Rightarrow> rx" where
  "rx_upto 0 x = RxEps"
| "rx_upto (Suc n) x = RxOpt (RxSeq x (rx_upto n x))"

text \<open>Whether the whole string matches (the pattern is anchored with \<^verbatim>\<open>^\<close> and \<^verbatim>\<open>$\<close>).\<close>

fun rx_match :: "rx \<Rightarrow> string \<Rightarrow> bool" where
  "rx_match RxEps s = (s = [])"
| "rx_match (RxClass p) s = (case s of [c] \<Rightarrow> p c | _ \<Rightarrow> False)"
| "rx_match (RxSeq x y) s = list_ex (\<lambda>i. rx_match x (take i s) \<and> rx_match y (drop i s)) [0..<length s + 1]"
| "rx_match (RxOpt x) s = (s = [] \<or> rx_match x s)"

definition alnum_class :: "char \<Rightarrow> bool" where
  "alnum_class c \<longleftrightarrow> is_lower c \<or> is_digit c"

definition alnum_dash_class :: "char \<Rightarrow> bool" where
  "alnum_dash_class c \<longleftrightarrow> is_lower c \<or> is_digit c \<or> c = CHR ''-''"

definition k8sNamePattern :: rx where
  "k8sNamePattern = RxSeq (RxClass alnum_class)
     (RxOpt (RxSeq (rx_upto 61 (RxClass alnum_dash_class)) (RxClass alnum_class)))"

definition validK8sName :: "string \<Rightarrow> bool" where
  "validK8sName s = rx_match k8sNamePattern s"

section \<open>Lemmas\<close>

lemma rx_match_seq:
  "rx_match (RxSeq x y) s \<longleftrightarrow> (\<exists>a b. s = a @ b \<and> rx_match x a \<and> rx_match y b)"
proof
  assume "rx_match (RxSeq x y) s"
  then obtain i where "rx_match x (take i s)" "rx_match y (drop i s)"
    unfolding rx_match.simps list_ex_iff by blast
  then show "\<exists>a b. s = a @ b \<and> rx_match x a \<and> rx_match y b"
    by (metis append_take_drop_id)
next
  assume "\<exists>a b. s = a @ b \<and> rx_match x a \<and> rx_match y b"
  then obtain a b where s: "s = a @ b" "rx_match x a" "rx_match y b" by blast
  then have "length a \<in> set [0..<length s + 1]" "rx_match x (take (length a) s)" "rx_match y (drop (length a) s)"
    by auto
  then show "rx_match (RxSeq x y) s" unfolding rx_match.simps list_ex_iff by blast
qed

declare rx_match.simps(3) [simp del]
declare rx_match_seq [simp]

lemma rx_match_class: "rx_match (RxClass p) s \<longleftrightarrow> (\<exists>c. s = [c] \<and> p c)"
  by (auto split: list.splits)

lemma rx_match_class_seq:
  "rx_match (RxSeq (RxClass p) y) s \<longleftrightarrow> (\<exists>c cs. s = c # cs \<and> p c \<and> rx_match y cs)"
proof
  assume "rx_match (RxSeq (RxClass p) y) s"
  then show "\<exists>c cs. s = c # cs \<and> p c \<and> rx_match y cs"
    unfolding rx_match_seq rx_match_class by auto
next
  assume "\<exists>c cs. s = c # cs \<and> p c \<and> rx_match y cs"
  then obtain c cs where "s = [c] @ cs" "rx_match (RxClass p) [c]" "rx_match y cs" by auto
  then show "rx_match (RxSeq (RxClass p) y) s" unfolding rx_match_seq by blast
qed

lemma rx_match_upto: "rx_match (rx_upto n (RxClass p)) s \<longleftrightarrow> length s \<le> n \<and> list_all p s"
proof (induction n arbitrary: s)
  case (Suc n)
  show ?case
    by (cases s) (auto simp: rx_match_class_seq Suc simp del: rx_match_seq)
qed auto

definition dns_label :: "string \<Rightarrow> bool" where
  "dns_label s \<longleftrightarrow> 1 \<le> length s \<and> length s \<le> 63 \<and> list_all alnum_dash_class s
     \<and> alnum_class (hd s) \<and> alnum_class (last s)"

lemma alnum_dash: "alnum_class c \<Longrightarrow> alnum_dash_class c"
  by (auto simp: alnum_class_def alnum_dash_class_def)

lemma validK8sName_iff: "validK8sName s \<longleftrightarrow> dns_label s"
proof -
  have inner: "rx_match (RxSeq (rx_upto 61 (RxClass alnum_dash_class)) (RxClass alnum_class)) t
      \<longleftrightarrow> t \<noteq> [] \<and> length t \<le> 62 \<and> list_all alnum_dash_class t \<and> alnum_class (last t)" for t
    by (cases t rule: rev_cases)
      (auto simp: rx_match_class rx_match_upto alnum_dash simp del: rx_match.simps(2))
  show ?thesis
    unfolding validK8sName_def k8sNamePattern_def rx_match_class_seq rx_match.simps(4) inner
    by (cases s) (auto simp: dns_label_def alnum_dash)
qed

text \<open>No byte of a valid name has a meaning in a URL path.\<close>

lemma alnum_dash_plain: "alnum_dash_class c \<Longrightarrow> c \<notin> set ''/.%?#&=+;''"
  by (auto simp: alnum_dash_class_def is_lower_def is_digit_def)

lemma validK8sName_plain: "validK8sName s \<Longrightarrow> c \<in> set ''/.%?#&=+;'' \<Longrightarrow> c \<notin> set s"
  using alnum_dash_plain by (auto simp: validK8sName_iff dns_label_def list_all_iff)

lemma validK8sName_nonempty: "validK8sName s \<Longrightarrow> s \<noteq> []"
  by (auto simp: validK8sName_iff dns_label_def)

end
