(* ===== verification/HttpApi.thy ===== *)
theory HttpApi
  imports Auth Summaries Validate
begin

text \<open>
  The handlers of \<^verbatim>\<open>internal/httpapi\<close>: the middleware (\<^verbatim>\<open>middleware.go\<close>), the probes
  (\<^verbatim>\<open>health.go\<close>), the resource handlers (\<^verbatim>\<open>namespaces.go\<close>, \<^verbatim>\<open>resources.go\<close>, \<^verbatim>\<open>events.go\<close>,
  \<^verbatim>\<open>overview.go\<close>) and the log stream (\<^verbatim>\<open>logs.go\<close>). The request context holds the session
  record or nothing.
\<close>

type_synonym ('s, 'i) api_handler = "(Record, 's, 'i) handler"

section \<open>middleware.go\<close>

definition security_policy :: string where
  "security_policy = ''default-src '' @ [CHR 0x27] @ ''self'' @ [CHR 0x27] @ ''; object-src '' @ [CHR 0x27]
     @ ''none'' @ [CHR 0x27] @ ''; base-uri '' @ [CHR 0x27] @ ''none'' @ [CHR 0x27]
     @ ''; frame-ancestors '' @ [CHR 0x27] @ ''none'' @ [CHR 0x27]"

definition set_security_headers :: "bool \<Rightarrow> rw \<Rightarrow> rw" where
  "set_security_headers insecure rw0 =
     (let rw1 = set_header ''Content-Security-Policy'' security_policy rw0;
          rw2 = set_header ''X-Content-Type-Options'' ''nosniff'' rw1;
          rw3 = set_header ''Referrer-Policy'' ''no-referrer'' rw2;
          rw4 = set_header ''Cache-Control'' ''no-store'' rw3
      in if \<not> insecure
         then set_header ''Strict-Transport-Security'' ''max-age=63072000; includeSubDomains'' rw4 else rw4)"

definition securityHeaders :: "bool \<Rightarrow> ('c, 's, 'i) handler \<Rightarrow> ('c, 's, 'i) handler" where
  "securityHeaders insecure nxt r rw w = nxt r (set_security_headers insecure rw) w"

definition sessionFromContext :: "'c request \<Rightarrow> 'c option" where
  "sessionFromContext r = rq_ctx r"

definition requireSession :: "'s Store \<Rightarrow> bool \<Rightarrow> ('s, 'i) api_handler \<Rightarrow> ('s, 'i) api_handler" where
  "requireSession store insecure nxt r rw w =
     (case req_cookie r (SessionCookieName insecure) of
        None \<Rightarrow> (http_error ''unauthorized'' 401 rw, w)
      | Some cookie \<Rightarrow>
          (case getSession store cookie w of
             (Inl e, w1) \<Rightarrow> (http_error ''unauthorized'' 401 rw, w1)
           | (Inr rec, w1) \<Rightarrow> nxt (r\<lparr>rq_ctx := Some rec\<rparr>) rw w1))"

section \<open>health.go\<close>

definition livezHandler :: "('c, 's, 'i) handler" where
  "livezHandler r rw w = (write_header 200 rw, w)"

definition readyzHandler :: "'s Store \<Rightarrow> ('c, 's, 'i) handler" where
  "readyzHandler store r rw w =
     (case store_ping store w of
        (Some e, w1) \<Rightarrow> (http_error ''session store unavailable'' 503 rw, w1)
      | (None, w1) \<Rightarrow> (write_header 200 rw, w1))"

section \<open>namespaces.go and resources.go\<close>

definition writeUpstreamError :: "up_error \<Rightarrow> rw \<Rightarrow> rw" where
  "writeUpstreamError e rw =
     (case e of
        ErrUnauthorized \<Rightarrow> http_error ''unauthorized'' 401 rw
      | ErrForbidden \<Rightarrow> http_error ''forbidden'' 403 rw
      | ErrUpstream \<Rightarrow> http_error ''upstream unavailable'' 502 rw)"

record namespaceDTO = dto_name :: string

record namespacesResponse = Namespaces :: "namespaceDTO list"

definition namespacesResponse_json :: "namespacesResponse \<Rightarrow> json" where
  "namespacesResponse_json resp =
     JObj [(''namespaces'', JArr (map (\<lambda>d. JObj [(''name'', JStr (dto_name d))]) (Namespaces resp)))]"

definition namespacesHandler :: "Client \<Rightarrow> ('s, 'i) api_handler" where
  "namespacesHandler client r rw w =
     (case sessionFromContext r of
        None \<Rightarrow> (http_error ''unauthorized'' 401 rw, w)
      | Some rec \<Rightarrow>
          (case ListNamespaces client (IDToken rec) w of
             (Inl e, w1) \<Rightarrow> (writeUpstreamError e rw, w1)
           | (Inr namespaces, w1) \<Rightarrow>
               (let resp = \<lparr>Namespaces = map (\<lambda>ns. \<lparr>dto_name = nsp_name ns\<rparr>) namespaces\<rparr>
                in (write_json (namespacesResponse_json resp) rw, w1))))"

text \<open>The loop over the items: the first one that does not decode ends it.\<close>

fun summarize_items :: "summarizeFunc \<Rightarrow> json list \<Rightarrow> json list \<Rightarrow> json list option" where
  "summarize_items summarize summaries [] = Some summaries"
| "summarize_items summarize summaries (raw # rest) =
     (case summarize raw of None \<Rightarrow> None | Some s \<Rightarrow> summarize_items summarize (summaries @ [s]) rest)"

definition writeJSONItems :: "json list \<Rightarrow> rw \<Rightarrow> rw" where
  "writeJSONItems items = write_json (JObj [(''items'', JArr items)])"

definition unexpected_shape :: string where "unexpected_shape = ''upstream returned an unexpected shape''"

definition listResourceHandler :: "Client \<Rightarrow> GroupVersionResource \<Rightarrow> summarizeFunc \<Rightarrow> ('s, 'i) api_handler" where
  "listResourceHandler client gvr summarize r rw w =
     (case sessionFromContext r of
        None \<Rightarrow> (http_error ''unauthorized'' 401 rw, w)
      | Some rec \<Rightarrow>
          (let namespace = rq_pathvalue r ''ns'' in
           if \<not> validK8sName namespace then (http_error ''invalid namespace'' 400 rw, w)
           else case ListNamespacedResource client (IDToken rec) namespace gvr 0 w of
             (Inl e, w1) \<Rightarrow> (writeUpstreamError e rw, w1)
           | (Inr items, w1) \<Rightarrow>
               (case summarize_items summarize [] items of
                  None \<Rightarrow> (http_error unexpected_shape 502 rw, w1)
                | Some summaries \<Rightarrow> (writeJSONItems summaries rw, w1))))"

definition getResourceHandler :: "Client \<Rightarrow> GroupVersionResource \<Rightarrow> summarizeFunc \<Rightarrow> ('s, 'i) api_handler" where
  "getResourceHandler client gvr summarize r rw w =
     (case sessionFromContext r of
        None \<Rightarrow> (http_error ''unauthorized'' 401 rw, w)
      | Some rec \<Rightarrow>
          (let namespace = rq_pathvalue r ''ns''; name = rq_pathvalue r ''name'' in
           if \<not> validK8sName namespace \<or> \<not> validK8sName name
           then (http_error ''invalid namespace or name'' 400 rw, w)
           else case GetNamespacedResource client (IDToken rec) namespace name gvr w of
             (Inl e, w1) \<Rightarrow> (writeUpstreamError e rw, w1)
           | (Inr raw, w1) \<Rightarrow>
               (case Option.bind (json_parse raw) summarize of
                  None \<Rightarrow> (http_error unexpected_shape 502 rw, w1)
                | Some summary \<Rightarrow> (write_json summary rw, w1))))"

section \<open>events.go and overview.go\<close>

definition maxEventsListed :: int where "maxEventsListed = 200"

definition eventsHandler :: "Client \<Rightarrow> ('s, 'i) api_handler" where
  "eventsHandler client r rw w =
     (case sessionFromContext r of
        None \<Rightarrow> (http_error ''unauthorized'' 401 rw, w)
      | Some rec \<Rightarrow>
          (let namespace = rq_pathvalue r ''ns'' in
           if \<not> validK8sName namespace then (http_error ''invalid namespace'' 400 rw, w)
           else case ListNamespacedResource client (IDToken rec) namespace eventsGVR maxEventsListed w of
             (Inl e, w1) \<Rightarrow> (writeUpstreamError e rw, w1)
           | (Inr items, w1) \<Rightarrow>
               (case summarize_items (\<lambda>raw. map_option eventSummary_json (summarizeEvent raw)) [] items of
                  None \<Rightarrow> (http_error unexpected_shape 502 rw, w1)
                | Some summaries \<Rightarrow> (writeJSONItems summaries rw, w1))))"

record overviewResponse =
  ResourceQuotas :: "resourceQuotaSummary list"
  LimitRanges :: "limitRangeSummary list"

definition overviewResponse_json :: "overviewResponse \<Rightarrow> json" where
  "overviewResponse_json resp =
     JObj [(''resourceQuotas'', JArr (map resourceQuotaSummary_json (ResourceQuotas resp))),
           (''limitRanges'', JArr (map limitRangeSummary_json (LimitRanges resp)))]"

definition overviewHandler :: "Client \<Rightarrow> ('s, 'i) api_handler" where
  "overviewHandler client r rw w =
     (case sessionFromContext r of
        None \<Rightarrow> (http_error ''unauthorized'' 401 rw, w)
      | Some rec \<Rightarrow>
          (let namespace = rq_pathvalue r ''ns'' in
           if \<not> validK8sName namespace then (http_error ''invalid namespace'' 400 rw, w)
           else case ListNamespacedResource client (IDToken rec) namespace resourceQuotasGVR 0 w of
             (Inl e, w1) \<Rightarrow> (writeUpstreamError e rw, w1)
           | (Inr quotaItems, w1) \<Rightarrow>
               (case ListNamespacedResource client (IDToken rec) namespace limitRangesGVR 0 w1 of
                  (Inl e, w2) \<Rightarrow> (writeUpstreamError e rw, w2)
                | (Inr limitItems, w2) \<Rightarrow>
                    (case traverse summarizeResourceQuota quotaItems of
                       None \<Rightarrow> (http_error unexpected_shape 502 rw, w2)
                     | Some quotas \<Rightarrow>
                         (case traverse summarizeLimitRange limitItems of
                            None \<Rightarrow> (http_error unexpected_shape 502 rw, w2)
                          | Some limits \<Rightarrow>
                              (write_json (overviewResponse_json
                                 \<lparr>ResourceQuotas = quotas, LimitRanges = limits\<rparr>) rw, w2))))))"

section \<open>logs.go\<close>

definition defaultTailLines :: int where "defaultTailLines = 200"
definition maxTailLines :: int where "maxTailLines = 2000"
definition defaultLimitBytes :: int where "defaultLimitBytes = 262144"
definition maxLimitBytes :: int where "maxLimitBytes = 1048576"
definition maxStreamBytes :: nat where "maxStreamBytes = 52428800"
definition maxLogStreamDuration :: duration where "maxLogStreamDuration = 10 * minute"

text \<open>
  \<^verbatim>\<open>copyLogStream\<close>: each read fills at most the 4096 bytes of the buffer (a longer chunk takes
  several reads), each non-empty read is written and flushed, and the first error on either side
  ends the loop. The chunks of a reader are finite, so the loop ends.
\<close>

definition copy_buf :: nat where "copy_buf = 4096"

function copyLogStream :: "rw \<Rightarrow> string list \<Rightarrow> rw" where
  "copyLogStream rw [] = rw"
| "copyLogStream rw (c # cs) =
     (if c = [] then copyLogStream rw cs
      else case write_bytes (take copy_buf c) rw of
        (rw1, False) \<Rightarrow> rw1
      | (rw1, True) \<Rightarrow> copyLogStream (flush rw1) (if length c \<le> copy_buf then cs else drop copy_buf c # cs))"
  by pat_completeness auto
termination
  by (relation "measure (\<lambda>(rw, cs). length (concat cs) + length cs)") (auto simp: copy_buf_def)

declare copyLogStream.simps(2) [simp del]

text \<open>\<^verbatim>\<open>parseLogOptions\<close>: the error message or the options.\<close>

definition positive_option :: "qvalues \<Rightarrow> string \<Rightarrow> (string + int option)" where
  "positive_option q k =
     (let v = query_get q k in
      if v = '''' then Inr None
      else case parseInt64 v of
        None \<Rightarrow> Inl (''invalid '' @ k)
      | Some n \<Rightarrow> if n \<le> 0 then Inl (''invalid '' @ k) else Inr (Some n))"

definition parseLogOptions :: "qvalues \<Rightarrow> string + LogOptions" where
  "parseLogOptions q =
     (let opts = \<lparr>Container = '''', TailLines = defaultTailLines, LimitBytes = defaultLimitBytes,
                  SinceSeconds = 0, Follow = (query_get q ''follow'' = ''true'')\<rparr> in
      case positive_option q ''tailLines'' of
        Inl e \<Rightarrow> Inl e
      | Inr tails \<Rightarrow>
          (let opts = (case tails of None \<Rightarrow> opts | Some n \<Rightarrow> opts\<lparr>TailLines := min n maxTailLines\<rparr>) in
           case positive_option q ''limitBytes'' of
             Inl e \<Rightarrow> Inl e
           | Inr lb \<Rightarrow>
               (let opts = (case lb of None \<Rightarrow> opts | Some n \<Rightarrow> opts\<lparr>LimitBytes := min n maxLimitBytes\<rparr>) in
                case positive_option q ''sinceSeconds'' of
                  Inl e \<Rightarrow> Inl e
                | Inr ss \<Rightarrow>
                    (let opts = (case ss of None \<Rightarrow> opts | Some n \<Rightarrow> opts\<lparr>SinceSeconds := n\<rparr>);
                         v = query_get q ''container'' in
                     if v = '''' then Inr opts
                     else if \<not> validK8sName v then Inl ''invalid container''
                     else Inr (opts\<lparr>Container := v\<rparr>)))))"

definition podLogsHandler :: "Client \<Rightarrow> ('s, 'i) api_handler" where
  "podLogsHandler client r rw w =
     (case sessionFromContext r of
        None \<Rightarrow> (http_error ''unauthorized'' 401 rw, w)
      | Some rec \<Rightarrow>
          (let namespace = rq_pathvalue r ''ns''; name = rq_pathvalue r ''name'' in
           if \<not> validK8sName namespace \<or> \<not> validK8sName name
           then (http_error ''invalid namespace or name'' 400 rw, w)
           else case parseLogOptions (query_of r) of
             Inl msg \<Rightarrow> (http_error msg 400 rw, w)
           | Inr opts \<Rightarrow>
               (case StreamPodLogs client (Some maxLogStreamDuration) (IDToken rec) namespace name opts w of
                  (Inl e, w1) \<Rightarrow> (writeUpstreamError e rw, w1)
                | (Inr stream, w1) \<Rightarrow>
                    (copyLogStream
                       (write_header 200 (set_header ''Content-Type'' ''text/plain; charset=utf-8'' rw))
                       (rd_chunks (limitReader stream maxStreamBytes)), w1))))"

end
