(* ===== verification/Router.thy ===== *)
theory Router
  imports HttpApi
begin

text \<open>
  \<^verbatim>\<open>internal/httpapi/router.go\<close> over a model of \<^verbatim>\<open>http.ServeMux\<close>: patterns of literal and
  wildcard segments for one method, tried on the unescaped segments of the cleaned path; \<^verbatim>\<open>GET\<close>
  patterns also serve \<^verbatim>\<open>HEAD\<close>; the pattern \<^verbatim>\<open>/\<close> without a method takes what no other pattern
  matches. A path that is not clean is redirected to its clean form. No two patterns of the table
  match one request (\<open>routes_disjoint\<close> in \<open>Answers\<close>), so the first match is the mux's most specific one, and none
  ends in a slash, so the mux's redirect to a path with a slash added never applies.
\<close>

section \<open>The mux\<close>

datatype seg_pat = Lit string | Wild string

text \<open>The segments of a rooted path; a final empty one stands for a trailing slash.\<close>

definition segs_of :: "string \<Rightarrow> string list" where
  "segs_of path = map path_unescape (split_on (CHR ''/'') (tl path))"

fun match_segs :: "seg_pat list \<Rightarrow> string list \<Rightarrow> (string \<times> string) list option" where
  "match_segs [] [] = Some []"
| "match_segs (Lit l # ps) (s # ss) = (if s = l then match_segs ps ss else None)"
| "match_segs (Wild n # ps) (s # ss) =
     (if s = '''' then None else map_option ((#) (n, s)) (match_segs ps ss))"
| "match_segs _ _ = None"

record ('c, 's, 'i) route =
  rt_method :: string
  rt_segs :: "seg_pat list"
  rt_handler :: "('c, 's, 'i) handler"

definition method_matches :: "string \<Rightarrow> string \<Rightarrow> bool" where
  "method_matches pat m \<longleftrightarrow> m = pat \<or> (pat = ''GET'' \<and> m = ''HEAD'')"

fun mux_match :: "('c, 's, 'i) route list \<Rightarrow> string \<Rightarrow> string list \<Rightarrow>
    (('c, 's, 'i) handler \<times> (string \<times> string) list) option" where
  "mux_match [] m segs = None"
| "mux_match (rt # rts) m segs =
     (case match_segs (rt_segs rt) segs of
        Some vals \<Rightarrow> if method_matches (rt_method rt) m then Some (rt_handler rt, vals) else mux_match rts m segs
      | None \<Rightarrow> mux_match rts m segs)"

text \<open>\<^verbatim>\<open>matchingMethods\<close>: the methods some pattern accepts for the path, sorted.\<close>

definition allowed_methods :: "('c, 's, 'i) route list \<Rightarrow> string list \<Rightarrow> string list" where
  "allowed_methods rts segs =
     filter (\<lambda>m. \<exists>rt\<in>set rts. match_segs (rt_segs rt) segs \<noteq> None \<and> method_matches (rt_method rt) m)
       [''GET'', ''HEAD'', ''POST'']"

text \<open>
  How the mux redirects to a clean path, which differs between Go releases: the status (301, from
  Go 1.26 on 307), its text, and the \<^verbatim>\<open>Location\<close> it prints for path and query.
\<close>

record mux_style =
  ms_status :: nat
  ms_text :: string
  ms_location :: "string \<Rightarrow> string \<Rightarrow> string"

text \<open>The mux of Go 1.26, for paths that print as they are.\<close>

definition demo_style :: mux_style where
  "demo_style = \<lparr>ms_status = 307, ms_text = ''Temporary Redirect'',
     ms_location = (\<lambda>p q. if q = '''' then p else p @ ''?'' @ q)\<rparr>"

definition mux_redirect :: "mux_style \<Rightarrow> string \<Rightarrow> ('c, 's, 'i) handler" where
  "mux_redirect ms path r rw w =
     (let url = ms_location ms path (rq_query r);
          rw1 = set_header ''Location'' url rw;
          rw2 = (if rq_method r = ''GET'' \<or> rq_method r = ''HEAD''
                 then set_header ''Content-Type'' ''text/html; charset=utf-8'' rw1 else rw1);
          rw3 = write_header (ms_status ms) rw2
      in (if rq_method r = ''GET''
          then write_body (''<a href='' @ [CHR 0x22] @ concat (map html_escape_char url) @ [CHR 0x22]
                 @ ''>'' @ ms_text ms @ ''</a>.'' @ [CHR 0x0A, CHR 0x0A]) rw3
          else rw3, w))"

definition path_values :: "(string \<times> string) list \<Rightarrow> string \<Rightarrow> string" where
  "path_values vals n = (case map_of vals n of None \<Rightarrow> '''' | Some v \<Rightarrow> v)"

definition mux_dispatch :: "('c, 's, 'i) route list \<Rightarrow> ('c, 's, 'i) handler option \<Rightarrow> string \<Rightarrow> ('c, 's, 'i) handler" where
  "mux_dispatch rts catchall path r rw w =
     (case mux_match rts (rq_method r) (segs_of path) of
        Some (h, vals) \<Rightarrow> h (r\<lparr>rq_pathvalue := path_values vals\<rparr>) rw w
      | None \<Rightarrow>
          (case catchall of
             Some h \<Rightarrow> h r rw w
           | None \<Rightarrow>
               (let ms = allowed_methods rts (segs_of path) in
                if ms \<noteq> [] then
                  (http_error ''Method Not Allowed'' 405 (set_header ''Allow'' (join_with '', '' ms) rw), w)
                else (http_error ''404 page not found'' 404 rw, w))))"

definition mux_serve :: "mux_style \<Rightarrow> ('c, 's, 'i) route list \<Rightarrow> ('c, 's, 'i) handler option \<Rightarrow> ('c, 's, 'i) handler" where
  "mux_serve ms rts catchall r rw w =
     (if rq_path r = ''*'' then (write_header 400 (set_header ''Connection'' ''close'' rw), w)
      else if rq_method r = ''CONNECT'' then mux_dispatch rts catchall (rq_path r) r rw w
      else if clean_path (rq_path r) \<noteq> rq_path r then mux_redirect ms (clean_path (rq_path r)) r rw w
      else mux_dispatch rts catchall (rq_path r) r rw w)"

section \<open>NewRouter\<close>

definition ns_path :: "string \<Rightarrow> seg_pat list" where
  "ns_path res = [Lit ''api'', Lit ''namespaces'', Wild ''ns'', Lit res]"

definition name_path :: "string \<Rightarrow> seg_pat list" where
  "name_path res = ns_path res @ [Wild ''name'']"

abbreviation get_route :: "seg_pat list \<Rightarrow> ('c, 's, 'i) handler \<Rightarrow> ('c, 's, 'i) route" where
  "get_route segs h \<equiv> \<lparr>rt_method = ''GET'', rt_segs = segs, rt_handler = h\<rparr>"

definition public_routes :: "('s, 'i) Handler \<Rightarrow> 's Store \<Rightarrow> (Record, 's, 'i) route list" where
  "public_routes auth store =
    [get_route [Lit ''healthz''] livezHandler,
     get_route [Lit ''readyz''] (readyzHandler store),
     get_route [Lit ''auth'', Lit ''login''] (LoginHandler auth),
     get_route [Lit ''auth'', Lit ''callback''] (CallbackHandler auth),
     get_route [Lit ''auth'', Lit ''session''] (SessionHandler auth),
     \<lparr>rt_method = ''POST'', rt_segs = [Lit ''auth'', Lit ''logout''], rt_handler = LogoutHandler auth\<rparr>]"

text \<open>The table behind \<^verbatim>\<open>requireSession\<close>: the segments and the handler each route wraps.\<close>

definition api_table :: "Client \<Rightarrow> (seg_pat list \<times> ('s, 'i) api_handler) list" where
  "api_table c =
    [([Lit ''api'', Lit ''namespaces''], namespacesHandler c),
     (ns_path ''overview'', overviewHandler c),
     (ns_path ''deployments'', listResourceHandler c deploymentsGVR (map_option deploymentSummary_json \<circ> summarizeDeployment)),
     (name_path ''deployments'', getResourceHandler c deploymentsGVR (map_option deploymentSummary_json \<circ> summarizeDeployment)),
     (ns_path ''statefulsets'', listResourceHandler c statefulSetsGVR (map_option statefulSetSummary_json \<circ> summarizeStatefulSet)),
     (name_path ''statefulsets'', getResourceHandler c statefulSetsGVR (map_option statefulSetSummary_json \<circ> summarizeStatefulSet)),
     (ns_path ''daemonsets'', listResourceHandler c daemonSetsGVR (map_option daemonSetSummary_json \<circ> summarizeDaemonSet)),
     (name_path ''daemonsets'', getResourceHandler c daemonSetsGVR (map_option daemonSetSummary_json \<circ> summarizeDaemonSet)),
     (ns_path ''pods'', listResourceHandler c podsGVR (map_option podSummary_json \<circ> summarizePod)),
     (name_path ''pods'', getResourceHandler c podsGVR (map_option podSummary_json \<circ> summarizePod)),
     (name_path ''pods'' @ [Lit ''logs''], podLogsHandler c),
     (ns_path ''jobs'', listResourceHandler c jobsGVR (map_option jobSummary_json \<circ> summarizeJob)),
     (name_path ''jobs'', getResourceHandler c jobsGVR (map_option jobSummary_json \<circ> summarizeJob)),
     (ns_path ''cronjobs'', listResourceHandler c cronJobsGVR (map_option cronJobSummary_json \<circ> summarizeCronJob)),
     (name_path ''cronjobs'', getResourceHandler c cronJobsGVR (map_option cronJobSummary_json \<circ> summarizeCronJob)),
     (ns_path ''services'', listResourceHandler c servicesGVR (map_option serviceSummary_json \<circ> summarizeService)),
     (name_path ''services'', getResourceHandler c servicesGVR (map_option serviceSummary_json \<circ> summarizeService)),
     (ns_path ''ingresses'', listResourceHandler c ingressesGVR (map_option ingressSummary_json \<circ> summarizeIngress)),
     (name_path ''ingresses'', getResourceHandler c ingressesGVR (map_option ingressSummary_json \<circ> summarizeIngress)),
     (ns_path ''persistentvolumeclaims'', listResourceHandler c pvcGVR (map_option persistentVolumeClaimSummary_json \<circ> summarizePersistentVolumeClaim)),
     (name_path ''persistentvolumeclaims'', getResourceHandler c pvcGVR (map_option persistentVolumeClaimSummary_json \<circ> summarizePersistentVolumeClaim)),
     (ns_path ''events'', eventsHandler c)]"

definition api_routes :: "'s Store \<Rightarrow> Client \<Rightarrow> bool \<Rightarrow> (Record, 's, 'i) route list" where
  "api_routes store c insecure = map (\<lambda>(segs, h). get_route segs (requireSession store insecure h)) (api_table c)"

definition route_table :: "('s, 'i) Handler \<Rightarrow> 's Store \<Rightarrow> Client \<Rightarrow> bool \<Rightarrow> (Record, 's, 'i) route list" where
  "route_table auth store c insecure = public_routes auth store @ api_routes store c insecure"

definition NewRouter :: "mux_style \<Rightarrow> ('s, 'i) Handler \<Rightarrow> 's Store \<Rightarrow> Client \<Rightarrow> bool \<Rightarrow>
    ('s, 'i) api_handler option \<Rightarrow> ('s, 'i) api_handler" where
  "NewRouter ms auth store c insecure frontend =
     securityHeaders insecure (mux_serve ms (route_table auth store c insecure) frontend)"

text \<open>One request through the server: a fresh writer, no context value, an implicit 200 at the end.\<close>

definition serve :: "('s, 'i) api_handler \<Rightarrow> nat option \<Rightarrow> Record request \<Rightarrow> ('s, 'i) world \<Rightarrow> rw \<times> ('s, 'i) world" where
  "serve router accepts r w =
     (let (rw, w') = router (r\<lparr>rq_ctx := None, rq_pathvalue := (\<lambda>_. '''')\<rparr>) (new_rw accepts) w in (finish rw, w'))"

end
