(* ===== verification/LoginFlow.thy ===== *)
theory LoginFlow
  imports Auth
begin

text \<open>
  What the four handlers of \<^verbatim>\<open>internal/auth\<close> do, over any store that keeps \<open>kv_contract\<close>: none of
  them calls upstream, a login stores the transaction it names in its cookie, a callback succeeds
  only for a live transaction redeemed by the matching browser and then stores the session it
  names, and a logout removes exactly the caller's session.
\<close>

section \<open>Frames\<close>

text \<open>A step that neither calls upstream nor moves the clock.\<close>

definition local_step :: "('s, 'i) world \<Rightarrow> ('s, 'i) world \<Rightarrow> bool" where
  "local_step w w' \<longleftrightarrow> w_sent w' = w_sent w \<and> w_now w' = w_now w"

lemma local_step_refl [simp]: "local_step w w"
  by (simp add: local_step_def)

lemma local_step_trans: "local_step w w1 \<Longrightarrow> local_step w1 w2 \<Longrightarrow> local_step w w2"
  by (simp add: local_step_def)

lemma local_step_idp [simp]: "local_step w (w\<lparr>w_idp := i\<rparr>)"
  by (simp add: local_step_def)

lemma local_step_store: "store_step w w' \<Longrightarrow> local_step w w'"
  by (simp add: local_step_def store_stepD)

lemma local_step_randomToken: "randomToken w = (r, w') \<Longrightarrow> local_step w w'"
  by (simp add: quiet_randomToken local_step_store store_step_quiet)

lemmas local_steps = local_step_randomToken store_steps [THEN local_step_store]

lemma local_LoginHandler: "LoginHandler h r rw w = (rw', w') \<Longrightarrow> local_step w w'"
  by (auto simp: LoginHandler_def Let_def split: prod.splits option.splits sum.splits
      dest!: local_steps intro: local_step_trans)

lemma local_callback_session: "callback_session h tok r rw w = (rw', w') \<Longrightarrow> local_step w w'"
  by (auto simp: callback_session_def Let_def split: prod.splits option.splits sum.splits if_splits
      dest!: local_steps intro: local_step_trans)

lemma local_callback_exchange: "callback_exchange h txn r rw w = (rw', w') \<Longrightarrow> local_step w w'"
  by (auto simp: callback_exchange_def Let_def split: prod.splits option.splits if_splits
      dest!: local_callback_session intro: local_step_trans [OF local_step_idp])

lemma local_CallbackHandler: "CallbackHandler h r rw w = (rw', w') \<Longrightarrow> local_step w w'"
  by (auto simp: CallbackHandler_def Let_def split: prod.splits option.splits sum.splits if_splits
      dest!: local_steps local_callback_exchange intro: local_step_trans)

lemma local_SessionHandler: "SessionHandler h r rw w = (rw', w') \<Longrightarrow> local_step w w'"
  by (auto simp: SessionHandler_def session_status_def Let_def
      split: prod.splits option.splits sum.splits if_splits dest!: local_steps)

lemma local_LogoutHandler: "LogoutHandler h r rw w = (rw', w') \<Longrightarrow> local_step w w'"
  by (auto simp: LogoutHandler_def Let_def split: prod.splits option.splits sum.splits if_splits
      dest!: local_steps intro: local_step_trans)

section \<open>The callback\<close>

text \<open>The tail of a successful callback: the session it creates.\<close>

lemma callback_session_redirect:
  assumes "callback_session h tok r rw w = (rw', w')" "rw_status rw = None" "rw_status rw' = Some 302"
  obtains csrf sid w1 where "w_now w < tk_expiration tok" "randomToken w = (Some csrf, w1)"
    "createSession (h_store h) \<lparr>Subject = tk_subject tok, IDToken = tk_id_token tok, ExpiresAt = tk_expiration tok,
       CreatedAt = w_now w, CSRFToken = csrf\<rparr> (time_until (w_now w) (tk_expiration tok)) w1 = (Inr sid, w')"
    "rw' = http_redirect r ''/'' (setSessionCookie (h_insecure h) sid (time_until (w_now w) (tk_expiration tok)) rw)"
proof -
  have pos: "0 < time_until (w_now w) (tk_expiration tok)"
    using assms by (auto simp: callback_session_def Let_def split: if_splits)
  obtain csrf w1 where c: "randomToken w = (Some csrf, w1)"
    using assms pos by (auto simp: callback_session_def Let_def split: prod.splits option.splits)
  then have n: "w_now w1 = w_now w" using quiet_randomToken quietD(3) by metis
  let ?rec = "\<lparr>Subject = tk_subject tok, IDToken = tk_id_token tok, ExpiresAt = tk_expiration tok,
       CreatedAt = w_now w, CSRFToken = csrf\<rparr>"
  obtain x w2 where s: "createSession (h_store h) ?rec (time_until (w_now w) (tk_expiration tok)) w1 = (x, w2)"
    by fastforce
  show thesis
  proof (cases x)
    case (Inl e)
    with assms pos c s n show thesis by (auto simp: callback_session_def Let_def)
  next
    case (Inr sid)
    with assms pos c s n show thesis
      by (intro that [of csrf w1 sid]) (auto simp: callback_session_def Let_def postLoginRedirect_def time_until_pos)
  qed
qed

text \<open>Everything a callback checked before it redirected.\<close>

lemma CallbackHandler_redirect:
  assumes "CallbackHandler h r rw w = (rw', w')" "rw_status rw = None" "rw_status rw' = Some 302"
  obtains txn w1 tok i' where "req_cookie r (LoginStateCookieName (h_insecure h)) = Some (query_get (query_of r) ''state'')"
    "query_get (query_of r) ''state'' \<noteq> ''''" "query_get (query_of r) ''code'' \<noteq> ''''"
    "query_get (query_of r) ''error'' = ''''"
    "takeLoginTransaction (h_store h) (query_get (query_of r) ''state'') w = (Inr txn, w1)"
    "rp_exchange (h_party h) (w_idp w1) (w_now w1) (Nonce txn) (query_get (query_of r) ''code'') (PKCEVerifier txn)
       = (Some tok, i')"
    "callback_session h tok r (clearLoginStateCookie (h_insecure h) rw) (w1\<lparr>w_idp := i'\<rparr>) = (rw', w')"
proof -
  have st: "rw_status (clearLoginStateCookie (h_insecure h) rw) = None"
    by (simp add: clearLoginStateCookie_def assms)
  obtain cookie where c: "req_cookie r (LoginStateCookieName (h_insecure h)) = Some cookie"
    using assms by (auto simp: CallbackHandler_def split: option.splits)
  then have s: "query_get (query_of r) ''state'' \<noteq> ''''" "cookie = query_get (query_of r) ''state''"
    using assms st by (auto simp: CallbackHandler_def Let_def split: if_splits)
  obtain x w1 where t: "takeLoginTransaction (h_store h) (query_get (query_of r) ''state'') w = (x, w1)"
    by fastforce
  then obtain txn where x: "x = Inr txn"
    using assms st c s by (cases x) (auto simp: CallbackHandler_def Let_def)
  then have e: "callback_exchange h txn r (clearLoginStateCookie (h_insecure h) rw) w1 = (rw', w')"
    using assms c s t by (auto simp: CallbackHandler_def Let_def)
  then have q: "query_get (query_of r) ''error'' = ''''" "query_get (query_of r) ''code'' \<noteq> ''''"
    using assms(3) st by (auto simp: callback_exchange_def Let_def split: if_splits)
  obtain y i' where p: "rp_exchange (h_party h) (w_idp w1) (w_now w1) (Nonce txn)
      (query_get (query_of r) ''code'') (PKCEVerifier txn) = (y, i')"
    by fastforce
  then obtain tok where "y = Some tok"
    using e q assms(3) st by (cases y) (auto simp: callback_exchange_def Let_def)
  with that c s t x e q p show thesis by (auto simp: callback_exchange_def Let_def)
qed

section \<open>Responses\<close>

lemma sent_redirect:
  assumes "rw_status rw = None"
  shows "rw_sent (http_redirect r u rw) ''Location'' = [u]"
    and "rw_sent (http_redirect r u rw) ''Set-Cookie'' = rw_hdr rw ''Set-Cookie''"
  using assms by (simp_all add: http_redirect_def redirect_to_def Let_def writer_defs)

lemma cookie_names [simp]: "is_token (LoginStateCookieName i)" "is_token (SessionCookieName i)"
  by (cases i; simp add: is_token_def LoginStateCookieName_def SessionCookieName_def cookieName_def
      loginStateCookieBase_def sessionCookieBase_def is_token_char_def is_alnum_def is_lower_def is_upper_def)+

lemma url_safe_cookie_char: "url_safe c \<Longrightarrow> cookie_value_char c \<and> c \<noteq> CHR '' '' \<and> c \<noteq> CHR '',''"
  by (auto simp: url_safe_def cookie_value_char_def dest: alnum_cookie_char)

lemma sanitize_url_safe: "list_all url_safe v \<Longrightarrow> sanitize_cookie_value v = v"
  using url_safe_cookie_char by (intro sanitize_plain) (auto simp: list_all_iff)

lemma session_cookie_string:
  assumes "list_all url_safe sid"
  shows "cookie_string (session_cookie insecure sid ttl) =
    SessionCookieName insecure @ ''='' @ sid @ ''; Path=/''
      @ (if 0 < whole_seconds ttl then ''; Max-Age='' @ formatInt (whole_seconds ttl)
         else if whole_seconds ttl < 0 then ''; Max-Age=0'' else '''')
      @ ''; HttpOnly'' @ (if insecure then '''' else ''; Secure'') @ ''; SameSite=Strict''"
  using assms by (simp add: cookie_string_def session_cookie_def sanitize_url_safe)

section \<open>Properties of the login flow\<close>

lemma createLogin_ID:
  "createLoginTransaction st txn ttl w = (Inr s, w') \<Longrightarrow> s = rawURLEncode (take idByteLength (w_entropy w))"
  by (auto simp: createLoginTransaction_def split: option.splits prod.splits dest: generateID_Some)

lemma createSession_ID:
  "createSession st rec ttl w = (Inr s, w') \<Longrightarrow>
   s = rawURLEncode (take idByteLength (w_entropy w)) \<and> list_all url_safe s \<and> length s = 43"
  by (auto simp: createSession_def split: option.splits prod.splits dest: generateID_Some)

context kv_contract
begin

lemma createSession_other:
  assumes "createSession \<lparr>st_backend = b, st_enc = e\<rparr> rec ttl w = (r, w')" "0 < ttl"
  shows "view (w_kv w') (loginKeyPrefix @ s) = view (w_kv w) (loginKeyPrefix @ s)"
  using assms
  by (auto simp: createSession_def quietD split: option.splits prod.splits
      dest!: put_other [where k' = "loginKeyPrefix @ s"] quiet_generateID)

end

text \<open>
  C22: A login answers with the redirect to the identity provider only after it has stored a
  transaction under the state it sends: three independent draws of 32 random bytes give the nonce,
  the PKCE verifier and the state; the redirect carries the verifier's challenge and the nonce, the
  cookie carries the state for five minutes, and the store holds exactly that transaction.
\<close>

theorem login_stores_transaction:
  assumes kv: "kv_contract b view"
    and run: "LoginHandler \<lparr>h_party = p, h_store = \<lparr>st_backend = b, st_enc = e\<rparr>, h_insecure = i, h_externalOrigin = orig\<rparr>
      r rw w = (rw', w')"
    and st: "rw_status rw = None" "rw_status rw' = Some 302"
  shows "\<exists>state nonce verifier. nonce = rawURLEncode (take 32 (w_entropy w))
    \<and> verifier = rawURLEncode (take 32 (drop 32 (w_entropy w)))
    \<and> state = rawURLEncode (take 32 (drop 64 (w_entropy w)))
    \<and> rw_sent rw' ''Location'' = [rp_auth_url p state (rp_challenge p verifier) (withNonceParam nonce)]
    \<and> rw_sent rw' ''Set-Cookie'' = rw_hdr rw ''Set-Cookie'' @ [cookie_string (login_state_cookie i state (5 * minute))]
    \<and> login_at e (view (w_kv w')) (w_now w') state
        = Some \<lparr>Nonce = nonce, PKCEVerifier = verifier, TxnCreatedAt = w_now w\<rparr>"
proof -
  let ?h = "\<lparr>h_party = p, h_store = \<lparr>st_backend = b, st_enc = e\<rparr>, h_insecure = i, h_externalOrigin = orig\<rparr>"
  obtain nonce w1 where n: "randomToken w = (Some nonce, w1)"
    using run st by (auto simp: LoginHandler_def split: prod.splits option.splits)
  obtain verifier w2 where v: "randomToken w1 = (Some verifier, w2)"
    using run st n by (auto simp: LoginHandler_def split: prod.splits option.splits)
  let ?txn = "\<lparr>Nonce = nonce, PKCEVerifier = verifier, TxnCreatedAt = w_now w2\<rparr>"
  obtain x w3 where c: "createLoginTransaction \<lparr>st_backend = b, st_enc = e\<rparr> ?txn loginTransactionTTL w2 = (x, w3)"
    by fastforce
  obtain state where x: "x = Inr state"
    using run st n v c by (cases x) (auto simp: LoginHandler_def Let_def)
  have rw': "rw' = http_redirect r (rp_auth_url p state (rp_challenge p verifier) (withNonceParam nonce))
      (setLoginStateCookie i state loginTransactionTTL rw)" and w': "w' = w3"
    using run n v c x by (auto simp: LoginHandler_def Let_def)
  have draws: "nonce = rawURLEncode (take 32 (w_entropy w))" "w1 = w\<lparr>w_entropy := drop 32 (w_entropy w)\<rparr>"
      "verifier = rawURLEncode (take 32 (w_entropy w1))" "w2 = w1\<lparr>w_entropy := drop 32 (w_entropy w1)\<rparr>"
      "state = rawURLEncode (take 32 (w_entropy w2))"
    using randomToken_Some [OF n] randomToken_Some [OF v] createLogin_ID [OF c [unfolded x]]
    by (simp_all add: randomTokenBytes_def idByteLength_def)
  have "txn_text_ok ?txn" by (simp add: txn_text_ok_def draws rawURLEncode_utf8)
  then have stored: "login_at e (view (w_kv w')) (w_now w') state = Some ?txn"
    using kv_contract.createLogin_Inr [OF kv c [unfolded x]] w' by (simp add: loginTransactionTTL_def)
  have "list_all url_safe state" by (simp add: draws rawURLEncode_safe)
  moreover have "cookie_string (login_state_cookie i state (5 * minute)) \<noteq> ''''"
    by (simp add: cookie_string_def login_state_cookie_def)
  ultimately have "rw_sent rw' ''Set-Cookie'' =
      rw_hdr rw ''Set-Cookie'' @ [cookie_string (login_state_cookie i state (5 * minute))]"
    using st(1) by (simp add: rw' sent_redirect setLoginStateCookie_def loginTransactionTTL_def)
      (simp add: writer_defs)
  then show ?thesis
    using stored draws st(1)
    by (intro exI [of _ state] exI [of _ nonce] exI [of _ verifier])
      (simp add: rw' sent_redirect setLoginStateCookie_def ac_simps)
qed

lemma callback_gone:
  assumes kv: "kv_contract b view"
    and run: "CallbackHandler \<lparr>h_party = p, h_store = \<lparr>st_backend = b, st_enc = e\<rparr>, h_insecure = i, h_externalOrigin = orig\<rparr>
      r rw w = (rw', w')"
    and st: "rw_status rw = None" "rw_status rw' = Some 302"
  shows "live (view (w_kv w')) t (loginKeyPrefix @ query_get (query_of r) ''state'') = None"
proof -
  let ?st = "\<lparr>st_backend = b, st_enc = e\<rparr>"
  let ?h = "\<lparr>h_party = p, h_store = ?st, h_insecure = i, h_externalOrigin = orig\<rparr>"
  obtain txn w1 tok i' where cb: "takeLoginTransaction ?st (query_get (query_of r) ''state'') w = (Inr txn, w1)"
      "callback_session ?h tok r (clearLoginStateCookie i rw) (w1\<lparr>w_idp := i'\<rparr>) = (rw', w')"
    using CallbackHandler_redirect [OF run st] by simp metis
  have st': "rw_status (clearLoginStateCookie i rw) = None" by (simp add: clearLoginStateCookie_def st)
  obtain rec csrf sid w2 where cs: "w_now w1 < tk_expiration tok" "randomToken (w1\<lparr>w_idp := i'\<rparr>) = (Some csrf, w2)"
      "createSession ?st rec (time_until (w_now w1) (tk_expiration tok)) w2 = (Inr sid, w')"
    using callback_session_redirect [OF cb(2) st' st(2)] by simp metis
  have pos: "0 < time_until (w_now w1) (tk_expiration tok)" using cs(1) by (simp add: time_until_pos)
  have "view (w_kv w2) = view (w_kv w1)" using quietD(1) [OF quiet_randomToken [OF cs(2)]] by simp
  moreover have "view (w_kv w') (loginKeyPrefix @ s) = view (w_kv w2) (loginKeyPrefix @ s)" for s
    using kv_contract.createSession_other [OF kv cs(3) pos] by simp
  ultimately show ?thesis
    using kv_contract.take_Inr(2) [OF kv cb(1)] by (metis live_cong)
qed

text \<open>
  What the program relies on from the relying-party library beyond its interface: subject and ID token
  are JSON text, valid UTF-8.
\<close>

definition exchange_utf8 :: "'i party \<Rightarrow> bool" where
  "exchange_utf8 p \<longleftrightarrow> (\<forall>s t n c v tok s'. rp_exchange p s t n c v = (Some tok, s') \<longrightarrow>
     valid_utf8 (tk_subject tok) \<and> valid_utf8 (tk_id_token tok))"

lemma exchange_utf8D: "exchange_utf8 p \<Longrightarrow> rp_exchange p s t n c v = (Some tok, s') \<Longrightarrow>
  valid_utf8 (tk_subject tok) \<and> valid_utf8 (tk_id_token tok)"
  unfolding exchange_utf8_def by blast

text \<open>
  C2: A callback redirects to the application only if the browser's login cookie equals the state
  parameter, that state names a live transaction, and the identity provider exchanged the code
  under that transaction's nonce and PKCE verifier for a token that has not expired. Afterwards the
  transaction is gone for ever, and the store holds, under the 43-character ID of 32 random bytes
  that the session cookie carries, a session for the token's subject with that token and expiry.
\<close>

theorem callback_redeems_transaction:
  assumes kv: "kv_contract b view"
    and run: "CallbackHandler \<lparr>h_party = p, h_store = \<lparr>st_backend = b, st_enc = e\<rparr>, h_insecure = i, h_externalOrigin = orig\<rparr>
      r rw w = (rw', w')"
    and st: "rw_status rw = None" "rw_status rw' = Some 302"
    and utf8: "exchange_utf8 p"
  shows "\<exists>state txn tok sid rec. state = query_get (query_of r) ''state'' \<and> state \<noteq> ''''
    \<and> req_cookie r (LoginStateCookieName i) = Some state
    \<and> login_at e (view (w_kv w)) (w_now w) state = Some txn
    \<and> fst (rp_exchange p (w_idp w) (w_now w) (Nonce txn) (query_get (query_of r) ''code'') (PKCEVerifier txn)) = Some tok
    \<and> w_now w < tk_expiration tok
    \<and> (\<forall>t. live (view (w_kv w')) t (loginKeyPrefix @ state) = None)
    \<and> Subject rec = tk_subject tok \<and> IDToken rec = tk_id_token tok \<and> ExpiresAt rec = tk_expiration tok
    \<and> session_at e (view (w_kv w')) (w_now w') sid = Some rec
    \<and> length sid = 43 \<and> rw_sent rw' ''Location'' = [''/'']
    \<and> last (rw_sent rw' ''Set-Cookie'')
        = cookie_string (session_cookie i sid (time_until (w_now w) (tk_expiration tok)))"
proof -
  let ?st = "\<lparr>st_backend = b, st_enc = e\<rparr>"
  let ?h = "\<lparr>h_party = p, h_store = ?st, h_insecure = i, h_externalOrigin = orig\<rparr>"
  obtain txn w1 tok i' where cb: "req_cookie r (LoginStateCookieName i) = Some (query_get (query_of r) ''state'')"
      "query_get (query_of r) ''state'' \<noteq> ''''"
      "takeLoginTransaction ?st (query_get (query_of r) ''state'') w = (Inr txn, w1)"
      "rp_exchange p (w_idp w1) (w_now w1) (Nonce txn) (query_get (query_of r) ''code'') (PKCEVerifier txn) = (Some tok, i')"
      "callback_session ?h tok r (clearLoginStateCookie i rw) (w1\<lparr>w_idp := i'\<rparr>) = (rw', w')"
    using CallbackHandler_redirect [OF run st] by simp metis
  have w1: "w_idp w1 = w_idp w" "w_now w1 = w_now w"
    using store_stepD [OF store_step_take [OF cb(3)]] by auto
  have st': "rw_status (clearLoginStateCookie i rw) = None" by (simp add: clearLoginStateCookie_def st)
  obtain csrf sid w2 where cs: "w_now w1 < tk_expiration tok" "randomToken (w1\<lparr>w_idp := i'\<rparr>) = (Some csrf, w2)"
      "createSession ?st \<lparr>Subject = tk_subject tok, IDToken = tk_id_token tok, ExpiresAt = tk_expiration tok,
        CreatedAt = w_now w1, CSRFToken = csrf\<rparr> (time_until (w_now w1) (tk_expiration tok)) w2 = (Inr sid, w')"
      "rw' = http_redirect r ''/'' (setSessionCookie i sid (time_until (w_now w1) (tk_expiration tok))
        (clearLoginStateCookie i rw))"
    using callback_session_redirect [OF cb(5) st' st(2)] by simp metis
  let ?rec = "\<lparr>Subject = tk_subject tok, IDToken = tk_id_token tok, ExpiresAt = tk_expiration tok,
        CreatedAt = w_now w1, CSRFToken = csrf\<rparr>"
  have pos: "0 < time_until (w_now w1) (tk_expiration tok)" using cs(1) by (simp add: time_until_pos)
  have ok: "record_text_ok ?rec"
    using exchange_utf8D [OF utf8 cb(4)] randomToken_Some [OF cs(2)] by (simp add: record_text_ok_def rawURLEncode_utf8)
  have sess: "session_at e (view (w_kv w')) (w_now w') sid = Some ?rec"
    by (rule kv_contract.createSession_Inr [OF kv cs(3) pos ok])
  have gone: "live (view (w_kv w')) t (loginKeyPrefix @ query_get (query_of r) ''state'') = None" for t
    by (rule callback_gone [OF kv run st])
  have "list_all url_safe sid" "length sid = 43" using createSession_ID [OF cs(3)] by auto
  then have "cookie_string (session_cookie i sid (time_until (w_now w1) (tk_expiration tok))) \<noteq> ''''"
    by (simp add: cookie_string_def session_cookie_def)
  then have "last (rw_sent rw' ''Set-Cookie'')
      = cookie_string (session_cookie i sid (time_until (w_now w1) (tk_expiration tok)))"
    using st' by (simp add: cs(4) sent_redirect setSessionCookie_def) (simp add: writer_defs)
  then show ?thesis
    using cb kv_contract.take_Inr(1) [OF kv cb(3)] w1 cs(1) gone sess \<open>length sid = 43\<close> st'
    by (intro exI [of _ "query_get (query_of r) ''state''"] exI [of _ txn] exI [of _ tok] exI [of _ sid] exI [of _ ?rec])
      (simp add: cs(4) sent_redirect setSessionCookie_def)
qed

lemma dead_state_rejected:
  assumes "kv_contract b view"
    and "CallbackHandler \<lparr>h_party = p, h_store = \<lparr>st_backend = b, st_enc = e\<rparr>, h_insecure = i, h_externalOrigin = orig\<rparr>
      r rw w = (rw', w')"
    and "rw_status rw = None"
    and "live (view (w_kv w)) (w_now w) (loginKeyPrefix @ query_get (query_of r) ''state'') = None"
  shows "rw_status rw' = Some 400 \<and> w_idp w' = w_idp w"
  using assms
  by (auto simp: CallbackHandler_def Let_def clearLoginStateCookie_def
      split: option.splits if_splits prod.splits sum.splits
      dest!: kv_contract.take_dead [OF assms(1)] dest: store_step_take store_stepD(1))

text \<open>
  C14: A login transaction is redeemed at most once. After a callback that redirected, any later
  callback with the same state (the browser's back button, or an attacker who saw it), however much
  later, as long as nothing has stored that key again, is refused with status 400, and the identity
  provider is not asked anything.
\<close>

theorem callback_replay_rejected:
  assumes kv: "kv_contract b view"
    and first: "CallbackHandler \<lparr>h_party = p, h_store = \<lparr>st_backend = b, st_enc = e\<rparr>, h_insecure = i, h_externalOrigin = orig\<rparr>
      r1 rw1 w1 = (rw1', w1')" "rw_status rw1 = None" "rw_status rw1' = Some 302"
    and same: "query_get (query_of r2) ''state'' = query_get (query_of r1) ''state''"
    and later: "view (w_kv w2) (loginKeyPrefix @ query_get (query_of r1) ''state'')
      = view (w_kv w1') (loginKeyPrefix @ query_get (query_of r1) ''state'')"
    and second: "CallbackHandler \<lparr>h_party = p, h_store = \<lparr>st_backend = b, st_enc = e\<rparr>, h_insecure = i, h_externalOrigin = orig\<rparr>
      r2 rw2 w2 = (rw2', w2')" "rw_status rw2 = None"
  shows "rw_status rw2' = Some 400 \<and> w_idp w2' = w_idp w2"
proof -
  have "live (view (w_kv w1')) (w_now w2) (loginKeyPrefix @ query_get (query_of r1) ''state'') = None"
    using callback_gone [OF kv first] by blast
  then have "live (view (w_kv w2)) (w_now w2) (loginKeyPrefix @ query_get (query_of r2) ''state'') = None"
    using later same live_cong by metis
  with dead_state_rejected [OF kv second] show ?thesis by blast
qed

text \<open>
  C9: A logout answers 204 only for a request that carries the application's exact origin, the
  cookie of a live session and that session's CSRF token; then the session is gone for ever and no
  other key of the store has changed.
\<close>

theorem logout_requires_origin_and_csrf:
  assumes kv: "kv_contract b view"
    and run: "LogoutHandler \<lparr>h_party = p, h_store = \<lparr>st_backend = b, st_enc = e\<rparr>, h_insecure = i, h_externalOrigin = orig\<rparr>
      r rw w = (rw', w')"
    and st: "rw_status rw = None" "rw_status rw' = Some 204"
  shows "\<exists>sid rec. hdr_get (rq_header r) ''Origin'' = orig
    \<and> req_cookie r (SessionCookieName i) = Some sid
    \<and> session_at e (view (w_kv w)) (w_now w) sid = Some rec
    \<and> hdr_get (rq_header r) ''X-Csrf-Token'' = CSRFToken rec
    \<and> (\<forall>t. session_at e (view (w_kv w')) t sid = None)
    \<and> (\<forall>k. k \<noteq> sessionKeyPrefix @ sid \<longrightarrow> view (w_kv w') k = view (w_kv w) k)"
proof -
  let ?st = "\<lparr>st_backend = b, st_enc = e\<rparr>"
  have o: "hdr_get (rq_header r) ''Origin'' = orig"
    using run st by (auto simp: LogoutHandler_def split: if_splits)
  obtain sid where c: "req_cookie r (SessionCookieName i) = Some sid"
    using run st o by (cases "req_cookie r (SessionCookieName i)") (auto simp: LogoutHandler_def)
  obtain x w1 where g: "getSession ?st sid w = (x, w1)" by fastforce
  obtain rec where x: "x = Inr rec"
    using run st o c g by (cases x) (auto simp: LogoutHandler_def ClearSessionCookie_def)
  have csrf: "hdr_get (rq_header r) ''X-Csrf-Token'' = CSRFToken rec"
    using run st o c g x by (auto simp: LogoutHandler_def split: if_splits)
  obtain y w2 where d: "deleteSession ?st sid w1 = (y, w2)" by fastforce
  have y: "y = None" and w': "w' = w2"
    using run st o c g x csrf d by (cases y; auto simp: LogoutHandler_def)+
  have "session_at e (view (w_kv w')) t sid = None" for t
    using kv_contract.deleteSession_gone [OF kv d [unfolded y]] w' by (simp add: session_at_def)
  moreover have "view (w_kv w') k = view (w_kv w) k" if "k \<noteq> sessionKeyPrefix @ sid" for k
    using kv_contract.deleteSession_other [OF kv d that] kv_contract.getSession_view [OF kv g] w' by simp
  ultimately show ?thesis
    using o c csrf kv_contract.getSession_Inr [OF kv g [unfolded x]] by blast
qed

text \<open>
  C21: A logout request that is refused (missing or foreign origin, no cookie, no session, wrong
  CSRF token: any status but 204 and the 500 of a failed delete) leaves every key of the store as
  it is, so a forged request logs nobody out.
\<close>

theorem logout_refusal_keeps_store:
  assumes kv: "kv_contract b view"
    and run: "LogoutHandler \<lparr>h_party = p, h_store = \<lparr>st_backend = b, st_enc = e\<rparr>, h_insecure = i, h_externalOrigin = orig\<rparr>
      r rw w = (rw', w')"
    and st: "rw_status rw = None" "rw_status rw' \<noteq> Some 204" "rw_status rw' \<noteq> Some 500"
  shows "view (w_kv w') = view (w_kv w) \<and> rw_status rw' \<in> {Some 401, Some 403}"
  using run st kv_contract.getSession_view [OF kv]
  by (auto simp: LogoutHandler_def ClearSessionCookie_def split: if_splits option.splits prod.splits sum.splits)

text \<open>
  C23: The session status never changes the store and never fails for a missing session: a foreign
  origin gets 403, everyone else a JSON object that says whether the cookie names a live session and,
  if so, only its subject and CSRF token.
\<close>

theorem session_status_answer:
  assumes kv: "kv_contract b view"
    and run: "SessionHandler \<lparr>h_party = p, h_store = \<lparr>st_backend = b, st_enc = e\<rparr>, h_insecure = i, h_externalOrigin = orig\<rparr>
      r (new_rw a) w = (rw', w')"
    and acc: "a \<noteq> Some 0"
  shows "view (w_kv w') = view (w_kv w)
    \<and> (if hdr_get (rq_header r) ''Origin'' \<notin> {'''', orig} then rw_status rw' = Some 403
       else rw_status rw' = Some 200 \<and>
         (rw_body rw' = json_print (JObj [(''authenticated'', JBool False)]) @ [CHR 0x0A]
          \<or> (\<exists>sid rec. req_cookie r (SessionCookieName i) = Some sid
               \<and> session_at e (view (w_kv w)) (w_now w) sid = Some rec
               \<and> rw_body rw' = json_print (JObj ([(''authenticated'', JBool True)]
                    @ omit_str ''subject'' (Subject rec) @ omit_str ''csrfToken'' (CSRFToken rec))) @ [CHR 0x0A])))"
proof -
  let ?h = "\<lparr>h_party = p, h_store = \<lparr>st_backend = b, st_enc = e\<rparr>, h_insecure = i, h_externalOrigin = orig\<rparr>"
  have body: "rw_body (write_json v (new_rw a)) = json_print v @ [CHR 0x0A]" for v
    using acc by (simp add: write_json_def encode_json_def writer_defs new_rw_def Let_def)
  have stat: "rw_status (write_json v (new_rw a)) = Some 200" for v
    by (simp add: write_json_def encode_json_def)
  show ?thesis
  proof (cases "hdr_get (rq_header r) ''Origin'' \<notin> {'''', orig}")
    case True
    with run show ?thesis by (auto simp: SessionHandler_def)
  next
    case False
    then have *: "SessionHandler ?h r (new_rw a) w
        = (let (resp, w') = session_status ?h r w in (write_json (sessionStatus_json resp) (new_rw a), w'))"
      by (auto simp: SessionHandler_def)
    show ?thesis
    proof (cases "req_cookie r (SessionCookieName i)")
      case None
      with run False show ?thesis
        unfolding * by (auto simp: session_status_def body stat sessionStatus_json_def omit_str_def)
    next
      case (Some sid)
      obtain x w1 where g: "getSession \<lparr>st_backend = b, st_enc = e\<rparr> sid w = (x, w1)" by fastforce
      show ?thesis
      proof (cases x)
        case (Inl er)
        with run False Some g have "rw' = write_json (JObj [(''authenticated'', JBool False)]) (new_rw a)" "w' = w1"
          unfolding * by (simp_all add: session_status_def sessionStatus_json_def omit_str_def)
        with False kv_contract.getSession_view [OF kv g] show ?thesis by (simp add: body stat)
      next
        case (Inr rec)
        with run False Some g have "rw' = write_json (JObj ([(''authenticated'', JBool True)]
            @ omit_str ''subject'' (Subject rec) @ omit_str ''csrfToken'' (CSRFToken rec))) (new_rw a)" "w' = w1"
          unfolding * by (simp_all add: session_status_def sessionStatus_json_def)
        with False Some kv_contract.getSession_view [OF kv g] kv_contract.getSession_Inr [OF kv g [unfolded Inr]]
        show ?thesis unfolding body stat by (auto simp only: body stat if_False)
      qed
    qed
  qed
qed

end
