(* ===== verification/Allowlist.thy ===== *)
theory Allowlist
  imports Router LoginFlow
begin

text \<open>
  The contract of \<^verbatim>\<open>docs/route-allowlist.md\<close>, stated without the router: the upstream calls there
  are, each a path below the Capsule Proxy's base URL. The lemmas show that every handler of
  \<^verbatim>\<open>internal/httpapi\<close> keeps to it and that only a request with a live session reaches one.
\<close>

section \<open>The contract\<close>

definition detail_kinds :: "(string \<times> string) list" where
  "detail_kinds =
    [(''apis/apps/v1'', ''deployments''), (''apis/apps/v1'', ''statefulsets''), (''apis/apps/v1'', ''daemonsets''),
     (''api/v1'', ''pods''), (''apis/batch/v1'', ''jobs''), (''apis/batch/v1'', ''cronjobs''),
     (''api/v1'', ''services''), (''apis/networking.k8s.io/v1'', ''ingresses''),
     (''api/v1'', ''persistentvolumeclaims'')]"

definition list_kinds :: "(string \<times> string) list" where
  "list_kinds = detail_kinds @ [(''api/v1'', ''resourcequotas''), (''api/v1'', ''limitranges'')]"

definition log_bounds :: "LogOptions \<Rightarrow> bool" where
  "log_bounds o1 \<longleftrightarrow> 1 \<le> TailLines o1 \<and> TailLines o1 \<le> 2000 \<and> 1 \<le> LimitBytes o1 \<and> LimitBytes o1 \<le> 1048576
     \<and> 0 \<le> SinceSeconds o1 \<and> SinceSeconds o1 \<le> int64_max \<and> (Container o1 = '''' \<or> dns_label (Container o1))"

text \<open>\<open>seg_path ss\<close> is the path whose segments are \<open>ss\<close>.\<close>

definition seg_path :: "string list \<Rightarrow> string" where
  "seg_path ss = concat (map ((#) (CHR ''/'')) ss)"

inductive allowed_path :: "string \<Rightarrow> bool" where
  namespaces: "allowed_path ''/api/v1/namespaces''"
| listing: "(p, k) \<in> set list_kinds \<Longrightarrow> dns_label ns \<Longrightarrow> allowed_path (seg_path [p, ''namespaces'', ns, k])"
| events: "dns_label ns \<Longrightarrow> allowed_path (seg_path [''api/v1'', ''namespaces'', ns, ''events?limit=200''])"
| detail: "(p, k) \<in> set detail_kinds \<Longrightarrow> dns_label ns \<Longrightarrow> dns_label name \<Longrightarrow>
    allowed_path (seg_path [p, ''namespaces'', ns, k, name])"
| logs: "dns_label ns \<Longrightarrow> dns_label name \<Longrightarrow> log_bounds o1 \<Longrightarrow>
    allowed_path (seg_path [''api/v1'', ''namespaces'', ns, ''pods'', name, ''log?'' @ query_encode (log_query o1)])"

definition allowed_call :: "Client \<Rightarrow> string \<Rightarrow> out_req \<Rightarrow> bool" where
  "allowed_call c tok q \<longleftrightarrow> or_method q = ''GET'' \<and> (\<exists>p. allowed_path p \<and> or_url q = cl_baseURL c @ p)
     \<and> (\<exists>accept. or_header q = [(''Authorization'', ''Bearer '' @ tok), (''Accept'', accept)])"

section \<open>The paths the client builds\<close>

lemma resource_path_segs:
  "resource_path \<lparr>APIPrefix = p, Resource = k\<rparr> ns = seg_path [p, ''namespaces'', ns, k]"
  by (simp add: resource_path_def seg_path_def)

lemma seg_path_snoc: "seg_path (ss @ [s]) = seg_path ss @ CHR ''/'' # s"
  by (simp add: seg_path_def)

lemma api_get_allowed: "api_get c tok p q \<Longrightarrow> allowed_path p \<Longrightarrow> allowed_call c tok q"
  by (auto simp: api_get_def allowed_call_def bearer_def)

definition gvr_in :: "GroupVersionResource \<Rightarrow> (string \<times> string) list \<Rightarrow> bool" where
  "gvr_in g ks \<longleftrightarrow> (APIPrefix g, Resource g) \<in> set ks"

lemma listing_path: "gvr_in g list_kinds \<Longrightarrow> dns_label ns \<Longrightarrow> allowed_path (resource_path g ns)"
  using allowed_path.listing by (cases g) (auto simp: gvr_in_def resource_path_segs)

lemma detail_path: "gvr_in g detail_kinds \<Longrightarrow> dns_label ns \<Longrightarrow> dns_label name \<Longrightarrow>
  allowed_path (resource_path g ns @ CHR ''/'' # name)"
  using allowed_path.detail [of "APIPrefix g" "Resource g" ns name]
  by (cases g) (auto simp: gvr_in_def resource_path_segs seg_path_def)

lemma detail_is_list: "gvr_in g detail_kinds \<Longrightarrow> gvr_in g list_kinds"
  by (auto simp: gvr_in_def list_kinds_def)

lemmas gvr_defs = deploymentsGVR_def statefulSetsGVR_def daemonSetsGVR_def podsGVR_def jobsGVR_def
  cronJobsGVR_def servicesGVR_def ingressesGVR_def pvcGVR_def

lemma detail_gvrs [simp]:
  "gvr_in deploymentsGVR detail_kinds" "gvr_in statefulSetsGVR detail_kinds" "gvr_in daemonSetsGVR detail_kinds"
  "gvr_in podsGVR detail_kinds" "gvr_in jobsGVR detail_kinds" "gvr_in cronJobsGVR detail_kinds"
  "gvr_in servicesGVR detail_kinds" "gvr_in ingressesGVR detail_kinds" "gvr_in pvcGVR detail_kinds"
  by (simp_all add: gvr_defs gvr_in_def detail_kinds_def)

lemma overview_gvrs [simp]: "gvr_in resourceQuotasGVR list_kinds" "gvr_in limitRangesGVR list_kinds"
  by (simp_all add: resourceQuotasGVR_def limitRangesGVR_def gvr_in_def list_kinds_def)

lemma log_path_segs: "log_path ns pod @ ''?'' @ q = seg_path [''api/v1'', ''namespaces'', ns, ''pods'', pod, ''log?'' @ q]"
  by (simp add: log_path_def seg_path_def)

lemma formatInt_200: "formatInt 200 = ''200''"
  by code_simp

lemma events_path:
  assumes "dns_label ns"
  shows "allowed_path (resource_path eventsGVR ns @ ''?limit='' @ formatInt maxEventsListed)"
  using allowed_path.events [OF assms]
  by (simp add: eventsGVR_def resource_path_segs seg_path_def maxEventsListed_def formatInt_200)

section \<open>Log options\<close>

lemma positive_option_Inr:
  "positive_option q k = Inr (Some n) \<Longrightarrow> 0 < n \<and> n \<le> int64_max \<and> parseInt64 (query_get q k) = Some n"
  by (auto simp: positive_option_def Let_def dest: parseInt_range split: if_splits option.splits)

lemma parseLogOptions_Inr:
  assumes "parseLogOptions q = Inr opts"
  obtains tails lb ss where "positive_option q ''tailLines'' = Inr tails" "positive_option q ''limitBytes'' = Inr lb"
    "positive_option q ''sinceSeconds'' = Inr ss"
    "TailLines opts = (case tails of None \<Rightarrow> defaultTailLines | Some n \<Rightarrow> min n maxTailLines)"
    "LimitBytes opts = (case lb of None \<Rightarrow> defaultLimitBytes | Some n \<Rightarrow> min n maxLimitBytes)"
    "SinceSeconds opts = (case ss of None \<Rightarrow> 0 | Some n \<Rightarrow> n)"
    "Container opts = query_get q ''container''" "Container opts = '''' \<or> validK8sName (Container opts)"
    "Follow opts = (query_get q ''follow'' = ''true'')"
proof -
  obtain tails lb ss where *: "positive_option q ''tailLines'' = Inr tails" "positive_option q ''limitBytes'' = Inr lb"
      "positive_option q ''sinceSeconds'' = Inr ss"
    using assms by (auto simp: parseLogOptions_def Let_def split: sum.splits)
  show thesis
    by (rule that [OF *]; insert assms)
      (cases tails; cases lb; cases ss; auto simp: parseLogOptions_def Let_def * split: if_splits)+
qed

lemma positive_option_bounds: "positive_option q k = Inr x \<Longrightarrow> x = Some n \<Longrightarrow> 1 \<le> n \<and> n \<le> int64_max"
  using positive_option_Inr [of q k n] by simp

lemma parseLogOptions_bounds:
  assumes "parseLogOptions q = Inr opts"
  shows "log_bounds opts"
proof -
  have lim: "1 \<le> (case x of None \<Rightarrow> d | Some n \<Rightarrow> min n m) \<and> (case x of None \<Rightarrow> d | Some n \<Rightarrow> min n m) \<le> m"
    if "positive_option q k = Inr x" "1 \<le> d" "d \<le> m" for x k d m
    using positive_option_bounds [OF that(1)] that(2,3) by (cases x) auto
  have since: "0 \<le> (case x of None \<Rightarrow> 0 | Some n \<Rightarrow> n) \<and> (case x of None \<Rightarrow> 0 | Some n \<Rightarrow> n) \<le> int64_max"
    if "positive_option q k = Inr x" for x k
    using positive_option_bounds [OF that] by (cases x) (auto simp: int64_max_def)
  show ?thesis using assms
  proof (rule parseLogOptions_Inr, goal_cases)
    case (1 tails lb ss)
    then show ?case
      using since [OF 1(3)] lim [OF 1(1), of 200 2000] lim [OF 1(2), of 262144 1048576]
      unfolding log_bounds_def defaultTailLines_def maxTailLines_def defaultLimitBytes_def maxLimitBytes_def
      by (simp add: validK8sName_iff)
  qed
qed

section \<open>What a handler may send\<close>

text \<open>A handler whose upstream calls all satisfy \<open>P\<close>, whatever the request.\<close>

definition appends :: "(out_req \<Rightarrow> bool) \<Rightarrow> ('s, 'i) world \<Rightarrow> ('s, 'i) world \<Rightarrow> bool" where
  "appends P w w' \<longleftrightarrow> (\<exists>qs. w_sent w' = w_sent w @ qs \<and> list_all P qs)"

lemma appends_same: "w_sent w' = w_sent w \<Longrightarrow> appends P w w'"
  by (simp add: appends_def)

lemma appends_sends: "sends P w w' \<Longrightarrow> appends P w w'"
  by (auto simp: appends_def dest: sendsD(5))

definition keeps_to :: "Client \<Rightarrow> ('s, 'i) api_handler \<Rightarrow> bool" where
  "keeps_to c h \<longleftrightarrow> (\<forall>r rw w rw' w' rec. h r rw w = (rw', w') \<longrightarrow> rq_ctx r = Some rec \<longrightarrow>
     sends (allowed_call c (IDToken rec)) w w')"

lemma keeps_toI:
  "(\<And>r rw w rw' w' rec. h r rw w = (rw', w') \<Longrightarrow> rq_ctx r = Some rec \<Longrightarrow>
     sends (allowed_call c (IDToken rec)) w w') \<Longrightarrow> keeps_to c h"
  by (simp add: keeps_to_def)

lemma listing_sends:
  assumes "ListNamespacedResource c tok ns g 0 w = (x, w')" "gvr_in g list_kinds" "validK8sName ns"
  shows "sends (allowed_call c tok) w w'"
  using ListNamespacedResource_sends [OF assms(1)] assms(2,3)
  by (auto elim!: sends_mono intro: api_get_allowed listing_path simp: validK8sName_iff)

lemma namespaces_keeps_to: "keeps_to c (namespacesHandler c)"
  by (rule keeps_toI)
    (auto simp: namespacesHandler_def sessionFromContext_def split: prod.splits sum.splits
      dest!: ListNamespaces_sends elim!: sends_mono intro: api_get_allowed allowed_path.namespaces)

lemma list_keeps_to: "gvr_in g list_kinds \<Longrightarrow> keeps_to c (listResourceHandler c g f)"
  by (rule keeps_toI)
    (auto simp: listResourceHandler_def sessionFromContext_def Let_def
      split: prod.splits sum.splits option.splits if_splits dest: listing_sends)

lemma get_keeps_to: "gvr_in g detail_kinds \<Longrightarrow> keeps_to c (getResourceHandler c g f)"
  by (rule keeps_toI)
    (auto simp: getResourceHandler_def sessionFromContext_def Let_def validK8sName_iff
      split: prod.splits sum.splits option.splits if_splits dest!: GetNamespacedResource_sends
      elim!: sends_mono intro: api_get_allowed detail_path)

lemma events_keeps_to: "keeps_to c (eventsHandler c)"
proof (rule keeps_toI, goal_cases)
  case (1 r rw w rw' w' rec)
  have "0 < maxEventsListed" by (simp add: maxEventsListed_def)
  then have s: "sends (allowed_call c (IDToken rec)) w w1"
    if "ListNamespacedResource c (IDToken rec) ns eventsGVR maxEventsListed w = (x, w1)" "dns_label ns" for ns x w1
    using ListNamespacedResource_sends [OF that(1)] events_path [OF that(2)]
    by (auto elim!: sends_mono intro: api_get_allowed)
  show ?case using 1
    by (auto simp: eventsHandler_def sessionFromContext_def Let_def validK8sName_iff
        split: prod.splits sum.splits option.splits if_splits dest: s)
qed

lemma overview_keeps_to: "keeps_to c (overviewHandler c)"
proof (rule keeps_toI, goal_cases)
  case (1 r rw w rw' w' rec)
  let ?ns = "rq_pathvalue r ''ns''"
  obtain x w1 y w2 where l: "ListNamespacedResource c (IDToken rec) ?ns resourceQuotasGVR 0 w = (x, w1)"
      "ListNamespacedResource c (IDToken rec) ?ns limitRangesGVR 0 w1 = (y, w2)"
    by (metis prod.exhaust)
  show ?case
  proof (cases "validK8sName ?ns")
    case True
    then have "sends (allowed_call c (IDToken rec)) w w1" "sends (allowed_call c (IDToken rec)) w w2"
      using l listing_sends overview_gvrs sends_trans by metis+
    then show ?thesis using 1 l True
      by (auto simp: overviewHandler_def sessionFromContext_def Let_def split: sum.splits option.splits)
  qed (use 1 in \<open>auto simp: overviewHandler_def sessionFromContext_def Let_def\<close>)
qed

lemma logs_keeps_to: "keeps_to c (podLogsHandler c)"
proof (rule keeps_toI, goal_cases)
  case (1 r rw w rw' w' rec)
  have s: "sends (allowed_call c (IDToken rec)) w w1"
    if "StreamPodLogs c d (IDToken rec) ns pod opts w = (x, w1)" "dns_label ns" "dns_label pod"
      "parseLogOptions q = Inr opts" for d ns pod opts q x w1
    using StreamPodLogs_sends [OF that(1)]
      api_get_allowed [OF _ allowed_path.logs [OF that(2,3) parseLogOptions_bounds [OF that(4)]]]
    unfolding log_path_segs by (rule sends_mono)
  show ?case using 1
    by (auto simp: podLogsHandler_def sessionFromContext_def Let_def validK8sName_iff
        split: prod.splits sum.splits option.splits if_splits dest: s)
qed

lemma api_table_keeps_to: "(segs, h) \<in> set (api_table c) \<Longrightarrow> keeps_to c h"
  unfolding api_table_def
  by (auto simp: namespaces_keeps_to overview_keeps_to logs_keeps_to events_keeps_to
      intro!: list_keeps_to get_keeps_to detail_is_list)

section \<open>The router\<close>

lemma mux_match_Some:
  "mux_match rts m segs = Some (h, vals) \<Longrightarrow>
   \<exists>rt\<in>set rts. rt_handler rt = h \<and> match_segs (rt_segs rt) segs = Some vals \<and> method_matches (rt_method rt) m"
  by (induction rts) (auto split: option.splits if_splits)

lemma mux_match_None:
  "mux_match rts m segs = None \<longleftrightarrow>
   (\<forall>rt\<in>set rts. method_matches (rt_method rt) m \<longrightarrow> match_segs (rt_segs rt) segs = None)"
  by (induction rts) (auto split: option.splits if_splits)

text \<open>
  Every request through the mux ends in a handler of the table, in the catch-all, or in an answer
  of the mux itself, which leaves the world alone.
\<close>

lemma mux_serve_cases:
  assumes "mux_serve ms rts catchall r rw w = (rw', w')"
  obtains (route) rt vals where "rt \<in> set rts" "rt_handler rt (r\<lparr>rq_pathvalue := path_values vals\<rparr>) rw w = (rw', w')"
      "method_matches (rt_method rt) (rq_method r)" "match_segs (rt_segs rt) (segs_of (rq_path r)) = Some vals"
  | (catchall) h where "catchall = Some h" "h r rw w = (rw', w')"
  | (mux) "w' = w"
proof -
  have disp: thesis if d: "mux_dispatch rts catchall (rq_path r) r rw w = (rw', w')"
  proof (cases "mux_match rts (rq_method r) (segs_of (rq_path r))")
    case None
    with d show thesis
      by (cases catchall) (auto simp: mux_dispatch_def Let_def split: if_splits intro: catchall mux)
  next
    case (Some hv)
    obtain h vals where hv: "hv = (h, vals)" by fastforce
    from mux_match_Some [OF Some [unfolded hv]] obtain rt where "rt \<in> set rts" "rt_handler rt = h"
        "match_segs (rt_segs rt) (segs_of (rq_path r)) = Some vals" "method_matches (rt_method rt) (rq_method r)" by blast
    with d Some hv show thesis by (intro route) (auto simp: mux_dispatch_def)
  qed
  show thesis
  proof (cases "rq_path r \<noteq> ''*'' \<and> (rq_method r = ''CONNECT'' \<or> clean_path (rq_path r) = rq_path r)")
    case True
    with assms disp show thesis by (auto simp: mux_serve_def split: if_splits)
  next
    case False
    then have "w' = w" using assms by (auto simp: mux_serve_def mux_redirect_def Let_def split: if_splits)
    then show thesis by (rule mux)
  qed
qed

lemma public_routes_local:
  assumes "rt \<in> set (public_routes auth store)" "rt_handler rt r rw w = (rw', w')"
  shows "local_step w w'"
  using assms
  by (auto simp: public_routes_def livezHandler_def readyzHandler_def split: prod.splits option.splits
      dest: local_LoginHandler local_CallbackHandler local_SessionHandler local_LogoutHandler
        store_step_ping [THEN local_step_store])

lemma requireSession_sends:
  assumes "keeps_to c h" "requireSession store i h r rw w = (rw', w')"
  shows "w_sent w' = w_sent w \<or> (\<exists>cookie rec. req_cookie r (SessionCookieName i) = Some cookie
    \<and> fst (getSession store cookie w) = Inr rec \<and> appends (allowed_call c (IDToken rec)) w w')"
proof -
  have *: "appends (allowed_call c (IDToken rec)) w w'"
    if "getSession store cookie w = (Inr rec, w1)" "h (r\<lparr>rq_ctx := Some rec\<rparr>) rw w1 = (rw', w')" for cookie rec w1
  proof -
    have "sends (allowed_call c (IDToken rec)) w1 w'" using assms(1) that(2) by (simp add: keeps_to_def)
    then have "appends (allowed_call c (IDToken rec)) w1 w'" by (rule appends_sends)
    then show ?thesis using store_stepD(3) [OF store_step_getSession [OF that(1)]] by (simp add: appends_def)
  qed
  show ?thesis using assms(2) *
    by (auto simp: requireSession_def split: option.splits prod.splits sum.splits
        dest: store_step_getSession store_stepD(3))
qed

lemma upstream_allowlisted:
  assumes run: "serve (NewRouter ms auth store c i frontend) a r w = (rw', w')"
    and front: "\<And>h r rw w rw' w'. frontend = Some h \<Longrightarrow> h r rw w = (rw', w') \<Longrightarrow> w_sent w' = w_sent w"
  shows "w_sent w' = w_sent w \<or> (\<exists>cookie rec. req_cookie r (SessionCookieName i) = Some cookie
    \<and> fst (getSession store cookie w) = Inr rec \<and> appends (allowed_call c (IDToken rec)) w w')"
proof -
  let ?r = "r\<lparr>rq_ctx := None, rq_pathvalue := (\<lambda>_. '''')\<rparr>"
  obtain rw1 where m: "mux_serve ms (route_table auth store c i) frontend ?r (set_security_headers i (new_rw a)) w = (rw1, w')"
    using run by (auto simp: serve_def NewRouter_def securityHeaders_def split: prod.splits)
  from m show ?thesis
  proof (cases rule: mux_serve_cases)
    case (route rt vals)
    show ?thesis
    proof (cases "rt \<in> set (public_routes auth store)")
      case True
      with route public_routes_local show ?thesis by (metis local_step_def)
    next
      case False
      then obtain segs h where sh: "(segs, h) \<in> set (api_table c)" "rt_handler rt = requireSession store i h"
        using route(1) by (auto simp: route_table_def api_routes_def)
      have "req_cookie (?r\<lparr>rq_pathvalue := path_values vals\<rparr>) n = req_cookie r n" for n
        by (simp add: req_cookie_def)
      with requireSession_sends [OF api_table_keeps_to [OF sh(1)] route(2) [unfolded sh(2)]]
      show ?thesis by simp
    qed
  qed (auto intro: front)
qed


end
