(* ===== verification/Responses.thy ===== *)
theory Responses
  imports Allowlist
begin

text \<open>
  What every response has in common: the security headers of \<^verbatim>\<open>middleware.go\<close> survive every
  handler of the table and every answer of the mux, and a request without a live session gets 401
  from every route under \<^verbatim>\<open>/api\<close>.
\<close>

section \<open>Headers\<close>

text \<open>Headers no handler touches, or sets to the value they have.\<close>

definition fixed_header :: "string \<Rightarrow> string list \<Rightarrow> bool" where
  "fixed_header k vs \<longleftrightarrow> k \<notin> {''Content-Type'', ''Content-Length'', ''Location'', ''Set-Cookie'', ''Allow'', ''Connection''}
     \<and> (k = ''X-Content-Type-Options'' \<longrightarrow> vs = [''nosniff''])"

definition keeps_at :: "string \<Rightarrow> string list \<Rightarrow> ('c, 's, 'i) handler \<Rightarrow> bool" where
  "keeps_at k vs h \<longleftrightarrow> (\<forall>r rw w. carries k vs rw \<longrightarrow> carries k vs (fst (h r rw w)))"

definition keeps_header :: "('c, 's, 'i) handler \<Rightarrow> bool" where
  "keeps_header h \<longleftrightarrow> (\<forall>k vs. fixed_header k vs \<longrightarrow> keeps_at k vs h)"

lemma keeps_atI: "(\<And>r rw w. carries k vs rw \<Longrightarrow> carries k vs (fst (h r rw w))) \<Longrightarrow> keeps_at k vs h"
  by (simp add: keeps_at_def)

lemma keeps_atD: "keeps_at k vs h \<Longrightarrow> carries k vs rw \<Longrightarrow> carries k vs (fst (h r rw w))"
  by (simp add: keeps_at_def)

lemma keeps_header_at: "keeps_header h \<Longrightarrow> fixed_header k vs \<Longrightarrow> keeps_at k vs h"
  by (simp add: keeps_header_def)

lemma keeps_headerI:
  "(\<And>k vs r rw w. fixed_header k vs \<Longrightarrow> carries k vs rw \<Longrightarrow> carries k vs (fst (h r rw w))) \<Longrightarrow> keeps_header h"
  by (simp add: keeps_header_def keeps_at_def)

lemma keeps_headerD:
  "keeps_header h \<Longrightarrow> fixed_header k vs \<Longrightarrow> carries k vs rw \<Longrightarrow> carries k vs (fst (h r rw w))"
  by (simp add: keeps_header_def keeps_at_def)

lemma carries_set_same: "carries k [v] w \<Longrightarrow> carries k [v] (set_header k v w)"
  by (simp add: carries_def set_header_def)

lemma carries_http_error: "fixed_header k vs \<Longrightarrow> carries k vs w \<Longrightarrow> carries k vs (http_error m c w)"
  unfolding http_error_def fixed_header_def
  by (cases "k = ''X-Content-Type-Options''") (auto intro!: carriesI carries_set_same)

lemma carries_http_redirect: "fixed_header k vs \<Longrightarrow> carries k vs w \<Longrightarrow> carries k vs (http_redirect r u w)"
  unfolding http_redirect_def redirect_to_def fixed_header_def Let_def by (auto intro!: carriesI)

lemma carries_write_json: "fixed_header k vs \<Longrightarrow> carries k vs w \<Longrightarrow> carries k vs (write_json v w)"
  unfolding write_json_def encode_json_def fixed_header_def by (auto intro!: carriesI)

lemma carries_cookies:
  assumes "fixed_header k vs" "carries k vs w"
  shows "carries k vs (setLoginStateCookie i s t w)" "carries k vs (clearLoginStateCookie i w)"
    "carries k vs (setSessionCookie i s t w)" "carries k vs (ClearSessionCookie i w)"
  using assms
  by (auto simp: setLoginStateCookie_def clearLoginStateCookie_def setSessionCookie_def ClearSessionCookie_def
      fixed_header_def intro!: carriesI)

lemma carries_upstream_error: "fixed_header k vs \<Longrightarrow> carries k vs w \<Longrightarrow> carries k vs (writeUpstreamError e w)"
  by (cases e) (simp_all add: writeUpstreamError_def carries_http_error)

lemma carries_copyLogStream: "carries k vs rw \<Longrightarrow> carries k vs (copyLogStream rw cs)"
proof (induction rw cs rule: copyLogStream.induct)
  case (2 rw c cs)
  have "carries k vs (fst (write_bytes (take copy_buf c) rw))" by (intro carriesI 2)
  moreover obtain rw1 ok where w: "write_bytes (take copy_buf c) rw = (rw1, ok)" by fastforce
  ultimately have "carries k vs rw1" by simp
  moreover from this have "carries k vs (flush rw1)" by (rule carries_flush)
  ultimately show ?case using 2 w
    by (cases ok) (auto simp: copyLogStream.simps(2) [of rw c cs] simp del: copyLogStream.simps(2))
qed simp

lemmas response_carries = carries_http_error carries_http_redirect carries_write_json carries_cookies
  carries_upstream_error carries_copyLogStream carries_write_header

lemma keeps_login: "keeps_header (LoginHandler h)"
  by (rule keeps_headerI) (auto simp: LoginHandler_def Let_def split: prod.splits option.splits sum.splits
      intro!: response_carries)

lemma keeps_callback_session: "keeps_header (callback_session h tok)"
  by (rule keeps_headerI) (auto simp: callback_session_def Let_def split: prod.splits option.splits sum.splits
      intro!: response_carries)

lemma keeps_callback_exchange: "keeps_header (callback_exchange h txn)"
  by (rule keeps_headerI) (auto simp: callback_exchange_def Let_def split: prod.splits option.splits
      intro!: response_carries keeps_headerD [OF keeps_callback_session])

lemma keeps_callback: "keeps_header (CallbackHandler h)"
  by (rule keeps_headerI) (auto simp: CallbackHandler_def Let_def split: prod.splits option.splits sum.splits
      intro!: response_carries keeps_headerD [OF keeps_callback_exchange])

lemma keeps_session: "keeps_header (SessionHandler h)"
  by (rule keeps_headerI) (auto simp: SessionHandler_def Let_def split: prod.splits intro!: response_carries)

lemma keeps_logout: "keeps_header (LogoutHandler h)"
  by (rule keeps_headerI) (auto simp: LogoutHandler_def split: prod.splits option.splits sum.splits
      intro!: response_carries)

lemma keeps_probes: "keeps_header livezHandler" "keeps_header (readyzHandler st)"
  by (rule keeps_headerI; auto simp: livezHandler_def readyzHandler_def split: prod.splits option.splits
      intro!: response_carries)+

lemma keeps_namespaces: "keeps_header (namespacesHandler c)"
  by (rule keeps_headerI) (auto simp: namespacesHandler_def split: prod.splits option.splits sum.splits
      intro!: response_carries)

lemma keeps_list: "keeps_header (listResourceHandler c g f)"
  by (rule keeps_headerI) (auto simp: listResourceHandler_def writeJSONItems_def Let_def
      split: prod.splits option.splits sum.splits intro!: response_carries)

lemma keeps_get: "keeps_header (getResourceHandler c g f)"
  by (rule keeps_headerI) (auto simp: getResourceHandler_def Let_def
      split: prod.splits option.splits sum.splits intro!: response_carries)

lemma keeps_events: "keeps_header (eventsHandler c)"
  by (rule keeps_headerI) (auto simp: eventsHandler_def writeJSONItems_def Let_def
      split: prod.splits option.splits sum.splits intro!: response_carries)

lemma keeps_overview: "keeps_header (overviewHandler c)"
  by (rule keeps_headerI) (auto simp: overviewHandler_def Let_def
      split: prod.splits option.splits sum.splits intro!: response_carries)

lemma keeps_logs: "keeps_header (podLogsHandler c)"
proof (rule keeps_headerI)
  fix k vs r rw and w :: "('a, 'b) world"
  assume k: "fixed_header k vs" "carries k vs rw"
  then have "carries k vs (set_header ''Content-Type'' v rw)" for v
    by (auto simp: fixed_header_def intro!: carriesI)
  with k show "carries k vs (fst (podLogsHandler c r rw w))"
    by (auto simp: podLogsHandler_def Let_def split: prod.splits option.splits sum.splits intro!: response_carries)
qed

lemma keeps_requireSession: "keeps_header h \<Longrightarrow> keeps_header (requireSession store i h)"
  by (rule keeps_headerI) (auto simp: requireSession_def split: prod.splits option.splits sum.splits
      intro!: response_carries dest: keeps_headerD)

lemma keeps_api_table: "(segs, h) \<in> set (api_table c) \<Longrightarrow> keeps_header h"
  unfolding api_table_def
  by (auto simp: keeps_namespaces keeps_list keeps_get keeps_events keeps_overview keeps_logs)

lemma keeps_route_table: "rt \<in> set (route_table auth store c i) \<Longrightarrow> keeps_header (rt_handler rt)"
  by (auto simp: route_table_def public_routes_def api_routes_def keeps_login keeps_callback keeps_session
      keeps_logout keeps_probes dest!: keeps_api_table intro: keeps_requireSession)

lemma keeps_mux_redirect: "keeps_header (mux_redirect ms p)"
proof (rule keeps_headerI)
  fix k vs r rw and w :: "('b, 'c) world"
  assume k: "fixed_header k vs" "carries k vs rw"
  then have "carries k vs (set_header ''Location'' u rw)"
      "carries k vs (set_header ''Content-Type'' t (set_header ''Location'' u rw))" for u t
    by (auto simp: fixed_header_def intro!: carriesI)
  then show "carries k vs (fst (mux_redirect ms p r rw w))"
    by (simp add: mux_redirect_def Let_def carries_write_body carries_write_header)
qed

lemma keeps_mux:
  assumes fixed: "fixed_header k vs"
    and "\<forall>rt\<in>set rts. keeps_at k vs (rt_handler rt)" "\<forall>h. catchall = Some h \<longrightarrow> keeps_at k vs h"
  shows "keeps_at k vs (mux_serve ms rts catchall)"
proof (rule keeps_atI)
  fix r rw and w :: "('b, 'c) world"
  assume k: "carries k vs rw"
  then have a: "carries k vs (set_header ''Allow'' v rw)" "carries k vs (set_header ''Connection'' v rw)" for v
    using fixed by (auto simp: fixed_header_def intro!: carriesI)
  have d: "carries k vs (fst (mux_dispatch rts catchall p r rw w))" for p
  proof (cases "mux_match rts (rq_method r) (segs_of p)")
    case None
    with k a fixed assms(3) show ?thesis
      by (cases catchall) (auto simp: mux_dispatch_def Let_def intro!: carries_http_error dest: keeps_atD)
  next
    case (Some hv)
    with assms(2) k show ?thesis
      by (cases hv) (auto simp: mux_dispatch_def dest!: mux_match_Some intro: keeps_atD)
  qed
  show "carries k vs (fst (mux_serve ms rts catchall r rw w))"
    using d a k keeps_headerD [OF keeps_mux_redirect fixed k] by (auto simp: mux_serve_def intro: carriesI)
qed

lemma set_security_headers_carries:
  "carries ''Content-Security-Policy'' [security_policy] (set_security_headers i (new_rw a))"
  "carries ''X-Content-Type-Options'' [''nosniff''] (set_security_headers i (new_rw a))"
  "carries ''Referrer-Policy'' [''no-referrer''] (set_security_headers i (new_rw a))"
  "carries ''Cache-Control'' [''no-store''] (set_security_headers i (new_rw a))"
  "carries ''Strict-Transport-Security'' (if i then [] else [''max-age=63072000; includeSubDomains''])
     (set_security_headers i (new_rw a))"
  by (simp_all add: set_security_headers_def Let_def carries_def set_header_def new_rw_def)

text \<open>One header at a time: only the catch-all handler has to be asked about.\<close>

lemma security_header_sent:
  assumes run: "serve (NewRouter ms auth store c i frontend) a r w = (rw', w')"
    and k: "fixed_header k vs" "carries k vs (set_security_headers i (new_rw a))"
    and front: "\<And>h. frontend = Some h \<Longrightarrow> keeps_at k vs h"
  shows "rw_sent rw' k = vs"
proof -
  let ?h = "mux_serve ms (route_table auth store c i) frontend"
  have "keeps_at k vs ?h"
    using keeps_route_table keeps_header_at front k(1) by (intro keeps_mux) blast+
  from keeps_atD [OF this k(2)]
  have "carries k vs (finish (fst (?h (r\<lparr>rq_ctx := None, rq_pathvalue := (\<lambda>_. '''')\<rparr>) (set_security_headers i (new_rw a)) w)))"
    by (rule carries_finish)
  then show ?thesis using run carries_finished
    by (auto simp: serve_def NewRouter_def securityHeaders_def split: prod.splits)
qed


section \<open>No session, no answer\<close>

lemma api_table_first: "(segs, h) \<in> set (api_table c) \<Longrightarrow> \<exists>ps. segs = Lit ''api'' # ps"
  unfolding api_table_def by (auto simp: ns_path_def name_path_def)

lemma public_first:
  "rt \<in> set (public_routes auth store) \<Longrightarrow> match_segs (rt_segs rt) (''api'' # ss) = None"
  by (auto simp: public_routes_def)

lemma match_first: "match_segs (Lit l # ps) segs \<noteq> None \<Longrightarrow> \<exists>ss. segs = l # ss"
  by (cases segs) (auto split: if_splits)

lemma requireSession_refuses:
  assumes "case req_cookie r (SessionCookieName i) of None \<Rightarrow> True
      | Some cookie \<Rightarrow> \<exists>e. fst (getSession store cookie w) = Inl e"
    and "\<And>n. req_cookie r' n = req_cookie r n"
  shows "\<exists>w1. w_sent w1 = w_sent w
    \<and> (\<forall>rw. requireSession store i nxt r' rw w = (http_error ''unauthorized'' 401 rw, w1))"
proof (cases "req_cookie r (SessionCookieName i)")
  case None
  with assms(2) show ?thesis by (simp add: requireSession_def)
next
  case (Some cookie)
  then obtain er w1 where g: "getSession store cookie w = (Inl er, w1)"
    using assms(1) by (cases "getSession store cookie w") auto
  with Some assms(2) store_stepD(3) [OF store_step_getSession [OF g]] show ?thesis
    by (simp add: requireSession_def)
qed

lemma status_security [simp]: "rw_status (set_security_headers i rw) = rw_status rw"
  by (simp add: set_security_headers_def Let_def)

lemma body_header [simp]: "rw_body (set_header k v w) = rw_body w" "rw_accept (set_header k v w) = rw_accept w"
  by (simp_all add: set_header_def)

lemma body_http_error:
  "rw_status w = None \<Longrightarrow> rw_accept w = None \<Longrightarrow> rw_body (finish (http_error m code w)) = rw_body w @ m @ [CHR 0x0A]"
  by (simp add: writer_defs)

lemma error_body:
  "rw_body (finish (http_error m code (set_security_headers i (new_rw None)))) = m @ [CHR 0x0A]"
proof -
  have "rw_body (set_security_headers i (new_rw None)) = ''''" "rw_accept (set_security_headers i (new_rw None)) = None"
    by (simp_all add: set_security_headers_def Let_def new_rw_def)
  then show ?thesis by (simp add: body_http_error)
qed

text \<open>
  C5: The API fails closed. A GET or HEAD for a path of any route under \<^verbatim>\<open>/api\<close> whose session cookie
  is missing, or names no session the store can produce (expired, forged, undecryptable, or the store
  is down), gets 401 with the body \<^verbatim>\<open>unauthorized\<close>, and nothing is sent upstream.
\<close>

theorem api_fails_closed:
  fixes h :: "('s, 'i) api_handler" and w :: "('s, 'i) world"
  assumes run: "serve (NewRouter ms auth store c i frontend) None r w = (rw', w')"
    and path: "clean_path (rq_path r) = rq_path r" "(segs, h) \<in> set (api_table c)"
      "match_segs segs (segs_of (rq_path r)) \<noteq> None" "rq_method r \<in> {''GET'', ''HEAD''}"
    and nosession: "case req_cookie r (SessionCookieName i) of None \<Rightarrow> True
      | Some cookie \<Rightarrow> \<exists>e. fst (getSession store cookie w) = Inl e"
  shows "rw_status rw' = Some 401 \<and> rw_body rw' = ''unauthorized'' @ [CHR 0x0A] \<and> w_sent w' = w_sent w"
proof -
  let ?r = "r\<lparr>rq_ctx := None, rq_pathvalue := (\<lambda>_. '''')\<rparr>"
  obtain ss where ss: "segs_of (rq_path r) = ''api'' # ss"
    using api_table_first [OF path(2)] match_first path(3) by blast
  have "get_route segs (requireSession store i h) \<in> set (route_table auth store c i)"
    using path(2) by (force simp: route_table_def api_routes_def)
  moreover have "method_matches ''GET'' (rq_method r)" using path(4) by (auto simp: method_matches_def)
  ultimately have "mux_match (route_table auth store c i) (rq_method r) (segs_of (rq_path r)) \<noteq> None"
    using path(3) unfolding mux_match_None by fastforce
  then obtain h' vals where m: "mux_match (route_table auth store c i) (rq_method r) (segs_of (rq_path r)) = Some (h', vals)"
    by auto
  obtain h'' where h': "h' = requireSession store i h''"
    using mux_match_Some [OF m] public_first ss
    by (fastforce simp: route_table_def api_routes_def)
  have star: "rq_path r \<noteq> ''*''" using path(1) by (auto simp: clean_path_def path_clean_rooted_def Let_def)
  let ?r2 = "r\<lparr>rq_ctx := None, rq_pathvalue := path_values vals\<rparr>"
  have "req_cookie ?r2 n = req_cookie r n" for n by (simp add: req_cookie_def)
  from requireSession_refuses [OF nosession this, of h'']
  obtain w1 where q: "w_sent w1 = w_sent w"
      "\<forall>rw. requireSession store i h'' ?r2 rw w = (http_error ''unauthorized'' 401 rw, w1)"
    by blast
  have "serve (NewRouter ms auth store c i frontend) None r w
      = (finish (http_error ''unauthorized'' 401 (set_security_headers i (new_rw None))), w1)"
    using m path(1,4) star by (auto simp: serve_def NewRouter_def securityHeaders_def mux_serve_def mux_dispatch_def h' q)
  then have "rw' = finish (http_error ''unauthorized'' 401 (set_security_headers i (new_rw None)))" "w' = w1"
    using run by simp_all
  then show ?thesis using q by (simp add: error_body)
qed

end
