(* ===== verification/Scenario.thy ===== *)
theory Scenario
  imports Responses
begin

text \<open>
  A concrete deployment the general theorems are applied to: a Redis server with the documented
  behaviour, an all-zero random source, an identity provider that exchanges the code \<^verbatim>\<open>good\<close> for
  a token valid for five minutes, and an upstream that lists one namespace.
\<close>

definition demo_key :: bytes where "demo_key = replicate 32 (CHR 0x07)"

definition demo_enc :: encryptor where "demo_enc = \<lparr>enc_key = demo_key\<rparr>"

definition demo_store :: "redis_db Store" where
  "demo_store = \<lparr>st_backend = redis_backend ref_client, st_enc = demo_enc\<rparr>"

definition demo_exchange :: "unit \<Rightarrow> go_time \<Rightarrow> string \<Rightarrow> string \<Rightarrow> string \<Rightarrow> tokens option \<times> unit" where
  "demo_exchange s t n code v =
     (if code = ''good''
      then (Some \<lparr>tk_subject = ''alice'', tk_expiration = t + 5 * minute, tk_id_token = ''token''\<rparr>, ())
      else (None, ()))"

definition demo_party :: "unit party" where
  "demo_party = \<lparr>rp_challenge = (\<lambda>v. v), rp_auth_url = (\<lambda>s c n. ''https://idp/authorize?state='' @ s),
     rp_exchange = demo_exchange\<rparr>"

definition demo_auth :: "(redis_db, unit) Handler" where
  "demo_auth = \<lparr>h_party = demo_party, h_store = demo_store, h_insecure = False,
     h_externalOrigin = ''https://td.example''\<rparr>"

definition demo_transport :: transport where
  "demo_transport sent q = Tr_Response 0 200
     \<lparr>tr_chunks = [(second, json_print (JObj [(''items'', JArr [])]))], tr_end = (second, False)\<rparr>"

definition demo_client :: Client where
  "demo_client = NewClient ''https://capsule/'' (\<lambda>_. True) demo_transport None"

lemma demo_url_ok [simp]: "cl_url_ok demo_client u"
  by (simp add: demo_client_def NewClient_def Let_def)

lemma demo_do: "cl_do demo_client s q = Do_Response 200
    \<lparr>rd_chunks = [json_print (JObj [(''items'', JArr [])])], rd_fails = False\<rparr>"
  by (simp add: cl_do_def http_Do_def demo_client_def NewClient_def Let_def client_deadline_def defaultTimeout_def receive_def
      demo_transport_def body_until_def in_time_def del: json_print.simps)

definition demo_world :: "redis_db \<Rightarrow> (redis_db, unit) world" where
  "demo_world db = \<lparr>w_kv = db, w_idp = (), w_entropy = replicate 400 (CHR 0x00), w_now = 0, w_sent = []\<rparr>"


definition demo_router :: "(redis_db, unit) api_handler" where
  "demo_router = NewRouter demo_style demo_auth demo_store demo_client False None"

text \<open>A request with the given method, path, query and headers.\<close>

definition demo_request :: "string \<Rightarrow> string \<Rightarrow> string \<Rightarrow> (string \<times> string) list \<Rightarrow> Record request" where
  "demo_request m p q hs = \<lparr>rq_method = m, rq_path = p, rq_query = q,
     rq_header = (\<lambda>k. map snd (filter (\<lambda>x. fst x = k) hs)), rq_body = \<lparr>rd_chunks = [], rd_fails = False\<rparr>,
     rq_pathvalue = (\<lambda>_. ''''), rq_ctx = None\<rparr>"

lemma ref_kv: "kv_contract (redis_backend ref_client) db_map"
  by (rule ref.rb.kv_contract_axioms)

lemmas demo_defs = demo_enc_def demo_store_def demo_exchange_def demo_party_def demo_auth_def demo_do
  demo_client_def demo_world_def demo_style_def demo_request_def

lemma demo_exchange_utf8: "exchange_utf8 demo_party"
  by (auto simp: exchange_utf8_def demo_party_def demo_exchange_def split: if_splits)

section \<open>A login that succeeds\<close>

lemma marshal_epoch: "marshal_time 0 = Some ''1970-01-01T00:00:00Z''"
  by code_simp

lemma demo_login_status:
  "rw_status (fst (LoginHandler demo_auth r (new_rw None) (demo_world empty_db))) = Some 302"
  by (simp add: LoginHandler_def demo_defs randomToken_def read_random_def randomTokenBytes_def idByteLength_def
      createLoginTransaction_def generateID_def store_put_def marshalTxn_def marshal_epoch enc_seal_def
      gcm_nonce_size_def redis_set_def ref_client_def pass_err_def empty_db_def Let_def
      setLoginStateCookie_def)

lemma login_stores_transaction_witness:
  "\<exists>rw' w'. LoginHandler demo_auth (demo_request ''GET'' ''/auth/login'' '''' []) (new_rw None) (demo_world empty_db) = (rw', w')
    \<and> (\<exists>state. login_at demo_enc (db_map (w_kv w')) (w_now w') state \<noteq> None)"
proof -
  let ?r = "demo_request ''GET'' ''/auth/login'' '''' []"
  obtain rw' w' where run: "LoginHandler demo_auth ?r (new_rw None) (demo_world empty_db) = (rw', w')" by fastforce
  then have "rw_status rw' = Some 302" using demo_login_status [of ?r] by simp
  from login_stores_transaction [OF ref_kv run [unfolded demo_auth_def demo_store_def] _ this]
  have "\<exists>state. login_at demo_enc (db_map (w_kv w')) (w_now w') state \<noteq> None" by auto
  with run show ?thesis by blast
qed

section \<open>A callback, a session and a logout that succeed\<close>

definition demo_seal :: "string \<Rightarrow> bytes" where
  "demo_seal p = replicate 12 (CHR 0x00) @ gcm_seal demo_key (replicate 12 (CHR 0x00)) p"

lemma demo_open: "enc_open demo_enc (demo_seal p) = Some p"
  by (simp add: enc_open_def demo_seal_def demo_enc_def gcm_nonce_size_def gcm.unseal_seal)

definition demo_txn :: LoginTransaction where
  "demo_txn = \<lparr>Nonce = ''n'', PKCEVerifier = ''v'', TxnCreatedAt = 0\<rparr>"

definition demo_record :: Record where
  "demo_record = \<lparr>Subject = ''alice'', IDToken = ''token'', ExpiresAt = 5 * minute, CreatedAt = 0, CSRFToken = ''csrf''\<rparr>"

definition demo_login_db :: redis_db where
  "demo_login_db = \<lparr>db_map = [''login:abc'' \<mapsto> (demo_seal (the (marshalTxn demo_txn)), None)], db_up = True\<rparr>"

definition demo_session_db :: redis_db where
  "demo_session_db = \<lparr>db_map = [''session:sid'' \<mapsto> (demo_seal (the (marshalRecord demo_record)), None)], db_up = True\<rparr>"

lemma marshal_five: "marshal_time (5 * minute) = Some ''1970-01-01T00:05:00Z''"
  by code_simp

lemma demo_txn_text: "unmarshalTxn (the (marshalTxn demo_txn)) = Some demo_txn"
proof -
  obtain t where "marshalTxn demo_txn = Some t" by (simp add: marshalTxn_def demo_txn_def marshal_epoch)
  moreover have "txn_text_ok demo_txn" by (simp add: txn_text_ok_def demo_txn_def Let_def)
  ultimately show ?thesis using unmarshal_marshalTxn by simp
qed

lemma demo_record_text: "unmarshalRecord (the (marshalRecord demo_record)) = Some demo_record"
proof -
  obtain t where "marshalRecord demo_record = Some t"
    using marshal_five by (simp add: marshalRecord_def demo_record_def marshal_epoch)
  moreover have "record_text_ok demo_record" by (simp add: record_text_ok_def demo_record_def Let_def)
  ultimately show ?thesis using unmarshal_marshalRecord by simp
qed

definition demo_callback :: "Record request" where
  "demo_callback = demo_request ''GET'' ''/auth/callback'' ''state=abc&code=good''
     [(''Cookie'', ''__Host-td-login-state=abc'')]"

lemma demo_callback_parts:
  "req_cookie demo_callback (LoginStateCookieName False) = Some ''abc''"
  "query_get (query_of demo_callback) ''state'' = ''abc''"
  "query_get (query_of demo_callback) ''code'' = ''good''"
  "query_get (query_of demo_callback) ''error'' = ''''"
  by (code_simp)+

lemma demo_take:
  "takeLoginTransaction demo_store ''abc'' (demo_world demo_login_db)
     = (Inr demo_txn, demo_world \<lparr>db_map = Map.empty, db_up = True\<rparr>)"
  by (simp add: takeLoginTransaction_def demo_store_def demo_world_def redis_getdel_def ref_client_def
      demo_login_db_def loginKeyPrefix_def live_def demo_open demo_txn_text)

lemma demo_create:
  assumes "marshalRecord rec = Some t" "44 \<le> length (w_entropy w)" "db_up (w_kv w)"
  shows "\<exists>sid w'. createSession demo_store rec ttl w = (Inr sid, w')"
  using assms
  by (simp add: createSession_def generateID_def read_random_def idByteLength_def store_put_def enc_seal_def
      gcm_nonce_size_def demo_store_def redis_set_def ref_client_def pass_err_def)

lemma demo_token: "48 \<le> length (w_entropy w) \<Longrightarrow> \<exists>t w1. randomToken w = (Some t, w1) \<and> w_entropy w1 = drop 32 (w_entropy w)
   \<and> w_kv w1 = w_kv w \<and> w_now w1 = w_now w"
  by (simp add: randomToken_def read_random_def randomTokenBytes_def)

lemma demo_callback_session:
  assumes "w_now w = 0" "db_up (w_kv w)" "100 \<le> length (w_entropy w)" "rw_status rw = None"
  shows "rw_status (fst (callback_session demo_auth \<lparr>tk_subject = su, tk_expiration = 5 * minute, tk_id_token = idt\<rparr> r rw w)) = Some 302"
proof -
  obtain t w1 where t: "randomToken w = (Some t, w1)" "w_entropy w1 = drop 32 (w_entropy w)" "w_kv w1 = w_kv w" "w_now w1 = 0"
    using demo_token [of w] assms(1,3) by auto
  let ?rec = "\<lparr>Subject = su, IDToken = idt, ExpiresAt = 5 * minute, CreatedAt = 0, CSRFToken = t\<rparr>"
  obtain x where x: "marshalRecord ?rec = Some x" using marshal_five by (simp add: marshalRecord_def marshal_epoch)
  have "44 \<le> length (w_entropy w1)" "db_up (w_kv w1)" using t(2,3) assms by simp_all
  from demo_create [OF x this] obtain sid w' where
    "createSession demo_store ?rec (5 * minute) w1 = (Inr sid, w')" by blast
  then show ?thesis using t(1,4) assms(1,4)
    by (simp add: callback_session_def demo_auth_def time_until_def int64_min_def int64_max_def setSessionCookie_def Let_def)
qed

lemma demo_callback_status:
  "rw_status (fst (CallbackHandler demo_auth demo_callback (new_rw None) (demo_world demo_login_db))) = Some 302"
proof -
  let ?w = "demo_world \<lparr>db_map = Map.empty, db_up = True\<rparr>"
  have h: "h_insecure demo_auth = False" "h_store demo_auth = demo_store" "h_party demo_auth = demo_party"
    by (simp_all add: demo_auth_def)
  have "rp_exchange demo_party (w_idp ?w) (w_now ?w) n ''good'' v
      = (Some \<lparr>tk_subject = ''alice'', tk_expiration = 5 * minute, tk_id_token = ''token''\<rparr>, ())" for n v
    by (simp add: demo_party_def demo_exchange_def demo_world_def)
  moreover have "rw_status (fst (callback_session demo_auth
        \<lparr>tk_subject = ''alice'', tk_expiration = 5 * minute, tk_id_token = ''token''\<rparr> demo_callback
        (clearLoginStateCookie False (new_rw None)) (?w\<lparr>w_idp := ()\<rparr>))) = Some 302"
    by (rule demo_callback_session) (simp_all add: demo_world_def clearLoginStateCookie_def)
  ultimately show ?thesis
    by (simp add: CallbackHandler_def demo_callback_parts demo_take callback_exchange_def h)
qed

text \<open>The callback again, later, on the store the first one left.\<close>

lemma callback_redeems_transaction_witness:
  "\<exists>rw' w'. CallbackHandler demo_auth demo_callback (new_rw None) (demo_world demo_login_db) = (rw', w')
    \<and> rw_sent rw' ''Location'' = [''/''] \<and> (\<exists>sid. session_at demo_enc (db_map (w_kv w')) (w_now w') sid \<noteq> None)"
proof -
  obtain rw' w' where run: "CallbackHandler demo_auth demo_callback (new_rw None) (demo_world demo_login_db) = (rw', w')"
    by fastforce
  then have "rw_status rw' = Some 302" using demo_callback_status by simp
  from callback_redeems_transaction [OF ref_kv run [unfolded demo_auth_def demo_store_def] _ this demo_exchange_utf8]
  have "rw_sent rw' ''Location'' = [''/''] \<and> (\<exists>sid. session_at demo_enc (db_map (w_kv w')) (w_now w') sid \<noteq> None)"
    by auto
  with run show ?thesis by blast
qed

lemma callback_replay_rejected_witness:
  "\<exists>rw' w'. CallbackHandler demo_auth demo_callback (new_rw None) (demo_world demo_login_db) = (rw', w')
    \<and> rw_status rw' = Some 302
    \<and> rw_status (fst (CallbackHandler demo_auth demo_callback (new_rw None) w')) = Some 400"
proof -
  obtain rw' w' where run: "CallbackHandler demo_auth demo_callback (new_rw None) (demo_world demo_login_db) = (rw', w')"
    by fastforce
  then have st: "rw_status rw' = Some 302" using demo_callback_status by simp
  obtain rw2 w2 where again: "CallbackHandler demo_auth demo_callback (new_rw None) w' = (rw2, w2)" by fastforce
  have "rw_status rw2 = Some 400 \<and> w_idp w2 = w_idp w'"
    by (rule callback_replay_rejected [OF ref_kv run [unfolded demo_auth_def demo_store_def] _ st refl refl
          again [unfolded demo_auth_def demo_store_def]]) simp_all
  with run st again show ?thesis by simp
qed

definition demo_logout :: "Record request" where
  "demo_logout = demo_request ''POST'' ''/auth/logout'' ''''
     [(''Origin'', ''https://td.example''), (''Cookie'', ''__Host-td-session=sid''), (''X-Csrf-Token'', ''csrf'')]"

lemma demo_logout_parts:
  "req_cookie demo_logout (SessionCookieName False) = Some ''sid''"
  "hdr_get (rq_header demo_logout) ''Origin'' = ''https://td.example''"
  "hdr_get (rq_header demo_logout) ''X-Csrf-Token'' = ''csrf''"
  by (code_simp)+

lemma demo_get:
  "getSession demo_store ''sid'' (demo_world demo_session_db) = (Inr demo_record, demo_world demo_session_db)"
  by (simp add: getSession_def demo_store_def demo_world_def redis_get_def ref_client_def
      demo_session_db_def sessionKeyPrefix_def live_def demo_open demo_record_text)

lemma demo_logout_status:
  "rw_status (fst (LogoutHandler demo_auth demo_logout (new_rw None) (demo_world demo_session_db))) = Some 204"
proof -
  have h: "h_insecure demo_auth = False" "h_store demo_auth = demo_store" "h_externalOrigin demo_auth = ''https://td.example''"
    by (simp_all add: demo_auth_def)
  obtain w' where "deleteSession demo_store ''sid'' (demo_world demo_session_db) = (None, w')"
    by (simp add: deleteSession_def demo_store_def demo_world_def redis_del_def ref_client_def
        demo_session_db_def pass_err_def)
  then show ?thesis
    by (simp add: LogoutHandler_def h demo_logout_parts demo_get demo_record_def ClearSessionCookie_def)
qed

lemma logout_requires_origin_and_csrf_witness:
  "\<exists>rw' w'. LogoutHandler demo_auth demo_logout (new_rw None) (demo_world demo_session_db) = (rw', w')
    \<and> session_at demo_enc (db_map (w_kv w')) 0 ''sid'' = None"
proof -
  obtain rw' w' where run: "LogoutHandler demo_auth demo_logout (new_rw None) (demo_world demo_session_db) = (rw', w')"
    by fastforce
  then have "rw_status rw' = Some 204" using demo_logout_status by simp
  from logout_requires_origin_and_csrf [OF ref_kv run [unfolded demo_auth_def demo_store_def] _ this]
  have "session_at demo_enc (db_map (w_kv w')) 0 ''sid'' = None"
    using demo_logout_parts by auto
  with run show ?thesis by blast
qed

lemma demo_refused:
  "LogoutHandler demo_auth (demo_request ''POST'' ''/auth/logout'' '''' []) (new_rw None) (demo_world demo_session_db)
     = (http_error ''forbidden'' 403 (new_rw None), demo_world demo_session_db)"
  by (simp add: LogoutHandler_def demo_auth_def demo_request_def hdr_get_def)

lemma logout_refusal_keeps_store_witness:
  "db_map (w_kv (snd (LogoutHandler demo_auth (demo_request ''POST'' ''/auth/logout'' '''' []) (new_rw None)
     (demo_world demo_session_db)))) = db_map demo_session_db"
  using logout_refusal_keeps_store [OF ref_kv demo_refused [unfolded demo_auth_def demo_store_def]] demo_refused
  by (simp add: demo_world_def)

lemma session_status_answer_witness:
  "db_map (w_kv (snd (SessionHandler demo_auth demo_logout (new_rw None) (demo_world demo_session_db))))
     = db_map demo_session_db"
proof -
  obtain rw' w' where run: "SessionHandler demo_auth demo_logout (new_rw None) (demo_world demo_session_db) = (rw', w')"
    by fastforce
  from session_status_answer [OF ref_kv run [unfolded demo_auth_def demo_store_def]]
  have "db_map (w_kv w') = db_map (w_kv (demo_world demo_session_db))" by simp
  with run show ?thesis by (simp add: demo_world_def)
qed

section \<open>The API on that session\<close>

definition demo_api :: "(string \<times> string) list \<Rightarrow> Record request" where
  "demo_api hs = demo_request ''GET'' ''/api/namespaces/team-a/pods'' '''' hs"


lemma api_fails_closed_witness:
  "rw_status (fst (serve demo_router None (demo_api []) (demo_world empty_db))) = Some 401"
proof -
  obtain rw' w' where run: "serve demo_router None (demo_api []) (demo_world empty_db) = (rw', w')" by fastforce
  have "rw_status rw' = Some 401 \<and> rw_body rw' = ''unauthorized'' @ [CHR 0x0A] \<and> w_sent w' = w_sent (demo_world empty_db)"
  proof (rule api_fails_closed [OF run [unfolded demo_router_def]])
    show "clean_path (rq_path (demo_api [])) = rq_path (demo_api [])" by code_simp
    show "(ns_path ''pods'', listResourceHandler demo_client podsGVR (map_option podSummary_json \<circ> summarizePod))
        \<in> set (api_table demo_client)" by (simp add: api_table_def)
    show "match_segs (ns_path ''pods'') (segs_of (rq_path (demo_api []))) \<noteq> None" by code_simp
    show "rq_method (demo_api []) \<in> {''GET'', ''HEAD''}" by (simp add: demo_api_def demo_request_def)
    show "case req_cookie (demo_api []) (SessionCookieName False) of None \<Rightarrow> True
      | Some cookie \<Rightarrow> \<exists>e. fst (getSession demo_store cookie (demo_world empty_db)) = Inl e"
      by (simp add: demo_api_def demo_request_def req_cookie_def read_cookies_def)
  qed
  with run show ?thesis by simp
qed

end
