(* ===== verification/Startup.thy ===== *)
theory Startup
  imports Config Webassets Scenario
begin

text \<open>
  \<^verbatim>\<open>cmd/tenantdeck/main.go\<close>: from the environment to a running server. Everything outside the
  repository that \<^verbatim>\<open>run\<close> wires in is a field of \<open>platform\<close>; the steps \<^verbatim>\<open>run\<close> takes that the
  outside world sees are a list of \<open>run_action\<close>s.
\<close>

section \<open>The parts\<close>

record 'cert RedisOptions =
  Addr :: string
  Username :: string
  Password :: string
  TLSConfig :: "'cert tls_config option"

text \<open>\<open>dial\<close> is \<^verbatim>\<open>redis.NewClient\<close>.\<close>

definition NewRedisBackend :: "('cert RedisOptions \<Rightarrow> 's redis_client) \<Rightarrow> 'cert RedisOptions \<Rightarrow> 's backend" where
  "NewRedisBackend dial opts = redis_backend (dial opts)"

record ('cert, 's, 'i) platform =
  pf_read_file :: "string \<Rightarrow> bytes option"
  pf_pem_certs :: "bytes \<Rightarrow> 'cert list"
  pf_dial :: "'cert RedisOptions \<Rightarrow> 's redis_client"
  pf_ip6 :: "string \<Rightarrow> bool"
  pf_discover :: "string \<Rightarrow> string \<Rightarrow> string \<Rightarrow> string \<Rightarrow> string list \<Rightarrow> 'i party option"
  pf_url_ok :: "string \<Rightarrow> bool"
  pf_transport :: transport
  pf_content :: "string \<Rightarrow> bytes \<Rightarrow> ('s, 'i) api_handler"
  pf_listing :: "string \<Rightarrow> ('s, 'i) api_handler"
  pf_dist :: file_system
  pf_mux :: mux_style

datatype run_error =
    ConfigError "config_error list"
  | TLSError tls_error
  | StoreError
  | AuthError
  | FrontendError
  | ListenError
  | ShutdownError

record ('s, 'i) http_server =
  srv_addr :: string
  srv_handler :: "('s, 'i) api_handler"
  srv_header_timeout :: duration

section \<open>Setting up\<close>

definition redis_options :: "'cert tls_config option \<Rightarrow> SessionConfig \<Rightarrow> 'cert RedisOptions" where
  "redis_options tls s = \<lparr>Addr = RedisAddr s, Username = RedisUsername s, Password = RedisPassword s, TLSConfig = tls\<rparr>"

definition newAuthHandler :: "('cert, 's, 'i) platform \<Rightarrow> Config \<Rightarrow> 's Store \<Rightarrow> ('s, 'i) Handler option" where
  "newAuthHandler p cfg store =
     NewHandler (pf_ip6 p) (pf_discover p) (ExternalURL cfg) (IssuerURL (OIDC cfg)) (ClientID (OIDC cfg))
       (ClientSecret (OIDC cfg)) (Scopes (OIDC cfg)) (Insecure cfg) store"

text \<open>
  The part of \<^verbatim>\<open>run\<close> after the backend exists, up to the server (lines 52 to 75); every early
  return is its error.
\<close>

definition build_server :: "('cert, 's, 'i) platform \<Rightarrow> Config \<Rightarrow> 's backend \<Rightarrow> run_error + ('s, 'i) http_server" where
  "build_server p cfg backend =
     (case NewStore backend (EncryptionKey (Session cfg)) of
        None \<Rightarrow> Inl StoreError
      | Some store \<Rightarrow>
          (case newAuthHandler p cfg store of
             None \<Rightarrow> Inl AuthError
           | Some authHandler \<Rightarrow>
               (let capsuleClient = NewClient (CapsuleProxyURL (Upstream cfg)) (pf_url_ok p) (pf_transport p) None
                in case frontendHandler (pf_content p) (pf_listing p) (pf_dist p) of
                     None \<Rightarrow> Inl FrontendError
                   | Some frontend \<Rightarrow>
                       Inr \<lparr>srv_addr = ListenAddr cfg,
                            srv_handler = NewRouter (pf_mux p) authHandler store capsuleClient (Insecure cfg) (Some frontend),
                            srv_header_timeout = 10 * second\<rparr>)))"

section \<open>Running\<close>

text \<open>
  What ends the server: \<^verbatim>\<open>ListenAndServe\<close> returns, with \<^verbatim>\<open>http.ErrServerClosed\<close> or another error,
  or a signal arrives, and then \<^verbatim>\<open>Shutdown\<close> succeeds or not within its deadline.
\<close>

datatype server_end = ServerClosed | ServeFailed | Signalled bool

datatype ('s, 'i) run_action = ListenAndServe "('s, 'i) http_server" | Shutdown duration | CloseBackend

definition serve_until :: "('s, 'i) http_server \<Rightarrow> server_end \<Rightarrow> ('s, 'i) run_action list \<times> run_error option" where
  "serve_until server ev =
     (case ev of
        ServerClosed \<Rightarrow> ([ListenAndServe server], None)
      | ServeFailed \<Rightarrow> ([ListenAndServe server], Some ListenError)
      | Signalled ok \<Rightarrow> ([ListenAndServe server, Shutdown (15 * second)], if ok then None else Some ShutdownError))"

text \<open>\<^verbatim>\<open>run\<close>; the deferred \<^verbatim>\<open>backend.Close\<close> is its last action on every path that made a backend.\<close>

definition run :: "('cert, 's, 'i) platform \<Rightarrow> environ \<Rightarrow> server_end \<Rightarrow> ('s, 'i) run_action list \<times> run_error option" where
  "run p env ev =
     (case Load env of
        Inl errs \<Rightarrow> ([], Some (ConfigError errs))
      | Inr cfg \<Rightarrow>
          (case BuildRedisTLSConfig (pf_read_file p) (pf_pem_certs p) (Session cfg) of
             Inl e \<Rightarrow> ([], Some (TLSError e))
           | Inr tls \<Rightarrow>
               (let backend = NewRedisBackend (pf_dial p) (redis_options tls (Session cfg));
                    (acts, err) = (case build_server p cfg backend of
                        Inl e \<Rightarrow> ([], Some e)
                      | Inr server \<Rightarrow> serve_until server ev)
                in (acts @ [CloseBackend], err))))"

text \<open>\<^verbatim>\<open>main\<close>: the exit status of the process.\<close>

definition main_exit :: "('cert, 's, 'i) platform \<Rightarrow> environ \<Rightarrow> server_end \<Rightarrow> nat" where
  "main_exit p env ev = (case snd (run p env ev) of None \<Rightarrow> 0 | Some _ \<Rightarrow> 1)"

section \<open>What is served\<close>

lemma NewStore_key: "NewStore b k = Some st \<longleftrightarrow> length k = SessionKeySize \<and> st = \<lparr>st_backend = b, st_enc = \<lparr>enc_key = k\<rparr>\<rparr>"
  by (auto simp: NewStore_def newEncryptor_def split: option.splits)

lemma NewHandler_Some:
  assumes "NewHandler ip6 discover ext issuer cid sec scopes i store = Some h"
  shows "h_store h = store \<and> h_insecure h = i \<and> originOf ip6 ext = Some (h_externalOrigin h)"
  using assms by (auto simp: NewHandler_def Let_def split: option.splits)

definition build_fs :: "file_system \<Rightarrow> file_system" where
  "build_fs dist = (\<lambda>p. dist (if p = ''.'' then ''dist'' else ''dist/'' @ p))"

lemma frontend_Some:
  "frontendHandler content listing dist = Some (HandlerFromFS content listing (build_fs dist))"
  by (simp add: frontendHandler_def fs_Sub_def valid_fs_path_def build_fs_def cong: if_cong)

lemma build_server_Inr:
  assumes "build_server p cfg backend = Inr srv"
  obtains auth store frontend where
    "store = \<lparr>st_backend = backend, st_enc = \<lparr>enc_key = EncryptionKey (Session cfg)\<rparr>\<rparr>"
    "newAuthHandler p cfg store = Some auth"
    "frontendHandler (pf_content p) (pf_listing p) (pf_dist p) = Some frontend"
    "srv = \<lparr>srv_addr = ListenAddr cfg,
       srv_handler = NewRouter (pf_mux p) auth store
         (NewClient (CapsuleProxyURL (Upstream cfg)) (pf_url_ok p) (pf_transport p) None) (Insecure cfg) (Some frontend),
       srv_header_timeout = 10 * second\<rparr>"
  using assms by (auto simp: build_server_def NewStore_key Let_def split: option.splits)

lemma served_iff:
  "ListenAndServe srv \<in> set (fst (run p env ev)) \<longleftrightarrow>
    (\<exists>cfg tls. Load env = Inr cfg
       \<and> BuildRedisTLSConfig (pf_read_file p) (pf_pem_certs p) (Session cfg) = Inr tls
       \<and> build_server p cfg (NewRedisBackend (pf_dial p) (redis_options tls (Session cfg))) = Inr srv)"
  by (auto simp: run_def serve_until_def Let_def split: sum.splits prod.splits server_end.splits)

section \<open>Starting\<close>

definition startable :: "('cert, 's, 'i) platform \<Rightarrow> environ \<Rightarrow> bool" where
  "startable p env \<longleftrightarrow> (\<exists>cfg tls. Load env = Inr cfg
     \<and> BuildRedisTLSConfig (pf_read_file p) (pf_pem_certs p) (Session cfg) = Inr tls
     \<and> originOf (pf_ip6 p) (ExternalURL cfg) \<noteq> None
     \<and> pf_discover p (IssuerURL (OIDC cfg)) (ClientID (OIDC cfg)) (ClientSecret (OIDC cfg))
         (trim_right_char (CHR ''/'') (ExternalURL cfg) @ ''/auth/callback'') (Scopes (OIDC cfg)) \<noteq> None)"

lemma loaded_key: "Load env = Inr cfg \<Longrightarrow> length (EncryptionKey (Session cfg)) = SessionKeySize"
proof -
  assume "Load env = Inr cfg"
  then have ok: "env_ok env" and cfg: "cfg = load_config env"
    by (auto simp: Load_alt load_errors_Nil split: if_splits)
  then show ?thesis
    by (auto simp: env_ok_def load_config_def SessionKeySize_def encryption_key_value required_vars_def)
qed

lemma build_server_ok:
  assumes "Load env = Inr cfg"
  shows "(\<exists>srv. build_server p cfg backend = Inr srv) \<longleftrightarrow> originOf (pf_ip6 p) (ExternalURL cfg) \<noteq> None
     \<and> pf_discover p (IssuerURL (OIDC cfg)) (ClientID (OIDC cfg)) (ClientSecret (OIDC cfg))
         (trim_right_char (CHR ''/'') (ExternalURL cfg) @ ''/auth/callback'') (Scopes (OIDC cfg)) \<noteq> None"
proof -
  have "NewStore backend (EncryptionKey (Session cfg))
      = Some \<lparr>st_backend = backend, st_enc = \<lparr>enc_key = EncryptionKey (Session cfg)\<rparr>\<rparr>"
    using loaded_key [OF assms] by (simp add: NewStore_key)
  then show ?thesis
    by (auto simp: build_server_def newAuthHandler_def NewHandler_def frontend_Some Let_def split: option.splits)
qed

lemma unserved:
  "\<nexists>srv. ListenAndServe srv \<in> set (fst (run p env ev)) \<Longrightarrow>
    set (fst (run p env ev)) \<subseteq> {CloseBackend} \<and> snd (run p env ev) \<noteq> None"
  by (auto simp: run_def serve_until_def Let_def split: sum.splits prod.splits server_end.splits)

lemma started: "startable p env \<Longrightarrow> \<exists>srv. ListenAndServe srv \<in> set (fst (run p env ev))"
  unfolding served_iff startable_def using build_server_ok by fastforce

text \<open>
  C27: The program listens exactly when the configuration loads, the Redis TLS configuration can be
  built, the external URL parses and the identity provider's discovery succeeds; the session store
  and the embedded frontend cannot make it fail then. Otherwise it opens no port and exits with
  status 1.
\<close>

theorem server_starts_iff:
  "if startable p env then \<exists>srv. ListenAndServe srv \<in> set (fst (run p env ev))
   else set (fst (run p env ev)) \<subseteq> {CloseBackend} \<and> main_exit p env ev = 1"
proof -
  have "(\<exists>srv. ListenAndServe srv \<in> set (fst (run p env ev))) = startable p env"
    unfolding served_iff startable_def using build_server_ok by fastforce
  with unserved [of p env ev] show ?thesis by (auto simp: main_exit_def)
qed

section \<open>What the running server does\<close>

text \<open>The headers that bind a browser, and what is asked of the file server's answers.\<close>

definition browser_headers :: "bool \<Rightarrow> (string \<times> string list) set" where
  "browser_headers i = {(''Content-Security-Policy'', [security_policy]), (''X-Content-Type-Options'', [''nosniff'']),
     (''Referrer-Policy'', [''no-referrer'']),
     (''Strict-Transport-Security'', if i then [] else [''max-age=63072000; includeSubDomains''])}"

definition static_only :: "bool \<Rightarrow> ('c, 's, 'i) handler \<Rightarrow> bool" where
  "static_only i h \<longleftrightarrow> (\<forall>r rw w. snd (h r rw w) = w) \<and> (\<forall>(k, vs)\<in>browser_headers i. keeps_at k vs h)"

definition static_platform :: "bool \<Rightarrow> ('cert, 's, 'i) platform \<Rightarrow> bool" where
  "static_platform i p \<longleftrightarrow> (\<forall>name bs. static_only i (pf_content p name bs)) \<and> (\<forall>name. static_only i (pf_listing p name))"

lemma browser_headers_fixed:
  "(k, vs) \<in> browser_headers i \<Longrightarrow> fixed_header k vs \<and> k \<notin> {''Last-Modified'', ''Etag'', ''Content-Encoding'', ''Cache-Control''}"
  by (auto simp: browser_headers_def fixed_header_def split: if_splits)

lemma carries_serveError:
  "(k, vs) \<in> browser_headers i \<Longrightarrow> carries k vs rw \<Longrightarrow> carries k vs (serveError m c rw)"
  unfolding serveError_def by (drule browser_headers_fixed) (auto intro!: carries_http_error carriesI)

lemma carries_localRedirect:
  "(k, vs) \<in> browser_headers i \<Longrightarrow> carries k vs rw \<Longrightarrow> carries k vs (fst (localRedirect u r rw w))"
  unfolding localRedirect_def Let_def
  by (drule browser_headers_fixed) (auto simp: fixed_header_def intro!: carriesI)

lemma static_onlyD:
  "static_only i h \<Longrightarrow> snd (h r rw w) = w"
  "static_only i h \<Longrightarrow> (k, vs) \<in> browser_headers i \<Longrightarrow> carries k vs rw \<Longrightarrow> carries k vs (fst (h r rw w))"
  by (auto simp: static_only_def dest: keeps_atD)

lemma static_onlyI:
  "(\<And>r rw w. snd (h r rw w) = w) \<Longrightarrow>
   (\<And>k vs r rw w. (k, vs) \<in> browser_headers i \<Longrightarrow> carries k vs rw \<Longrightarrow> carries k vs (fst (h r rw w))) \<Longrightarrow>
   static_only i h"
  by (auto simp: static_only_def intro: keeps_atI)

lemma static_only_at: "static_only i h \<Longrightarrow> (k, vs) \<in> browser_headers i \<Longrightarrow> keeps_at k vs h"
  by (auto simp: static_only_def)

lemma static_serveFile:
  assumes "\<And>n bs. static_only i (content n bs)" "\<And>n. static_only i (listing n)"
  shows "static_only i (serveFile content listing dist u)"
proof (rule static_onlyI)
  show "snd (serveFile content listing dist u r rw w) = w" for r rw w
    using static_onlyD(1) [OF assms(1)] static_onlyD(1) [OF assms(2)]
    by (simp add: serveFile_def Let_def localRedirect_def split: option.split fs_node.split)
  show "carries k vs (fst (serveFile content listing dist u r rw w))"
    if "(k, vs) \<in> browser_headers i" "carries k vs rw" for k vs r rw w
    by (simp add: serveFile_def Let_def static_onlyD(2) [OF assms(1) that] static_onlyD(2) [OF assms(2) that]
        carries_serveError [OF that] carries_localRedirect [OF that] split: option.split fs_node.split)
qed

lemma static_frontend:
  assumes "\<And>n bs. static_only i (content n bs)" "\<And>n. static_only i (listing n)"
  shows "static_only i (HandlerFromFS content listing dist)"
  using static_onlyD [OF static_serveFile [OF assms]]
  by (intro static_onlyI) (simp_all add: HandlerFromFS_def fileServer_def Let_def)

lemma static_platform_frontend:
  "static_platform i p \<Longrightarrow> static_only i (HandlerFromFS (pf_content p) (pf_listing p) dist)"
  by (rule static_frontend) (simp_all add: static_platform_def)

text \<open>A server of \<open>run\<close>: its store, its client and its frontend.\<close>

lemma running_server:
  assumes "ListenAndServe srv \<in> set (fst (run p env ev))"
  obtains cfg auth store h where "Load env = Inr cfg"
    "srv_handler srv = NewRouter (pf_mux p) auth store
       (NewClient (CapsuleProxyURL (Upstream cfg)) (pf_url_ok p) (pf_transport p) None) (Insecure cfg) (Some h)"
    "h = HandlerFromFS (pf_content p) (pf_listing p) (build_fs (pf_dist p))"
    "st_enc store = \<lparr>enc_key = EncryptionKey (Session cfg)\<rparr>" "srv_addr srv = ListenAddr cfg"
proof -
  obtain cfg tls where l: "Load env = Inr cfg"
      "build_server p cfg (NewRedisBackend (pf_dial p) (redis_options tls (Session cfg))) = Inr srv"
    using assms unfolding served_iff by blast
  from l(2) show thesis
  proof (cases rule: build_server_Inr)
    case (1 auth store frontend)
    with that [OF l(1), of auth store] show thesis by (simp add: frontend_Some)
  qed
qed


text \<open>
  C33: With the embedded frontend behind it the running server still sends the content security
  policy, nosniff, no-referrer and, unless the insecure mode is configured, strict transport
  security on every response.
\<close>

theorem server_sends_browser_headers:
  assumes srv: "ListenAndServe srv \<in> set (fst (run p env ev))" "static_platform (insecure_mode env) p"
    and run: "serve (srv_handler srv) a r w = (rw', w')"
  shows "rw_sent rw' ''Content-Security-Policy'' = [security_policy]
    \<and> rw_sent rw' ''X-Content-Type-Options'' = [''nosniff'']
    \<and> rw_sent rw' ''Referrer-Policy'' = [''no-referrer'']
    \<and> rw_sent rw' ''Strict-Transport-Security''
        = (if insecure_mode env then [] else [''max-age=63072000; includeSubDomains''])"
  using srv(1)
proof (cases rule: running_server)
  case (1 cfg auth store h)
  have i: "Insecure cfg = insecure_mode env" using loaded_values [OF 1(1)] by simp
  have "rw_sent rw' k = vs" if k: "(k, vs) \<in> browser_headers (insecure_mode env)" for k vs
  proof (rule security_header_sent [OF run [unfolded 1(2)]])
    show "fixed_header k vs" using browser_headers_fixed [OF k] by simp
    show "carries k vs (set_security_headers (Insecure cfg) (new_rw a))"
      using k set_security_headers_carries [of _ a] by (auto simp: browser_headers_def i)
    show "keeps_at k vs h'" if "Some h = Some h'" for h'
    proof -
      have "h' = h" using that by simp
      then show ?thesis unfolding 1(3) by (simp add: static_only_at [OF static_platform_frontend [OF srv(2)] k])
    qed
  qed
  then show ?thesis by (simp add: browser_headers_def)
qed

section \<open>A request with the wrong method\<close>

lemma carries_error_other:
  "k \<notin> {''Content-Type'', ''Content-Length'', ''X-Content-Type-Options''} \<Longrightarrow> carries k vs w \<Longrightarrow>
   carries k vs (http_error m c w)"
  unfolding http_error_def by (auto intro!: carriesI)

lemma match_get_only:
  assumes "segs_of path = ''api'' # ss" "method_matches ''GET'' m = False"
  shows "mux_match (route_table auth store c i) m (segs_of path) = None"
  using assms public_first
  by (fastforce simp: mux_match_None route_table_def api_routes_def)

text \<open>The methods a path of the API table allows.\<close>

lemma api_allowed_methods:
  fixes h :: "('s, 'i) api_handler" and auth :: "('s, 'i) Handler"
  assumes h: "(segs, h) \<in> set (api_table c)" and m: "match_segs segs p \<noteq> None"
  shows "allowed_methods (route_table auth store c i) p = [''GET'', ''HEAD'']"
proof -
  let ?t = "route_table auth store c i"
  obtain ss where ss: "p = ''api'' # ss" using api_table_first [OF h] match_first m by blast
  have route: "get_route segs (requireSession store i h) \<in> set ?t"
    using h by (force simp: route_table_def api_routes_def)
  have "(\<exists>rt\<in>set ?t. match_segs (rt_segs rt) p \<noteq> None \<and> method_matches (rt_method rt) k)
      \<longleftrightarrow> k = ''GET'' \<or> k = ''HEAD''" for k
  proof
    assume "\<exists>rt\<in>set ?t. match_segs (rt_segs rt) p \<noteq> None \<and> method_matches (rt_method rt) k"
    then show "k = ''GET'' \<or> k = ''HEAD''"
      using public_first ss by (fastforce simp: route_table_def api_routes_def method_matches_def)
  next
    assume "k = ''GET'' \<or> k = ''HEAD''"
    then have "method_matches ''GET'' k" by (simp add: method_matches_def)
    with route m show "\<exists>rt\<in>set ?t. match_segs (rt_segs rt) p \<noteq> None \<and> method_matches (rt_method rt) k"
      by (auto intro!: bexI [of _ "get_route segs (requireSession store i h)"])
  qed
  then show ?thesis unfolding allowed_methods_def by simp
qed

text \<open>
  C39: An API path takes no other method than GET and HEAD. A POST, PUT, PATCH or DELETE (any other
  method, \<^verbatim>\<open>CONNECT\<close> aside) of a path of the API table reaches no API handler: it reads no session
  and sends nothing upstream, and the answer is 405 with \<^verbatim>\<open>Allow: GET, HEAD\<close> where no frontend is
  installed, and the frontend's answer where one is.
\<close>

theorem api_wrong_method:
  fixes h :: "('s, 'i) api_handler" and w :: "('s, 'i) world"
  assumes run: "serve (NewRouter ms auth store c i frontend) None r w = (rw', w')"
    and path: "clean_path (rq_path r) = rq_path r" "(segs, h) \<in> set (api_table c)"
      "match_segs segs (segs_of (rq_path r)) \<noteq> None" "rq_method r \<notin> {''GET'', ''HEAD'', ''CONNECT''}"
  shows "case frontend of
      None \<Rightarrow> rw_status rw' = Some 405 \<and> rw_sent rw' ''Allow'' = [''GET, HEAD''] \<and> w' = w
    | Some fh \<Rightarrow> (rw', w') = map_prod finish (\<lambda>x. x)
        (fh (r\<lparr>rq_ctx := None, rq_pathvalue := (\<lambda>_. '''')\<rparr>) (set_security_headers i (new_rw None)) w)"
proof -
  let ?r = "r\<lparr>rq_ctx := None, rq_pathvalue := (\<lambda>_. '''')\<rparr>" and ?rw = "set_security_headers i (new_rw None)"
  let ?t = "route_table auth store c i"
  obtain ss where ss: "segs_of (rq_path r) = ''api'' # ss"
    using api_table_first [OF path(2)] match_first path(3) by blast
  have none: "mux_match ?t (rq_method r) (segs_of (rq_path r)) = None"
    using path(4) by (intro match_get_only [OF ss]) (simp add: method_matches_def)
  have star: "rq_path r \<noteq> ''*''" using path(1) by (auto simp: clean_path_def path_clean_rooted_def Let_def)
  have s: "serve (NewRouter ms auth store c i frontend) None r w
      = map_prod finish (\<lambda>x. x) (mux_dispatch ?t frontend (rq_path r) ?r ?rw w)"
    using path(1,4) star by (simp add: serve_def NewRouter_def securityHeaders_def mux_serve_def split: prod.split)
  show ?thesis
  proof (cases frontend)
    case (Some fh)
    with run none show ?thesis unfolding s by (simp add: mux_dispatch_def)
  next
    case None
    have "mux_dispatch ?t None (rq_path r) ?r ?rw w
        = (http_error ''Method Not Allowed'' 405 (set_header ''Allow'' ''GET, HEAD'' ?rw), w)"
      using none api_allowed_methods [OF path(2,3)] by (simp add: mux_dispatch_def)
    with run None s have "rw' = finish (http_error ''Method Not Allowed'' 405 (set_header ''Allow'' ''GET, HEAD'' ?rw))" "w' = w"
      by simp_all
    moreover have "carries ''Allow'' [''GET, HEAD''] (set_header ''Allow'' ''GET, HEAD'' ?rw)"
      by (simp add: carries_def) (simp add: set_header_def)
    then have "carries ''Allow'' [''GET, HEAD''] (finish (http_error ''Method Not Allowed'' 405 (set_header ''Allow'' ''GET, HEAD'' ?rw)))"
      by (intro carries_finish carries_error_other) simp_all
    ultimately show ?thesis using carries_finished by (simp add: None)
  qed
qed

section \<open>A deployment\<close>

definition demo_dist :: file_system where
  "demo_dist p = map_of [(''dist'', Dir), (''dist/index.html'', File ''<html>''), (''dist/app.js'', File ''app'')] p"

definition demo_static :: "bytes \<Rightarrow> ('c, 's, 'i) handler" where
  "demo_static bs r rw w = (write_body bs (write_header 200 (set_header ''Content-Type'' ''text/html'' rw)), w)"

definition demo_platform :: "(unit, redis_db, unit) platform" where
  "demo_platform = \<lparr>pf_read_file = (\<lambda>_. None), pf_pem_certs = (\<lambda>_. []), pf_dial = (\<lambda>_. ref_client),
     pf_ip6 = (\<lambda>_. False), pf_discover = (\<lambda>_ _ _ _ _. Some demo_party), pf_url_ok = (\<lambda>_. True), pf_transport = demo_transport,
     pf_content = (\<lambda>_. demo_static), pf_listing = (\<lambda>_. demo_static ''''),
     pf_dist = demo_dist, pf_mux = demo_style\<rparr>"

lemma demo_static_only: "static_only i (demo_static bs)"
proof (rule static_onlyI)
  show "snd (demo_static bs r rw w) = w" for r rw w by (simp add: demo_static_def)
  show "carries k vs (fst (demo_static bs r rw w))" if "(k, vs) \<in> browser_headers i" "carries k vs rw" for k vs r rw w
    using browser_headers_fixed [OF that(1)] that(2)
    by (auto simp: demo_static_def fixed_header_def intro!: carriesI)
qed

lemma demo_platform_static: "static_platform i demo_platform"
  by (simp add: static_platform_def demo_platform_def demo_static_only)

lemma demo_startable: "startable demo_platform (demo_env ''https://td.example'')"
proof -
  let ?e = "demo_env ''https://td.example''"
  have "env_ok ?e" by (rule demo_env_ok) simp_all
  then have l: "Load ?e = Inr (load_config ?e)" by (simp add: Load_alt load_errors_Nil)
  moreover have "ExternalURL (load_config ?e) = ''https://td.example''"
    by (simp add: load_config_def demo_env_def)
  moreover have "RedisTLS (Session (load_config ?e)) = False"
    by (simp add: load_config_def demo_env_def opt_bool_def)
  then have "BuildRedisTLSConfig rf pc (Session (load_config ?e)) = Inr None" for rf and pc :: "bytes \<Rightarrow> unit list"
    by (simp add: BuildRedisTLSConfig_def)
  moreover have "originOf (\<lambda>_. False) ''https://td.example'' \<noteq> None" by code_simp
  ultimately show ?thesis by (auto simp: startable_def demo_platform_def)
qed

lemma demo_server:
  obtains srv where "ListenAndServe srv \<in> set (fst (run demo_platform (demo_env ''https://td.example'') (Signalled True)))"
proof -
  have "\<exists>srv. ListenAndServe srv \<in> set (fst (run demo_platform (demo_env ''https://td.example'') (Signalled True)))"
    using started [OF demo_startable] .
  with that show thesis by blast
qed


lemma server_sends_browser_headers_witness:
  "\<exists>srv. ListenAndServe srv \<in> set (fst (run demo_platform (demo_env ''https://td.example'') (Signalled True)))
    \<and> rw_sent (fst (serve (srv_handler srv) None (demo_request ''GET'' ''/app.js/%2e/'' '''' []) (demo_world empty_db)))
        ''Content-Security-Policy'' = [security_policy]"
proof -
  obtain srv where srv: "ListenAndServe srv \<in> set (fst (run demo_platform (demo_env ''https://td.example'') (Signalled True)))"
    by (rule demo_server)
  obtain rw' w' where run: "serve (srv_handler srv) None (demo_request ''GET'' ''/app.js/%2e/'' '''' []) (demo_world empty_db) = (rw', w')"
    by fastforce
  from server_sends_browser_headers [OF srv demo_platform_static run] srv run show ?thesis by auto
qed


lemma api_wrong_method_witness:
  "rw_status (fst (serve demo_router None (demo_request ''POST'' ''/api/namespaces/team-a/pods'' '''' [])
     (demo_world demo_session_db))) = Some 405"
proof -
  let ?r = "demo_request ''POST'' ''/api/namespaces/team-a/pods'' '''' []"
  obtain rw' w' where run: "serve demo_router None ?r (demo_world demo_session_db) = (rw', w')" by fastforce
  have "case (None :: (redis_db, unit) api_handler option) of
      None \<Rightarrow> rw_status rw' = Some 405 \<and> rw_sent rw' ''Allow'' = [''GET, HEAD''] \<and> w' = demo_world demo_session_db
    | Some fh \<Rightarrow> (rw', w') = map_prod finish (\<lambda>x. x)
        (fh (?r\<lparr>rq_ctx := None, rq_pathvalue := (\<lambda>_. '''')\<rparr>) (set_security_headers False (new_rw None)) (demo_world demo_session_db))"
  proof (rule api_wrong_method [OF run [unfolded demo_router_def]])
    show "clean_path (rq_path ?r) = rq_path ?r" by code_simp
    show "(ns_path ''pods'', listResourceHandler demo_client podsGVR (map_option podSummary_json \<circ> summarizePod))
        \<in> set (api_table demo_client)" by (simp add: api_table_def)
    show "match_segs (ns_path ''pods'') (segs_of (rq_path ?r)) \<noteq> None" by code_simp
    show "rq_method ?r \<notin> {''GET'', ''HEAD'', ''CONNECT''}" by (simp add: demo_request_def)
  qed
  with run show ?thesis by simp
qed

text \<open>
  C40: One kind of response loses \<^verbatim>\<open>Cache-Control: no-store\<close>: the errors of the embedded file
  server, which removes the header before it answers. A GET of \<^verbatim>\<open>/app.js/%2e/\<close>, where \<^verbatim>\<open>app.js\<close>
  is a file of the build, gets a 500 without it, whatever the configuration.
\<close>

theorem frontend_error_cacheable:
  "let rw = fst (serve (NewRouter ms auth store c i (Some (HandlerFromFS content listing (build_fs demo_dist)))) None
       (demo_request ''GET'' ''/app.js/%2e/'' '''' []) w)
   in rw_status rw = Some 500 \<and> rw_sent rw ''Cache-Control'' = []"
proof -
  let ?r = "demo_request ''GET'' ''/app.js/%2e/'' '''' []"
  let ?r' = "?r\<lparr>rq_ctx := None, rq_pathvalue := (\<lambda>_. '''')\<rparr>"
  let ?rw = "set_security_headers i (new_rw None)"
  let ?e = "serveError ''http: attempting to traverse a non-directory'' 500 ?rw"
  have path: "segs_of ''/app.js/%2e/'' = [''app.js'', ''.'', '''']" "clean_path ''/app.js/%2e/'' = ''/app.js/%2e/''"
    by code_simp+
  have n: "mux_match (route_table auth store c i) m [''app.js'', ''.'', ''''] = None" for m
    by (auto simp: mux_match_None route_table_def public_routes_def api_routes_def dest!: api_table_first)
  have u: "url_path ?r' = ''/app.js/./''" unfolding url_path_def demo_request_def by code_simp
  have f: "fileExists (build_fs demo_dist) ''/app.js/./''" "path_Clean ''/app.js/./'' = ''/app.js''"
      "path_base ''/app.js/./'' = ''.''" "\<not> suffix index_suffix ''/app.js/./''"
    by code_simp+
  have o: "http_open (build_fs demo_dist) ''/app.js'' = Some (File ''app'')" by code_simp
  have "HandlerFromFS content listing (build_fs demo_dist) ?r' ?rw w = (?e, w)"
    by (simp add: HandlerFromFS_def fileServer_def serveFile_def u f o ends_slash_def)
  moreover have "rq_path ?r = ''/app.js/%2e/''" "rq_method ?r = ''GET''" by (simp_all add: demo_request_def)
  ultimately have s: "fst (serve (NewRouter ms auth store c i (Some (HandlerFromFS content listing (build_fs demo_dist)))) None ?r w)
      = finish ?e"
    using path n by (simp add: serve_def NewRouter_def securityHeaders_def mux_serve_def mux_dispatch_def)
  have "carries ''Cache-Control'' [] (del_header ''Cache-Control'' ?rw)"
    by (simp add: carries_def) (simp add: del_header_def)
  from carries_del_header [OF this, of "''Content-Encoding''", THEN carries_del_header, of "''Etag''",
      THEN carries_del_header, of "''Last-Modified''"]
  have "carries ''Cache-Control'' [] (finish ?e)"
    unfolding serveError_def by (intro carries_finish carries_error_other) simp_all
  then show ?thesis unfolding s by (simp add: carries_finished) (simp add: serveError_def)
qed

end
