(* ===== verification/Form.thy ===== *)
theory Form
  imports Capsule Config UrlParse
begin

text \<open>
  \<^verbatim>\<open>Request.ParseForm\<close> and \<^verbatim>\<open>Request.BasicAuth\<close> of \<^verbatim>\<open>net/http\<close>, with the media type parser of
  \<^verbatim>\<open>mime\<close> behind the first. Every one of them reports errors, so they are modelled with them.
\<close>

section \<open>Media types\<close>

text \<open>\<^verbatim>\<open>strings.ToLower\<close>; of the characters outside ASCII only those that become ASCII matter.\<close>

fun go_lower :: "string \<Rightarrow> string" where
  "go_lower [] = []"
| "go_lower (c # cs) =
     (if c = CHR 0xC4 \<and> take 1 cs = [CHR 0xB0] then CHR ''i'' # go_lower (drop 1 cs)
      else if c = CHR 0xE2 \<and> take 2 cs = [CHR 0x84, CHR 0xAA] then CHR ''k'' # go_lower (drop 2 cs)
      else lower_char c # go_lower cs)"

definition mime_token_char :: "char \<Rightarrow> bool" where
  "mime_token_char c \<longleftrightarrow> 32 < ord c \<and> ord c < 127 \<and> c \<notin> set ''()<>@,;:/[]?='' \<and> c \<noteq> CHR 0x5C \<and> c \<noteq> CHR 0x22"

definition mime_special :: "char \<Rightarrow> bool" where
  "mime_special c \<longleftrightarrow> c \<in> set ''()<>@,;:/[]?='' \<or> c = CHR 0x5C \<or> c = CHR 0x22"

definition consumeToken :: "string \<Rightarrow> string \<times> string" where
  "consumeToken v = (takeWhile mime_token_char v, dropWhile mime_token_char v)"

definition media_type_ok :: "string \<Rightarrow> bool" where
  "media_type_ok s =
     (let (typ, rest) = consumeToken s in
      typ \<noteq> '''' \<and> (rest = '''' \<or>
        (hd rest = CHR ''/'' \<and> (let (sub, rest2) = consumeToken (tl rest) in sub \<noteq> '''' \<and> rest2 = ''''))))"

text \<open>The rest of a quoted string after its opening quote: its value and what follows.\<close>

fun quoted_rest :: "string \<Rightarrow> (string \<times> string) option" where
  "quoted_rest [] = None"
| "quoted_rest (c # cs) =
     (if c = CHR 0x22 then Some ([], cs)
      else if c = CHR 0x5C \<and> cs \<noteq> [] \<and> mime_special (hd cs)
        then map_option (apfst ((#) (hd cs))) (quoted_rest (tl cs))
      else if c = CHR 0x0D \<or> c = CHR 0x0A then None
      else map_option (apfst ((#) c)) (quoted_rest cs))"

text \<open>\<open>None\<close> stands for the parser's \<^verbatim>\<open>("", v)\<close>.\<close>

definition consumeValue :: "string \<Rightarrow> (string \<times> string) option" where
  "consumeValue v =
     (if v = '''' then None
      else if hd v = CHR 0x22 then quoted_rest (tl v)
      else if fst (consumeToken v) = '''' then None else Some (consumeToken v))"

text \<open>\<^verbatim>\<open>strings.TrimLeftFunc(v, unicode.IsSpace)\<close> and \<^verbatim>\<open>strings.TrimSpace\<close>.\<close>

function trim_left_space :: "string \<Rightarrow> string" where
  "trim_left_space v = (if 0 < space_len v then trim_left_space (drop (space_len v) v) else v)"
  by pat_completeness auto
termination
  by (relation "measure length") (auto simp: space_len_def split: if_splits)

declare trim_left_space.simps [simp del]

fun trim_right_space :: "string \<Rightarrow> string" where
  "trim_right_space [] = []"
| "trim_right_space (c # cs) = (if trim_left_space (c # cs) = [] then [] else c # trim_right_space cs)"

definition trim_space :: "string \<Rightarrow> string" where
  "trim_space v = trim_right_space (trim_left_space v)"

text \<open>One \<^verbatim>\<open>; name=value\<close>; \<open>None\<close> stands for the empty key.\<close>

definition consumeMediaParam :: "string \<Rightarrow> (string \<times> string \<times> string) option" where
  "consumeMediaParam v =
     (let r0 = trim_left_space v in
      if r0 = '''' \<or> hd r0 \<noteq> CHR '';'' then None
      else let (param, r1) = consumeToken (trim_left_space (tl r0)); r2 = trim_left_space r1 in
        if param = '''' \<or> r2 = '''' \<or> hd r2 \<noteq> CHR ''='' then None
        else map_option (\<lambda>(val, r). (go_lower param, val, r)) (consumeValue (trim_left_space (tl r2))))"

lemma length_trim_left_space: "length (trim_left_space v) \<le> length v"
proof (induction v rule: trim_left_space.induct)
  case (1 v)
  then show ?case by (subst trim_left_space.simps) (auto simp: Let_def)
qed

lemma length_quoted_rest: "quoted_rest v = Some (a, b) \<Longrightarrow> length b < length v"
proof (induction "length v" arbitrary: v a b rule: less_induct)
  case less
  show ?case
  proof (cases v)
    case (Cons c cs)
    with less.prems consider "b = cs" | a' where "cs \<noteq> []" "quoted_rest (tl cs) = Some (a', b)"
      | a' where "quoted_rest cs = Some (a', b)"
      by (auto split: if_splits)
    then show ?thesis
      using Cons less.hyps [of "tl cs"] less.hyps [of cs] by cases fastforce+
  qed (use less.prems in simp)
qed

lemma length_consumeValue: "consumeValue v = Some (a, b) \<Longrightarrow> length b \<le> length v"
  using length_quoted_rest [of "tl v" a b] length_dropWhile_le [of mime_token_char v]
  by (auto simp: consumeValue_def consumeToken_def split: if_splits)

lemma consumeMediaParam_length:
  assumes "consumeMediaParam v = Some (k, val, rest)"
  shows "length rest < length v"
proof -
  let ?r0 = "trim_left_space v"
  let ?t = "trim_left_space (tl ?r0)"
  let ?r2 = "trim_left_space (dropWhile mime_token_char ?t)"
  have c: "?r0 \<noteq> []" "?r2 \<noteq> []" "consumeValue (trim_left_space (tl ?r2)) = Some (val, rest)"
    using assms by (auto simp: consumeMediaParam_def consumeToken_def Let_def split: if_splits)
  have "length rest \<le> length (tl ?r2)"
    using length_consumeValue [OF c(3)] length_trim_left_space [of "tl ?r2"] by simp
  also have "\<dots> < length ?r2" using c(2) by simp
  also have "\<dots> \<le> length ?t"
    using length_trim_left_space length_dropWhile_le order_trans by blast
  also have "\<dots> \<le> length v"
    using length_trim_left_space [of "tl ?r0"] length_trim_left_space [of v] by simp
  finally show ?thesis .
qed

text \<open>The parameters; a name given twice has to have one value.\<close>

datatype param_result = Params_OK | Params_Invalid | Params_Duplicate

function media_params :: "(string \<rightharpoonup> string) \<Rightarrow> string \<Rightarrow> param_result" where
  "media_params m v =
     (if trim_left_space v = '''' then Params_OK
      else case consumeMediaParam (trim_left_space v) of
        None \<Rightarrow> (if trim_space v = '';'' then Params_OK else Params_Invalid)
      | Some (key, val, rest) \<Rightarrow>
          (if m key \<noteq> None \<and> m key \<noteq> Some val then Params_Duplicate
           else media_params (m(key \<mapsto> val)) rest))"
  by pat_completeness auto
termination
  by (relation "measure (length \<circ> snd)")
    (auto dest!: consumeMediaParam_length intro: less_le_trans length_trim_left_space)

declare media_params.simps [simp del]

text \<open>\<^verbatim>\<open>mime.ParseMediaType\<close>: the type and whether there is an error beside it.\<close>

definition ParseMediaType :: "string \<Rightarrow> string \<times> bool" where
  "ParseMediaType v =
     (let base = takeWhile (\<lambda>c. c \<noteq> CHR '';'') v; mediatype = trim_space (go_lower base) in
      if \<not> media_type_ok mediatype then ('''', True)
      else case media_params Map.empty (drop (length base) v) of
        Params_OK \<Rightarrow> (mediatype, False)
      | Params_Invalid \<Rightarrow> (mediatype, True)
      | Params_Duplicate \<Rightarrow> ('''', True))"

section \<open>Forms\<close>

text \<open>Whether \<^verbatim>\<open>url.ParseQuery\<close> reports no error.\<close>

definition pair_ok :: "string \<Rightarrow> bool" where
  "pair_ok p \<longleftrightarrow> p = '''' \<or> (CHR '';'' \<notin> set p
     \<and> (case cut_at (CHR ''='') p of
          None \<Rightarrow> query_unescape p \<noteq> None
        | Some (k, v) \<Rightarrow> query_unescape k \<noteq> None \<and> query_unescape v \<noteq> None))"

definition query_ok :: "string \<Rightarrow> bool" where
  "query_ok raw \<longleftrightarrow> list_all pair_ok (split_on (CHR ''&'') raw)"

definition form_type :: string where "form_type = ''application/x-www-form-urlencoded''"

definition maxFormSize :: nat where "maxFormSize = 10485760"

text \<open>\<^verbatim>\<open>parsePostForm\<close>: the values and whether there was no error.\<close>

definition parsePostForm :: "('c, 'z) request_scheme \<Rightarrow> qvalues \<times> bool" where
  "parsePostForm r =
     (let ct = hdr_get (rq_header r) ''Content-Type'';
          (mt, err) = ParseMediaType (if ct = '''' then ''application/octet-stream'' else ct) in
      if mt \<noteq> form_type then ([], \<not> err)
      else case readAll (limitReader (rq_body r) (maxFormSize + 1)) of
        None \<Rightarrow> ([], False)
      | Some b \<Rightarrow> if maxFormSize < length b then ([], False) else (parse_query b, \<not> err \<and> query_ok b))"

definition ParseForm :: "('c, 'z) request_scheme \<Rightarrow> qvalues \<times> bool" where
  "ParseForm r =
     (let (post, ok) = (if rq_method r \<in> {''POST'', ''PUT'', ''PATCH''} then parsePostForm r else ([], True))
      in (post, ok \<and> query_ok (rq_query r)))"

section \<open>Basic authentication\<close>

definition BasicAuth :: "('c, 'z) request_scheme \<Rightarrow> (string \<times> string) option" where
  "BasicAuth r =
     (let auth = hdr_get (rq_header r) ''Authorization'' in
      if length auth < 6 \<or> map lower_char (take 6 auth) \<noteq> ''basic '' then None
      else Option.bind (stdDecode (drop 6 auth)) (cut_at (CHR '':'')))"

section \<open>What a client sends\<close>

lemma pair_ok_encode: "pair_ok (encode_pair p)"
  using encode_pair_plain [of p] by (cases p) (simp add: pair_ok_def cut_encode_pair unescape_query_escape)

lemma query_ok_encode: "query_ok (query_encode q)"
proof (cases "q = []")
  case False
  then have "split_on (CHR ''&'') (query_encode q) = map encode_pair (sort_key fst q)"
    unfolding query_encode_pieces by (intro split_join_amp) (auto simp: encode_pair_plain dest: arg_cong [where f = length])
  then show ?thesis by (simp add: query_ok_def list_all_iff pair_ok_encode)
qed (simp add: query_ok_def query_encode_def pair_ok_def)

lemma form_media_type: "ParseMediaType form_type = (form_type, False)"
  by code_simp

text \<open>A form a client posts arrives as it was.\<close>

lemma ParseForm_post:
  assumes "rq_method r = ''POST''" "hdr_get (rq_header r) ''Content-Type'' = form_type" "rq_query r = ''''"
    "rq_body r = \<lparr>rd_chunks = [query_encode q], rd_fails = False\<rparr>" "length (query_encode q) \<le> maxFormSize"
  shows "ParseForm r = (sort_key fst q, True)"
proof -
  have f: "form_type \<noteq> ''''" by (simp add: form_type_def)
  have "readAll (limitReader (rq_body r) (maxFormSize + 1)) = Some (query_encode q)"
    using assms(4,5) by (simp add: readAll_def limitReader_def)
  then have "parsePostForm r = (sort_key fst q, True)"
    using assms(2,5) f by (simp add: parsePostForm_def form_media_type query_ok_encode parse_query_encode)
  moreover have "query_ok ''''" by (simp add: query_ok_def pair_ok_def)
  ultimately show ?thesis using assms(1,3) by (simp add: ParseForm_def)
qed

lemma length_query_escape: "length (query_escape s) \<le> 3 * length s"
  by (induction s) (auto simp: query_escape_def escape_char_def)

end
