(* ===== verification/Sha256.thy ===== *)
theory Sha256
  imports Base64
begin

text \<open>
  \<^verbatim>\<open>crypto/sha256\<close>: \<^verbatim>\<open>Sum256\<close> over 32-bit words, as FIPS 180-4 specifies it, for the PKCE check
  of \<^verbatim>\<open>cmd/mockoidc\<close>. Additions wrap at 32 bits and the length field at 64.
\<close>

unbundle bit_operations_syntax

type_synonym w32 = "32 word"

text \<open>
  The standard's constants are the first 32 bits of the fractional parts of the cube roots (square
  roots for the initial state) of the first primes: \<open>bit_root k i\<close> is the integer \<open>k\<close>-th root, found bit
  by bit from bit \<open>i - 1\<close> down.
\<close>

fun bit_root :: "nat \<Rightarrow> nat \<Rightarrow> nat \<Rightarrow> nat \<Rightarrow> nat" where
  "bit_root k 0 acc n = acc"
| "bit_root k (Suc i) acc n = bit_root k i (if (acc + 2 ^ i) ^ k \<le> n then acc + 2 ^ i else acc) n"

definition root_word :: "nat \<Rightarrow> nat \<Rightarrow> w32" where
  "root_word k p = of_nat (bit_root k 37 0 (p * 2 ^ (32 * k)))"

definition is_prime :: "nat \<Rightarrow> bool" where
  "is_prime n \<longleftrightarrow> 1 < n \<and> list_all (\<lambda>d. n mod d \<noteq> 0) [2..<n]"

definition sha_k :: "w32 list" where
  "sha_k = map (root_word 3) (filter is_prime [0..<312])"

record sha_state =
  sa :: w32  sb :: w32  sc :: w32  sd :: w32
  se :: w32  sf :: w32  sg :: w32  sh :: w32

definition sha_init :: sha_state where
  "sha_init = \<lparr>sa = root_word 2 2, sb = root_word 2 3, sc = root_word 2 5, sd = root_word 2 7,
     se = root_word 2 11, sf = root_word 2 13, sg = root_word 2 17, sh = root_word 2 19\<rparr>"

section \<open>Padding\<close>

text \<open>The message, the byte 128, zeros up to eight bytes below a full block, the length in bits.\<close>

definition be_bytes :: "nat \<Rightarrow> nat \<Rightarrow> bytes" where
  "be_bytes n x = map (\<lambda>i. chr ((x div 256 ^ i) mod 256)) (rev [0..<n])"

definition sha_zeros :: "nat \<Rightarrow> nat" where
  "sha_zeros len = (119 - len mod 64) mod 64"

definition sha_pad :: "bytes \<Rightarrow> bytes" where
  "sha_pad m = m @ [CHR 0x80] @ replicate (sha_zeros (length m)) (CHR 0x00) @ be_bytes 8 (8 * length m)"

section \<open>One block\<close>

definition be_word :: "bytes \<Rightarrow> w32" where
  "be_word bs = fold (\<lambda>c w. 256 * w + of_nat (ord c)) bs 0"

function chunks :: "nat \<Rightarrow> 'a list \<Rightarrow> 'a list list" where
  "chunks n xs = (if n = 0 \<or> xs = [] then [] else take n xs # chunks n (drop n xs))"
  by pat_completeness auto
termination
  by (relation "measure (length \<circ> snd)") (auto simp: neq_Nil_conv)

declare chunks.simps [simp del]

abbreviation rotr :: "nat \<Rightarrow> w32 \<Rightarrow> w32" where "rotr \<equiv> word_rotr"

definition small0 :: "w32 \<Rightarrow> w32" where "small0 x = rotr 7 x XOR rotr 18 x XOR drop_bit 3 x"
definition small1 :: "w32 \<Rightarrow> w32" where "small1 x = rotr 17 x XOR rotr 19 x XOR drop_bit 10 x"
definition big0 :: "w32 \<Rightarrow> w32" where "big0 x = rotr 2 x XOR rotr 13 x XOR rotr 22 x"
definition big1 :: "w32 \<Rightarrow> w32" where "big1 x = rotr 6 x XOR rotr 11 x XOR rotr 25 x"
definition sha_ch :: "w32 \<Rightarrow> w32 \<Rightarrow> w32 \<Rightarrow> w32" where "sha_ch x y z = (x AND y) XOR (NOT x AND z)"
definition sha_maj :: "w32 \<Rightarrow> w32 \<Rightarrow> w32 \<Rightarrow> w32" where
  "sha_maj x y z = (x AND y) XOR (x AND z) XOR (y AND z)"

text \<open>The message schedule, newest word first: \<open>n\<close> more words.\<close>

fun extend :: "nat \<Rightarrow> w32 list \<Rightarrow> w32 list" where
  "extend 0 ws = ws"
| "extend (Suc n) ws = extend n ((small1 (ws ! 1) + ws ! 6 + small0 (ws ! 14) + ws ! 15) # ws)"

definition schedule :: "bytes \<Rightarrow> w32 list" where
  "schedule block = rev (extend 48 (rev (map be_word (chunks 4 block))))"

definition sha_round :: "w32 \<times> w32 \<Rightarrow> sha_state \<Rightarrow> sha_state" where
  "sha_round kw s =
     (let t1 = sh s + big1 (se s) + sha_ch (se s) (sf s) (sg s) + fst kw + snd kw;
          t2 = big0 (sa s) + sha_maj (sa s) (sb s) (sc s)
      in \<lparr>sa = t1 + t2, sb = sa s, sc = sb s, sd = sc s,
          se = sd s + t1, sf = se s, sg = sf s, sh = sg s\<rparr>)"

definition sha_block :: "bytes \<Rightarrow> sha_state \<Rightarrow> sha_state" where
  "sha_block block s =
     (let t = fold sha_round (zip sha_k (schedule block)) s
      in \<lparr>sa = sa s + sa t, sb = sb s + sb t, sc = sc s + sc t, sd = sd s + sd t,
          se = se s + se t, sf = sf s + sf t, sg = sg s + sg t, sh = sh s + sh t\<rparr>)"

definition Sum256 :: "bytes \<Rightarrow> bytes" where
  "Sum256 m =
     (let s = fold sha_block (chunks 64 (sha_pad m)) sha_init
      in concat (map (\<lambda>w. be_bytes 4 (unat w)) [sa s, sb s, sc s, sd s, se s, sf s, sg s, sh s]))"

section \<open>Lemmas\<close>

lemma length_be_bytes [simp]: "length (be_bytes n x) = n"
  by (simp add: be_bytes_def)

lemma length_Sum256 [simp]: "length (Sum256 m) = 32"
  by (simp add: Sum256_def Let_def)

text \<open>The padded message fills whole blocks, and says what it pads.\<close>

lemma sha_pad_blocks: "64 dvd length (sha_pad m)"
proof -
  have "(119 - r) mod 64 = (if r < 56 then 55 - r else 119 - r)" if "r < 64" for r :: nat
    using that by (auto simp: mod_if)
  from this [of "length m mod 64"]
  have "(length m mod 64 + 1 + sha_zeros (length m) + 8) mod 64 = 0"
    by (auto simp: sha_zeros_def)
  then have "(length m + 1 + sha_zeros (length m) + 8) mod 64 = 0"
    by (metis (no_types, lifting) add.assoc mod_add_left_eq)
  then show ?thesis by (simp add: sha_pad_def dvd_eq_mod_eq_0 ac_simps)
qed

end
