(* ===== verification/Redirect.thy ===== *)
theory Redirect
  imports UrlParse Http
begin

text \<open>
  \<^verbatim>\<open>http.Redirect\<close> for any target: one without scheme and host is taken relative to the request's
  path and cleaned. With lemmas on the printed form of a URL whose query was replaced.
\<close>

section \<open>The target\<close>

text \<open>The directory of a path (\<^verbatim>\<open>path.Split\<close>), up to its last slash.\<close>

definition path_dir :: "string \<Rightarrow> string" where
  "path_dir p = rev (dropWhile (\<lambda>c. c \<noteq> CHR ''/'') (rev p))"

definition clean_target :: "string \<Rightarrow> string" where
  "clean_target url =
     (let p = takeWhile (\<lambda>c. c \<noteq> CHR ''?'') url; query = dropWhile (\<lambda>c. c \<noteq> CHR ''?'') url;
          q = path_clean_rooted p
      in q @ (if p \<noteq> '''' \<and> last p = CHR ''/'' \<and> last q \<noteq> CHR ''/'' then ''/'' else '''') @ query)"

definition redirect_url :: "(string \<Rightarrow> bool) \<Rightarrow> string \<Rightarrow> string \<Rightarrow> string" where
  "redirect_url ip6 oldpath url =
     (case url_parse ip6 url of
        None \<Rightarrow> url
      | Some u \<Rightarrow>
          (if pu_scheme u = '''' \<and> pu_host u = '''' then
             clean_target (if take 1 url = ''/'' then url
                           else path_dir (if oldpath = '''' then ''/'' else oldpath) @ url)
           else url))"

text \<open>\<^verbatim>\<open>hexEscapeNonASCII\<close>.\<close>

definition lower_hex :: string where "lower_hex = ''0123456789abcdef''"

definition hex_escape_char :: "char \<Rightarrow> string" where
  "hex_escape_char c =
     (if 128 \<le> ord c then [CHR ''%'', lower_hex ! (ord c div 16), lower_hex ! (ord c mod 16)] else [c])"

definition hex_escape :: "string \<Rightarrow> string" where
  "hex_escape s = concat (map hex_escape_char s)"

definition full_redirect :: "(string \<Rightarrow> bool) \<Rightarrow> ('c, 'z) request_scheme \<Rightarrow> string \<Rightarrow> rw \<Rightarrow> rw" where
  "full_redirect ip6 r url =
     (let target = redirect_url ip6 (rq_path r) url in redirect_to r (hex_escape target) target)"

lemma status_full_redirect [simp]:
  "rw_status (full_redirect ip6 r u w) = (case rw_status w of None \<Rightarrow> Some 302 | Some d \<Rightarrow> Some d)"
  by (simp add: full_redirect_def Let_def)

section \<open>Lemmas\<close>

lemma hex_escape_append [simp]: "hex_escape (a @ b) = hex_escape a @ hex_escape b"
  by (simp add: hex_escape_def)

lemma hex_escape_ascii: "list_all (\<lambda>c. ord c < 128) s \<Longrightarrow> hex_escape s = s"
  by (induction s) (auto simp: hex_escape_def hex_escape_char_def)

lemma hex_not_query: "n < 16 \<Longrightarrow> upper_hex ! n \<noteq> CHR ''?''" "n < 16 \<Longrightarrow> lower_hex ! n \<noteq> CHR ''?''"
proof -
  have "length upper_hex = 16" "length lower_hex = 16" "CHR ''?'' \<notin> set upper_hex" "CHR ''?'' \<notin> set lower_hex"
    by (simp_all add: upper_hex_def lower_hex_def)
  then show "n < 16 \<Longrightarrow> upper_hex ! n \<noteq> CHR ''?''" "n < 16 \<Longrightarrow> lower_hex ! n \<noteq> CHR ''?''"
    by (metis nth_mem)+
qed

lemma byte_digits: "ord c div 16 < 16" "ord c mod 16 < (16 :: nat)"
  using ord_less [of c] by (simp_all add: less_mult_imp_div_less)

lemma hex_escape_no_query: "CHR ''?'' \<in> set (hex_escape s) \<longleftrightarrow> CHR ''?'' \<in> set s"
proof -
  have "CHR ''?'' \<in> set (hex_escape_char c) \<longleftrightarrow> c = CHR ''?''" for c
    using hex_not_query(2) [OF byte_digits(1) [of c]] hex_not_query(2) [OF byte_digits(2) [of c]]
    by (auto simp: hex_escape_char_def)
  then show ?thesis by (simp add: hex_escape_def)
qed

lemma should_escape_query: "m \<noteq> EncFragment \<Longrightarrow> should_escape m (CHR ''?'')"
  by (cases m) (simp_all add: should_escape_def unreserved_def is_alnum_def is_digit_def is_lower_def is_upper_def)

lemma url_escape_no_query: "m \<noteq> EncFragment \<Longrightarrow> CHR ''?'' \<notin> set (url_escape m s)"
proof -
  assume "m \<noteq> EncFragment"
  then have e: "should_escape m (CHR ''?'')" by (rule should_escape_query)
  have "CHR ''?'' \<notin> set (url_escape_char m c)" for c
    using hex_not_query(1) [OF byte_digits(1) [of c]] hex_not_query(1) [OF byte_digits(2) [of c]] e
    by (auto simp: url_escape_char_def)
  then show ?thesis by (simp add: url_escape_def)
qed

lemma valid_encoded_no_query:
  assumes "valid_encoded EncPath s" shows "CHR ''?'' \<notin> set s"
proof
  assume "CHR ''?'' \<in> set s"
  with assms [unfolded valid_encoded_def list_all_iff]
  have "CHR ''?'' \<in> set ''!$&()*+,;=:@[]%'' \<or> CHR ''?'' = CHR 0x27 \<or> \<not> should_escape EncPath (CHR ''?'')" by (rule bspec)
  then show False using should_escape_query [of EncPath] by simp
qed

lemma escaped_path_no_query: "CHR ''?'' \<notin> set (escaped_path u)"
  using url_escape_no_query [of EncPath] valid_encoded_no_query
  by (auto simp: escaped_path_def escaped_def raw_ok_def)

lemma url_authority_no_query: "CHR ''?'' \<notin> set (url_authority u)"
  using url_escape_no_query [of EncHost] url_escape_no_query [of EncUser]
  by (auto simp: url_authority_def userinfo_string_def split: option.splits)

text \<open>The scheme of a parsed URL, and what a text with a scheme parses to.\<close>

lemma scheme_char_lower: "scheme_char c \<Longrightarrow> scheme_char (lower_char c)"
  by (auto simp: scheme_char_def lower_char_def is_alnum_def is_upper_def is_lower_def)

lemma lower_lower [simp]: "lower_char (lower_char c) = lower_char c"
  by (auto simp: lower_char_def is_upper_def)

lemma is_letter_lower: "is_letter c \<Longrightarrow> is_letter (lower_char c)"
  by (auto simp: is_letter_def lower_char_def is_upper_def is_lower_def)

lemma scheme_char_excludes: "scheme_char c \<Longrightarrow> c \<notin> set ''?#:/*''"
  by (auto simp: scheme_char_def is_alnum_def is_upper_def is_digit_def is_lower_def)

text \<open>A scheme as \<^verbatim>\<open>url.Parse\<close> returns it.\<close>

definition proper_scheme :: "string \<Rightarrow> bool" where
  "proper_scheme s \<longleftrightarrow> s \<noteq> '''' \<and> is_letter (hd s) \<and> list_all scheme_char s \<and> map lower_char s = s"

lemma get_scheme_proper:
  assumes "get_scheme u = Some (s, rest)"
  shows "s = '''' \<or> proper_scheme (map lower_char s)"
proof -
  have "list_all scheme_char (map lower_char (takeWhile scheme_char u))"
    by (auto simp: list_all_iff dest!: set_takeWhileD intro: scheme_char_lower)
  moreover have "is_letter (hd (map lower_char s))" if "s \<noteq> ''''" "is_letter (hd s)"
    using that by (simp add: hd_map is_letter_lower)
  ultimately show ?thesis using assms
    by (auto simp: get_scheme_def Let_def proper_scheme_def split: if_splits)
qed

lemma get_scheme_of:
  assumes "proper_scheme s" shows "get_scheme (s @ '':'' @ x) = Some (s, x)"
proof -
  have "\<not> scheme_char (CHR '':'')" using scheme_char_excludes by fastforce
  then have "takeWhile scheme_char (s @ '':'' @ x) = s" "dropWhile scheme_char (s @ '':'' @ x) = '':'' @ x"
    using assms by (auto simp: proper_scheme_def list_all_iff takeWhile_append2 dropWhile_append2)
  then show ?thesis using assms by (simp add: get_scheme_def Let_def proper_scheme_def)
qed

lemma parse_absolute_scheme:
  assumes "parse_absolute ip6 (s @ '':'' @ x) = Some v" "proper_scheme s"
  shows "pu_scheme v = s"
proof -
  have "s @ '':'' @ x \<noteq> ''*''" using assms(2) by (cases s) auto
  then show ?thesis using assms get_scheme_of [OF assms(2), of x]
    by (auto simp: parse_absolute_def Let_def proper_scheme_def split: if_splits prod.splits)
qed

lemma parse_fragment_scheme: "parse_fragment f u = Some v \<Longrightarrow> pu_scheme v = pu_scheme u \<and> pu_opaque v = pu_opaque u"
  by (auto simp: parse_fragment_def split: if_splits)

lemma cut_at_skip: "d \<notin> set a \<Longrightarrow> cut_at d (a @ b) = map_option (\<lambda>(x, y). (a @ x, y)) (cut_at d b)"
  by (induction a) (auto simp: option.map_id split: option.splits)

lemma cut_at_Some: "cut_at d s = Some (a, b) \<Longrightarrow> d \<notin> set a"
  by (induction s arbitrary: a) (auto split: if_splits option.splits)

lemma url_parse_scheme:
  assumes "url_parse ip6 (s @ '':'' @ x) = Some v" "proper_scheme s"
  shows "pu_scheme v = s"
proof -
  have "CHR ''#'' \<notin> set (s @ '':'')" using assms(2) scheme_char_excludes by (fastforce simp: proper_scheme_def list_all_iff)
  from cut_at_skip [OF this, of x] obtain y f where e:
    "(case cut_at (CHR ''#'') (s @ '':'' @ x) of None \<Rightarrow> (s @ '':'' @ x, '''') | Some p \<Rightarrow> p) = (s @ '':'' @ y, f)"
    by (cases "cut_at (CHR ''#'') x" rule: option.exhaust [case_names none some]) (auto simp del: cut_at_None)
  have "Option.bind (parse_absolute ip6 (s @ '':'' @ y)) (parse_fragment f) = Some v"
    using assms(1) unfolding url_parse_def e by simp
  then obtain u where "parse_absolute ip6 (s @ '':'' @ y) = Some u" "parse_fragment f u = Some v"
    by (auto split: bind_splits)
  with parse_absolute_scheme [OF _ assms(2)] parse_fragment_scheme show ?thesis by metis
qed

text \<open>What a parsed URL looks like: its scheme is proper and its opaque part has no query.\<close>

lemma parse_absolute_parts:
  assumes "parse_absolute ip6 u = Some d"
  shows "(pu_scheme d = '''' \<or> proper_scheme (pu_scheme d)) \<and> CHR ''?'' \<notin> set (pu_opaque d)"
proof -
  have q: "split_query r = (p, q) \<Longrightarrow> CHR ''?'' \<notin> set p" for r p q
    using cut_at_Some by (auto simp: split_query_def split: option.splits)
  show ?thesis using assms
    by (auto simp: parse_absolute_def empty_url_def Let_def dest: q get_scheme_proper
        split: if_splits prod.splits option.splits)
qed

lemma url_parse_parts:
  assumes "url_parse ip6 raw = Some d"
  shows "(pu_scheme d = '''' \<or> proper_scheme (pu_scheme d)) \<and> CHR ''?'' \<notin> set (pu_opaque d)"
  using assms parse_absolute_parts parse_fragment_scheme
  by (fastforce simp: url_parse_def split: prod.splits bind_splits)

lemma proper_scheme_no_query: "proper_scheme s \<Longrightarrow> CHR ''?'' \<notin> set s"
  using scheme_char_excludes by (fastforce simp: proper_scheme_def list_all_iff)

lemma url_front_no_query:
  assumes "url_parse ip6 raw = Some d" shows "CHR ''?'' \<notin> set (url_front d)"
  using url_parse_parts [OF assms] url_authority_no_query [of d] escaped_path_no_query [of d] proper_scheme_no_query
  by (auto simp: url_front_def Let_def)

text \<open>The URL printed with another query, and the redirect to it.\<close>

lemma url_front_query [simp]: "url_front (d\<lparr>pu_query := q\<rparr>) = url_front d"
proof -
  have "escaped_path (d\<lparr>pu_query := q\<rparr>) = escaped_path d" "url_authority (d\<lparr>pu_query := q\<rparr>) = url_authority d"
    by (cases d, simp only: escaped_path_def url_authority_def parsed_url.simps)+
  then show ?thesis by (simp add: url_front_def)
qed

lemma url_string_query:
  "q \<noteq> '''' \<Longrightarrow> pu_fragment d = '''' \<Longrightarrow> url_string (d\<lparr>pu_query := q\<rparr>) = url_front d @ ''?'' @ q"
  by (simp add: url_string_def)

lemma url_front_scheme: "pu_scheme d \<noteq> '''' \<Longrightarrow> \<exists>x. url_front d = pu_scheme d @ '':'' @ x"
  by (auto simp: url_front_def Let_def)

lemma redirect_url_absolute:
  assumes "url_parse ip6 raw = Some d" "pu_scheme d \<noteq> ''''"
  shows "redirect_url ip6 p (url_front d @ x) = url_front d @ x"
proof (cases "url_parse ip6 (url_front d @ x)")
  case (Some v)
  have s: "proper_scheme (pu_scheme d)" using url_parse_parts [OF assms(1)] assms(2) by simp
  obtain y where "url_front d = pu_scheme d @ '':'' @ y" using url_front_scheme [OF assms(2)] by blast
  with Some have "url_parse ip6 (pu_scheme d @ '':'' @ (y @ x)) = Some v" by simp
  from url_parse_scheme [OF this s] Some assms(2) show ?thesis by (simp add: redirect_url_def)
qed (simp add: redirect_url_def)

text \<open>For the target \<^verbatim>\<open>/\<close> a redirect is the simple one.\<close>

lemma full_redirect_home: "full_redirect ip6 r ''/'' = http_redirect r ''/''"
proof -
  have "clean_target ''/'' = ''/''" by code_simp
  then have "redirect_url ip6 p ''/'' = ''/''" for p by (simp add: redirect_url_def split: option.split)
  moreover have "hex_escape ''/'' = ''/''" by code_simp
  ultimately show ?thesis by (simp add: full_redirect_def http_redirect_def Let_def)
qed

end
