(* ===== verification/Mockoidc.thy ===== *)
theory Mockoidc
  imports Form Sha256 Allowlist Redirect
begin

text \<open>
  \<^verbatim>\<open>cmd/mockoidc\<close>: the OIDC provider of the end-to-end stack, with authorization codes under
  mandatory PKCE and refresh tokens. Its state is the world's \<open>w_idp\<close>. The JOSE library (the signer
  of a claim set, the published key) is a parameter. Every access to the two maps is under the
  server's mutex, so one request is one step.
\<close>

section \<open>State and configuration\<close>

record authCode =
  ac_subject :: string
  ac_redirectURI :: string
  ac_nonce :: string
  ac_codeChallenge :: string
  ac_expiresAt :: go_time

record refreshToken =
  rt_subject :: string
  rt_expiresAt :: go_time

text \<open>\<open>ms_draws n\<close> is what the \<open>n\<close>-th read of \<^verbatim>\<open>crypto/rand\<close> delivers, \<open>ms_drawn\<close> how many there were.\<close>

record mock_server =
  ms_codes :: "string \<rightharpoonup> authCode"
  ms_tokens :: "string \<rightharpoonup> refreshToken"
  ms_draws :: "nat \<Rightarrow> bytes"
  ms_drawn :: nat

record mock_config =
  mc_ListenAddr :: string
  mc_IssuerURL :: string
  mc_ClientID :: string
  mc_ClientSecret :: string
  mc_IDTokenTTL :: duration

text \<open>
  \<open>js_sign\<close> is the compact signature with the server's key, on algorithm, key ID and claims, and
  \<open>js_jwk\<close> the JSON of its public key, on key ID, algorithm and use.
\<close>

record jose =
  js_sign :: "string \<Rightarrow> string \<Rightarrow> json \<Rightarrow> string option"
  js_jwk :: "string \<Rightarrow> string \<Rightarrow> string \<Rightarrow> json"
  js_ip6 :: "string \<Rightarrow> bool"

definition mock_getEnvDefault :: "environ \<Rightarrow> string \<Rightarrow> string \<Rightarrow> string" where
  "mock_getEnvDefault env name def = (if env name \<noteq> '''' then env name else def)"

definition signingKeyID :: string where "signingKeyID = ''mockoidc-key''"

definition loadConfig :: "environ \<Rightarrow> mock_config option" where
  "loadConfig env =
     (let cfg = \<lparr>mc_ListenAddr = mock_getEnvDefault env ''MOCKOIDC_LISTEN_ADDR'' '':9999'',
            mc_IssuerURL = env ''MOCKOIDC_ISSUER_URL'', mc_ClientID = env ''MOCKOIDC_CLIENT_ID'',
            mc_ClientSecret = env ''MOCKOIDC_CLIENT_SECRET'', mc_IDTokenTTL = 5 * minute\<rparr>
      in if mc_IssuerURL cfg = '''' \<or> mc_ClientID cfg = '''' \<or> mc_ClientSecret cfg = '''' then None
         else Some cfg)"

definition newServer :: "(nat \<Rightarrow> bytes) \<Rightarrow> mock_server" where
  "newServer draws = \<lparr>ms_codes = Map.empty, ms_tokens = Map.empty, ms_draws = draws, ms_drawn = 0\<rparr>"

text \<open>
  \<^verbatim>\<open>main\<close>: the address listened on, if it comes to that, and the exit status. \<open>key_ok\<close> says whether
  \<^verbatim>\<open>newServer\<close> gets its RSA key, \<open>serve_err\<close> whether \<^verbatim>\<open>ListenAndServe\<close> returned an error.
\<close>

definition mock_main :: "environ \<Rightarrow> bool \<Rightarrow> bool \<Rightarrow> string option \<times> nat" where
  "mock_main env key_ok serve_err =
     (case loadConfig env of
        None \<Rightarrow> (None, 1)
      | Some cfg \<Rightarrow>
          (if \<not> key_ok then (None, 1)
           else (Some (mc_ListenAddr cfg), if serve_err then 1 else 0)))"

section \<open>Helpers\<close>

definition mock_randomToken :: "mock_server \<Rightarrow> string \<times> mock_server" where
  "mock_randomToken s = (rawURLEncode (ms_draws s (ms_drawn s)), s\<lparr>ms_drawn := Suc (ms_drawn s)\<rparr>)"

definition writeJSON :: "nat \<Rightarrow> json \<Rightarrow> rw \<Rightarrow> rw" where
  "writeJSON status v rw =
     encode_json v (write_header status (set_header ''Content-Type'' ''application/json'' rw))"

definition writeTokenError :: "string \<Rightarrow> rw \<Rightarrow> rw" where
  "writeTokenError code = writeJSON 400 (JObj [(''error'', JStr code)])"

definition verifyPKCE :: "string \<Rightarrow> string \<Rightarrow> bool" where
  "verifyPKCE challenge verifier =
     (if verifier = '''' then False else rawURLEncode (Sum256 verifier) = challenge)"

text \<open>Seconds since the epoch (\<^verbatim>\<open>Time.Unix\<close>).\<close>

definition unix :: "go_time \<Rightarrow> int" where "unix t = t div second"

definition claims_json :: "mock_config \<Rightarrow> go_time \<Rightarrow> string \<Rightarrow> string \<Rightarrow> json" where
  "claims_json cfg now subject nonce = JObj
     ([(''aud'', JStr (mc_ClientID cfg)), (''exp'', JNum (formatInt (unix (now + mc_IDTokenTTL cfg)))),
       (''iat'', JNum (formatInt (unix now))), (''iss'', JStr (mc_IssuerURL cfg))]
      @ (if nonce \<noteq> '''' then [(''nonce'', JStr nonce)] else []) @ [(''sub'', JStr subject)])"

definition signIDToken :: "jose \<Rightarrow> mock_config \<Rightarrow> go_time \<Rightarrow> string \<Rightarrow> string \<Rightarrow> string option" where
  "signIDToken j cfg now subject nonce = js_sign j ''RS256'' signingKeyID (claims_json cfg now subject nonce)"

type_synonym ('c, 's) idp_handler = "('c, 's, mock_server) handler"

section \<open>Discovery and keys\<close>

definition handleDiscovery :: "mock_config \<Rightarrow> ('c, 's) idp_handler" where
  "handleDiscovery cfg r rw w =
     (let strs = \<lambda>xs. JArr (map JStr xs); iss = mc_IssuerURL cfg in
      (writeJSON 200 (JObj
        [(''authorization_endpoint'', JStr (iss @ ''/authorize'')),
         (''code_challenge_methods_supported'', strs [''S256'']),
         (''grant_types_supported'', strs [''authorization_code'', ''refresh_token'']),
         (''id_token_signing_alg_values_supported'', strs [''RS256'']),
         (''issuer'', JStr iss),
         (''jwks_uri'', JStr (iss @ ''/jwks'')),
         (''response_types_supported'', strs [''code'']),
         (''scopes_supported'', strs [''openid'', ''profile'']),
         (''subject_types_supported'', strs [''public'']),
         (''token_endpoint'', JStr (iss @ ''/token'')),
         (''token_endpoint_auth_methods_supported'', strs [''client_secret_basic'', ''client_secret_post''])]) rw, w))"

definition handleJWKS :: "jose \<Rightarrow> ('c, 's) idp_handler" where
  "handleJWKS j r rw w =
     (writeJSON 200 (JObj [(''keys'', JArr [js_jwk j signingKeyID ''RS256'' ''sig''])]) rw, w)"

section \<open>The authorization endpoint\<close>

definition handleAuthorize :: "jose \<Rightarrow> mock_config \<Rightarrow> ('c, 's) idp_handler" where
  "handleAuthorize j cfg r rw w =
     (let q = query_of r; redirectURI = query_get q ''redirect_uri'' in
      if query_get q ''response_type'' \<noteq> ''code'' then (http_error ''unsupported_response_type'' 400 rw, w)
      else if query_get q ''client_id'' \<noteq> mc_ClientID cfg then (http_error ''unauthorized_client'' 400 rw, w)
      else if redirectURI = '''' then (http_error ''invalid_request: redirect_uri required'' 400 rw, w)
      else if query_get q ''code_challenge_method'' \<noteq> ''S256'' \<or> query_get q ''code_challenge'' = ''''
        then (http_error ''invalid_request: PKCE (S256) is required'' 400 rw, w)
      else
        (let hint = query_get q ''login_hint'';
             subject = (if hint = '''' then ''test-user@example.com'' else hint);
             (code, s1) = mock_randomToken (w_idp w);
             s2 = s1\<lparr>ms_codes := (ms_codes s1)(code \<mapsto>
                \<lparr>ac_subject = subject, ac_redirectURI = redirectURI, ac_nonce = query_get q ''nonce'',
                 ac_codeChallenge = query_get q ''code_challenge'', ac_expiresAt = w_now w + minute\<rparr>)\<rparr>;
             w2 = w\<lparr>w_idp := s2\<rparr>
         in case url_parse (js_ip6 j) redirectURI of
              None \<Rightarrow> (http_error ''invalid_request: malformed redirect_uri'' 400 rw, w2)
            | Some dest \<Rightarrow>
                (let q1 = query_set ''code'' code (parse_query (pu_query dest));
                     state = query_get q ''state'';
                     q2 = (if state \<noteq> '''' then query_set ''state'' state q1 else q1)
                 in (full_redirect (js_ip6 j) r (url_string (dest\<lparr>pu_query := query_encode q2\<rparr>)) rw, w2))))"

section \<open>The token endpoint\<close>

definition authenticateClient :: "mock_config \<Rightarrow> qvalues \<Rightarrow> ('c, 'z) request_scheme \<Rightarrow> bool" where
  "authenticateClient cfg post r =
     (case BasicAuth r of
        Some (user, secret) \<Rightarrow> user = mc_ClientID cfg \<and> secret = mc_ClientSecret cfg
      | None \<Rightarrow> query_get post ''client_id'' = mc_ClientID cfg \<and> query_get post ''client_secret'' = mc_ClientSecret cfg)"

definition issueTokens :: "jose \<Rightarrow> mock_config \<Rightarrow> string \<Rightarrow> string \<Rightarrow> rw \<Rightarrow> ('s, mock_server) world \<Rightarrow>
    rw \<times> ('s, mock_server) world" where
  "issueTokens j cfg subject nonce rw w =
     (case signIDToken j cfg (w_now w) subject nonce of
        None \<Rightarrow> (http_error ''server_error'' 500 rw, w)
      | Some idToken \<Rightarrow>
          (let (refresh, s1) = mock_randomToken (w_idp w);
               s2 = s1\<lparr>ms_tokens := (ms_tokens s1)(refresh \<mapsto>
                  \<lparr>rt_subject = subject, rt_expiresAt = w_now w + 60 * minute\<rparr>)\<rparr>;
               (access, s3) = mock_randomToken s2
           in (writeJSON 200 (JObj
                [(''access_token'', JStr access),
                 (''expires_in'', JNum (formatInt (whole_seconds (mc_IDTokenTTL cfg)))),
                 (''id_token'', JStr idToken),
                 (''refresh_token'', JStr refresh),
                 (''token_type'', JStr ''Bearer'')]) rw, w\<lparr>w_idp := s3\<rparr>)))"

definition handleAuthorizationCodeGrant :: "jose \<Rightarrow> mock_config \<Rightarrow> qvalues \<Rightarrow> rw \<Rightarrow> ('s, mock_server) world \<Rightarrow>
    rw \<times> ('s, mock_server) world" where
  "handleAuthorizationCodeGrant j cfg post rw w =
     (let code = query_get post ''code''; s = w_idp w;
          w1 = w\<lparr>w_idp := s\<lparr>ms_codes := (ms_codes s)(code := None)\<rparr>\<rparr>
      in case ms_codes s code of
           None \<Rightarrow> (writeTokenError ''invalid_grant'' rw, w)
         | Some ac \<Rightarrow>
             (if ac_expiresAt ac < w_now w then (writeTokenError ''invalid_grant'' rw, w1)
              else if query_get post ''redirect_uri'' \<noteq> ac_redirectURI ac then (writeTokenError ''invalid_grant'' rw, w1)
              else if \<not> verifyPKCE (ac_codeChallenge ac) (query_get post ''code_verifier'')
                then (writeTokenError ''invalid_grant'' rw, w1)
              else issueTokens j cfg (ac_subject ac) (ac_nonce ac) rw w1))"

definition handleRefreshTokenGrant :: "jose \<Rightarrow> mock_config \<Rightarrow> qvalues \<Rightarrow> rw \<Rightarrow> ('s, mock_server) world \<Rightarrow>
    rw \<times> ('s, mock_server) world" where
  "handleRefreshTokenGrant j cfg post rw w =
     (case ms_tokens (w_idp w) (query_get post ''refresh_token'') of
        None \<Rightarrow> (writeTokenError ''invalid_grant'' rw, w)
      | Some rt \<Rightarrow>
          (if rt_expiresAt rt < w_now w then (writeTokenError ''invalid_grant'' rw, w)
           else issueTokens j cfg (rt_subject rt) '''' rw w))"

definition handleToken :: "jose \<Rightarrow> mock_config \<Rightarrow> ('c, 's) idp_handler" where
  "handleToken j cfg r rw w =
     (let (post, ok) = ParseForm r; grant = query_get post ''grant_type'' in
      if \<not> ok then (writeTokenError ''invalid_request'' rw, w)
      else if \<not> authenticateClient cfg post r then (writeTokenError ''invalid_client'' rw, w)
      else if grant = ''authorization_code'' then handleAuthorizationCodeGrant j cfg post rw w
      else if grant = ''refresh_token'' then handleRefreshTokenGrant j cfg post rw w
      else (writeTokenError ''unsupported_grant_type'' rw, w))"

section \<open>The server\<close>

definition mock_routes :: "jose \<Rightarrow> mock_config \<Rightarrow> ('c, 's, mock_server) route list" where
  "mock_routes j cfg =
    [get_route [Lit ''.well-known'', Lit ''openid-configuration''] (handleDiscovery cfg),
     get_route [Lit ''jwks''] (handleJWKS j),
     get_route [Lit ''authorize''] (handleAuthorize j cfg),
     \<lparr>rt_method = ''POST'', rt_segs = [Lit ''token''], rt_handler = handleToken j cfg\<rparr>]"

text \<open>One request through the provider's server.\<close>

definition mock_serve :: "mux_style \<Rightarrow> jose \<Rightarrow> mock_config \<Rightarrow> 'c request \<Rightarrow> ('s, mock_server) world \<Rightarrow>
    rw \<times> ('s, mock_server) world" where
  "mock_serve ms j cfg r w =
     (let (rw, w') = mux_serve ms (mock_routes j cfg) None (r\<lparr>rq_pathvalue := (\<lambda>_. '''')\<rparr>) (new_rw None) w
      in (finish rw, w'))"

end
