(* ===== verification/MockFlow.thy ===== *)
theory MockFlow
  imports Mockoidc
begin

text \<open>
  What the provider of \<^verbatim>\<open>cmd/mockoidc\<close> enforces: when a code is exchanged, that it is exchanged at
  most once in any run, and what a refused authorization request leaves behind.
\<close>

section \<open>Answers\<close>

lemma status_writeJSON [simp]:
  "rw_status (writeJSON s v rw) = (case rw_status rw of None \<Rightarrow> Some s | Some d \<Rightarrow> Some d)"
  by (simp add: writeJSON_def encode_json_def split: option.split)

lemma status_writeTokenError [simp]:
  "rw_status (writeTokenError c rw) = (case rw_status rw of None \<Rightarrow> Some 400 | Some d \<Rightarrow> Some d)"
  by (simp add: writeTokenError_def)

lemma issueTokens_status:
  "rw_status rw = None \<Longrightarrow> rw_status (fst (issueTokens j cfg sub nonce rw w))
     = Some (if signIDToken j cfg (w_now w) sub nonce = None then 500 else 200)"
  by (simp add: issueTokens_def mock_randomToken_def Let_def split: option.split)

text \<open>The conditions under which a code is exchanged.\<close>

definition code_redeemable :: "jose \<Rightarrow> mock_config \<Rightarrow> qvalues \<Rightarrow> ('s, mock_server) world \<Rightarrow> authCode \<Rightarrow> bool" where
  "code_redeemable j cfg post w ac \<longleftrightarrow>
     ms_codes (w_idp w) (query_get post ''code'') = Some ac
     \<and> w_now w \<le> ac_expiresAt ac
     \<and> query_get post ''redirect_uri'' = ac_redirectURI ac
     \<and> query_get post ''code_verifier'' \<noteq> ''''
     \<and> rawURLEncode (Sum256 (query_get post ''code_verifier'')) = ac_codeChallenge ac
     \<and> signIDToken j cfg (w_now w) (ac_subject ac) (ac_nonce ac) \<noteq> None"

lemma code_grant_status:
  assumes "rw_status rw = None"
  shows "rw_status (fst (handleAuthorizationCodeGrant j cfg post rw w)) = Some 200 \<longleftrightarrow>
    (\<exists>ac. code_redeemable j cfg post w ac)"
  using assms
  by (auto simp: handleAuthorizationCodeGrant_def code_redeemable_def verifyPKCE_def Let_def issueTokens_status
      split: option.splits if_splits)

text \<open>
  C29: The provider enforces PKCE and the rest of the code's binding. A token request with the
  authorization code grant is answered 200 exactly when the client authenticates, the code was
  issued and not used, it has not expired, the redirect URI is the one it was issued for, the
  SHA-256 of a non-empty verifier is, in base64url, the challenge it was issued for, and the claims
  can be signed.
\<close>

theorem code_exchange_iff:
  assumes "ParseForm r = (post, True)" "query_get post ''grant_type'' = ''authorization_code''"
  shows "rw_status (fst (handleToken j cfg r (new_rw a) w)) = Some 200 \<longleftrightarrow>
    authenticateClient cfg post r \<and> (\<exists>ac. code_redeemable j cfg post w ac)"
  using assms code_grant_status [of "new_rw a" j cfg post w] by (simp add: handleToken_def Let_def)

section \<open>Steps of the provider\<close>

definition issued :: "mock_server \<Rightarrow> string set" where
  "issued s = (\<lambda>n. rawURLEncode (ms_draws s n)) ` {..<ms_drawn s}"

text \<open>A request uses up to two random draws; every code it leaves was there or comes from those draws.\<close>

definition idp_step :: "mock_server \<Rightarrow> mock_server \<Rightarrow> bool" where
  "idp_step s s' \<longleftrightarrow> ms_draws s' = ms_draws s \<and> ms_drawn s \<le> ms_drawn s' \<and> ms_drawn s' \<le> ms_drawn s + 2
     \<and> dom (ms_codes s') \<subseteq> dom (ms_codes s) \<union> (\<lambda>n. rawURLEncode (ms_draws s n)) ` {ms_drawn s..<ms_drawn s'}"

lemma idp_step_refl [simp]: "idp_step s s"
  by (simp add: idp_step_def)

lemma idp_step_issueTokens:
  "issueTokens j cfg sub nonce rw w = (rw', w') \<Longrightarrow> idp_step (w_idp w) (w_idp w') \<and> ms_codes (w_idp w') = ms_codes (w_idp w)"
  by (auto simp: issueTokens_def mock_randomToken_def idp_step_def Let_def split: option.splits)

lemma idp_step_codeGrant:
  assumes "handleAuthorizationCodeGrant j cfg post rw w = (rw', w')"
  shows "idp_step (w_idp w) (w_idp w')"
    and "ms_codes (w_idp w') (query_get post ''code'') = None"
proof -
  have i: "idp_step (w_idp w) (w_idp w') \<and> ms_codes (w_idp w') (query_get post ''code'') = None"
    if "issueTokens j cfg sub n rw (w\<lparr>w_idp := (w_idp w)\<lparr>ms_codes := (ms_codes (w_idp w))(query_get post ''code'' := None)\<rparr>\<rparr>) = (rw', w')"
    for sub n
    using idp_step_issueTokens [OF that] by (auto simp: idp_step_def)
  show "idp_step (w_idp w) (w_idp w')"
    using assms i by (auto simp: handleAuthorizationCodeGrant_def Let_def idp_step_def split: option.splits if_splits)
  show "ms_codes (w_idp w') (query_get post ''code'') = None"
    using assms i by (auto simp: handleAuthorizationCodeGrant_def Let_def split: option.splits if_splits)
qed

lemma idp_step_refreshGrant:
  "handleRefreshTokenGrant j cfg post rw w = (rw', w') \<Longrightarrow> idp_step (w_idp w) (w_idp w')"
  by (auto simp: handleRefreshTokenGrant_def dest: idp_step_issueTokens split: option.splits if_splits)

lemma idp_step_token:
  "handleToken j cfg r rw w = (rw', w') \<Longrightarrow> idp_step (w_idp w) (w_idp w')"
  by (auto simp: handleToken_def Let_def dest: idp_step_codeGrant(1) idp_step_refreshGrant split: prod.splits if_splits)

lemma idp_step_authorize:
  "handleAuthorize j cfg r rw w = (rw', w') \<Longrightarrow> idp_step (w_idp w) (w_idp w')"
  by (auto simp: handleAuthorize_def Let_def mock_randomToken_def idp_step_def split: option.splits if_splits)

lemma idp_step_serve:
  assumes "mock_serve ms j cfg r w = (rw', w')"
  shows "idp_step (w_idp w) (w_idp w')"
proof -
  obtain rw1 where m: "mux_serve ms (mock_routes j cfg) None (r\<lparr>rq_pathvalue := (\<lambda>_. '''')\<rparr>) (new_rw None) w = (rw1, w')"
    using assms by (auto simp: mock_serve_def split: prod.splits)
  from m show ?thesis
    by (cases rule: mux_serve_cases)
      (auto simp: mock_routes_def handleDiscovery_def handleJWKS_def Let_def
        dest: idp_step_authorize idp_step_token)
qed

section \<open>Runs\<close>

text \<open>
  The runs of a provider from its start, with the answers they gave: requests one after the other,
  and time passing between them.
\<close>

inductive idp_run :: "mux_style \<Rightarrow> jose \<Rightarrow> mock_config \<Rightarrow> (nat \<Rightarrow> bytes) \<Rightarrow>
    ('c request \<times> rw) list \<Rightarrow> ('s, mock_server) world \<Rightarrow> bool"
  for ms j cfg draws where
  start: "w_idp w = newServer draws \<Longrightarrow> idp_run ms j cfg draws [] w"
| serve: "idp_run ms j cfg draws tr w \<Longrightarrow> mock_serve ms j cfg r w = (rw, w') \<Longrightarrow>
    idp_run ms j cfg draws (tr @ [(r, rw)]) w'"
| tick: "idp_run ms j cfg draws tr w \<Longrightarrow> w_now w \<le> t \<Longrightarrow> idp_run ms j cfg draws tr (w\<lparr>w_now := t\<rparr>)"

text \<open>A request that exchanged the code \<open>c\<close>.\<close>

definition redeems :: "string \<Rightarrow> 'c request \<times> rw \<Rightarrow> bool" where
  "redeems c = (\<lambda>(r, rw). rq_path r = ''/token'' \<and> rq_method r = ''POST''
     \<and> query_get (fst (ParseForm r)) ''grant_type'' = ''authorization_code''
     \<and> query_get (fst (ParseForm r)) ''code'' = c \<and> rw_status rw = Some 200)"

lemma ParseForm_pathvalue [simp]: "ParseForm (r\<lparr>rq_pathvalue := v\<rparr>) = ParseForm r"
  by (simp add: ParseForm_def parsePostForm_def Let_def split_beta)

lemma mock_serve_token:
  assumes "rq_path r = ''/token''" "rq_method r = ''POST''"
  shows "mock_serve ms j cfg r w
    = (let (rw, w') = handleToken j cfg (r\<lparr>rq_pathvalue := path_values []\<rparr>) (new_rw None) w in (finish rw, w'))"
proof -
  have "segs_of ''/token'' = [''token'']" "clean_path ''/token'' = ''/token''" by code_simp+
  then show ?thesis
    using assms by (simp add: mock_serve_def mux_serve_def mux_dispatch_def mock_routes_def method_matches_def)
qed

lemma redeems_step:
  assumes "mock_serve ms j cfg r w = (rw, w')" "redeems c (r, rw)"
  shows "c \<in> dom (ms_codes (w_idp w)) \<and> c \<notin> dom (ms_codes (w_idp w'))"
proof -
  obtain post ok where p: "ParseForm r = (post, ok)" by fastforce
  with assms(2) have r: "rq_path r = ''/token''" "rq_method r = ''POST''"
      "query_get post ''grant_type'' = ''authorization_code''" "query_get post ''code'' = c" "rw_status rw = Some 200"
    by (auto simp: redeems_def)
  obtain rw1 where h: "handleToken j cfg (r\<lparr>rq_pathvalue := path_values []\<rparr>) (new_rw None) w = (rw1, w')" "rw = finish rw1"
    using assms(1) mock_serve_token [OF r(1,2), of ms j cfg w] by (auto split: prod.splits)
  have "rw_status rw1 \<noteq> Some 400 \<and> (rw_status rw1 = None \<or> rw_status rw1 = Some 200)"
    using r(5) h(2) by (auto split: option.splits)
  then have g: "handleAuthorizationCodeGrant j cfg post (new_rw None) w = (rw1, w')"
    using h(1) p r(3) by (auto simp: handleToken_def Let_def split: if_splits)
  then have "rw_status rw1 = Some 200 \<Longrightarrow> \<exists>ac. code_redeemable j cfg post w ac"
    using code_grant_status [of "new_rw None" j cfg post w] by simp
  moreover have "rw_status rw1 \<noteq> None"
    using g by (auto simp: handleAuthorizationCodeGrant_def Let_def issueTokens_def mock_randomToken_def
        split: option.splits if_splits)
  ultimately show ?thesis
    using h(2) r(4,5) idp_step_codeGrant(2) [OF g] by (auto simp: code_redeemable_def split: option.splits)
qed

lemma idp_run_draws: "idp_run ms j cfg draws tr w \<Longrightarrow> ms_draws (w_idp w) = draws"
  by (induction rule: idp_run.induct) (auto simp: newServer_def idp_step_def dest!: idp_step_serve)

lemma issued_mono: "idp_step s s' \<Longrightarrow> issued s \<subseteq> issued s'"
  by (auto simp: idp_step_def issued_def)

lemma codes_issued:
  assumes "idp_step s s'" "dom (ms_codes s) \<subseteq> issued s"
  shows "dom (ms_codes s') \<subseteq> issued s'"
proof -
  have "(\<lambda>n. rawURLEncode (ms_draws s n)) ` {ms_drawn s..<ms_drawn s'} \<subseteq> issued s'"
    using assms(1) by (auto simp: idp_step_def issued_def)
  then show ?thesis using assms issued_mono [OF assms(1)] unfolding idp_step_def by blast
qed

lemma fresh_codes:
  assumes "idp_step s s'" "inj_on (ms_draws s) {..<ms_drawn s'}" "c \<in> issued s" "c \<notin> dom (ms_codes s)"
  shows "c \<notin> dom (ms_codes s')"
proof
  assume "c \<in> dom (ms_codes s')"
  then have "c \<in> (\<lambda>n. rawURLEncode (ms_draws s n)) ` {ms_drawn s..<ms_drawn s'}"
    using assms(1,4) unfolding idp_step_def by blast
  then obtain n where n: "c = rawURLEncode (ms_draws s n)" "ms_drawn s \<le> n" "n < ms_drawn s'" by auto
  obtain m where m: "c = rawURLEncode (ms_draws s m)" "m < ms_drawn s" using assms(3) by (auto simp: issued_def)
  with n assms(2) show False by (auto simp: rawURLEncode_inject dest: inj_onD [where x = m and y = n])
qed

text \<open>At every point of a run a code that was exchanged once is gone and cannot come back.\<close>

lemma idp_run_once:
  assumes "idp_run ms j cfg draws tr w" "inj_on draws {..<ms_drawn (w_idp w)}"
  shows "dom (ms_codes (w_idp w)) \<subseteq> issued (w_idp w) \<and>
    (filter (redeems c) tr = [] \<or>
      (length (filter (redeems c) tr) = 1 \<and> c \<in> issued (w_idp w) \<and> c \<notin> dom (ms_codes (w_idp w))))"
  using assms
proof (induction rule: idp_run.induct)
  case (start w)
  then show ?case by (simp add: newServer_def)
next
  case (serve tr w r rw w')
  have st: "idp_step (w_idp w) (w_idp w')" by (rule idp_step_serve [OF serve.hyps(2)])
  have "{..<ms_drawn (w_idp w)} \<subseteq> {..<ms_drawn (w_idp w')}" using st by (auto simp: idp_step_def)
  then have less: "inj_on draws {..<ms_drawn (w_idp w)}" using serve.prems by (rule inj_on_subset [rotated])
  have d: "inj_on (ms_draws (w_idp w)) {..<ms_drawn (w_idp w')}"
    using serve.prems idp_run_draws [OF serve.hyps(1)] by simp
  have IH: "dom (ms_codes (w_idp w)) \<subseteq> issued (w_idp w)"
      "filter (redeems c) tr = [] \<or> (length (filter (redeems c) tr) = 1 \<and> c \<in> issued (w_idp w) \<and> c \<notin> dom (ms_codes (w_idp w)))"
    using serve.IH [OF less] by blast+
  have codes: "dom (ms_codes (w_idp w')) \<subseteq> issued (w_idp w')"
    by (rule codes_issued [OF st IH(1)])
  show ?case
  proof (cases "redeems c (r, rw)")
    case True
    have c: "c \<in> dom (ms_codes (w_idp w))" "c \<notin> dom (ms_codes (w_idp w'))"
      using redeems_step [OF serve.hyps(2) True] by blast+
    then have "filter (redeems c) tr = []" "c \<in> issued (w_idp w')"
      using IH issued_mono [OF st] by blast+
    with c(2) codes True show ?thesis by simp
  next
    case False
    then have f: "filter (redeems c) (tr @ [(r, rw)]) = filter (redeems c) tr" by simp
    show ?thesis unfolding f using IH(2) codes issued_mono [OF st] fresh_codes [OF st d, of c] by blast
  qed
next
  case (tick tr w t)
  then show ?case by simp
qed

text \<open>
  C28: A code is exchanged at most once. In any run of the provider, whatever requests arrive in
  whatever order and however much time passes, at most one token request with a given code is
  answered 200, so long as the random draws made so far differ.
\<close>

theorem code_redeemed_at_most_once:
  assumes "idp_run ms j cfg draws tr w" "inj_on draws {..<ms_drawn (w_idp w)}"
  shows "length (filter (redeems c) tr) \<le> 1"
  using idp_run_once [OF assms, of c] by auto

section \<open>From the authorization to the token\<close>

definition token_response :: "mock_config \<Rightarrow> string \<Rightarrow> string \<Rightarrow> string \<Rightarrow> json" where
  "token_response cfg idToken refresh access = JObj
     [(''access_token'', JStr access), (''expires_in'', JNum (formatInt (whole_seconds (mc_IDTokenTTL cfg)))),
      (''id_token'', JStr idToken), (''refresh_token'', JStr refresh), (''token_type'', JStr ''Bearer'')]"

lemma body_writeJSON: "rw_body (writeJSON s v (new_rw None)) = json_print v @ [CHR 0x0A]"
  by (simp add: writeJSON_def encode_json_def writer_defs new_rw_def Let_def)

lemma authorize_stored:
  assumes "handleAuthorize j cfg r (new_rw None) w = (rw', w')" "rw_status rw' = Some 302"
  shows "ms_codes (w_idp w') (rawURLEncode (ms_draws (w_idp w) (ms_drawn (w_idp w)))) = Some
      \<lparr>ac_subject = (if query_get (query_of r) ''login_hint'' = '''' then ''test-user@example.com''
         else query_get (query_of r) ''login_hint''),
       ac_redirectURI = query_get (query_of r) ''redirect_uri'', ac_nonce = query_get (query_of r) ''nonce'',
       ac_codeChallenge = query_get (query_of r) ''code_challenge'', ac_expiresAt = w_now w + minute\<rparr>"
    and "w_now w' = w_now w"
    and "query_get (query_of r) ''code_challenge_method'' = ''S256''" "query_get (query_of r) ''code_challenge'' \<noteq> ''''"
  using assms by (auto simp: handleAuthorize_def mock_randomToken_def Let_def split: if_splits option.splits)

lemma code_exchanged:
  assumes ac: "ms_codes (w_idp w2) code = Some ac" "\<not> ac_expiresAt ac < w_now w2"
    and token: "ParseForm r2 = (post, True)" "authenticateClient cfg post r2"
      "query_get post ''grant_type'' = ''authorization_code''" "query_get post ''code'' = code"
      "query_get post ''redirect_uri'' = ac_redirectURI ac"
    and verifier: "verifyPKCE (ac_codeChallenge ac) (query_get post ''code_verifier'')"
    and sign: "signIDToken j cfg (w_now w2) (ac_subject ac) (ac_nonce ac) = Some jwt"
    and run: "handleToken j cfg r2 (new_rw None) w2 = (rw', w')"
  shows "rw_status rw' = Some 200 \<and> ms_codes (w_idp w') code = None
    \<and> (\<exists>x y. rw_body rw' = json_print (token_response cfg jwt (rawURLEncode x) (rawURLEncode y)) @ [CHR 0x0A]
         \<and> ms_tokens (w_idp w') (rawURLEncode x) = Some \<lparr>rt_subject = ac_subject ac, rt_expiresAt = w_now w2 + 60 * minute\<rparr>)"
proof -
  let ?w = "w2\<lparr>w_idp := (w_idp w2)\<lparr>ms_codes := (ms_codes (w_idp w2))(code := None)\<rparr>\<rparr>"
  have "handleToken j cfg r2 (new_rw None) w2 = handleAuthorizationCodeGrant j cfg post (new_rw None) w2"
    using token by (simp add: handleToken_def Let_def)
  also have "\<dots> = issueTokens j cfg (ac_subject ac) (ac_nonce ac) (new_rw None) ?w"
    using ac token(4,5) verifier by (simp add: handleAuthorizationCodeGrant_def Let_def)
  finally have i: "issueTokens j cfg (ac_subject ac) (ac_nonce ac) (new_rw None) ?w = (rw', w')"
    using run by simp
  have codes: "ms_codes (w_idp w') code = None" using idp_step_issueTokens [OF i] by simp
  have sgn: "signIDToken j cfg (w_now ?w) (ac_subject ac) (ac_nonce ac) = Some jwt"
    using sign by simp
  from i have "rw' = writeJSON 200 (token_response cfg jwt (rawURLEncode (ms_draws (w_idp ?w) (ms_drawn (w_idp ?w))))
      (rawURLEncode (ms_draws (w_idp ?w) (Suc (ms_drawn (w_idp ?w)))))) (new_rw None)"
    "ms_tokens (w_idp w') (rawURLEncode (ms_draws (w_idp ?w) (ms_drawn (w_idp ?w))))
      = Some \<lparr>rt_subject = ac_subject ac, rt_expiresAt = w_now w2 + 60 * minute\<rparr>"
    unfolding issueTokens_def sgn by (auto simp: mock_randomToken_def token_response_def)
  with codes show ?thesis by (auto simp: body_writeJSON)
qed

text \<open>
  C30: A login at the provider completes. After a successful authorization request the client that
  presents the issued code within a minute, with the same redirect URI and a verifier whose SHA-256
  is the challenge it sent, gets tokens: 200 with an ID token signed over the requested subject and
  nonce, and a new refresh token for that subject; the code is gone.
\<close>

theorem code_flow_completes:
  assumes authorize: "handleAuthorize j cfg r (new_rw None) w = (rw1, w1)" "rw_status rw1 = Some 302"
    and code: "code = rawURLEncode (ms_draws (w_idp w) (ms_drawn (w_idp w)))"
    and later: "w_idp w2 = w_idp w1" "w_now w2 \<le> w_now w1 + minute"
    and token: "ParseForm r2 = (post, True)" "authenticateClient cfg post r2"
      "query_get post ''grant_type'' = ''authorization_code''" "query_get post ''code'' = code"
      "query_get post ''redirect_uri'' = query_get (query_of r) ''redirect_uri''"
    and verifier: "v = query_get post ''code_verifier''" "v \<noteq> ''''"
      "query_get (query_of r) ''code_challenge'' = rawURLEncode (Sum256 v)"
    and subject: "sub = (if query_get (query_of r) ''login_hint'' = '''' then ''test-user@example.com''
         else query_get (query_of r) ''login_hint'')"
    and sign: "signIDToken j cfg (w_now w2) sub (query_get (query_of r) ''nonce'') = Some jwt"
    and run: "handleToken j cfg r2 (new_rw None) w2 = (rw', w')"
  shows "rw_status rw' = Some 200 \<and> ms_codes (w_idp w') code = None
    \<and> (\<exists>refresh access. rw_body rw' = json_print (token_response cfg jwt refresh access) @ [CHR 0x0A]
         \<and> ms_tokens (w_idp w') refresh = Some \<lparr>rt_subject = sub, rt_expiresAt = w_now w2 + 60 * minute\<rparr>)"
proof -
  have "verifyPKCE (query_get (query_of r) ''code_challenge'') v" using verifier by (simp add: verifyPKCE_def)
  moreover have "\<not> w_now w + minute < w_now w2" using later(2) authorize_stored(2) [OF authorize] by simp
  moreover have "ms_codes (w_idp w2) code = Some \<lparr>ac_subject = sub, ac_redirectURI = query_get (query_of r) ''redirect_uri'',
      ac_nonce = query_get (query_of r) ''nonce'', ac_codeChallenge = query_get (query_of r) ''code_challenge'',
      ac_expiresAt = w_now w + minute\<rparr>"
    unfolding later(1) code subject by (rule authorize_stored(1) [OF authorize])
  ultimately have "rw_status rw' = Some 200 \<and> ms_codes (w_idp w') code = None
    \<and> (\<exists>x y. rw_body rw' = json_print (token_response cfg jwt (rawURLEncode x) (rawURLEncode y)) @ [CHR 0x0A]
         \<and> ms_tokens (w_idp w') (rawURLEncode x) = Some \<lparr>rt_subject = ac_subject
              \<lparr>ac_subject = sub, ac_redirectURI = query_get (query_of r) ''redirect_uri'',
               ac_nonce = query_get (query_of r) ''nonce'', ac_codeChallenge = query_get (query_of r) ''code_challenge'',
               ac_expiresAt = w_now w + minute\<rparr>, rt_expiresAt = w_now w2 + 60 * minute\<rparr>)"
    using token(5) verifier(1) sign by (intro code_exchanged [OF _ _ token(1-4) _ _ _ run]) simp_all
  then show ?thesis by auto
qed

text \<open>
  A refused authorization request can leave a code behind: where only the redirect URI does not
  parse, the request gets 400, and the code, which nobody was told, is stored all the same.
\<close>

theorem malformed_redirect_stores_code:
  assumes "query_get (query_of r) ''response_type'' = ''code''" "query_get (query_of r) ''client_id'' = mc_ClientID cfg"
    "query_get (query_of r) ''code_challenge_method'' = ''S256''" "query_get (query_of r) ''code_challenge'' \<noteq> ''''"
    "query_get (query_of r) ''redirect_uri'' \<noteq> ''''"
    "url_parse (js_ip6 j) (query_get (query_of r) ''redirect_uri'') = None"
  shows "rw_status (fst (handleAuthorize j cfg r (new_rw None) w)) = Some 400
    \<and> ms_codes (w_idp (snd (handleAuthorize j cfg r (new_rw None) w)))
        (rawURLEncode (ms_draws (w_idp w) (ms_drawn (w_idp w)))) \<noteq> None"
  using assms by (simp add: handleAuthorize_def mock_randomToken_def Let_def)

section \<open>A provider\<close>

definition demo_jose :: jose where
  "demo_jose = \<lparr>js_sign = (\<lambda>a k c. Some ''jwt''), js_jwk = (\<lambda>k a u. JObj [(''kid'', JStr k)]),
     js_ip6 = (\<lambda>_. False)\<rparr>"

definition demo_idp :: mock_config where
  "demo_idp = \<lparr>mc_ListenAddr = '':9999'', mc_IssuerURL = ''https://idp'', mc_ClientID = ''td'', mc_ClientSecret = ''s'',
     mc_IDTokenTTL = 5 * minute\<rparr>"

definition demo_draws :: "nat \<Rightarrow> bytes" where
  "demo_draws n = replicate 31 (CHR 0x00) @ [chr (n mod 256)]"

definition demo_idp_world :: "(unit, mock_server) world" where
  "demo_idp_world = \<lparr>w_kv = (), w_idp = newServer demo_draws, w_entropy = [], w_now = 0, w_sent = []\<rparr>"

definition demo_idp_request :: "string \<Rightarrow> string \<Rightarrow> qvalues \<Rightarrow> qvalues \<Rightarrow> unit request" where
  "demo_idp_request m p q body = \<lparr>rq_method = m, rq_path = p, rq_query = query_encode q,
     rq_header = (\<lambda>k. if k = ''Content-Type'' then [form_type] else []),
     rq_body = \<lparr>rd_chunks = [query_encode body], rd_fails = False\<rparr>, rq_pathvalue = (\<lambda>_. ''''), rq_ctx = None\<rparr>"

definition demo_authorize :: "string \<Rightarrow> unit request" where
  "demo_authorize redirect = demo_idp_request ''GET'' ''/authorize''
     [(''response_type'', ''code''), (''client_id'', ''td''), (''redirect_uri'', redirect), (''nonce'', ''n''),
      (''code_challenge_method'', ''S256''), (''code_challenge'', rawURLEncode (Sum256 ''v''))] []"

definition demo_post :: "string \<Rightarrow> qvalues" where
  "demo_post verifier = [(''grant_type'', ''authorization_code''), (''code'', rawURLEncode (demo_draws 0)),
     (''redirect_uri'', ''https://td/cb''), (''code_verifier'', verifier), (''client_id'', ''td''), (''client_secret'', ''s'')]"

definition demo_exchange_request :: "string \<Rightarrow> unit request" where
  "demo_exchange_request verifier = demo_idp_request ''POST'' ''/token'' [] (demo_post verifier)"

lemma demo_authorize_query:
  "query_get (query_of (demo_authorize u)) k = query_get
     [(''response_type'', ''code''), (''client_id'', ''td''), (''redirect_uri'', u), (''nonce'', ''n''),
      (''code_challenge_method'', ''S256''), (''code_challenge'', rawURLEncode (Sum256 ''v''))] k"
  by (simp add: query_of_def demo_authorize_def demo_idp_request_def query_get_encode)

lemma demo_authorize_values:
  "query_get (query_of (demo_authorize u)) ''response_type'' = ''code''"
  "query_get (query_of (demo_authorize u)) ''client_id'' = ''td''"
  "query_get (query_of (demo_authorize u)) ''redirect_uri'' = u"
  "query_get (query_of (demo_authorize u)) ''nonce'' = ''n''"
  "query_get (query_of (demo_authorize u)) ''state'' = ''''"
  "query_get (query_of (demo_authorize u)) ''login_hint'' = ''''"
  "query_get (query_of (demo_authorize u)) ''code_challenge_method'' = ''S256''"
  "query_get (query_of (demo_authorize u)) ''code_challenge'' = rawURLEncode (Sum256 ''v'')"
  unfolding demo_authorize_query by (simp_all add: query_get_def)

lemma Sum256_nonempty [simp]: "Sum256 v \<noteq> ''''"
  by (metis length_Sum256 list.size(3) zero_neq_numeral)

lemma demo_exchange_post:
  "ParseForm (demo_exchange_request ''v'') = (sort_key fst (demo_post ''v''), True)"
proof (rule ParseForm_post)
  have "length (query_encode (demo_post ''v'')) \<le> 1000" unfolding demo_post_def by code_simp
  then show "length (query_encode (demo_post ''v'')) \<le> maxFormSize" by (simp add: maxFormSize_def)
qed (simp_all add: demo_exchange_request_def demo_idp_request_def hdr_get_def, simp add: query_encode_def)

lemma demo_post_get: "query_get (sort_key fst (demo_post v)) k = query_get (demo_post v) k"
proof -
  have "distinct (map fst (demo_post v))" by (simp add: demo_post_def)
  from query_get_encode [OF this] show ?thesis by (simp add: parse_query_encode)
qed

lemma demo_client_ok: "authenticateClient demo_idp (sort_key fst (demo_post ''v'')) (demo_exchange_request ''v'')"
  by (simp add: authenticateClient_def demo_post_get BasicAuth_def hdr_get_def demo_exchange_request_def
      demo_idp_request_def) (simp add: demo_post_def query_get_def demo_idp_def)

lemma demo_authorize_ok:
  "rw_status (fst (handleAuthorize demo_jose demo_idp (demo_authorize ''https://td/cb'') (new_rw None) demo_idp_world)) = Some 302"
proof -
  have "url_parse (\<lambda>_. False) ''https://td/cb'' \<noteq> None" by code_simp
  then obtain u where "url_parse (\<lambda>_. False) ''https://td/cb'' = Some u" by blast
  then show ?thesis
    by (simp add: handleAuthorize_def demo_authorize_values demo_idp_def demo_jose_def
        mock_randomToken_def Let_def)
qed

text \<open>The provider after one authorization, and the exchange.\<close>

definition demo_authorized :: "(unit, mock_server) world" where
  "demo_authorized = snd (handleAuthorize demo_jose demo_idp (demo_authorize ''https://td/cb'') (new_rw None) demo_idp_world)"

lemma demo_authorized_run:
  obtains rw1 where "handleAuthorize demo_jose demo_idp (demo_authorize ''https://td/cb'') (new_rw None) demo_idp_world = (rw1, demo_authorized)"
    "rw_status rw1 = Some 302"
  using demo_authorize_ok by (simp add: demo_authorized_def) (metis prod.collapse)

lemmas demo_exchange_facts = demo_exchange_post demo_client_ok

lemma demo_post_values:
  "query_get (sort_key fst (demo_post v)) ''grant_type'' = ''authorization_code''"
  "query_get (sort_key fst (demo_post v)) ''code'' = rawURLEncode (demo_draws 0)"
  "query_get (sort_key fst (demo_post v)) ''redirect_uri'' = ''https://td/cb''"
  "query_get (sort_key fst (demo_post v)) ''code_verifier'' = v"
  unfolding demo_post_get by (simp_all add: demo_post_def query_get_def)

lemma demo_idp_start: "w_idp demo_idp_world = newServer demo_draws" "ms_draws (w_idp demo_idp_world) = demo_draws"
  "ms_drawn (w_idp demo_idp_world) = 0" "w_now demo_idp_world = 0"
  by (simp_all add: demo_idp_world_def newServer_def)

lemma code_flow_completes_witness:
  "rw_status (fst (handleToken demo_jose demo_idp (demo_exchange_request ''v'') (new_rw None) demo_authorized)) = Some 200"
proof -
  obtain rw1 where a: "handleAuthorize demo_jose demo_idp (demo_authorize ''https://td/cb'') (new_rw None) demo_idp_world = (rw1, demo_authorized)"
    "rw_status rw1 = Some 302" by (rule demo_authorized_run)
  obtain rw' w' where run: "handleToken demo_jose demo_idp (demo_exchange_request ''v'') (new_rw None) demo_authorized = (rw', w')"
    by fastforce
  have "rw_status rw' = Some 200 \<and> ms_codes (w_idp w') (rawURLEncode (demo_draws 0)) = None
    \<and> (\<exists>refresh access. rw_body rw' = json_print (token_response demo_idp ''jwt'' refresh access) @ [CHR 0x0A]
         \<and> ms_tokens (w_idp w') refresh = Some \<lparr>rt_subject = ''test-user@example.com'', rt_expiresAt = w_now demo_authorized + 60 * minute\<rparr>)"
    by (rule code_flow_completes [OF a _ _ _ demo_exchange_facts _ _ _ _ _ _ _ _ run])
      (simp_all add: demo_post_values demo_authorize_values demo_idp_start demo_jose_def newServer_def signIDToken_def)
  with run show ?thesis by simp
qed

lemma code_exchange_iff_witness:
  "rw_status (fst (handleToken demo_jose demo_idp (demo_exchange_request ''v'') (new_rw None) demo_idp_world)) \<noteq> Some 200"
proof -
  have "\<not> code_redeemable demo_jose demo_idp (sort_key fst (demo_post ''v'')) demo_idp_world ac" for ac
    by (simp add: code_redeemable_def demo_idp_start newServer_def)
  then show ?thesis
    using code_exchange_iff [OF demo_exchange_post demo_post_values(1), of demo_jose demo_idp None demo_idp_world] by simp
qed

lemma demo_serve_authorize:
  "mock_serve demo_style demo_jose demo_idp (demo_authorize u) w
    = (let (rw, w') = handleAuthorize demo_jose demo_idp (demo_authorize u\<lparr>rq_pathvalue := path_values []\<rparr>) (new_rw None) w in (finish rw, w'))"
proof -
  have "segs_of ''/authorize'' = [''authorize'']" "clean_path ''/authorize'' = ''/authorize''" by code_simp+
  moreover have "rq_path (demo_authorize u) = ''/authorize''" "rq_method (demo_authorize u) = ''GET''"
    by (simp_all add: demo_authorize_def demo_idp_request_def)
  ultimately show ?thesis
    by (simp add: mock_serve_def mux_serve_def mux_dispatch_def mock_routes_def method_matches_def)
qed

lemma demo_pathvalue: "demo_authorize u\<lparr>rq_pathvalue := path_values []\<rparr> = demo_authorize u"
    "demo_exchange_request v\<lparr>rq_pathvalue := path_values []\<rparr> = demo_exchange_request v"
  by (simp_all add: demo_authorize_def demo_exchange_request_def demo_idp_request_def path_values_def fun_eq_iff)

lemma code_redeemed_at_most_once_witness:
  "\<exists>(tr :: (unit request \<times> rw) list) (w :: (unit, mock_server) world). idp_run demo_style demo_jose demo_idp demo_draws tr w
    \<and> length tr = 3 \<and> length (filter (redeems (rawURLEncode (demo_draws 0))) tr) \<le> 1"
proof -
  let ?serve = "mock_serve demo_style demo_jose demo_idp"
  let ?a = "demo_authorize ''https://td/cb''" and ?t = "demo_exchange_request ''v''"
  obtain rw1 w1 where s1: "?serve ?a demo_idp_world = (rw1, w1)" by fastforce
  obtain rw2 w2 where s2: "?serve ?t w1 = (rw2, w2)" by fastforce
  obtain rw3 w3 where s3: "?serve ?t w2 = (rw3, w3)" by fastforce
  have run: "idp_run demo_style demo_jose demo_idp demo_draws (([(?a, rw1)] @ [(?t, rw2)]) @ [(?t, rw3)]) w3"
    using idp_run.serve [OF idp_run.serve [OF idp_run.serve [OF idp_run.start [OF demo_idp_start(1)] s1] s2] s3] by simp
  have "ms_drawn (w_idp w3) \<le> 6"
    using idp_step_serve [OF s1] idp_step_serve [OF s2] idp_step_serve [OF s3] demo_idp_start(3)
    by (simp add: idp_step_def)
  then have "inj_on demo_draws {..<ms_drawn (w_idp w3)}"
    by (auto simp: inj_on_def demo_draws_def dest: arg_cong [where f = "\<lambda>c. ord c"])
  then have "length (filter (redeems (rawURLEncode (demo_draws 0))) (([(?a, rw1)] @ [(?t, rw2)]) @ [(?t, rw3)])) \<le> 1"
    by (rule code_redeemed_at_most_once [OF run])
  with run show ?thesis by (intro exI [of _ "([(?a, rw1)] @ [(?t, rw2)]) @ [(?t, rw3)]"] exI [of _ w3]) simp
qed

lemma malformed_redirect_stores_code_witness:
  "rw_status (fst (handleAuthorize demo_jose demo_idp (demo_authorize ''%'') (new_rw None) demo_idp_world)) = Some 400"
proof -
  have "url_parse (\<lambda>_. False) ''%'' = None" by code_simp
  then show ?thesis
    using malformed_redirect_stores_code [of "demo_authorize ''%''" demo_idp demo_jose demo_idp_world]
    by (simp add: demo_authorize_values) (simp add: demo_idp_def demo_jose_def)
qed

end
