(* ===== verification/Lifecycle.thy ===== *)
theory Lifecycle
  imports Responses
begin

text \<open>
  The server as a state machine: every world that requests, the passing of time, the eviction of
  keys and the changes outside can lead to from an empty store. The invariant describes what the
  store then holds; with it no session outlives its token.
\<close>

section \<open>What the store holds\<close>

text \<open>An entry is a session or a login transaction: its key, what it opens to, when it expires.\<close>

definition session_entry :: "encryptor \<Rightarrow> string \<Rightarrow> bytes \<times> go_time option \<Rightarrow> bool" where
  "session_entry e k en \<longleftrightarrow> (\<exists>sid rec x. k = sessionKeyPrefix @ sid \<and> length sid = 43 \<and> list_all url_safe sid
     \<and> Option.bind (enc_open e (fst en)) unmarshalRecord = Some rec
     \<and> snd en = Some x \<and> x \<le> ExpiresAt rec + millisecond)"

definition login_entry :: "encryptor \<Rightarrow> string \<Rightarrow> bytes \<times> go_time option \<Rightarrow> bool" where
  "login_entry e k en \<longleftrightarrow> (\<exists>s txn x. k = loginKeyPrefix @ s \<and> length s = 43 \<and> list_all url_safe s
     \<and> Option.bind (enc_open e (fst en)) unmarshalTxn = Some txn
     \<and> snd en = Some x \<and> x \<le> TxnCreatedAt txn + loginTransactionTTL)"

definition store_inv :: "encryptor \<Rightarrow> kv_view \<Rightarrow> bool" where
  "store_inv e m \<longleftrightarrow> (\<forall>k en. m k = Some en \<longrightarrow> session_entry e k en \<or> login_entry e k en)"

lemma store_inv_empty [simp]: "store_inv e Map.empty"
  by (simp add: store_inv_def)

lemma store_inv_removed: "store_inv e m \<Longrightarrow> m' = m \<or> removed m m' k \<Longrightarrow> store_inv e m'"
  unfolding store_inv_def removed_def by (metis fun_upd_apply option.distinct(1))

lemma store_inv_add:
  assumes "store_inv e m" "\<And>k'. k' \<noteq> k \<Longrightarrow> m' k' = m k'"
    and "m' k = m k \<or> (\<exists>en. m' k = Some en \<and> (session_entry e k en \<or> login_entry e k en))"
  shows "store_inv e m'"
  unfolding store_inv_def
proof (intro allI impI)
  fix k' en assume "m' k' = Some en"
  with assms show "session_entry e k' en \<or> login_entry e k' en"
    unfolding store_inv_def by (metis option.inject)
qed

context kv_expiring
begin

lemma put_entry:
  assumes "store_put \<lparr>st_backend = b, st_enc = e\<rparr> k v ttl w = (r, w')" "0 < ttl"
  shows "view (w_kv w') k = view (w_kv w) k
    \<or> (\<exists>p c x. v = Some p \<and> enc_open e c = Some p \<and> view (w_kv w') k = Some (c, Some x) \<and> x \<le> w_now w + max ttl millisecond)"
proof (cases v)
  case None
  with assms(1) show ?thesis by (simp add: store_put_def)
next
  case (Some p)
  obtain y w1 where s: "enc_seal e p w = (y, w1)" by fastforce
  have w1: "w_kv w1 = w_kv w" "w_now w1 = w_now w" using quiet_enc_seal [OF s] by (simp_all add: quietD)
  show ?thesis
  proof (cases y)
    case None
    with assms(1) s w1 Some show ?thesis by (simp add: store_put_def)
  next
    case c: (Some c)
    obtain er s' where b: "b_set b (w_kv w) (w_now w) k c ttl = (er, s')" by fastforce
    then have "w_kv w' = s'" using assms(1) s c Some w1 by (auto simp: store_put_def)
    with set_expiry [OF b assms(2)] Some enc_open_seal [OF s [unfolded c]] show ?thesis by auto
  qed
qed

lemma createSession_inv:
  assumes run: "createSession \<lparr>st_backend = b, st_enc = e\<rparr> rec ttl w = (r, w')"
    and ttl: "0 < ttl" "w_now w + ttl \<le> ExpiresAt rec" and utf: "record_text_ok rec"
    and inv: "store_inv e (view (w_kv w))"
  shows "store_inv e (view (w_kv w'))"
proof (cases "\<exists>sid w1. generateID w = (Some sid, w1)")
  case False
  then have "\<exists>w1. generateID w = (None, w1) \<and> w' = w1"
    using run by (auto simp: createSession_def split: prod.splits option.splits)
  then show ?thesis using inv by (auto dest!: quiet_generateID simp: quietD)
next
  case True
  then obtain sid w1 where g: "generateID w = (Some sid, w1)" by blast
  obtain x w2 where p: "store_put \<lparr>st_backend = b, st_enc = e\<rparr> (sessionKeyPrefix @ sid) (marshalRecord rec) ttl w1 = (x, w2)"
    by fastforce
  have w1: "w_kv w1 = w_kv w" "w_now w1 = w_now w" using quiet_generateID [OF g] by (simp_all add: quietD)
  have w': "w' = w2" using run g p by (auto simp: createSession_def split: option.splits)
  have sid: "length sid = 43" "list_all url_safe sid" using generateID_Some [OF g] by blast+
  have "max ttl millisecond \<le> ExpiresAt rec - w_now w + millisecond" using ttl by (simp add: max_def)
  then have "session_entry e (sessionKeyPrefix @ sid) (c, Some y)"
    if "marshalRecord rec = Some t" "enc_open e c = Some t" "y \<le> w_now w + max ttl millisecond" for t c y
    using that sid unmarshal_marshalRecord [OF that(1) utf] by (auto simp: session_entry_def)
  with put_entry [OF p ttl(1)] w1
  have "view (w_kv w2) (sessionKeyPrefix @ sid) = view (w_kv w) (sessionKeyPrefix @ sid)
      \<or> (\<exists>en. view (w_kv w2) (sessionKeyPrefix @ sid) = Some en \<and> session_entry e (sessionKeyPrefix @ sid) en)"
    by auto
  moreover have "view (w_kv w2) k' = view (w_kv w) k'" if "k' \<noteq> sessionKeyPrefix @ sid" for k'
    using put_other [OF p ttl(1) that] w1 by simp
  ultimately show ?thesis unfolding w' by (intro store_inv_add [OF inv]) blast+
qed

lemma createLogin_inv:
  assumes run: "createLoginTransaction \<lparr>st_backend = b, st_enc = e\<rparr> txn loginTransactionTTL w = (r, w')"
    and utf: "txn_text_ok txn" "TxnCreatedAt txn = w_now w" and inv: "store_inv e (view (w_kv w))"
  shows "store_inv e (view (w_kv w'))"
proof (cases "\<exists>s w1. generateID w = (Some s, w1)")
  case False
  then have "\<exists>w1. generateID w = (None, w1) \<and> w' = w1"
    using run by (auto simp: createLoginTransaction_def split: prod.splits option.splits)
  then show ?thesis using inv by (auto dest!: quiet_generateID simp: quietD)
next
  case True
  then obtain s w1 where g: "generateID w = (Some s, w1)" by blast
  obtain x w2 where p: "store_put \<lparr>st_backend = b, st_enc = e\<rparr> (loginKeyPrefix @ s) (marshalTxn txn) loginTransactionTTL w1 = (x, w2)"
    by fastforce
  have ttl: "0 < loginTransactionTTL" "max loginTransactionTTL millisecond = loginTransactionTTL"
    by (simp_all add: loginTransactionTTL_def)
  have w1: "w_kv w1 = w_kv w" "w_now w1 = w_now w" using quiet_generateID [OF g] by (simp_all add: quietD)
  have w': "w' = w2" using run g p by (auto simp: createLoginTransaction_def split: option.splits)
  have s: "length s = 43" "list_all url_safe s" using generateID_Some [OF g] by blast+
  have "login_entry e (loginKeyPrefix @ s) (c, Some y)"
    if "marshalTxn txn = Some t" "enc_open e c = Some t" "y \<le> w_now w + loginTransactionTTL" for t c y
    using that s unmarshal_marshalTxn [OF that(1) utf(1)] by (auto simp: login_entry_def utf(2))
  with put_entry [OF p ttl(1)] w1 ttl(2)
  have "view (w_kv w2) (loginKeyPrefix @ s) = view (w_kv w) (loginKeyPrefix @ s)
      \<or> (\<exists>en. view (w_kv w2) (loginKeyPrefix @ s) = Some en \<and> login_entry e (loginKeyPrefix @ s) en)"
    by auto
  moreover have "view (w_kv w2) k' = view (w_kv w) k'" if "k' \<noteq> loginKeyPrefix @ s" for k'
    using put_other [OF p ttl(1) that] w1 by simp
  ultimately show ?thesis unfolding w' by (intro store_inv_add [OF inv]) blast+
qed

lemma take_inv:
  assumes "takeLoginTransaction \<lparr>st_backend = b, st_enc = e\<rparr> s w = (r, w')" "store_inv e (view (w_kv w))"
  shows "store_inv e (view (w_kv w'))"
  using assms
  by (auto simp: takeLoginTransaction_def split: prod.splits sum.splits option.splits
      dest!: getdel_view intro: store_inv_removed)

lemma del_view: "b_del b s t k = (r, s') \<Longrightarrow> view s' = view s \<or> removed (view s) (view s') k"
  by (cases r) (auto dest: del_ok del_err)

lemma delete_inv:
  assumes "deleteSession \<lparr>st_backend = b, st_enc = e\<rparr> s w = (r, w')" "store_inv e (view (w_kv w))"
  shows "store_inv e (view (w_kv w'))"
  using assms by (auto simp: deleteSession_def split: prod.splits dest!: del_view intro: store_inv_removed)

lemma get_inv:
  assumes "getSession \<lparr>st_backend = b, st_enc = e\<rparr> s w = (r, w')" "store_inv e (view (w_kv w))"
  shows "store_inv e (view (w_kv w'))"
  using assms getSession_view by metis

lemma ping_inv:
  assumes "store_ping \<lparr>st_backend = b, st_enc = e\<rparr> w = (r, w')" "store_inv e (view (w_kv w))"
  shows "store_inv e (view (w_kv w'))"
  using assms ping_view by (fastforce simp: store_ping_def split: prod.splits)

lemmas op_inv = take_inv delete_inv get_inv ping_inv

end

section \<open>The handlers keep it\<close>

text \<open>The deployment: its party, its backend, its key, the mode and the origin.\<close>

definition handler_on :: "'i party \<Rightarrow> 's backend \<Rightarrow> encryptor \<Rightarrow> bool \<Rightarrow> string \<Rightarrow> ('s, 'i) Handler" where
  "handler_on p b e i orig = \<lparr>h_party = p, h_store = \<lparr>st_backend = b, st_enc = e\<rparr>, h_insecure = i, h_externalOrigin = orig\<rparr>"

lemma handler_on_simps [simp]:
  "h_party (handler_on p b e i orig) = p" "h_store (handler_on p b e i orig) = \<lparr>st_backend = b, st_enc = e\<rparr>"
  "h_insecure (handler_on p b e i orig) = i" "h_externalOrigin (handler_on p b e i orig) = orig"
  by (simp_all add: handler_on_def)

lemma randomToken_utf8: "randomToken w = (Some t, w') \<Longrightarrow> valid_utf8 t"
  by (auto simp: randomToken_def rawURLEncode_utf8 split: prod.splits option.splits)

context kv_expiring
begin

abbreviation inv_world :: "encryptor \<Rightarrow> ('s, 'i) world \<Rightarrow> bool" where
  "inv_world e w \<equiv> store_inv e (view (w_kv w))"

lemma randomToken_inv: "randomToken w = (r, w') \<Longrightarrow> inv_world e w \<Longrightarrow> inv_world e w' \<and> w_now w' = w_now w"
  by (auto dest!: quiet_randomToken simp: quietD)

lemma login_inv:
  assumes "LoginHandler (handler_on p b e i orig) r rw w = (rw', w')" "inv_world e w"
  shows "inv_world e w'"
proof -
  obtain x w1 where n: "randomToken w = (x, w1)" by fastforce
  obtain y w2 where v: "randomToken w1 = (y, w2)" by fastforce
  have i1: "inv_world e w1" "w_now w1 = w_now w" using randomToken_inv [OF n assms(2)] by simp_all
  have i2: "inv_world e w2" "w_now w2 = w_now w" using randomToken_inv [OF v i1(1)] i1(2) by simp_all
  show ?thesis
  proof (cases "\<exists>nonce verifier. x = Some nonce \<and> y = Some verifier")
    case False
    then have "w' = w1 \<or> w' = w2"
      using assms(1) n v by (auto simp: LoginHandler_def split: option.splits)
    with i1 i2 show ?thesis by auto
  next
    case True
    then obtain nonce verifier where xy: "x = Some nonce" "y = Some verifier" by blast
    let ?txn = "\<lparr>Nonce = nonce, PKCEVerifier = verifier, TxnCreatedAt = w_now w2\<rparr>"
    obtain z w3 where c: "createLoginTransaction \<lparr>st_backend = b, st_enc = e\<rparr> ?txn loginTransactionTTL w2 = (z, w3)"
      by fastforce
    have "w' = w3" using assms(1) n v xy c by (auto simp: LoginHandler_def Let_def split: sum.splits)
    moreover have "txn_text_ok ?txn"
      using n v xy by (auto simp: txn_text_ok_def dest: randomToken_utf8)
    ultimately show ?thesis using createLogin_inv [OF c] i2(1) by simp
  qed
qed

lemma callback_session_inv:
  assumes "callback_session (handler_on p b e i orig) tok r rw w = (rw', w')" "inv_world e w"
    and utf: "valid_utf8 (tk_subject tok)" "valid_utf8 (tk_id_token tok)"
  shows "inv_world e w'"
proof (cases "time_until (w_now w) (tk_expiration tok) \<le> 0")
  case True
  with assms(1,2) show ?thesis by (simp add: callback_session_def)
next
  case False
  obtain x w1 where n: "randomToken w = (x, w1)" by fastforce
  have i1: "inv_world e w1" "w_now w1 = w_now w" using randomToken_inv [OF n assms(2)] by simp_all
  show ?thesis
  proof (cases x)
    case None
    with assms(1) n False i1 show ?thesis by (simp add: callback_session_def)
  next
    case (Some csrf)
    let ?rec = "\<lparr>Subject = tk_subject tok, IDToken = tk_id_token tok, ExpiresAt = tk_expiration tok,
                   CreatedAt = w_now w1, CSRFToken = csrf\<rparr>"
    obtain z w2 where c: "createSession \<lparr>st_backend = b, st_enc = e\<rparr> ?rec (time_until (w_now w) (tk_expiration tok)) w1 = (z, w2)"
      by fastforce
    have "w' = w2" using assms(1) n Some False c by (auto simp: callback_session_def Let_def split: sum.splits)
    moreover have "record_text_ok ?rec" using utf n Some by (auto simp: record_text_ok_def dest: randomToken_utf8)
    moreover have "w_now w1 + time_until (w_now w) (tk_expiration tok) \<le> tk_expiration tok"
      using False i1(2) time_until_le [of "w_now w" "tk_expiration tok"] time_until_pos [of "w_now w" "tk_expiration tok"]
      by simp
    ultimately show ?thesis using createSession_inv [OF c] False i1(1) by simp
  qed
qed

lemma callback_inv:
  assumes "CallbackHandler (handler_on p b e i orig) r rw w = (rw', w')" "inv_world e w" "exchange_utf8 p"
  shows "inv_world e w'"
proof -
  have ex: "inv_world e w''"
    if "callback_exchange (handler_on p b e i orig) txn r rw1 w1 = (rw'', w'')" "inv_world e w1" for txn rw1 w1 rw'' w''
    using that exchange_utf8D [OF assms(3)]
    by (auto simp: callback_exchange_def Let_def split: if_splits prod.splits option.splits
        dest!: callback_session_inv)
  show ?thesis using assms(1,2)
    by (auto simp: CallbackHandler_def Let_def split: option.splits if_splits prod.splits sum.splits
        dest: take_inv ex)
qed

lemma session_inv:
  "SessionHandler (handler_on p b e i orig) r rw w = (rw', w') \<Longrightarrow> inv_world e w \<Longrightarrow> inv_world e w'"
  by (auto simp: SessionHandler_def session_status_def Let_def split: if_splits option.splits prod.splits sum.splits
      dest: get_inv)

lemma logout_inv:
  "LogoutHandler (handler_on p b e i orig) r rw w = (rw', w') \<Longrightarrow> inv_world e w \<Longrightarrow> inv_world e w'"
  by (auto simp: LogoutHandler_def split: if_splits option.splits prod.splits sum.splits
      dest: get_inv delete_inv)

lemma readyz_inv:
  "readyzHandler \<lparr>st_backend = b, st_enc = e\<rparr> r rw w = (rw', w') \<Longrightarrow> inv_world e w \<Longrightarrow> inv_world e w'"
  by (auto simp: readyzHandler_def split: prod.splits option.splits dest: ping_inv)

lemma requireSession_inv:
  assumes "requireSession \<lparr>st_backend = b, st_enc = e\<rparr> i h r rw w = (rw', w')" "keeps_to c h" "inv_world e w"
  shows "inv_world e w'"
proof -
  have h: "w_kv w'' = w_kv w1" if "h (r\<lparr>rq_ctx := Some rec\<rparr>) rw w1 = (rw'', w'')" for rec w1 rw'' w''
    using assms(2) that sendsD(1) by (fastforce simp: keeps_to_def)
  show ?thesis using assms(1,3)
    by (auto simp: requireSession_def split: option.splits prod.splits sum.splits dest!: h dest: get_inv)
qed

lemma route_inv:
  assumes "rt \<in> set (route_table (handler_on p b e i orig) \<lparr>st_backend = b, st_enc = e\<rparr> c i)"
    and "rt_handler rt r rw w = (rw', w')" "inv_world e w" "exchange_utf8 p"
  shows "inv_world e w'"
proof (cases "rt \<in> set (public_routes (handler_on p b e i orig) \<lparr>st_backend = b, st_enc = e\<rparr>)")
  case True
  with assms(2-4) show ?thesis
    by (auto simp: public_routes_def livezHandler_def
        dest: login_inv callback_inv session_inv logout_inv readyz_inv)
next
  case False
  then obtain segs h where "(segs, h) \<in> set (api_table c)" "rt_handler rt = requireSession \<lparr>st_backend = b, st_enc = e\<rparr> i h"
    using assms(1) by (auto simp: route_table_def api_routes_def)
  with requireSession_inv [OF _ api_table_keeps_to] assms(2,3) show ?thesis by auto
qed

end

section \<open>Reachable worlds\<close>

text \<open>The static handler of the frontend leaves the world alone.\<close>

definition leaves_world :: "('c, 's, 'i) handler \<Rightarrow> bool" where
  "leaves_world h \<longleftrightarrow> (\<forall>r rw w. snd (h r rw w) = w)"

inductive reachable :: "(Record, 's, 'i) handler \<Rightarrow> ('s \<Rightarrow> kv_view) \<Rightarrow> ('s, 'i) world \<Rightarrow> bool" for router view where
  empty: "view (w_kv w) = Map.empty \<Longrightarrow> reachable router view w"
| request: "reachable router view w \<Longrightarrow> serve router a r w = (rw, w') \<Longrightarrow> reachable router view w'"
| tick: "reachable router view w \<Longrightarrow> w_now w \<le> t \<Longrightarrow> reachable router view (w\<lparr>w_now := t\<rparr>)"
| evict: "reachable router view w \<Longrightarrow> view s = (view (w_kv w))(k := None) \<Longrightarrow> reachable router view (w\<lparr>w_kv := s\<rparr>)"
| outside: "reachable router view w \<Longrightarrow>
    reachable router view (w\<lparr>w_idp := idp, w_entropy := bytes, w_sent := sent\<rparr>)"

lemma reachable_inv:
  assumes "reachable (NewRouter ms (handler_on p b e i orig) \<lparr>st_backend = b, st_enc = e\<rparr> c i frontend) view w"
    and kv: "kv_expiring b view" and party: "exchange_utf8 p" and front: "\<And>h. frontend = Some h \<Longrightarrow> leaves_world h"
  shows "store_inv e (view (w_kv w))"
  using assms(1)
proof (induction rule: reachable.induct)
  case (request w a r rw w')
  let ?rt = "route_table (handler_on p b e i orig) \<lparr>st_backend = b, st_enc = e\<rparr> c i"
  let ?r = "r\<lparr>rq_ctx := None, rq_pathvalue := (\<lambda>_. '''')\<rparr>"
  obtain rw1 where m: "mux_serve ms ?rt frontend ?r (set_security_headers i (new_rw a)) w = (rw1, w')"
    using request.hyps(2) by (auto simp: serve_def NewRouter_def securityHeaders_def split: prod.splits)
  from m show ?case
  proof (cases rule: mux_serve_cases)
    case (route rt vals)
    from kv_expiring.route_inv [OF kv route(1,2) request.IH party] show ?thesis .
  next
    case (catchall h)
    then have "w_kv w' = w_kv w" using front unfolding leaves_world_def by (metis snd_conv)
    with request.IH show ?thesis by simp
  qed (use request.IH in simp)
next
  case (evict w s k)
  have "store_inv e (view s)"
    by (rule store_inv_removed [OF evict.IH, where k = k], rule disjI2) (simp only: removed_def evict.hyps(2))
  then show ?case by simp
qed simp_all

lemma session_of_entry:
  assumes "store_inv e m" "session_at e m t sid = Some rec"
  shows "t < ExpiresAt rec + millisecond"
proof -
  obtain c where c: "live m t (sessionKeyPrefix @ sid) = Some c" "Option.bind (enc_open e c) unmarshalRecord = Some rec"
    using assms(2) by (auto simp: session_at_def bind_eq_Some_conv)
  then obtain x where x: "m (sessionKeyPrefix @ sid) = Some (c, x)" "\<And>y. x = Some y \<Longrightarrow> t < y"
    by (auto simp: live_def split: option.splits if_splits)
  have "\<not> login_entry e (sessionKeyPrefix @ sid) (c, x)" by (auto simp: login_entry_def)
  with assms(1) x(1) have "session_entry e (sessionKeyPrefix @ sid) (c, x)" by (auto simp: store_inv_def)
  then obtain y where "x = Some y" "y \<le> ExpiresAt rec + millisecond" using c(2) by (auto simp: session_entry_def)
  with x(2) show ?thesis by fastforce
qed

section \<open>Properties of every reachable world\<close>



end
