(* ===== verification/Available.thy ===== *)
theory Available
  imports LoginFlow BackendInstances
begin

text \<open>
  What the store and the login flow achieve when nothing fails: while the store's server answers
  (\<open>up\<close>), and with enough randomness, sessions and login transactions are stored and found, and a
  login that the identity provider confirms ends in a session.
\<close>

section \<open>A store that answers\<close>

locale kv_available = kv_contract b view for b :: "'s backend" and view :: "'s \<Rightarrow> kv_view" +
  fixes up :: "'s \<Rightarrow> bool"
  assumes set_up: "up s \<Longrightarrow> 0 < ttl \<Longrightarrow> \<exists>s'. b_set b s t k v ttl = (None, s') \<and> up s'"
    and get_up: "up s \<Longrightarrow> live (view s) t k = Some v \<Longrightarrow> \<exists>s'. b_get b s t k = (Inr v, s') \<and> up s'"
    and getdel_up: "up s \<Longrightarrow> live (view s) t k = Some v \<Longrightarrow> \<exists>s'. b_getdel b s t k = (Inr v, s') \<and> up s'"
begin

lemma put_up:
  assumes "up (w_kv w)" "12 \<le> length (w_entropy w)" "0 < ttl"
  shows "\<exists>w'. store_put \<lparr>st_backend = b, st_enc = e\<rparr> k (Some p) ttl w = (None, w') \<and> up (w_kv w')
    \<and> w_entropy w' = drop 12 (w_entropy w) \<and> w_now w' = w_now w \<and> w_idp w' = w_idp w
    \<and> (\<exists>c. enc_open e c = Some p \<and> (\<forall>t. t \<le> w_now w + ttl - millisecond \<or> t = w_now w \<longrightarrow> live (view (w_kv w')) t k = Some c))"
proof -
  let ?n = "take 12 (w_entropy w)" and ?w = "w\<lparr>w_entropy := drop 12 (w_entropy w)\<rparr>"
  let ?c = "?n @ gcm_seal (enc_key e) ?n p"
  have s: "enc_seal e p w = (Some ?c, ?w)"
    using assms(2) by (simp add: enc_seal_def read_random_def gcm_nonce_size_def)
  obtain s' where b: "b_set b (w_kv w) (w_now w) k ?c ttl = (None, s')" "up s'" using set_up [OF assms(1,3)] by blast
  obtain x where x: "view s' = (view (w_kv w))(k \<mapsto> (?c, x))" "\<And>y. x = Some y \<Longrightarrow> w_now w < y \<and> w_now w + ttl - millisecond < y"
    using set_ok [OF b(1) assms(3)] by (auto simp: stored_as_def)
  have "live (view s') t k = Some ?c" if "t \<le> w_now w + ttl - millisecond \<or> t = w_now w" for t
    using that x by (cases x) (fastforce simp: live_def)+
  moreover have "store_put \<lparr>st_backend = b, st_enc = e\<rparr> k (Some p) ttl w = (None, ?w\<lparr>w_kv := s'\<rparr>)"
    using s b by (simp add: store_put_def)
  ultimately show ?thesis using enc_open_seal [OF s] b(2) by (intro exI [of _ "?w\<lparr>w_kv := s'\<rparr>"]) auto
qed

lemma generateID_up:
  "32 \<le> length (w_entropy w) \<Longrightarrow>
   generateID w = (Some (rawURLEncode (take 32 (w_entropy w))), w\<lparr>w_entropy := drop 32 (w_entropy w)\<rparr>)"
  by (simp add: generateID_def read_random_def idByteLength_def)

lemma createSession_up:
  assumes "up (w_kv w)" "44 \<le> length (w_entropy w)" "0 < ttl" "marshalRecord rec \<noteq> None" "record_text_ok rec"
  shows "\<exists>sid w'. createSession \<lparr>st_backend = b, st_enc = e\<rparr> rec ttl w = (Inr sid, w') \<and> up (w_kv w')
    \<and> w_entropy w' = drop 44 (w_entropy w) \<and> w_now w' = w_now w \<and> w_idp w' = w_idp w
    \<and> sid = rawURLEncode (take 32 (w_entropy w))
    \<and> (\<forall>t. t \<le> w_now w + ttl - millisecond \<or> t = w_now w \<longrightarrow> session_at e (view (w_kv w')) t sid = Some rec)"
proof -
  let ?w = "w\<lparr>w_entropy := drop 32 (w_entropy w)\<rparr>" and ?sid = "rawURLEncode (take 32 (w_entropy w))"
  obtain p where p: "marshalRecord rec = Some p" using assms(4) by blast
  have "up (w_kv ?w)" "12 \<le> length (w_entropy ?w)" using assms(1,2) by simp_all
  from put_up [OF this assms(3), of e "sessionKeyPrefix @ ?sid" p] obtain w' c where
    w': "store_put \<lparr>st_backend = b, st_enc = e\<rparr> (sessionKeyPrefix @ ?sid) (Some p) ttl ?w = (None, w')" "up (w_kv w')"
      "w_entropy w' = drop 12 (w_entropy ?w)" "w_now w' = w_now w" "w_idp w' = w_idp w" "enc_open e c = Some p"
      "\<And>t. t \<le> w_now w + ttl - millisecond \<or> t = w_now w \<Longrightarrow> live (view (w_kv w')) t (sessionKeyPrefix @ ?sid) = Some c"
    by auto
  have "createSession \<lparr>st_backend = b, st_enc = e\<rparr> rec ttl w = (Inr ?sid, w')"
    using assms(2) w'(1) by (simp add: createSession_def generateID_up p)
  moreover have "session_at e (view (w_kv w')) t ?sid = Some rec"
    if "t \<le> w_now w + ttl - millisecond \<or> t = w_now w" for t
    using w'(6,7) that unmarshal_marshalRecord [OF p assms(5)] by (simp add: session_at_def)
  ultimately show ?thesis using w'(2-5) by (intro exI [of _ ?sid] exI [of _ w']) auto
qed

lemma createLogin_up:
  assumes "up (w_kv w)" "44 \<le> length (w_entropy w)" "0 < ttl" "marshalTxn txn \<noteq> None" "txn_text_ok txn"
  shows "\<exists>s w'. createLoginTransaction \<lparr>st_backend = b, st_enc = e\<rparr> txn ttl w = (Inr s, w') \<and> up (w_kv w')
    \<and> w_entropy w' = drop 44 (w_entropy w) \<and> w_now w' = w_now w \<and> w_idp w' = w_idp w \<and> s \<noteq> ''''
    \<and> s = rawURLEncode (take 32 (w_entropy w))
    \<and> (\<forall>t. t \<le> w_now w + ttl - millisecond \<or> t = w_now w \<longrightarrow> login_at e (view (w_kv w')) t s = Some txn)"
proof -
  let ?w = "w\<lparr>w_entropy := drop 32 (w_entropy w)\<rparr>" and ?s = "rawURLEncode (take 32 (w_entropy w))"
  obtain p where p: "marshalTxn txn = Some p" using assms(4) by blast
  have "up (w_kv ?w)" "12 \<le> length (w_entropy ?w)" using assms(1,2) by simp_all
  from put_up [OF this assms(3), of e "loginKeyPrefix @ ?s" p] obtain w' c where
    w': "store_put \<lparr>st_backend = b, st_enc = e\<rparr> (loginKeyPrefix @ ?s) (Some p) ttl ?w = (None, w')" "up (w_kv w')"
      "w_entropy w' = drop 12 (w_entropy ?w)" "w_now w' = w_now w" "w_idp w' = w_idp w" "enc_open e c = Some p"
      "\<And>t. t \<le> w_now w + ttl - millisecond \<or> t = w_now w \<Longrightarrow> live (view (w_kv w')) t (loginKeyPrefix @ ?s) = Some c"
    by auto
  have "createLoginTransaction \<lparr>st_backend = b, st_enc = e\<rparr> txn ttl w = (Inr ?s, w')"
    using assms(2) w'(1) by (simp add: createLoginTransaction_def generateID_up p)
  moreover have "login_at e (view (w_kv w')) t ?s = Some txn"
    if "t \<le> w_now w + ttl - millisecond \<or> t = w_now w" for t
    using w'(6,7) that unmarshal_marshalTxn [OF p assms(5)] by (simp add: login_at_def)
  moreover have "w_entropy w \<noteq> []" using assms(2) by auto
  then have "?s \<noteq> ''''" by simp
  ultimately show ?thesis using w'(2-5) by (intro exI [of _ ?s] exI [of _ w']) auto
qed

lemma take_up:
  assumes "up (w_kv w)" "login_at e (view (w_kv w)) (w_now w) s = Some txn"
  shows "\<exists>w'. takeLoginTransaction \<lparr>st_backend = b, st_enc = e\<rparr> s w = (Inr txn, w') \<and> up (w_kv w')
    \<and> w_entropy w' = w_entropy w \<and> w_now w' = w_now w \<and> w_idp w' = w_idp w"
proof -
  obtain c where c: "live (view (w_kv w)) (w_now w) (loginKeyPrefix @ s) = Some c"
      "Option.bind (enc_open e c) unmarshalTxn = Some txn"
    using assms(2) by (auto simp: login_at_def bind_eq_Some_conv)
  from getdel_up [OF assms(1) c(1)] c(2) show ?thesis
    by (fastforce simp: takeLoginTransaction_def bind_eq_Some_conv)
qed

lemma get_session_up:
  assumes "up (w_kv w)" "session_at e (view (w_kv w)) (w_now w) sid = Some rec"
  shows "\<exists>w'. getSession \<lparr>st_backend = b, st_enc = e\<rparr> sid w = (Inr rec, w') \<and> up (w_kv w')"
proof -
  obtain c where c: "live (view (w_kv w)) (w_now w) (sessionKeyPrefix @ sid) = Some c"
      "Option.bind (enc_open e c) unmarshalRecord = Some rec"
    using assms(2) by (auto simp: session_at_def bind_eq_Some_conv)
  from get_up [OF assms(1) c(1)] c(2) show ?thesis
    by (fastforce simp: getSession_def bind_eq_Some_conv)
qed

end

section \<open>The login flow\<close>

text \<open>The token made of the 32 random bytes from position \<open>n\<close> on.\<close>

definition draw_at :: "nat \<Rightarrow> ('s, 'i) world \<Rightarrow> string" where
  "draw_at n w = rawURLEncode (take 32 (drop n (w_entropy w)))"

lemma randomToken_up:
  "32 \<le> length (w_entropy w) \<Longrightarrow> randomToken w = (Some (draw_at 0 w), w\<lparr>w_entropy := drop 32 (w_entropy w)\<rparr>)"
  by (simp add: randomToken_def read_random_def randomTokenBytes_def draw_at_def)

lemma draw_at_utf8 [simp]: "valid_utf8 (draw_at n w)"
  by (simp add: draw_at_def rawURLEncode_utf8)

lemma marshalTxn_time: "marshal_time (TxnCreatedAt txn) \<noteq> None \<Longrightarrow> marshalTxn txn \<noteq> None"
  by (auto simp: marshalTxn_def)

lemma marshalRecord_time:
  "marshal_time (ExpiresAt rec) \<noteq> None \<Longrightarrow> marshal_time (CreatedAt rec) \<noteq> None \<Longrightarrow> marshalRecord rec \<noteq> None"
  by (auto simp: marshalRecord_def)

context kv_available
begin

lemma LoginHandler_up:
  assumes h: "h_store h = \<lparr>st_backend = b, st_enc = e\<rparr>"
    and w: "up (w_kv w)" "108 \<le> length (w_entropy w)" "marshal_time (w_now w) \<noteq> None"
  shows "\<exists>w'. LoginHandler h r rw w =
      (http_redirect r (rp_auth_url (h_party h) (draw_at 64 w) (rp_challenge (h_party h) (draw_at 32 w)) (withNonceParam (draw_at 0 w)))
        (setLoginStateCookie (h_insecure h) (draw_at 64 w) loginTransactionTTL rw), w')
    \<and> up (w_kv w') \<and> w_entropy w' = drop 108 (w_entropy w) \<and> w_now w' = w_now w \<and> w_idp w' = w_idp w
    \<and> draw_at 64 w \<noteq> ''''
    \<and> (\<forall>t. t \<le> w_now w + loginTransactionTTL - millisecond \<longrightarrow> login_at e (view (w_kv w')) t (draw_at 64 w)
        = Some \<lparr>Nonce = draw_at 0 w, PKCEVerifier = draw_at 32 w, TxnCreatedAt = w_now w\<rparr>)"
proof -
  let ?w1 = "w\<lparr>w_entropy := drop 32 (w_entropy w)\<rparr>"
  let ?w2 = "?w1\<lparr>w_entropy := drop 32 (w_entropy ?w1)\<rparr>"
  let ?txn = "\<lparr>Nonce = draw_at 0 w, PKCEVerifier = draw_at 32 w, TxnCreatedAt = w_now w\<rparr>"
  have draws: "randomToken w = (Some (draw_at 0 w), ?w1)" "randomToken ?w1 = (Some (draw_at 32 w), ?w2)"
    using w(2) randomToken_up [of w] randomToken_up [of ?w1] by (simp_all add: draw_at_def)
  have "up (w_kv ?w2)" "44 \<le> length (w_entropy ?w2)" "0 < loginTransactionTTL" "marshalTxn ?txn \<noteq> None" "txn_text_ok ?txn"
    using w marshalTxn_time [of ?txn] by (simp_all add: loginTransactionTTL_def txn_text_ok_def)
  from createLogin_up [OF this, of e] obtain s w3 where
    c: "createLoginTransaction \<lparr>st_backend = b, st_enc = e\<rparr> ?txn loginTransactionTTL ?w2 = (Inr s, w3)"
      "up (w_kv w3)" "w_entropy w3 = drop 44 (w_entropy ?w2)" "w_now w3 = w_now w" "w_idp w3 = w_idp w" "s \<noteq> ''''"
      "s = rawURLEncode (take 32 (w_entropy ?w2))"
      "\<And>t. t \<le> w_now w + loginTransactionTTL - millisecond \<Longrightarrow> login_at e (view (w_kv w3)) t s = Some ?txn"
    by auto
  have s: "s = draw_at 64 w" using c(7) by (simp add: draw_at_def)
  have "LoginHandler h r rw w =
      (http_redirect r (rp_auth_url (h_party h) s (rp_challenge (h_party h) (draw_at 32 w)) (withNonceParam (draw_at 0 w)))
        (setLoginStateCookie (h_insecure h) s loginTransactionTTL rw), w3)"
    using c(1) by (simp add: LoginHandler_def draws h)
  then show ?thesis using c(2-6,8) unfolding s by (intro exI [of _ w3]) simp
qed

lemma CallbackHandler_up:
  assumes h: "h_store h = \<lparr>st_backend = b, st_enc = e\<rparr>"
    and w: "up (w_kv w)" "76 \<le> length (w_entropy w)" "marshal_time (w_now w) \<noteq> None"
    and r: "req_cookie r (LoginStateCookieName (h_insecure h)) = Some state" "query_get (query_of r) ''state'' = state"
      "state \<noteq> ''''" "query_get (query_of r) ''error'' = ''''" "query_get (query_of r) ''code'' = code" "code \<noteq> ''''"
    and txn: "login_at e (view (w_kv w)) (w_now w) state = Some txn"
    and tok: "rp_exchange (h_party h) (w_idp w) (w_now w) (Nonce txn) code (PKCEVerifier txn) = (Some tok, idp)"
      "w_now w < tk_expiration tok" "marshal_time (tk_expiration tok) \<noteq> None"
      "valid_utf8 (tk_subject tok)" "valid_utf8 (tk_id_token tok)"
  shows "\<exists>sid csrf w'. CallbackHandler h r rw w =
      (http_redirect r ''/'' (setSessionCookie (h_insecure h) sid (time_until (w_now w) (tk_expiration tok))
        (clearLoginStateCookie (h_insecure h) rw)), w')
    \<and> up (w_kv w') \<and> w_now w' = w_now w \<and> sid = draw_at 32 w
    \<and> (\<forall>t. t \<le> w_now w + time_until (w_now w) (tk_expiration tok) - millisecond \<longrightarrow>
        session_at e (view (w_kv w')) t sid = Some \<lparr>Subject = tk_subject tok, IDToken = tk_id_token tok,
          ExpiresAt = tk_expiration tok, CreatedAt = w_now w, CSRFToken = csrf\<rparr>)"
proof -
  obtain w1 where t: "takeLoginTransaction \<lparr>st_backend = b, st_enc = e\<rparr> state w = (Inr txn, w1)"
      "up (w_kv w1)" "w_entropy w1 = w_entropy w" "w_now w1 = w_now w" "w_idp w1 = w_idp w"
    using take_up [OF w(1) txn] by blast
  let ?w1 = "w1\<lparr>w_idp := idp\<rparr>"
  let ?w2 = "?w1\<lparr>w_entropy := drop 32 (w_entropy ?w1)\<rparr>"
  let ?rec = "\<lparr>Subject = tk_subject tok, IDToken = tk_id_token tok, ExpiresAt = tk_expiration tok,
     CreatedAt = w_now w, CSRFToken = draw_at 0 ?w1\<rparr>"
  have ttl: "0 < time_until (w_now w) (tk_expiration tok)" using tok(2) by (simp add: time_until_pos)
  have d: "randomToken ?w1 = (Some (draw_at 0 ?w1), ?w2)" using w(2) t(3) randomToken_up [of ?w1] by simp
  have "up (w_kv ?w2)" "44 \<le> length (w_entropy ?w2)" "marshalRecord ?rec \<noteq> None" "record_text_ok ?rec"
    using w t tok marshalRecord_time [of ?rec] by (simp_all add: record_text_ok_def)
  from createSession_up [OF this(1,2) ttl this(3,4), of e] obtain sid w3 where
    c: "createSession \<lparr>st_backend = b, st_enc = e\<rparr> ?rec (time_until (w_now w) (tk_expiration tok)) ?w2 = (Inr sid, w3)"
      "up (w_kv w3)" "w_now w3 = w_now w" "sid = rawURLEncode (take 32 (w_entropy ?w2))"
      "\<And>x. x \<le> w_now w + time_until (w_now w) (tk_expiration tok) - millisecond \<Longrightarrow>
        session_at e (view (w_kv w3)) x sid = Some ?rec"
    using t(4) by auto
  have "CallbackHandler h r rw w =
      (http_redirect r ''/'' (setSessionCookie (h_insecure h) sid (time_until (w_now w) (tk_expiration tok))
        (clearLoginStateCookie (h_insecure h) rw)), w3)"
    using r t tok(1,2) ttl d c(1)
    by (simp add: CallbackHandler_def h callback_exchange_def callback_session_def Let_def postLoginRedirect_def)
  moreover have "sid = draw_at 32 w" using c(4) t(3) by (simp add: draw_at_def)
  ultimately show ?thesis using c(2,3,5) by (intro exI [of _ sid] exI [of _ "draw_at 0 ?w1"] exI [of _ w3]) simp
qed

end

text \<open>What a login leaves while the store answers, and where it sends the browser.\<close>

lemma login_leaves:
  assumes kv: "kv_available b view up" and h: "h_store h = \<lparr>st_backend = b, st_enc = e\<rparr>"
    and run: "LoginHandler h r (new_rw None) w = (rw1, w1)"
    and start: "up (w_kv w)" "184 \<le> length (w_entropy w)" "marshal_time (w_now w) \<noteq> None"
  shows "up (w_kv w1)" "w_entropy w1 = drop 108 (w_entropy w)" "w_idp w1 = w_idp w" "draw_at 64 w \<noteq> ''''"
    "rw_status rw1 = Some 302" "rw_sent rw1 ''Location'' =
      [rp_auth_url (h_party h) (draw_at 64 w) (rp_challenge (h_party h) (draw_at 32 w)) (withNonceParam (draw_at 0 w))]"
    "\<And>t. t \<le> w_now w + loginTransactionTTL - millisecond \<Longrightarrow> login_at e (view (w_kv w1)) t (draw_at 64 w)
        = Some \<lparr>Nonce = draw_at 0 w, PKCEVerifier = draw_at 32 w, TxnCreatedAt = w_now w\<rparr>"
proof -
  have "108 \<le> length (w_entropy w)" using start(2) by simp
  note up = kv_available.LoginHandler_up [OF kv h start(1) this start(3), of r "new_rw None", unfolded run]
  then show "up (w_kv w1)" "w_entropy w1 = drop 108 (w_entropy w)" "w_idp w1 = w_idp w" "draw_at 64 w \<noteq> ''''"
    "\<And>t. t \<le> w_now w + loginTransactionTTL - millisecond \<Longrightarrow> login_at e (view (w_kv w1)) t (draw_at 64 w)
        = Some \<lparr>Nonce = draw_at 0 w, PKCEVerifier = draw_at 32 w, TxnCreatedAt = w_now w\<rparr>"
    by auto
  from up show "rw_status rw1 = Some 302" "rw_sent rw1 ''Location'' =
      [rp_auth_url (h_party h) (draw_at 64 w) (rp_challenge (h_party h) (draw_at 32 w)) (withNonceParam (draw_at 0 w))]"
    by (auto simp: sent_redirect setLoginStateCookie_def)
qed

text \<open>
  C11: A login completes. While the store answers, a browser that follows the login redirect, comes
  back within five minutes (less the millisecond Redis may round off) with the state it was given
  and a code the identity provider exchanges under the nonce and verifier of this login, is
  redirected to the application with a session cookie, and until a millisecond before the token's
  expiry the store yields the session of that token's subject for it.
\<close>

theorem login_flow_completes:
  assumes kv: "kv_available b view up"
    and h: "h = \<lparr>h_party = p, h_store = \<lparr>st_backend = b, st_enc = e\<rparr>, h_insecure = i, h_externalOrigin = orig\<rparr>"
    and start: "up (w_kv w)" "184 \<le> length (w_entropy w)" "marshal_time (w_now w) \<noteq> None"
    and login: "LoginHandler h r (new_rw None) w = (rw1, w1)"
    and wait: "w_kv w2 = w_kv w1" "w_entropy w2 = w_entropy w1" "w_now w2 + millisecond \<le> w_now w + 5 * minute"
      "marshal_time (w_now w2) \<noteq> None"
    and return: "req_cookie r2 (LoginStateCookieName i) = Some (draw_at 64 w)" "query_get (query_of r2) ''state'' = draw_at 64 w"
      "query_get (query_of r2) ''error'' = ''''" "query_get (query_of r2) ''code'' = code" "code \<noteq> ''''"
    and tok: "rp_exchange p (w_idp w2) (w_now w2) (draw_at 0 w) code (draw_at 32 w) = (Some tok, idp)"
      "w_now w2 < tk_expiration tok" "marshal_time (tk_expiration tok) \<noteq> None"
      "valid_utf8 (tk_subject tok)" "valid_utf8 (tk_id_token tok)"
    and callback: "CallbackHandler h r2 (new_rw None) w2 = (rw2, w3)"
  shows "rw_status rw1 = Some 302
    \<and> rw_sent rw1 ''Location'' = [rp_auth_url p (draw_at 64 w) (rp_challenge p (draw_at 32 w)) (withNonceParam (draw_at 0 w))]
    \<and> rw_status rw2 = Some 302 \<and> rw_sent rw2 ''Location'' = [''/'']
    \<and> (\<exists>sid rec. Subject rec = tk_subject tok \<and> IDToken rec = tk_id_token tok \<and> ExpiresAt rec = tk_expiration tok
        \<and> rw2 = http_redirect r2 ''/'' (setSessionCookie i sid (time_until (w_now w2) (tk_expiration tok))
            (clearLoginStateCookie i (new_rw None)))
        \<and> (\<forall>t. t + millisecond \<le> w_now w2 + time_until (w_now w2) (tk_expiration tok) \<longrightarrow>
            session_at e (view (w_kv w3)) t sid = Some rec))"
proof -
  have hs: "h_store h = \<lparr>st_backend = b, st_enc = e\<rparr>" "h_party h = p" "h_insecure h = i" by (simp_all add: h)
  note l = login_leaves [OF kv hs(1) login start, unfolded hs]
  have w2: "up (w_kv w2)" "76 \<le> length (w_entropy w2)" using wait l(1,2) start(2) by simp_all
  have txn: "login_at e (view (w_kv w2)) (w_now w2) (draw_at 64 w)
      = Some \<lparr>Nonce = draw_at 0 w, PKCEVerifier = draw_at 32 w, TxnCreatedAt = w_now w\<rparr>"
    using l(7) [of "w_now w2"] wait by (simp add: loginTransactionTTL_def)
  have ex: "rp_exchange (h_party h) (w_idp w2) (w_now w2)
      (Nonce \<lparr>Nonce = draw_at 0 w, PKCEVerifier = draw_at 32 w, TxnCreatedAt = w_now w\<rparr>) code
      (PKCEVerifier \<lparr>Nonce = draw_at 0 w, PKCEVerifier = draw_at 32 w, TxnCreatedAt = w_now w\<rparr>) = (Some tok, idp)"
    using tok(1) by (simp add: hs)
  note up = kv_available.CallbackHandler_up [OF kv hs(1) w2 wait(4) return(1) [folded hs(3)] return(2) l(4) return(3-5)
      txn ex tok(2-5), of "new_rw None", unfolded hs]
  obtain sid csrf w3' where c: "CallbackHandler h r2 (new_rw None) w2 =
      (http_redirect r2 ''/'' (setSessionCookie i sid (time_until (w_now w2) (tk_expiration tok))
        (clearLoginStateCookie i (new_rw None))), w3')"
    "\<And>t. t \<le> w_now w2 + time_until (w_now w2) (tk_expiration tok) - millisecond \<Longrightarrow>
        session_at e (view (w_kv w3')) t sid = Some \<lparr>Subject = tk_subject tok, IDToken = tk_id_token tok,
          ExpiresAt = tk_expiration tok, CreatedAt = w_now w2, CSRFToken = csrf\<rparr>"
    using up by blast
  then have "w3 = w3'" "rw2 = http_redirect r2 ''/'' (setSessionCookie i sid (time_until (w_now w2) (tk_expiration tok))
        (clearLoginStateCookie i (new_rw None)))"
    using callback by simp_all
  then show ?thesis
    using c(2) by (intro conjI exI [of _ sid] exI [of _ "\<lparr>Subject = tk_subject tok, IDToken = tk_id_token tok,
          ExpiresAt = tk_expiration tok, CreatedAt = w_now w2, CSRFToken = csrf\<rparr>"])
      (simp_all add: l(5,6) sent_redirect setSessionCookie_def setLoginStateCookie_def clearLoginStateCookie_def)
qed

interpretation ref_up: kv_available "redis_backend ref_client" db_map db_up
proof (unfold_locales, goal_cases)
  case (1 s ttl t k v)
  then show ?case by (simp add: redis_set_def ref_client_def pass_err_def)
next
  case (2 s t k v)
  then show ?case by (auto simp: redis_get_def ref_client_def split: option.split)
next
  case (3 s t k v)
  then show ?case by (auto simp: redis_getdel_def ref_client_def split: option.split)
qed

end
