(* ===== verification/Walkthrough.thy ===== *)
theory Walkthrough
  imports Scenario Lifecycle Available
begin

text \<open>
  The deployment of \<^verbatim>\<open>Scenario\<close> from an empty store: a login, a callback a minute later, and the
  session afterwards, through the router. It is the concrete run the theorems on reachable worlds
  and on the login flow are applied to.
\<close>

definition demo_state :: string where "demo_state = ''AAAAAAAAAAAAAAAAAAAAAAAAAAAAAAAAAAAAAAAAAAA''"

lemma zero_token: "rawURLEncode (replicate 32 (CHR 0x00)) = demo_state"
  by code_simp

lemma demo_draws_zero: "n \<le> 300 \<Longrightarrow> draw_at n (demo_world db) = demo_state"
  by (simp add: draw_at_def demo_world_def zero_token)

definition demo_login_request :: "Record request" where
  "demo_login_request = demo_request ''GET'' ''/auth/login'' '''' []"

definition demo_return :: "Record request" where
  "demo_return = demo_request ''GET'' ''/auth/callback'' (''state='' @ demo_state @ ''&code=good'')
     [(''Cookie'', ''__Host-td-login-state='' @ demo_state)]"

lemma demo_return_parts:
  "req_cookie demo_return (LoginStateCookieName False) = Some demo_state"
  "query_get (query_of demo_return) ''state'' = demo_state"
  "query_get (query_of demo_return) ''code'' = ''good''"
  "query_get (query_of demo_return) ''error'' = ''''"
  by (code_simp)+

lemma demo_auth_on: "demo_auth = handler_on demo_party (redis_backend ref_client) demo_enc False ''https://td.example''"
  by (simp add: demo_auth_def demo_store_def handler_on_def)

lemma demo_times: "marshal_time 0 \<noteq> None" "marshal_time minute \<noteq> None" "marshal_time (minute + 5 * minute) \<noteq> None"
  by code_simp+

definition demo_token :: tokens where
  "demo_token = \<lparr>tk_subject = ''alice'', tk_expiration = minute + 5 * minute, tk_id_token = ''token''\<rparr>"

text \<open>The worlds after the login, a minute later, and after the callback.\<close>

definition demo_w1 :: "(redis_db, unit) world" where
  "demo_w1 = snd (serve demo_router None demo_login_request (demo_world empty_db))"

definition demo_w2 :: "(redis_db, unit) world" where "demo_w2 = demo_w1\<lparr>w_now := minute\<rparr>"

definition demo_w3 :: "(redis_db, unit) world" where
  "demo_w3 = snd (serve demo_router None demo_return demo_w2)"

text \<open>The router on the two paths is the handler behind the headers.\<close>

lemma demo_router_auth:
  assumes "rq_method r = ''GET''" "rq_path r = ''/auth/login'' \<or> rq_path r = ''/auth/callback''"
  shows "snd (serve demo_router a r w) = snd ((if rq_path r = ''/auth/login'' then LoginHandler demo_auth else CallbackHandler demo_auth)
    (r\<lparr>rq_ctx := None, rq_pathvalue := path_values []\<rparr>) (set_security_headers False (new_rw a)) w)"
proof -
  have "segs_of ''/auth/login'' = [''auth'', ''login'']" "clean_path ''/auth/login'' = ''/auth/login''"
      "segs_of ''/auth/callback'' = [''auth'', ''callback'']" "clean_path ''/auth/callback'' = ''/auth/callback''"
    by code_simp+
  with assms show ?thesis
    by (auto simp: serve_def demo_router_def NewRouter_def securityHeaders_def mux_serve_def mux_dispatch_def
        route_table_def public_routes_def method_matches_def split: prod.split)
qed

lemma demo_login_world:
  obtains rw1 where "LoginHandler demo_auth demo_login_request (new_rw None) (demo_world empty_db) = (rw1, demo_w1)"
proof -
  have e: "up (w_kv (demo_world empty_db))" "108 \<le> length (w_entropy (demo_world empty_db))" if "up = db_up" for up
    by (simp_all add: that demo_world_def empty_db_def)
  have t: "marshal_time (w_now (demo_world empty_db)) \<noteq> None" using demo_times(1) by (simp add: demo_world_def)
  have h: "h_store demo_auth = \<lparr>st_backend = redis_backend ref_client, st_enc = demo_enc\<rparr>" by (simp add: demo_auth_on)
  have "snd (LoginHandler demo_auth r rw (demo_world empty_db)) = snd (LoginHandler demo_auth r' rw' (demo_world empty_db))"
    for r r' :: "Record request" and rw rw'
    by (auto simp: LoginHandler_def Let_def split: prod.split option.split sum.split)
  moreover have "demo_w1 = snd (LoginHandler demo_auth (demo_login_request\<lparr>rq_ctx := None, rq_pathvalue := path_values []\<rparr>)
      (set_security_headers False (new_rw None)) (demo_world empty_db))"
    unfolding demo_w1_def by (subst demo_router_auth) (simp_all add: demo_login_request_def demo_request_def)
  ultimately show thesis using that by (metis prod.collapse)
qed

lemma demo_auth_store: "h_store demo_auth = \<lparr>st_backend = redis_backend ref_client, st_enc = demo_enc\<rparr>"
    "h_party demo_auth = demo_party" "h_insecure demo_auth = False"
  by (simp_all add: demo_auth_on)

lemma demo_start: "db_up (w_kv (demo_world empty_db))" "184 \<le> length (w_entropy (demo_world empty_db))"
    "marshal_time (w_now (demo_world empty_db)) \<noteq> None" "w_now (demo_world empty_db) = 0"
  using demo_times(1) by (simp_all add: demo_world_def empty_db_def)

lemma demo_w1_facts:
  "db_up (w_kv demo_w1)" "w_entropy demo_w1 = replicate 292 (CHR 0x00)" "w_now demo_w1 = 0"
  "login_at demo_enc (db_map (w_kv demo_w1)) minute demo_state
     = Some \<lparr>Nonce = demo_state, PKCEVerifier = demo_state, TxnCreatedAt = 0\<rparr>"
proof -
  obtain rw1 where l: "LoginHandler demo_auth demo_login_request (new_rw None) (demo_world empty_db) = (rw1, demo_w1)"
    by (rule demo_login_world)
  have e: "108 \<le> length (w_entropy (demo_world empty_db))" using demo_start(2) by simp
  note up = ref_up.LoginHandler_up [OF demo_auth_store(1) demo_start(1) e demo_start(3), of demo_login_request "new_rw None",
      unfolded l demo_draws_zero]
  have "w_entropy (demo_world empty_db) = replicate 400 (CHR 0x00)" by (simp add: demo_world_def)
  with up show "db_up (w_kv demo_w1)" "w_entropy demo_w1 = replicate 292 (CHR 0x00)" "w_now demo_w1 = 0"
    "login_at demo_enc (db_map (w_kv demo_w1)) minute demo_state
     = Some \<lparr>Nonce = demo_state, PKCEVerifier = demo_state, TxnCreatedAt = 0\<rparr>"
    by (auto simp: demo_draws_zero demo_start(4) loginTransactionTTL_def)
qed

lemma demo_exchange_ok:
  "rp_exchange demo_party i (w_now demo_w2) n ''good'' v = (Some demo_token, ())"
  by (simp add: demo_party_def demo_exchange_def demo_w2_def demo_token_def)

definition demo_live_record :: "string \<Rightarrow> Record" where
  "demo_live_record csrf = \<lparr>Subject = ''alice'', IDToken = ''token'', ExpiresAt = minute + 5 * minute, CreatedAt = minute, CSRFToken = csrf\<rparr>"

lemma request_parts:
  fixes r :: "Record request"
  shows "query_of (r\<lparr>rq_ctx := x, rq_pathvalue := y\<rparr>) = query_of r"
    "req_cookie (r\<lparr>rq_ctx := x, rq_pathvalue := y\<rparr>) n = req_cookie r n"
  by (simp_all add: query_of_def req_cookie_def)

text \<open>The callback, on any writer and with any context, ends in the session of \<open>alice\<close>.\<close>

lemma demo_callback_up:
  fixes rw :: rw and x :: "Record option" and y :: "string \<Rightarrow> string"
  shows "\<exists>csrf w'. CallbackHandler demo_auth (demo_return\<lparr>rq_ctx := x, rq_pathvalue := y\<rparr>) rw demo_w2 =
      (http_redirect (demo_return\<lparr>rq_ctx := x, rq_pathvalue := y\<rparr>) ''/''
        (setSessionCookie False demo_state (time_until minute (6 * minute)) (clearLoginStateCookie False rw)), w')
    \<and> db_up (w_kv w') \<and> w_now w' = minute
    \<and> (\<forall>t. t \<le> minute + time_until minute (6 * minute) - millisecond \<longrightarrow>
        session_at demo_enc (db_map (w_kv w')) t demo_state = Some (demo_live_record csrf))"
proof -
  let ?txn = "\<lparr>Nonce = demo_state, PKCEVerifier = demo_state, TxnCreatedAt = 0\<rparr>"
  have w2: "db_up (w_kv demo_w2)" "76 \<le> length (w_entropy demo_w2)" "marshal_time (w_now demo_w2) \<noteq> None"
      "w_now demo_w2 = minute" "login_at demo_enc (db_map (w_kv demo_w2)) (w_now demo_w2) demo_state = Some ?txn"
    using demo_w1_facts demo_times by (simp_all add: demo_w2_def)
  have tok: "w_now demo_w2 < tk_expiration demo_token" "marshal_time (tk_expiration demo_token) \<noteq> None"
      "valid_utf8 (tk_subject demo_token)" "valid_utf8 (tk_id_token demo_token)"
    using demo_times(3) w2(4) by (simp_all add: demo_token_def Let_def)
  let ?r = "demo_return\<lparr>rq_ctx := x, rq_pathvalue := y\<rparr>"
  have r: "req_cookie ?r (LoginStateCookieName (h_insecure demo_auth)) = Some demo_state"
      "query_get (query_of ?r) ''state'' = demo_state" "demo_state \<noteq> ''''"
      "query_get (query_of ?r) ''error'' = ''''" "query_get (query_of ?r) ''code'' = ''good''" "''good'' \<noteq> ''''"
    unfolding request_parts demo_auth_store by (simp_all add: demo_return_parts demo_state_def)
  have ex: "rp_exchange (h_party demo_auth) (w_idp demo_w2) (w_now demo_w2) (Nonce ?txn) ''good'' (PKCEVerifier ?txn) = (Some demo_token, ())"
    by (simp add: demo_auth_store demo_exchange_ok)
  note up = ref_up.CallbackHandler_up [OF demo_auth_store(1) w2(1-3) r w2(5) ex tok(1-4), of rw, unfolded demo_auth_store w2(4)]
  have "w_entropy demo_w2 = replicate 292 (CHR 0x00)" by (simp add: demo_w2_def demo_w1_facts)
  then have "draw_at 32 demo_w2 = demo_state" by (simp add: draw_at_def zero_token)
  with up show ?thesis by (simp add: demo_live_record_def demo_token_def)
qed

lemma demo_w3_facts:
  obtains csrf where "db_up (w_kv demo_w3)" "w_now demo_w3 = minute"
    "session_at demo_enc (db_map (w_kv demo_w3)) minute demo_state = Some (demo_live_record csrf)"
proof -
  have "demo_w3 = snd (CallbackHandler demo_auth (demo_return\<lparr>rq_ctx := None, rq_pathvalue := path_values []\<rparr>)
      (set_security_headers False (new_rw None)) demo_w2)"
    unfolding demo_w3_def by (subst demo_router_auth) (simp_all add: demo_return_def demo_request_def)
  with demo_callback_up [where x = None and y = "path_values []" and rw = "set_security_headers False (new_rw None)"]
  obtain csrf where c: "db_up (w_kv demo_w3)" "w_now demo_w3 = minute"
      "\<And>t. t \<le> minute + time_until minute (6 * minute) - millisecond \<Longrightarrow>
        session_at demo_enc (db_map (w_kv demo_w3)) t demo_state = Some (demo_live_record csrf)"
    by force
  have "minute \<le> minute + time_until minute (6 * minute) - millisecond"
    by (simp add: time_until_def int64_min_def int64_max_def)
  with c that show thesis by blast
qed

lemma login_flow_completes_witness:
  "\<exists>rw2 w3. CallbackHandler demo_auth demo_return (new_rw None) demo_w2 = (rw2, w3) \<and> rw_sent rw2 ''Location'' = [''/'']"
proof -
  obtain rw1 where l: "LoginHandler demo_auth demo_login_request (new_rw None) (demo_world empty_db) = (rw1, demo_w1)"
    by (rule demo_login_world)
  obtain rw2 w3 where c: "CallbackHandler demo_auth demo_return (new_rw None) demo_w2 = (rw2, w3)" by fastforce
  have "rw_status rw1 = Some 302
    \<and> rw_sent rw1 ''Location'' = [rp_auth_url demo_party (draw_at 64 (demo_world empty_db))
        (rp_challenge demo_party (draw_at 32 (demo_world empty_db))) (withNonceParam (draw_at 0 (demo_world empty_db)))]
    \<and> rw_status rw2 = Some 302 \<and> rw_sent rw2 ''Location'' = [''/'']
    \<and> (\<exists>sid rec. Subject rec = tk_subject demo_token \<and> IDToken rec = tk_id_token demo_token \<and> ExpiresAt rec = tk_expiration demo_token
        \<and> rw2 = http_redirect demo_return ''/'' (setSessionCookie False sid (time_until (w_now demo_w2) (tk_expiration demo_token))
            (clearLoginStateCookie False (new_rw None)))
        \<and> (\<forall>t. t + millisecond \<le> w_now demo_w2 + time_until (w_now demo_w2) (tk_expiration demo_token) \<longrightarrow>
            session_at demo_enc (db_map (w_kv w3)) t sid = Some rec))"
    by (rule login_flow_completes [OF ref_up.kv_available_axioms demo_auth_on [unfolded handler_on_def] demo_start(1-3) l _ _ _ _ _ _ _ _ _ _ _ _ _ _ c,
          where code = "''good''" and idp = "()"])
      (use demo_times demo_w1_facts in \<open>simp_all add: demo_w2_def demo_start demo_draws_zero demo_return_parts
         demo_exchange_ok demo_token_def demo_party_def demo_exchange_def Let_def\<close>)
  with c show ?thesis by blast
qed

section \<open>Reachable worlds\<close>

lemma demo_router_on: "demo_router = NewRouter demo_style (handler_on demo_party (redis_backend ref_client) demo_enc False ''https://td.example'')
    \<lparr>st_backend = redis_backend ref_client, st_enc = demo_enc\<rparr> demo_client False None"
  by (simp add: demo_router_def demo_auth_on [symmetric]) (simp add: demo_store_def)

lemma demo_w3_reachable: "reachable demo_router db_map demo_w3"
proof -
  have "reachable demo_router db_map (demo_world empty_db)"
    by (rule reachable.empty) (simp add: demo_world_def empty_db_def)
  moreover have "serve demo_router None demo_login_request (demo_world empty_db)
      = (fst (serve demo_router None demo_login_request (demo_world empty_db)), demo_w1)"
    by (simp add: demo_w1_def)
  ultimately have "reachable demo_router db_map demo_w1" by (rule reachable.request)
  then have "reachable demo_router db_map demo_w2"
    unfolding demo_w2_def by (rule reachable.tick) (simp add: demo_w1_facts)
  moreover have "serve demo_router None demo_return demo_w2 = (fst (serve demo_router None demo_return demo_w2), demo_w3)"
    by (simp add: demo_w3_def)
  ultimately show ?thesis by (rule reachable.request)
qed


text \<open>The pods of a namespace, asked for with the session.\<close>

definition demo_pods :: "Record request" where
  "demo_pods = demo_request ''GET'' ''/api/namespaces/team-a/pods'' '''' [(''Cookie'', ''__Host-td-session='' @ demo_state)]"

lemma pods_route:
  "mux_match (route_table auth store c i) ''GET'' [''api'', ''namespaces'', ''team-a'', ''pods'']
    = Some (requireSession store i (listResourceHandler c podsGVR (map_option podSummary_json \<circ> summarizePod)), [(''ns'', ''team-a'')])"
  by (simp add: route_table_def public_routes_def api_routes_def api_table_def ns_path_def name_path_def method_matches_def)

lemma demo_pods_parts:
  "req_cookie demo_pods (SessionCookieName False) = Some demo_state"
  "segs_of (rq_path demo_pods) = [''api'', ''namespaces'', ''team-a'', ''pods'']"
  "clean_path (rq_path demo_pods) = rq_path demo_pods" "rq_path demo_pods \<noteq> ''*''" "rq_method demo_pods = ''GET''"
  by (code_simp)+

lemma demo_client_asks: "w_sent (snd (client_do demo_client tok path w)) \<noteq> w_sent w"
  by (simp add: client_do_def demo_do Let_def)

lemma demo_list_asks:
  "rq_ctx r = Some rec \<Longrightarrow> rq_pathvalue r ''ns'' = ''team-a'' \<Longrightarrow> w_sent (snd (listResourceHandler demo_client g f r rw w)) \<noteq> w_sent w"
proof -
  assume r: "rq_ctx r = Some rec" "rq_pathvalue r ''ns'' = ''team-a''"
  have "validK8sName ''team-a''" unfolding validK8sName_iff by code_simp
  moreover have "w_sent (snd (ListNamespacedResource demo_client (IDToken rec) ''team-a'' g 0 w)) \<noteq> w_sent w"
    using demo_client_asks [of "IDToken rec" "resource_path g ''team-a''" w]
    by (auto simp: ListNamespacedResource_def split: prod.splits sum.splits option.splits)
  ultimately show ?thesis using r
    by (auto simp: listResourceHandler_def sessionFromContext_def split: prod.splits sum.splits option.splits)
qed

text \<open>The pods are asked for upstream, with the session of the login.\<close>

lemma demo_pods_served:
  obtains rw' w' where "serve demo_router None demo_pods demo_w3 = (rw', w')" "w_sent w' \<noteq> w_sent demo_w3"
proof -
  obtain csrf where s: "db_up (w_kv demo_w3)" "w_now demo_w3 = minute"
      "session_at demo_enc (db_map (w_kv demo_w3)) minute demo_state = Some (demo_live_record csrf)"
    by (rule demo_w3_facts)
  then obtain w1 where g: "getSession demo_store demo_state demo_w3 = (Inr (demo_live_record csrf), w1)"
    using ref_up.get_session_up [of demo_w3 demo_enc demo_state "demo_live_record csrf"] by (auto simp: demo_store_def)
  let ?h = "listResourceHandler demo_client podsGVR (map_option podSummary_json \<circ> summarizePod)"
  let ?r = "demo_pods\<lparr>rq_ctx := None, rq_pathvalue := path_values [(''ns'', ''team-a'')]\<rparr>"
  let ?rw = "set_security_headers False (new_rw None)"
  have "snd (serve demo_router None demo_pods demo_w3) = snd (requireSession demo_store False ?h ?r ?rw demo_w3)"
    by (simp add: serve_def demo_router_def NewRouter_def securityHeaders_def mux_serve_def mux_dispatch_def
        demo_pods_parts pods_route split: prod.split)
  also have "\<dots> = snd (?h (?r\<lparr>rq_ctx := Some (demo_live_record csrf)\<rparr>) ?rw w1)"
    by (simp add: requireSession_def request_parts demo_pods_parts g)
  finally have "w_sent (snd (serve demo_router None demo_pods demo_w3)) \<noteq> w_sent w1"
    by (simp add: path_values_def demo_list_asks)
  moreover have "w_sent w1 = w_sent demo_w3" using store_stepD(3) [OF store_step_getSession [OF g]] .
  ultimately show thesis using that [of "fst (serve demo_router None demo_pods demo_w3)"] by (metis prod.collapse)
qed



end
