(* ===== verification/StoreSpec.thy ===== *)
theory StoreSpec
  imports Walkthrough
begin

text \<open>
  What the session store promises, without keys, sealing or expiry: two maps, one of sessions and
  one of login transactions. The refinement says that every operation of \<^verbatim>\<open>store.go\<close> on a backend
  with the contract does one step of that specification, failures included: a call that fails
  changes nothing or has had its effect, and a transaction that was taken is gone.
\<close>

section \<open>The specification\<close>

record abs_store =
  as_sessions :: "string \<rightharpoonup> Record"
  as_logins :: "string \<rightharpoonup> LoginTransaction"

datatype store_op =
    Create_Session Record duration
  | Get_Session string
  | Delete_Session string
  | Create_Login LoginTransaction duration
  | Take_Login string

datatype store_reply =
    Failed session_error
  | Got_ID string
  | Got_Record Record
  | Got_Login LoginTransaction
  | Done

definition absent :: "store_op \<Rightarrow> abs_store \<Rightarrow> bool" where
  "absent op A \<longleftrightarrow> (case op of Get_Session sid \<Rightarrow> as_sessions A sid = None
     | Take_Login s \<Rightarrow> as_logins A s = None | _ \<Rightarrow> True)"

inductive store_spec :: "store_op \<Rightarrow> store_reply \<Rightarrow> abs_store \<Rightarrow> abs_store \<Rightarrow> bool" where
  created: "store_spec (Create_Session rec ttl) (Got_ID sid) A (A\<lparr>as_sessions := (as_sessions A)(sid \<mapsto> rec)\<rparr>)"
| create_lost: "store_spec (Create_Session rec ttl) (Failed e) A (A\<lparr>as_sessions := (as_sessions A)(sid \<mapsto> rec)\<rparr>)"
| got: "as_sessions A sid = Some rec \<Longrightarrow> store_spec (Get_Session sid) (Got_Record rec) A A"
| deleted: "store_spec (Delete_Session sid) Done A (A\<lparr>as_sessions := (as_sessions A)(sid := None)\<rparr>)"
| delete_lost: "store_spec (Delete_Session sid) (Failed e) A (A\<lparr>as_sessions := (as_sessions A)(sid := None)\<rparr>)"
| begun: "store_spec (Create_Login txn ttl) (Got_ID s) A (A\<lparr>as_logins := (as_logins A)(s \<mapsto> txn)\<rparr>)"
| begin_lost: "store_spec (Create_Login txn ttl) (Failed e) A (A\<lparr>as_logins := (as_logins A)(s \<mapsto> txn)\<rparr>)"
| taken: "as_logins A s = Some txn \<Longrightarrow>
    store_spec (Take_Login s) (Got_Login txn) A (A\<lparr>as_logins := (as_logins A)(s := None)\<rparr>)"
| take_lost: "e \<noteq> EBackend ErrNotFound \<Longrightarrow> store_spec (Take_Login s) (Failed e) A (A\<lparr>as_logins := (as_logins A)(s := None)\<rparr>)"
| failed: "(e = EBackend ErrNotFound \<Longrightarrow> absent op A) \<Longrightarrow> store_spec op (Failed e) A A"

inductive_cases take_specE: "store_spec (Take_Login s) res A A'"

text \<open>The specification forgets a transaction when it hands it out, and never changes the other map.\<close>

lemma take_once: "store_spec (Take_Login s) (Got_Login txn) A A' \<Longrightarrow> as_logins A s = Some txn \<and> as_logins A' s = None"
  by (auto elim: take_specE)

section \<open>The operations\<close>

definition store_exec :: "'s Store \<Rightarrow> store_op \<Rightarrow> ('s, 'i) world \<Rightarrow> store_reply \<times> ('s, 'i) world" where
  "store_exec st op w =
     (case op of
        Create_Session rec ttl \<Rightarrow> (case createSession st rec ttl w of (Inl e, w') \<Rightarrow> (Failed e, w') | (Inr sid, w') \<Rightarrow> (Got_ID sid, w'))
      | Get_Session sid \<Rightarrow> (case getSession st sid w of (Inl e, w') \<Rightarrow> (Failed e, w') | (Inr rec, w') \<Rightarrow> (Got_Record rec, w'))
      | Delete_Session sid \<Rightarrow> (case deleteSession st sid w of (Some e, w') \<Rightarrow> (Failed e, w') | (None, w') \<Rightarrow> (Done, w'))
      | Create_Login txn ttl \<Rightarrow> (case createLoginTransaction st txn ttl w of (Inl e, w') \<Rightarrow> (Failed e, w') | (Inr s, w') \<Rightarrow> (Got_ID s, w'))
      | Take_Login s \<Rightarrow> (case takeLoginTransaction st s w of (Inl e, w') \<Rightarrow> (Failed e, w') | (Inr txn, w') \<Rightarrow> (Got_Login txn, w')))"

text \<open>The operations the program performs: lifetimes are positive, records are JSON text.\<close>

fun op_ok :: "store_op \<Rightarrow> bool" where
  "op_ok (Create_Session rec ttl) \<longleftrightarrow> 0 < ttl \<and> record_text_ok rec"
| "op_ok (Create_Login txn ttl) \<longleftrightarrow> 0 < ttl \<and> txn_text_ok txn"
| "op_ok _ \<longleftrightarrow> True"

definition abs_at :: "encryptor \<Rightarrow> kv_view \<Rightarrow> go_time \<Rightarrow> abs_store" where
  "abs_at e m t = \<lparr>as_sessions = session_at e m t, as_logins = login_at e m t\<rparr>"

lemma live_agree: "(\<And>k. k \<noteq> k0 \<Longrightarrow> m' k = m k) \<Longrightarrow> k \<noteq> k0 \<Longrightarrow> live m' t k = live m t k"
  by (simp add: live_def)

lemma abs_session_key:
  assumes "\<And>k. k \<noteq> sessionKeyPrefix @ sid \<Longrightarrow> m' k = m k"
  shows "abs_at e m' t = (abs_at e m t)\<lparr>as_sessions := (session_at e m t)(sid := session_at e m' t sid)\<rparr>"
proof -
  have "session_at e m' t x = session_at e m t x" if "x \<noteq> sid" for x
    using assms [of "sessionKeyPrefix @ x"] that by (simp add: session_at_def live_def)
  moreover have "login_at e m' t x = login_at e m t x" for x
    using assms [of "loginKeyPrefix @ x"] by (simp add: login_at_def live_def)
  ultimately show ?thesis by (auto simp: abs_at_def)
qed

lemma abs_login_key:
  assumes "\<And>k. k \<noteq> loginKeyPrefix @ s \<Longrightarrow> m' k = m k"
  shows "abs_at e m' t = (abs_at e m t)\<lparr>as_logins := (login_at e m t)(s := login_at e m' t s)\<rparr>"
proof -
  have "login_at e m' t x = login_at e m t x" if "x \<noteq> s" for x
    using assms [of "loginKeyPrefix @ x"] that by (simp add: login_at_def live_def)
  moreover have "session_at e m' t x = session_at e m t x" for x
    using assms [of "sessionKeyPrefix @ x"] by (simp add: session_at_def live_def)
  ultimately show ?thesis by (auto simp: abs_at_def)
qed

lemma abs_removed_session:
  "removed m m' (sessionKeyPrefix @ sid) \<Longrightarrow> abs_at e m' t = (abs_at e m t)\<lparr>as_sessions := (session_at e m t)(sid := None)\<rparr>"
  by (subst abs_session_key [of sid m' m]) (auto simp: removed_def session_at_def live_def)

lemma abs_removed_login:
  "removed m m' (loginKeyPrefix @ s) \<Longrightarrow> abs_at e m' t = (abs_at e m t)\<lparr>as_logins := (login_at e m t)(s := None)\<rparr>"
  by (subst abs_login_key [of s m' m]) (auto simp: removed_def login_at_def live_def)

lemma abs_at_sel [simp]: "as_sessions (abs_at e m t) = session_at e m t" "as_logins (abs_at e m t) = login_at e m t"
  by (simp_all add: abs_at_def)

section \<open>The refinement\<close>

context kv_contract
begin

lemma put_effect:
  assumes "store_put \<lparr>st_backend = b, st_enc = e\<rparr> k v ttl w = (r, w')" "0 < ttl"
  obtains (none) "r \<noteq> None" "view (w_kv w') = view (w_kv w)"
  | (put) p c where "v = Some p" "enc_open e c = Some p" "live (view (w_kv w')) (w_now w) k = Some c"
      "\<And>k'. k' \<noteq> k \<Longrightarrow> view (w_kv w') k' = view (w_kv w) k'"
proof (cases v)
  case None
  with assms(1) none show thesis by (auto simp: store_put_def)
next
  case (Some p)
  obtain y w1 where s: "enc_seal e p w = (y, w1)" by fastforce
  have w1: "w_kv w1 = w_kv w" "w_now w1 = w_now w" using quiet_enc_seal [OF s] by (simp_all add: quietD)
  show thesis
  proof (cases y)
    case None
    with assms(1) s w1 Some none show thesis by (auto simp: store_put_def)
  next
    case c: (Some c)
    obtain er s' where b: "b_set b (w_kv w) (w_now w) k c ttl = (er, s')" by fastforce
    have w': "r = map_option EBackend er" "w_kv w' = s'" using assms(1) s c Some w1 b by (auto simp: store_put_def)
    show thesis
    proof (cases "stored_as (view (w_kv w)) (view s') (w_now w) k c ttl")
      case True
      then have "live (view s') (w_now w) k = Some c" "k' \<noteq> k \<Longrightarrow> view s' k' = view (w_kv w) k'" for k'
        by (auto simp: stored_as_def live_def split: option.split)
      with put [OF Some enc_open_seal [OF s [unfolded c]]] w' show thesis by blast
    next
      case False
      then have "er \<noteq> None" "view s' = view (w_kv w)"
        using set_ok set_err b assms(2) by (cases er; fastforce)+
      with none w' show thesis by simp
    qed
  qed
qed


lemma create_session_refines:
  assumes run: "createSession \<lparr>st_backend = b, st_enc = e\<rparr> rec ttl w = (r, w')" and ok: "0 < ttl" "record_text_ok rec"
  shows "store_spec (Create_Session rec ttl) (case r of Inl er \<Rightarrow> Failed er | Inr sid \<Rightarrow> Got_ID sid)
    (abs_at e (view (w_kv w)) (w_now w)) (abs_at e (view (w_kv w')) (w_now w))"
proof (cases "\<exists>sid w1. generateID w = (Some sid, w1)")
  case False
  then obtain w1 where "generateID w = (None, w1)" by (metis option.exhaust surj_pair)
  then have "r = Inl ERandom" "w_kv w' = w_kv w"
    using run quiet_generateID [of w None w1] by (auto simp: createSession_def quietD)
  then show ?thesis by (auto intro: store_spec.failed)
next
  case True
  then obtain sid w1 where g: "generateID w = (Some sid, w1)" by blast
  obtain x w2 where p: "store_put \<lparr>st_backend = b, st_enc = e\<rparr> (sessionKeyPrefix @ sid) (marshalRecord rec) ttl w1 = (x, w2)"
    by fastforce
  have w1: "w_kv w1 = w_kv w" "w_now w1 = w_now w" using quiet_generateID [OF g] by (simp_all add: quietD)
  have w': "w' = w2" "r = (case x of None \<Rightarrow> Inr sid | Some er \<Rightarrow> Inl er)"
    using run g p by (auto simp: createSession_def split: option.splits)
  have now: "w_now w2 = w_now w" using store_stepD(2) [OF store_step_put [OF p]] w1 by simp
  show ?thesis
  proof (cases rule: put_effect [OF p ok(1), case_names none stored])
    case none
    then show ?thesis using w' w1 by (auto intro!: store_spec.failed simp: absent_def)
  next
    case t: (stored t c)
    then have "session_at e (view (w_kv w2)) (w_now w) sid = Some rec"
      using unmarshal_marshalRecord [OF t(1) ok(2)] now w1 by (simp add: session_at_def)
    with t(4) w1 have "abs_at e (view (w_kv w2)) (w_now w)
        = (abs_at e (view (w_kv w)) (w_now w))\<lparr>as_sessions := (session_at e (view (w_kv w)) (w_now w))(sid \<mapsto> rec)\<rparr>"
      by (subst abs_session_key [of sid "view (w_kv w2)" "view (w_kv w)"]) simp_all
    then show ?thesis
      using store_spec.created [of rec ttl sid "abs_at e (view (w_kv w)) (w_now w)"]
        store_spec.create_lost [of rec ttl _ "abs_at e (view (w_kv w)) (w_now w)" sid] w'
      by (auto split: option.split)
  qed
qed

lemma create_login_refines:
  assumes run: "createLoginTransaction \<lparr>st_backend = b, st_enc = e\<rparr> txn ttl w = (r, w')" and ok: "0 < ttl" "txn_text_ok txn"
  shows "store_spec (Create_Login txn ttl) (case r of Inl er \<Rightarrow> Failed er | Inr s \<Rightarrow> Got_ID s)
    (abs_at e (view (w_kv w)) (w_now w)) (abs_at e (view (w_kv w')) (w_now w))"
proof (cases "\<exists>s w1. generateID w = (Some s, w1)")
  case False
  then obtain w1 where "generateID w = (None, w1)" by (metis option.exhaust surj_pair)
  then have "r = Inl ERandom" "w_kv w' = w_kv w"
    using run quiet_generateID [of w None w1] by (auto simp: createLoginTransaction_def quietD)
  then show ?thesis by (auto intro: store_spec.failed)
next
  case True
  then obtain s w1 where g: "generateID w = (Some s, w1)" by blast
  obtain x w2 where p: "store_put \<lparr>st_backend = b, st_enc = e\<rparr> (loginKeyPrefix @ s) (marshalTxn txn) ttl w1 = (x, w2)"
    by fastforce
  have w1: "w_kv w1 = w_kv w" "w_now w1 = w_now w" using quiet_generateID [OF g] by (simp_all add: quietD)
  have w': "w' = w2" "r = (case x of None \<Rightarrow> Inr s | Some er \<Rightarrow> Inl er)"
    using run g p by (auto simp: createLoginTransaction_def split: option.splits)
  have now: "w_now w2 = w_now w" using store_stepD(2) [OF store_step_put [OF p]] w1 by simp
  show ?thesis
  proof (cases rule: put_effect [OF p ok(1), case_names none stored])
    case none
    then show ?thesis using w' w1 by (auto intro!: store_spec.failed simp: absent_def)
  next
    case t: (stored t c)
    then have "login_at e (view (w_kv w2)) (w_now w) s = Some txn"
      using unmarshal_marshalTxn [OF t(1) ok(2)] now w1 by (simp add: login_at_def)
    with t(4) w1 have "abs_at e (view (w_kv w2)) (w_now w)
        = (abs_at e (view (w_kv w)) (w_now w))\<lparr>as_logins := (login_at e (view (w_kv w)) (w_now w))(s \<mapsto> txn)\<rparr>"
      by (subst abs_login_key [of s "view (w_kv w2)" "view (w_kv w)"]) simp_all
    then show ?thesis
      using store_spec.begun [of txn ttl s "abs_at e (view (w_kv w)) (w_now w)"]
        store_spec.begin_lost [of txn ttl _ "abs_at e (view (w_kv w)) (w_now w)" s] w'
      by (auto split: option.split)
  qed
qed

lemma get_session_refines:
  assumes run: "getSession \<lparr>st_backend = b, st_enc = e\<rparr> sid w = (r, w')"
  shows "store_spec (Get_Session sid) (case r of Inl er \<Rightarrow> Failed er | Inr rec \<Rightarrow> Got_Record rec)
    (abs_at e (view (w_kv w)) (w_now w)) (abs_at e (view (w_kv w')) (w_now w))"
proof (cases r)
  case (Inl er)
  have "session_at e (view (w_kv w)) (w_now w) sid = None" if "er = EBackend ErrNotFound"
    using getSession_complete [OF _ run] Inl that
    by (cases "session_at e (view (w_kv w)) (w_now w) sid") auto
  then show ?thesis using Inl getSession_view [OF run] by (auto intro: store_spec.failed simp: absent_def)
next
  case (Inr rec)
  with getSession_Inr [OF run [unfolded Inr]] getSession_view [OF run] show ?thesis by (auto intro: store_spec.got)
qed

lemma delete_session_refines:
  assumes run: "deleteSession \<lparr>st_backend = b, st_enc = e\<rparr> sid w = (r, w')"
  shows "store_spec (Delete_Session sid) (case r of Some er \<Rightarrow> Failed er | None \<Rightarrow> Done)
    (abs_at e (view (w_kv w)) (w_now w)) (abs_at e (view (w_kv w')) (w_now w))"
proof -
  obtain x s' where d: "b_del b (w_kv w) (w_now w) (sessionKeyPrefix @ sid) = (x, s')" by fastforce
  then have w': "r = map_option EBackend x" "w_kv w' = s'" using run by (auto simp: deleteSession_def)
  show ?thesis
  proof (cases x)
    case None
    from abs_removed_session [OF del_ok [OF d [unfolded None]], of e "w_now w"] w' None show ?thesis
      using store_spec.deleted [of sid "abs_at e (view (w_kv w)) (w_now w)"] by simp
  next
    case (Some er)
    from del_err [OF d [unfolded Some]] show ?thesis
    proof
      assume "view s' = view (w_kv w)"
      then show ?thesis using w' Some by (auto intro: store_spec.failed simp: absent_def)
    next
      assume "removed (view (w_kv w)) (view s') (sessionKeyPrefix @ sid)"
      from abs_removed_session [OF this, of e "w_now w"] w' Some show ?thesis
        using store_spec.delete_lost [of sid "EBackend er" "abs_at e (view (w_kv w)) (w_now w)"] by simp
    qed
  qed
qed

lemma take_login_refines:
  assumes run: "takeLoginTransaction \<lparr>st_backend = b, st_enc = e\<rparr> s w = (r, w')"
  shows "store_spec (Take_Login s) (case r of Inl er \<Rightarrow> Failed er | Inr txn \<Rightarrow> Got_Login txn)
    (abs_at e (view (w_kv w)) (w_now w)) (abs_at e (view (w_kv w')) (w_now w))"
proof -
  obtain x s' where g: "b_getdel b (w_kv w) (w_now w) (loginKeyPrefix @ s) = (x, s')" by fastforce
  have w': "w_kv w' = s'"
    using run g by (auto simp: takeLoginTransaction_def split: sum.splits option.splits)
  have er: "er = EBackend ErrNotFound \<Longrightarrow> x = Inl ErrNotFound" if "r = Inl er" for er
    using run g that by (auto simp: takeLoginTransaction_def split: sum.splits option.splits)
  have absent: "login_at e (view (w_kv w)) (w_now w) s = None" if "x = Inl ErrNotFound"
    using getdel_absent [OF g [unfolded that]] by (simp add: login_at_def)
  show ?thesis
  proof (cases r)
    case (Inr txn)
    have "\<exists>v. x = Inr v" using run g Inr by (auto simp: takeLoginTransaction_def split: sum.splits)
    then have "removed (view (w_kv w)) (view s') (loginKeyPrefix @ s)" using getdel_value g by blast
    from abs_removed_login [OF this, of e "w_now w"] take_Inr(1) [OF run [unfolded Inr]] Inr w' show ?thesis
      using store_spec.taken [of "abs_at e (view (w_kv w)) (w_now w)" s txn] by simp
  next
    case (Inl er)
    show ?thesis
    proof (cases "view s' = view (w_kv w)")
      case True
      then show ?thesis using Inl w' er [OF Inl] absent by (auto intro: store_spec.failed simp: absent_def)
    next
      case False
      with getdel_view [OF g] abs_removed_login [of "view (w_kv w)" "view s'" s e "w_now w"]
      have a: "abs_at e (view s') (w_now w) = (abs_at e (view (w_kv w)) (w_now w))
          \<lparr>as_logins := (login_at e (view (w_kv w)) (w_now w))(s := None)\<rparr>" by blast
      show ?thesis
      proof (cases "er = EBackend ErrNotFound")
        case True
        with absent er [OF Inl] have "login_at e (view (w_kv w)) (w_now w) s = None" by blast
        with a have "abs_at e (view s') (w_now w) = abs_at e (view (w_kv w)) (w_now w)"
          by (simp add: abs_at_def fun_upd_idem)
        then show ?thesis using Inl w' absent er [OF Inl] by (auto intro: store_spec.failed simp: absent_def)
      next
        case False
        from store_spec.take_lost [OF this, of s "abs_at e (view (w_kv w)) (w_now w)"] a Inl w' show ?thesis by simp
      qed
    qed
  qed
qed

end

text \<open>
  C6: The session store implements two maps. On any backend with the contract, each operation with
  a positive lifetime is one step of the specification between what the store holds before and what
  it holds after, at the instant of the call: a read returns what the map holds, \<^verbatim>\<open>not found\<close> is only
  said of a key that is not there, a login transaction is handed out at most once, and an operation that
  fails leaves the maps as they were or with its own effect, never with another key changed.
\<close>

theorem store_refines:
  assumes "kv_contract b view" "store_exec \<lparr>st_backend = b, st_enc = e\<rparr> op w = (res, w')" "op_ok op"
  shows "store_spec op res (abs_at e (view (w_kv w)) (w_now w)) (abs_at e (view (w_kv w')) (w_now w'))
    \<and> w_now w' = w_now w"
proof (cases op)
  case (Create_Session rec ttl)
  obtain r w1 where c: "createSession \<lparr>st_backend = b, st_enc = e\<rparr> rec ttl w = (r, w1)" by fastforce
  then show ?thesis
    using kv_contract.create_session_refines [OF assms(1) c] assms(2,3) Create_Session
      store_stepD(2) [OF store_step_createSession [OF c]]
    by (auto simp: store_exec_def split: sum.splits)
next
  case (Get_Session sid)
  obtain r w1 where c: "getSession \<lparr>st_backend = b, st_enc = e\<rparr> sid w = (r, w1)" by fastforce
  then show ?thesis
    using kv_contract.get_session_refines [OF assms(1) c] assms(2) Get_Session
      store_stepD(2) [OF store_step_getSession [OF c]]
    by (auto simp: store_exec_def split: sum.splits)
next
  case (Delete_Session sid)
  obtain r w1 where c: "deleteSession \<lparr>st_backend = b, st_enc = e\<rparr> sid w = (r, w1)" by fastforce
  then show ?thesis
    using kv_contract.delete_session_refines [OF assms(1) c] assms(2) Delete_Session
      store_stepD(2) [OF store_step_delete [OF c]]
    by (auto simp: store_exec_def split: option.splits)
next
  case (Create_Login txn ttl)
  obtain r w1 where c: "createLoginTransaction \<lparr>st_backend = b, st_enc = e\<rparr> txn ttl w = (r, w1)" by fastforce
  then show ?thesis
    using kv_contract.create_login_refines [OF assms(1) c] assms(2,3) Create_Login
      store_stepD(2) [OF store_step_createLogin [OF c]]
    by (auto simp: store_exec_def split: sum.splits)
next
  case (Take_Login s)
  obtain r w1 where c: "takeLoginTransaction \<lparr>st_backend = b, st_enc = e\<rparr> s w = (r, w1)" by fastforce
  then show ?thesis
    using kv_contract.take_login_refines [OF assms(1) c] assms(2) Take_Login
      store_stepD(2) [OF store_step_take [OF c]]
    by (auto simp: store_exec_def split: sum.splits)
qed

lemma store_refines_witness:
  "store_spec (Get_Session demo_state) (fst (store_exec demo_store (Get_Session demo_state) demo_w3))
     (abs_at demo_enc (db_map (w_kv demo_w3)) minute)
     (abs_at demo_enc (db_map (w_kv (snd (store_exec demo_store (Get_Session demo_state) demo_w3)))) minute)
   \<and> as_sessions (abs_at demo_enc (db_map (w_kv demo_w3)) minute) demo_state \<noteq> None"
proof -
  obtain csrf where s: "w_now demo_w3 = minute"
      "session_at demo_enc (db_map (w_kv demo_w3)) minute demo_state = Some (demo_live_record csrf)"
    by (rule demo_w3_facts)
  have "store_exec \<lparr>st_backend = redis_backend ref_client, st_enc = demo_enc\<rparr> (Get_Session demo_state) demo_w3
      = (fst (store_exec demo_store (Get_Session demo_state) demo_w3), snd (store_exec demo_store (Get_Session demo_state) demo_w3))"
    by (simp add: demo_store_def)
  from store_refines [OF ref.rb.kv_contract_axioms this] s show ?thesis by auto
qed

end
