(* ===== verification/Streams.thy ===== *)
theory Streams
  imports Scenario "HOL-Library.While_Combinator" "HOL-Library.Sublist"
begin

text \<open>
  Pod logs (\<^verbatim>\<open>internal/httpapi/logs.go\<close>, \<^verbatim>\<open>internal/capsule/logs.go\<close>): the copy loop as the
  code writes it, read by read, and that it ends; what of the upstream's bytes the browser gets; and
  how the caller's query becomes the upstream's.
\<close>

section \<open>The copy loop, read by read\<close>

text \<open>One \<^verbatim>\<open>Read\<close> into the 4096-byte buffer: the bytes, whether it reported an error, the rest.\<close>

fun read_buf :: "string list \<Rightarrow> string \<times> bool \<times> string list" where
  "read_buf [] = ('''', True, [])"
| "read_buf (c # cs) = (take copy_buf c, False, if length c \<le> copy_buf then cs else drop copy_buf c # cs)"

text \<open>The loop body; the flag says that the loop has returned.\<close>

type_synonym copy_state = "rw \<times> string list \<times> bool"

definition copy_body :: "copy_state \<Rightarrow> copy_state" where
  "copy_body = (\<lambda>(rw, src, _).
     let (bs, readErr, src') = read_buf src in
     if 0 < length bs then
       (case write_bytes bs rw of
          (rw1, False) \<Rightarrow> (rw1, src', True)
        | (rw1, True) \<Rightarrow> (flush rw1, src', readErr))
     else (rw, src', readErr))"

definition copy_loop :: "rw \<Rightarrow> string list \<Rightarrow> copy_state option" where
  "copy_loop rw src = while_option (\<lambda>(_, _, returned). \<not> returned) copy_body (rw, src, False)"

lemma copy_loop_unfold:
  "while_option (\<lambda>(_, _, returned). \<not> returned) copy_body (rw, src, False)
   = while_option (\<lambda>(_, _, returned). \<not> returned) copy_body (copy_body (rw, src, False))"
  by (subst while_option_unfold) simp

lemma copy_loop_returned [simp]:
  "while_option (\<lambda>(_, _, returned). \<not> returned) copy_body (rw, src, True) = Some (rw, src, True)"
  by (subst while_option_unfold) simp

lemma copyLogStream_Cons:
  "copyLogStream rw (c # cs) =
     (if c = [] then copyLogStream rw cs
      else case write_bytes (take copy_buf c) rw of
        (rw1, False) \<Rightarrow> rw1
      | (rw1, True) \<Rightarrow> copyLogStream (flush rw1) (if length c \<le> copy_buf then cs else drop copy_buf c # cs))"
  by (rule copyLogStream.simps(2))


section \<open>What the browser gets\<close>

lemma write_bytes_more:
  "write_bytes bs rw = (rw1, ok) \<Longrightarrow>
   rw_body rw1 = (if ok then rw_body rw @ bs else rw_body rw) \<and> (rw_accept rw = None \<longrightarrow> ok \<and> rw_accept rw1 = None)
   \<and> rw_status rw1 \<noteq> None \<and> (rw_status rw \<noteq> None \<longrightarrow> rw_status rw1 = rw_status rw \<and> rw_sent rw1 = rw_sent rw)"
  by (auto simp: write_bytes_def write_header_def Let_def split: if_splits option.splits)

lemma flush_same:
  "rw_body (flush rw) = rw_body rw" "rw_accept (flush rw) = rw_accept rw"
  "rw_status rw \<noteq> None \<Longrightarrow> rw_status (flush rw) = rw_status rw \<and> rw_sent (flush rw) = rw_sent rw"
  by (auto simp: flush_def write_header_def split: option.split)

text \<open>A prefix of the source, all of it while the client stays; status and headers as they were sent.\<close>

lemma copyLogStream_body:
  assumes "rw_status rw \<noteq> None"
  shows "(\<exists>p. prefix p (concat cs) \<and> rw_body (copyLogStream rw cs) = rw_body rw @ p
      \<and> (rw_accept rw = None \<longrightarrow> p = concat cs))
    \<and> rw_status (copyLogStream rw cs) = rw_status rw \<and> rw_sent (copyLogStream rw cs) = rw_sent rw"
  using assms
proof (induction rw cs rule: copyLogStream.induct)
  case (2 rw c cs)
  show ?case
  proof (cases "c = []")
    case True
    with 2(1) [OF True 2(3)] show ?thesis by (simp add: copyLogStream_Cons)
  next
    case False
    obtain rw1 ok where w: "write_bytes (take copy_buf c) rw = (rw1, ok)" by fastforce
    note w1 = write_bytes_more [OF w]
    define rest where "rest = (if length c \<le> copy_buf then cs else drop copy_buf c # cs)"
    have rest: "concat (c # cs) = take copy_buf c @ concat rest" by (simp add: rest_def)
    show ?thesis
    proof (cases ok)
      case True
      have t: "ok = True" using True by simp
      have st: "rw_status (flush rw1) \<noteq> None" using w1 flush_same(3) [of rw1] by simp
      note ih = 2(2) [OF False w [symmetric] t st, folded rest_def]
      from conjunct1 [OF ih] obtain p where
        p: "prefix p (concat rest) \<and> rw_body (copyLogStream (flush rw1) rest) = rw_body (flush rw1) @ p
          \<and> (rw_accept (flush rw1) = None \<longrightarrow> p = concat rest)" ..
      have c: "copyLogStream rw (c # cs) = copyLogStream (flush rw1) rest"
        using False w True by (simp add: copyLogStream_Cons rest_def)
      show ?thesis unfolding c rest
        using p conjunct2 [OF ih] w1 True flush_same [of rw1] 2(3)
        by (intro conjI exI [of _ "take copy_buf c @ p"]) simp_all
    next
      case ok: False
      then have "copyLogStream rw (c # cs) = rw1" using False w by (simp add: copyLogStream_Cons)
      with w1 ok 2(3) show ?thesis by (intro conjI exI [of _ "[]"]) auto
    qed
  qed
qed simp

text \<open>
  C18: What a log request returns, and for how long. With a session, valid names, options that parse
  and an upstream whose 200 comes within ten minutes, the response is a 200 of plain text whose body is
  a prefix of what the upstream delivers within ten minutes, of at most 50 MiB; while the client stays
  connected it is all of that up to the bound, read errors in the middle included; and one upstream
  request was made for it. No other timeout cuts the stream.
\<close>

theorem log_stream_answer:
  assumes run: "podLogsHandler c r (new_rw a) w = (rw', w')"
    and r: "rq_ctx r = Some rec" "validK8sName (rq_pathvalue r ''ns'')" "validK8sName (rq_pathvalue r ''name'')"
      "parseLogOptions (query_of r) = Inr opts"
    and url: "url = cl_baseURL c @ log_path (rq_pathvalue r ''ns'') (rq_pathvalue r ''name'') @ ''?'' @ query_encode (log_query opts)"
    and req: "req = \<lparr>or_method = ''GET'', or_url = url,
                 or_header = [(''Authorization'', bearer (IDToken rec)), (''Accept'', ''text/plain, */*'')]\<rparr>"
    and client: "c = NewClient base url_ok tr0 hc" "url_ok url"
    and up: "hc_transport (cl_streamClient c) (w_sent w) req = Tr_Response t 200 b" "t < 10 * minute"
    and arrived: "arrived = concat (map snd (takeWhile (\<lambda>x. fst x < 10 * minute) (tr_chunks b)))"
  shows "rw_status rw' = Some 200 \<and> rw_sent rw' ''Content-Type'' = [''text/plain; charset=utf-8'']
    \<and> prefix (rw_body rw') arrived \<and> length (rw_body rw') \<le> 52428800
    \<and> (a = None \<longrightarrow> rw_body rw' = take 52428800 arrived)
    \<and> w' = w\<lparr>w_sent := w_sent w @ [req]\<rparr>"
proof -
  let ?rw = "write_header 200 (set_header ''Content-Type'' ''text/plain; charset=utf-8'' (new_rw a))"
  let ?body = "body_until (Some (10 * minute)) b"
  let ?cs = "limit_chunks maxStreamBytes (rd_chunks ?body)"
  have "client_deadline (cl_streamClient c) (Some maxLogStreamDuration) = Some (10 * minute)"
    by (simp add: client(1) NewClient_def Let_def client_deadline_def maxLogStreamDuration_def)
  then have do: "http_Do (cl_streamClient c) (Some maxLogStreamDuration) (w_sent w) req = Do_Response 200 ?body"
    using up by (simp add: http_Do_def receive_def in_time_def)
  have ok: "cl_url_ok c url" using client by (simp add: NewClient_def Let_def)
  have arr: "concat (rd_chunks ?body) = arrived" by (simp add: arrived body_until_def in_time_def)
  have "StreamPodLogs c (Some maxLogStreamDuration) (IDToken rec) (rq_pathvalue r ''ns'') (rq_pathvalue r ''name'') opts w
      = (Inr ?body, w\<lparr>w_sent := w_sent w @ [req]\<rparr>)"
    using do ok unfolding StreamPodLogs_def url req by (simp add: Let_def)
  then have w': "rw' = copyLogStream ?rw ?cs" "w' = w\<lparr>w_sent := w_sent w @ [req]\<rparr>"
    using run r by (simp_all add: podLogsHandler_def sessionFromContext_def Let_def limitReader_def)
  have s: "rw_status ?rw = Some 200" "rw_sent ?rw ''Content-Type'' = [''text/plain; charset=utf-8'']"
      "rw_body ?rw = ''''" "rw_accept ?rw = a"
    by (simp_all add: write_header_def set_header_def new_rw_def)
  from copyLogStream_body [of ?rw ?cs] s obtain p where
    p: "prefix p (concat ?cs)" "rw_body rw' = p" "a = None \<longrightarrow> p = concat ?cs"
      "rw_status rw' = Some 200" "rw_sent rw' = rw_sent ?rw"
    unfolding w' by auto
  have m: "maxStreamBytes = 52428800" by (simp add: maxStreamBytes_def)
  have "prefix p (concat (rd_chunks ?body))" "length p \<le> 52428800"
    using p(1) prefix_length_le [OF p(1)] unfolding concat_limit_chunks m
    by (auto intro: prefix_order.trans [OF _ take_is_prefix])
  then show ?thesis using p s w'(2) unfolding concat_limit_chunks m arr by simp
qed

section \<open>The caller's query and the upstream's\<close>

lemma query_set_mem: "(a, b) \<in> set (query_set k v q) \<longleftrightarrow> (if a = k then b = v else (a, b) \<in> set q)"
  by (auto simp: query_set_def)

lemma distinct_query_set: "distinct (map fst q) \<Longrightarrow> distinct (map fst (query_set k v q))"
  by (auto simp: query_set_def distinct_map inj_on_def)

lemma query_get_Nil [simp]: "query_get [] k = ''''"
  by (simp add: query_get_def)

lemma log_query_distinct: "distinct (map fst (log_query opts))"
  by (simp add: log_query_def Let_def distinct_query_set)

lemma log_query_keys:
  "fst ` set (log_query opts) \<subseteq> {''container'', ''tailLines'', ''limitBytes'', ''sinceSeconds'', ''follow''}"
  by (auto simp: log_query_def Let_def query_set_mem split: if_splits)

lemma log_query_get:
  "query_get (log_query opts) ''tailLines'' = (if 0 < TailLines opts then formatInt (TailLines opts) else '''')"
  "query_get (log_query opts) ''limitBytes'' = (if 0 < LimitBytes opts then formatInt (LimitBytes opts) else '''')"
  "query_get (log_query opts) ''sinceSeconds'' = (if 0 < SinceSeconds opts then formatInt (SinceSeconds opts) else '''')"
  "query_get (log_query opts) ''container'' = Container opts"
  "query_get (log_query opts) ''follow'' = (if Follow opts then ''true'' else '''')"
  by (simp_all add: log_query_def Let_def query_set_get)

lemma positive_option_parse:
  "positive_option q k = Inr x \<Longrightarrow>
   (query_get q k = '''' \<longrightarrow> x = None) \<and> (query_get q k \<noteq> '''' \<longrightarrow> (\<exists>n. x = Some n \<and> parseInt64 (query_get q k) = Some n))"
  by (cases "parseInt64 (query_get q k)") (auto simp: positive_option_def Let_def split: if_splits)

definition demo_log_request :: "Record request" where
  "demo_log_request = demo_request ''GET'' ''/api/namespaces/team-a/pods/web-0/logs'' ''tailLines=9999&follow=true'' []
     \<lparr>rq_ctx := Some demo_record, rq_pathvalue := path_values [(''ns'', ''team-a''), (''name'', ''web-0'')]\<rparr>"

definition demo_log_transport :: transport where
  "demo_log_transport sent q = Tr_Response second 200
     \<lparr>tr_chunks = [(second, ''ready''), (minute, ''''), (9 * minute, '' to serve''), (11 * minute, '' too late'')],
      tr_end = (12 * minute, False)\<rparr>"

definition demo_log_client :: Client where
  "demo_log_client = NewClient ''https://capsule/'' (\<lambda>_. True) demo_log_transport None"

definition demo_log_options :: LogOptions where
  "demo_log_options = \<lparr>Container = '''', TailLines = 2000, LimitBytes = 262144, SinceSeconds = 0, Follow = True\<rparr>"

lemma demo_log_parts:
  "rq_ctx demo_log_request = Some demo_record" "rq_pathvalue demo_log_request ''ns'' = ''team-a''"
  "rq_pathvalue demo_log_request ''name'' = ''web-0''" "validK8sName ''team-a''" "validK8sName ''web-0''"
  by (simp_all add: demo_log_request_def path_values_def validK8sName_iff, code_simp+)

lemma demo_log_parse: "parseLogOptions (query_of demo_log_request) = Inr demo_log_options"
proof -
  have "parseLogOptions (parse_query ''tailLines=9999&follow=true'') = Inr demo_log_options" by code_simp
  then show ?thesis by (simp add: query_of_def demo_log_request_def demo_request_def)
qed

lemma log_stream_answer_witness:
  "\<exists>rw' w'. podLogsHandler demo_log_client demo_log_request (new_rw None) (demo_world empty_db) = (rw', w')
    \<and> rw_status rw' = Some 200 \<and> rw_body rw' = ''ready to serve''"
proof -
  obtain rw' w' where run: "podLogsHandler demo_log_client demo_log_request (new_rw None) (demo_world empty_db) = (rw', w')"
    by fastforce
  have up: "hc_transport (cl_streamClient demo_log_client) s q = demo_log_transport s q" for s q
    by (simp add: demo_log_client_def NewClient_def Let_def)
  have "rw_status rw' = Some 200" "rw_body rw' = take 52428800 ''ready to serve''"
    using log_stream_answer [OF run demo_log_parts(1) _ _ demo_log_parse refl refl demo_log_client_def _
        up [unfolded demo_log_transport_def] _ refl] demo_log_parts by simp_all
  with run show ?thesis by (intro exI conjI) simp_all
qed

text \<open>
  C17: What the upstream is asked for. When the caller's query is accepted, the query string put on the
  upstream URL decodes to the five known parameters only: the tail asked for, cut to 2000 lines (200
  unasked), the bytes asked for, cut to 1 MiB (256 KiB unasked), the age and container asked for and
  nothing unasked, and the follow flag exactly for \<^verbatim>\<open>follow=true\<close>.
\<close>

theorem log_query_sent:
  assumes ok: "parseLogOptions q = Inr opts" and sent: "sent = parse_query (query_encode (log_query opts))"
  shows "parseInt64 (query_get sent ''tailLines'')
        = (if query_get q ''tailLines'' = '''' then Some 200 else map_option (\<lambda>n. min n 2000) (parseInt64 (query_get q ''tailLines'')))
    \<and> parseInt64 (query_get sent ''limitBytes'')
        = (if query_get q ''limitBytes'' = '''' then Some 262144 else map_option (\<lambda>n. min n 1048576) (parseInt64 (query_get q ''limitBytes'')))
    \<and> (if query_get q ''sinceSeconds'' = '''' then query_get sent ''sinceSeconds'' = ''''
       else parseInt64 (query_get sent ''sinceSeconds'') = parseInt64 (query_get q ''sinceSeconds''))
    \<and> query_get sent ''container'' = query_get q ''container''
    \<and> query_get sent ''follow'' = (if query_get q ''follow'' = ''true'' then ''true'' else '''')
    \<and> fst ` set sent \<subseteq> {''container'', ''tailLines'', ''limitBytes'', ''sinceSeconds'', ''follow''}
    \<and> log_bounds opts"
proof -
  have get: "query_get sent k = query_get (log_query opts) k" for k
    by (simp add: sent query_get_encode log_query_distinct)
  have bounds: "log_bounds opts" by (rule parseLogOptions_bounds [OF ok])
  then have num: "parseInt64 (formatInt (TailLines opts)) = Some (TailLines opts)"
      "parseInt64 (formatInt (LimitBytes opts)) = Some (LimitBytes opts)"
      "parseInt64 (formatInt (SinceSeconds opts)) = Some (SinceSeconds opts)"
    by (auto simp: log_bounds_def int64_max_def int64_min_def intro!: parseInt_formatInt)
  have keys: "fst ` set sent \<subseteq> {''container'', ''tailLines'', ''limitBytes'', ''sinceSeconds'', ''follow''}"
    using log_query_keys [of opts] by (simp add: sent parse_query_encode)
  from ok show ?thesis
  proof (rule parseLogOptions_Inr, goal_cases)
    case (1 tails lb ss)
    have pos: "0 < TailLines opts" "0 < LimitBytes opts" using bounds by (simp_all add: log_bounds_def)
    have tails: "parseInt64 (query_get sent ''tailLines'') = (if query_get q ''tailLines'' = '''' then Some 200
        else map_option (\<lambda>n. min n 2000) (parseInt64 (query_get q ''tailLines'')))"
      using positive_option_parse [OF 1(1)] 1(4) pos(1) num(1)
      by (auto simp: get log_query_get defaultTailLines_def maxTailLines_def)
    have lb: "parseInt64 (query_get sent ''limitBytes'') = (if query_get q ''limitBytes'' = '''' then Some 262144
        else map_option (\<lambda>n. min n 1048576) (parseInt64 (query_get q ''limitBytes'')))"
      using positive_option_parse [OF 1(2)] 1(5) pos(2) num(2)
      by (auto simp: get log_query_get defaultLimitBytes_def maxLimitBytes_def)
    have ss: "if query_get q ''sinceSeconds'' = '''' then query_get sent ''sinceSeconds'' = ''''
        else parseInt64 (query_get sent ''sinceSeconds'') = parseInt64 (query_get q ''sinceSeconds'')"
      using positive_option_parse [OF 1(3)] positive_option_bounds [OF 1(3)] 1(6) num(3)
      by (cases ss) (auto simp: get log_query_get)
    show ?case using tails lb ss keys bounds 1(7,9) by (simp add: get log_query_get)
  qed
qed

lemma log_query_sent_witness:
  "parseInt64 (query_get (parse_query (query_encode (log_query demo_log_options))) ''tailLines'') = Some 2000"
proof -
  have q: "parseInt64 (query_get (query_of demo_log_request) ''tailLines'') = Some 9999"
      "query_get (query_of demo_log_request) ''tailLines'' \<noteq> ''''"
  proof -
    have "query_get (parse_query ''tailLines=9999&follow=true'') ''tailLines'' = ''9999''" "parseInt64 ''9999'' = Some 9999"
      by code_simp+
    then show "parseInt64 (query_get (query_of demo_log_request) ''tailLines'') = Some 9999"
        "query_get (query_of demo_log_request) ''tailLines'' \<noteq> ''''"
      by (simp_all add: query_of_def demo_log_request_def demo_request_def)
  qed
  with conjunct1 [OF log_query_sent [OF demo_log_parse refl]] show ?thesis by simp
qed

text \<open>The condition the handler turns down a query under, parameter by parameter.\<close>

definition bad_number :: "qvalues \<Rightarrow> string \<Rightarrow> bool" where
  "bad_number q k \<longleftrightarrow> query_get q k \<noteq> '''' \<and> (case parseInt64 (query_get q k) of None \<Rightarrow> True | Some n \<Rightarrow> n \<le> 0)"

lemma positive_option_Inl: "positive_option q k = Inl e \<longleftrightarrow> bad_number q k \<and> e = ''invalid '' @ k"
  by (auto simp: positive_option_def bad_number_def Let_def split: option.splits)

text \<open>
  C36: Which log queries are refused, and with what message: the first of tailLines, limitBytes,
  sinceSeconds that is given and is not a positive 64-bit number, else a container that is given and is
  not a DNS label. Repeated parameters count once, by their first value.
\<close>

theorem log_query_refused:
  "parseLogOptions q = Inl e \<longleftrightarrow>
     (if bad_number q ''tailLines'' then e = ''invalid tailLines''
      else if bad_number q ''limitBytes'' then e = ''invalid limitBytes''
      else if bad_number q ''sinceSeconds'' then e = ''invalid sinceSeconds''
      else query_get q ''container'' \<noteq> '''' \<and> \<not> dns_label (query_get q ''container'') \<and> e = ''invalid container'')"
proof -
  have no: "\<exists>x. positive_option q k = Inr x" if "\<not> bad_number q k" for k
    using positive_option_Inl [of q k] that by (cases "positive_option q k") auto
  have yes: "positive_option q k = Inl (''invalid '' @ k)" if "bad_number q k" for k
    using positive_option_Inl that by blast
  show ?thesis
  proof (cases "bad_number q ''tailLines'' \<or> bad_number q ''limitBytes'' \<or> bad_number q ''sinceSeconds''")
    case True
    then show ?thesis
      using no [of "''tailLines''"] no [of "''limitBytes''"] yes
      by (cases "bad_number q ''tailLines''"; cases "bad_number q ''limitBytes''") (auto simp: parseLogOptions_def Let_def)
  next
    case False
    then obtain x y z where "positive_option q ''tailLines'' = Inr x" "positive_option q ''limitBytes'' = Inr y"
        "positive_option q ''sinceSeconds'' = Inr z"
      using no by metis
    then have "parseLogOptions q = Inl e \<longleftrightarrow> query_get q ''container'' \<noteq> '''' \<and> \<not> validK8sName (query_get q ''container'')
        \<and> e = ''invalid container''"
      by (auto simp: parseLogOptions_def Let_def)
    with False show ?thesis by (simp add: validK8sName_iff)
  qed
qed

end
