(* ===== verification/Answers.thy ===== *)
theory Answers
  imports Streams
begin

text \<open>
  What the read-only API answers: the route a request takes does not depend on the order of the
  table, the list handlers against a description of their answers by the upstream's, the pod summary
  in closed form, and the names accepted.
\<close>

section \<open>One route per request\<close>

text \<open>Whether some path has both shapes.\<close>

fun overlap :: "seg_pat list \<Rightarrow> seg_pat list \<Rightarrow> bool" where
  "overlap [] [] = True"
| "overlap (Lit a # ps) (Lit b # qs) = (a = b \<and> overlap ps qs)"
| "overlap (Lit a # ps) (Wild n # qs) = (a \<noteq> '''' \<and> overlap ps qs)"
| "overlap (Wild n # ps) (Lit b # qs) = (b \<noteq> '''' \<and> overlap ps qs)"
| "overlap (Wild n # ps) (Wild m # qs) = overlap ps qs"
| "overlap _ _ = False"

fun all_apart :: "seg_pat list list \<Rightarrow> bool" where
  "all_apart [] = True"
| "all_apart (p # ps) = (list_all (\<lambda>q. \<not> overlap p q) ps \<and> all_apart ps)"

lemma overlap_sym: "overlap ps qs = overlap qs ps"
  by (induction ps qs rule: overlap.induct) auto

lemma match_overlap: "match_segs ps ss \<noteq> None \<Longrightarrow> match_segs qs ss \<noteq> None \<Longrightarrow> overlap ps qs"
  by (induction ps qs arbitrary: ss rule: overlap.induct) (case_tac [!] ss, auto split: if_splits)

lemma all_apart_map:
  "all_apart (map f xs) \<Longrightarrow> x \<in> set xs \<Longrightarrow> y \<in> set xs \<Longrightarrow> overlap (f x) (f y) \<Longrightarrow> x = y"
  by (induction xs) (auto simp: list_all_iff overlap_sym)

definition route_shapes :: "seg_pat list list" where
  "route_shapes =
     [[Lit ''healthz''], [Lit ''readyz''], [Lit ''auth'', Lit ''login''], [Lit ''auth'', Lit ''callback''],
      [Lit ''auth'', Lit ''session''], [Lit ''auth'', Lit ''logout''], [Lit ''api'', Lit ''namespaces''],
      ns_path ''overview''] @
     concat (map (\<lambda>k. [ns_path k, name_path k]) [''deployments'', ''statefulsets'', ''daemonsets'']) @
     [ns_path ''pods'', name_path ''pods'', name_path ''pods'' @ [Lit ''logs'']] @
     concat (map (\<lambda>k. [ns_path k, name_path k])
       [''jobs'', ''cronjobs'', ''services'', ''ingresses'', ''persistentvolumeclaims'']) @
     [ns_path ''events'']"

lemma route_table_shapes: "map rt_segs (route_table auth store c i) = route_shapes"
  by (simp add: route_table_def public_routes_def api_routes_def api_table_def route_shapes_def)

lemma route_shapes_apart: "all_apart route_shapes"
  by code_simp

lemma routes_disjoint:
  assumes "rt1 \<in> set (route_table auth store c i)" "rt2 \<in> set (route_table auth store c i)"
    and "match_segs (rt_segs rt1) ss \<noteq> None" "match_segs (rt_segs rt2) ss \<noteq> None"
  shows "rt1 = rt2"
  using all_apart_map [of rt_segs "route_table auth store c i"] route_shapes_apart match_overlap [OF assms(3,4)] assms(1,2)
  by (simp add: route_table_shapes)

lemma mux_match_iff:
  assumes "\<And>rt1 rt2. rt1 \<in> set rts \<Longrightarrow> rt2 \<in> set rts \<Longrightarrow> match_segs (rt_segs rt1) ss \<noteq> None \<Longrightarrow>
      match_segs (rt_segs rt2) ss \<noteq> None \<Longrightarrow> rt1 = rt2"
  shows "mux_match rts m ss = Some (h, vals) \<longleftrightarrow>
    (\<exists>rt\<in>set rts. rt_handler rt = h \<and> match_segs (rt_segs rt) ss = Some vals \<and> method_matches (rt_method rt) m)"
proof
  assume "\<exists>rt\<in>set rts. rt_handler rt = h \<and> match_segs (rt_segs rt) ss = Some vals \<and> method_matches (rt_method rt) m"
  then obtain rt where rt: "rt \<in> set rts" "rt_handler rt = h" "match_segs (rt_segs rt) ss = Some vals"
      "method_matches (rt_method rt) m" by blast
  then obtain h' vals' where s: "mux_match rts m ss = Some (h', vals')"
    using mux_match_None [of rts m ss] by (cases "mux_match rts m ss") auto
  from mux_match_Some [OF s] assms [of rt] rt show "mux_match rts m ss = Some (h, vals)"
    unfolding s by force
qed (rule mux_match_Some)

text \<open>
  The order of registration does not matter. No path fits two patterns of the table, so any list of
  the same routes sends every request to the same handler with the same path values: the mux's
  most-specific rule never has to decide, and a new order of the lines of \<^verbatim>\<open>NewRouter\<close> changes nothing.
\<close>

theorem route_order_irrelevant:
  assumes "set rts = set (route_table auth store c i)"
  shows "mux_match rts m ss = mux_match (route_table auth store c i) m ss"
proof -
  let ?T = "route_table auth store c i"
  have 1: "mux_match ?T m ss = Some (h, vals) \<longleftrightarrow>
      (\<exists>rt\<in>set ?T. rt_handler rt = h \<and> match_segs (rt_segs rt) ss = Some vals \<and> method_matches (rt_method rt) m)" for h vals
    by (rule mux_match_iff) (rule routes_disjoint)
  have 2: "mux_match rts m ss = Some (h, vals) \<longleftrightarrow>
      (\<exists>rt\<in>set rts. rt_handler rt = h \<and> match_segs (rt_segs rt) ss = Some vals \<and> method_matches (rt_method rt) m)" for h vals
    by (rule mux_match_iff) (unfold assms, rule routes_disjoint)
  have "mux_match rts m ss = Some hv \<longleftrightarrow> mux_match ?T m ss = Some hv" for hv
    using 1 2 by (cases hv) (simp add: assms)
  then show ?thesis by (metis not_None_eq)
qed

lemma route_order_irrelevant_witness:
  "mux_match (rev (route_table demo_auth demo_store demo_client False)) ''GET'' [''healthz'']
   = mux_match (route_table demo_auth demo_store demo_client False) ''GET'' [''healthz'']"
  by (rule route_order_irrelevant) simp

section \<open>The list handlers\<close>

text \<open>What the bounded client makes of an answer: an error response, or the body.\<close>

definition upstream_verdict :: "do_result \<Rightarrow> (nat \<times> string) + string" where
  "upstream_verdict x =
     (case x of
        Do_Error \<Rightarrow> Inl (502, ''upstream unavailable'')
      | Do_Response status body \<Rightarrow>
          (if status = 401 then Inl (401, ''unauthorized'')
           else if status = 403 then Inl (403, ''forbidden'')
           else if status \<noteq> 200 \<or> rd_fails body \<or> 10485760 < length (concat (rd_chunks body))
           then Inl (502, ''upstream unavailable'')
           else Inr (concat (rd_chunks body))))"

definition list_outcome :: "summarizeFunc \<Rightarrow> do_result \<Rightarrow> nat \<times> string" where
  "list_outcome summarize x =
     (case upstream_verdict x of
        Inl (code, msg) \<Rightarrow> (code, msg @ [CHR 0x0A])
      | Inr data \<Rightarrow>
          (case decode_list data of
             None \<Rightarrow> (502, ''upstream unavailable'' @ [CHR 0x0A])
           | Some items \<Rightarrow>
               (case traverse summarize items of
                  None \<Rightarrow> (502, ''upstream returned an unexpected shape'' @ [CHR 0x0A])
                | Some summaries \<Rightarrow> (200, json_print (JObj [(''items'', JArr summaries)]) @ [CHR 0x0A]))))"

lemma summarize_items_traverse: "summarize_items f acc xs = map_option ((@) acc) (traverse f xs)"
  by (induction xs arbitrary: acc) (auto split: option.split)

definition error_answer :: "up_error \<Rightarrow> nat \<times> string" where
  "error_answer e = (case e of ErrUnauthorized \<Rightarrow> (401, ''unauthorized'') | ErrForbidden \<Rightarrow> (403, ''forbidden'')
     | ErrUpstream \<Rightarrow> (502, ''upstream unavailable''))"

lemma client_do_verdict:
  assumes "cl_url_ok c (cl_baseURL c @ path)"
    and "req = \<lparr>or_method = ''GET'', or_url = cl_baseURL c @ path,
                 or_header = [(''Authorization'', bearer tok), (''Accept'', ''application/json'')]\<rparr>"
  shows "\<exists>r. client_do c tok path w = (r, w\<lparr>w_sent := w_sent w @ [req]\<rparr>)
    \<and> upstream_verdict (cl_do c (w_sent w) req) = (case r of Inl e \<Rightarrow> Inl (error_answer e) | Inr data \<Rightarrow> Inr data)"
proof (cases "cl_do c (w_sent w) req")
  case Do_Error
  then show ?thesis using assms by (simp add: client_do_def Let_def upstream_verdict_def error_answer_def)
next
  case (Do_Response status body)
  have "readBounded body maxResponseBytes = (if rd_fails body \<or> 10485760 < length (concat (rd_chunks body))
      then Inl ErrUpstream else Inr (concat (rd_chunks body)))"
    by (auto simp: readBounded_def readAll_def limitReader_def concat_limit_chunks maxResponseBytes_def)
  with Do_Response show ?thesis
    using assms by (simp add: client_do_def Let_def upstream_verdict_def error_answer_def)
qed

lemma answer_parts:
  "rw_status (http_error m code (new_rw None)) = Some code" "rw_body (http_error m code (new_rw None)) = m @ [CHR 0x0A]"
  "rw_status (write_json v (new_rw None)) = Some 200" "rw_body (write_json v (new_rw None)) = json_print v @ [CHR 0x0A]"
  "rw_status (writeUpstreamError e (new_rw None)) = Some (fst (error_answer e))"
  "rw_body (writeUpstreamError e (new_rw None)) = snd (error_answer e) @ [CHR 0x0A]"
  by (simp_all add: writer_defs new_rw_def write_json_def encode_json_def writeUpstreamError_def error_answer_def
      split: up_error.split)



section \<open>Pods\<close>

text \<open>The parts of a pod object the summary is made from: name, phase, declared containers, statuses.\<close>

definition pod_parts :: "json \<Rightarrow> (string \<times> string \<times> (string \<times> string) list \<times> containerStatus list) option" where
  "pod_parts raw = do {
     obj \<leftarrow> top_struct raw;
     name \<leftarrow> metadata_name obj;
     spec \<leftarrow> fStruct ''spec'' obj;
     cs \<leftarrow> fSlice ''containers'' spec;
     declared \<leftarrow> traverse spec_container (slice_elems cs);
     status \<leftarrow> fStruct ''status'' obj;
     phase \<leftarrow> fString ''phase'' status;
     ss \<leftarrow> fSlice ''containerStatuses'' status;
     statuses \<leftarrow> traverse container_status (slice_elems ss);
     Some (name, phase, declared, statuses) }"

definition running :: "containerStatus \<Rightarrow> containerSummary" where
  "running s = \<lparr>cs_name = st_name s, cs_image = st_image s, cs_ready = st_ready s, cs_restartCount = st_restartCount s\<rparr>"

definition waiting :: "string \<times> string \<Rightarrow> containerSummary" where
  "waiting = (\<lambda>(n, i). \<lparr>cs_name = n, cs_image = i, cs_ready = False, cs_restartCount = 0\<rparr>)"

lemma pod_status_loop_map:
  "pod_status_loop acc a statuses = (acc @ map running statuses, a \<and> list_all st_ready statuses)"
  by (induction acc a statuses rule: pod_status_loop.induct) (auto simp: running_def)

lemma pod_spec_loop_map: "pod_spec_loop acc declared = acc @ map waiting declared"
  by (induction acc declared rule: pod_spec_loop.induct) (auto simp: waiting_def)

text \<open>
  C37: The pod summary in closed form. Its loops come to this: the containers are those reported in the
  status, with their readiness and restarts; a pod that reports none lists the declared ones as not
  ready; and the pod is ready exactly when it reports a container and all reported ones are.
\<close>

theorem pod_summary_closed_form:
  "summarizePod raw = map_option (\<lambda>(name, phase, declared, statuses).
     \<lparr>pod_name = name, pod_phase = phase,
      pod_ready = (statuses \<noteq> [] \<and> list_all st_ready statuses),
      pod_containers = (if statuses = [] then map waiting declared else map running statuses)\<rparr>) (pod_parts raw)"
  unfolding summarizePod_def pod_parts_def
  by (auto simp: pod_status_loop_map pod_spec_loop_map list_all_iff Let_def split: bind_split)

section \<open>Names\<close>

text \<open>
  C38: The name pattern. The regular expression of \<^verbatim>\<open>validate.go\<close> accepts exactly the RFC 1123 labels:
  1 to 63 bytes, lower-case letters, digits and dashes, the first and the last no dash.
\<close>

theorem name_pattern_is_dns_label:
  "validK8sName s \<longleftrightarrow> 1 \<le> length s \<and> length s \<le> 63
     \<and> list_all (\<lambda>c. is_lower c \<or> is_digit c \<or> c = CHR ''-'') s \<and> hd s \<noteq> CHR ''-'' \<and> last s \<noteq> CHR ''-''"
proof -
  have "alnum_class c \<longleftrightarrow> alnum_dash_class c \<and> c \<noteq> CHR ''-''" for c
    by (auto simp: alnum_class_def alnum_dash_class_def is_lower_def is_digit_def)
  moreover have "hd s \<in> set s" "last s \<in> set s" if "1 \<le> length s" using that by (cases s; simp)+
  ultimately show ?thesis
    by (auto simp: validK8sName_iff dns_label_def list_all_iff alnum_dash_class_def)
qed

section \<open>An upstream that is late\<close>

lemma client_do_late:
  assumes c: "c = NewClient base url_ok tr None" and slow: "\<And>sent q. late defaultTimeout (tr sent q)"
    and run: "client_do c tok path w = (x, w')"
  shows "\<exists>e. x = Inl e"
proof -
  have "readBounded body maxResponseBytes = Inl ErrUpstream"
    if "cl_do c sent q = Do_Response status body" for sent q status body
  proof -
    have "rd_fails body"
      using receive_late [OF slow] that unfolding c
      by (simp add: cl_do_def http_Do_def NewClient_def Let_def client_deadline_def defaultTimeout_def)
    then show ?thesis by (simp add: readBounded_def readAll_def limitReader_def concat_limit_chunks)
  qed
  with run show ?thesis by (auto simp: client_do_def Let_def split: do_result.splits if_splits)
qed

definition refusal :: "rw \<Rightarrow> bool" where
  "refusal rw = (rw_status rw \<in> {Some 400, Some 401, Some 403, Some 502})"

lemma refusal_answers [simp]:
  "refusal (http_error m 400 (new_rw a))" "refusal (http_error m 401 (new_rw a))"
  "refusal (http_error m 502 (new_rw a))" "refusal (writeUpstreamError e (new_rw a))"
  by (simp_all add: refusal_def new_rw_def writeUpstreamError_def split: up_error.split)

lemma late_handlers:
  fixes w :: "('s, 'i) world"
  assumes c: "c = NewClient base url_ok tr None" and slow: "\<And>sent q. late defaultTimeout (tr sent q)"
  shows "refusal (fst (namespacesHandler c r (new_rw a) w))"
    "refusal (fst (listResourceHandler c gvr f r (new_rw a) w))"
    "refusal (fst (getResourceHandler c gvr f r (new_rw a) w))"
    "refusal (fst (eventsHandler c r (new_rw a) w))"
    "refusal (fst (overviewHandler c r (new_rw a) w))"
proof -
  have no: "client_do c tok path v \<noteq> (Inr data, v')" for tok path data and v v' :: "('s, 'i) world"
    using client_do_late [OF c slow] by blast
  have none: "ListNamespaces c tok v \<noteq> (Inr ns, v')" "ListNamespacedResource c tok n g lim v \<noteq> (Inr items, v')"
      "GetNamespacedResource c tok n m g v \<noteq> (Inr raw, v')" for tok ns n m g lim items raw and v v' :: "('s, 'i) world"
    by (auto simp: ListNamespaces_def ListNamespacedResource_def GetNamespacedResource_def Let_def no split: prod.splits sum.splits)
  show "refusal (fst (namespacesHandler c r (new_rw a) w))"
    by (auto simp: namespacesHandler_def none split: option.split prod.splits sum.splits)
  show "refusal (fst (listResourceHandler c gvr f r (new_rw a) w))"
    by (auto simp: listResourceHandler_def none Let_def split: option.split prod.splits sum.splits)
  show "refusal (fst (getResourceHandler c gvr f r (new_rw a) w))"
    by (auto simp: getResourceHandler_def none Let_def split: option.split prod.splits sum.splits)
  show "refusal (fst (eventsHandler c r (new_rw a) w))"
    by (auto simp: eventsHandler_def none Let_def split: option.split prod.splits sum.splits)
  show "refusal (fst (overviewHandler c r (new_rw a) w))"
    by (auto simp: overviewHandler_def none Let_def split: option.split prod.splits sum.splits)
qed

text \<open>
  C19: No answer is made from an upstream that is late. When every answer of the proxy has its headers,
  a chunk or its end later than ten seconds after the request, no route of the API but the log stream
  answers 200: the request is refused, or the call ends at the client's timeout with an error status.
\<close>

theorem late_upstream_refused:
  fixes h :: "('s, 'i) api_handler"
  assumes c: "c = NewClient base url_ok tr None" and slow: "\<And>sent q. late defaultTimeout (tr sent q)"
    and route: "(segs, h) \<in> set (api_table c)" "segs \<noteq> name_path ''pods'' @ [Lit ''logs'']"
    and run: "h r (new_rw a) w = (rw', w')"
  shows "rw_status rw' \<in> {Some 400, Some 401, Some 403, Some 502}"
proof -
  have "refusal (fst (h r (new_rw a) w))"
    using route by (auto simp: api_table_def late_handlers [OF c slow])
  with run show ?thesis unfolding refusal_def by simp
qed

text \<open>A proxy that sends the body of an empty list in two pieces, the second after a minute.\<close>

definition demo_slow_transport :: transport where
  "demo_slow_transport sent q = Tr_Response second 200
     \<lparr>tr_chunks = [(second, ''{''), (minute, [CHR 0x22] @ ''items'' @ [CHR 0x22] @ '':[]}'')], tr_end = (minute, False)\<rparr>"

lemma late_upstream_refused_witness:
  "\<exists>rw' w'. namespacesHandler (NewClient ''https://capsule'' (\<lambda>_. True) demo_slow_transport None) demo_log_request
      (new_rw None) (demo_world empty_db) = (rw', w') \<and> rw_status rw' \<noteq> Some 200"
proof -
  let ?c = "NewClient ''https://capsule'' (\<lambda>_. True) demo_slow_transport None"
  obtain rw' w' where run: "namespacesHandler ?c demo_log_request (new_rw None) (demo_world empty_db) = (rw', w')"
    by fastforce
  have slow: "late defaultTimeout (demo_slow_transport sent q)" for sent q
    by (simp add: late_def demo_slow_transport_def defaultTimeout_def)
  have "([Lit ''api'', Lit ''namespaces''], namespacesHandler ?c) \<in> set (api_table ?c)"
    unfolding api_table_def list.set by (rule insertI1)
  from late_upstream_refused [OF refl slow this _ run] have "rw_status rw' \<in> {Some 400, Some 401, Some 403, Some 502}"
    by (simp add: name_path_def)
  then have "rw_status rw' \<noteq> Some 200" by auto
  with run show ?thesis by blast
qed

end
