(* ===== verification/Boundary.thy ===== *)
theory Boundary
  imports Scenario "HOL-Library.Sublist"
begin

text \<open>
  What crosses the server's boundary besides bodies: the cookies and redirects of every response,
  and the store, which only the login, callback and logout routes may change. The first half follows
  the headers a handler adds through every writer operation, once for all handlers.
\<close>

section \<open>The headers a response may carry\<close>

definition only_headers :: "(string \<Rightarrow> string \<Rightarrow> bool) \<Rightarrow> rw \<Rightarrow> bool" where
  "only_headers P rw \<longleftrightarrow> (\<forall>k. list_all (P k) (rw_hdr rw k) \<and> list_all (P k) (rw_sent rw k))"

definition emits :: "(string \<Rightarrow> string \<Rightarrow> bool) \<Rightarrow> ('c, 's, 'i) handler \<Rightarrow> bool" where
  "emits P h \<longleftrightarrow> (\<forall>r rw w. only_headers P rw \<longrightarrow> only_headers P (fst (h r rw w)))"

lemma emitsI: "(\<And>r rw w. only_headers P rw \<Longrightarrow> only_headers P (fst (h r rw w))) \<Longrightarrow> emits P h"
  by (simp add: emits_def)

lemma emitsD: "emits P h \<Longrightarrow> only_headers P rw \<Longrightarrow> only_headers P (fst (h r rw w))"
  by (simp add: emits_def)

named_theorems onlyI

lemma only_new [simp]: "only_headers P (new_rw a)"
  by (simp add: only_headers_def new_rw_def)

lemma only_set_header [onlyI]: "P k v \<Longrightarrow> only_headers P w \<Longrightarrow> only_headers P (set_header k v w)"
  by (simp add: only_headers_def set_header_def)

lemma only_add_header [onlyI]: "P k v \<Longrightarrow> only_headers P w \<Longrightarrow> only_headers P (add_header k v w)"
  by (simp add: only_headers_def add_header_def)

lemma only_del_header [onlyI]: "only_headers P w \<Longrightarrow> only_headers P (del_header k w)"
  by (simp add: only_headers_def del_header_def)

lemma only_write_header [onlyI]: "only_headers P w \<Longrightarrow> only_headers P (write_header code w)"
  by (auto simp: only_headers_def write_header_def split: option.split)

lemma only_write_bytes [onlyI]: "only_headers P w \<Longrightarrow> only_headers P (fst (write_bytes b w))"
  using only_write_header [of P w 200] by (auto simp: only_headers_def write_bytes_def Let_def)

lemma only_write_body [onlyI]: "only_headers P w \<Longrightarrow> only_headers P (write_body b w)"
  by (simp add: write_body_def only_write_bytes)

lemma only_flush [onlyI]: "only_headers P w \<Longrightarrow> only_headers P (flush w)"
  using only_write_header [of P w 200] by (simp add: only_headers_def flush_def)

lemma only_finish [onlyI]: "only_headers P w \<Longrightarrow> only_headers P (finish w)"
  by (simp add: finish_def only_write_header)

lemma only_set_cookie [onlyI]: "P ''Set-Cookie'' (cookie_string c) \<Longrightarrow> only_headers P w \<Longrightarrow> only_headers P (set_cookie c w)"
  by (simp add: set_cookie_def only_add_header)

text \<open>A predicate on cookies and redirects only, which every other header passes.\<close>

definition lax :: "(string \<Rightarrow> string \<Rightarrow> bool) \<Rightarrow> bool" where
  "lax P \<longleftrightarrow> (\<forall>k v. k \<noteq> ''Set-Cookie'' \<longrightarrow> k \<noteq> ''Location'' \<longrightarrow> P k v)"

lemma only_plain_header: "lax P \<Longrightarrow> k \<noteq> ''Set-Cookie'' \<Longrightarrow> k \<noteq> ''Location'' \<Longrightarrow> only_headers P w \<Longrightarrow>
  only_headers P (set_header k v w)"
  by (simp add: lax_def only_set_header)

lemma only_http_error: "lax P \<Longrightarrow> only_headers P w \<Longrightarrow> only_headers P (http_error m code w)"
  unfolding http_error_def by (intro onlyI only_plain_header) (simp_all add: lax_def)

lemma only_write_json: "lax P \<Longrightarrow> only_headers P w \<Longrightarrow> only_headers P (write_json v w)"
  unfolding write_json_def encode_json_def by (intro only_write_body only_plain_header) simp_all

lemma only_redirect: "lax P \<Longrightarrow> P ''Location'' u \<Longrightarrow> only_headers P w \<Longrightarrow> only_headers P (http_redirect r u w)"
proof -
  assume p: "lax P" "P ''Location'' u" "only_headers P w"
  then have "only_headers P (set_header ''Location'' u w)" by (intro only_set_header)
  with p(1) show ?thesis
    unfolding http_redirect_def redirect_to_def Let_def by (auto intro!: only_write_body only_write_header only_plain_header)
qed

lemma only_upstream_error: "lax P \<Longrightarrow> only_headers P w \<Longrightarrow> only_headers P (writeUpstreamError e w)"
  by (cases e) (simp_all add: writeUpstreamError_def only_http_error)

lemma only_copyLogStream: "only_headers P rw \<Longrightarrow> only_headers P (copyLogStream rw cs)"
proof (induction rw cs rule: copyLogStream.induct)
  case (2 rw c cs)
  obtain rw1 ok where w: "write_bytes (take copy_buf c) rw = (rw1, ok)" by fastforce
  have "only_headers P (fst (write_bytes (take copy_buf c) rw))" by (rule only_write_bytes) (rule 2)
  then have "only_headers P rw1" "only_headers P (flush rw1)" using w by (simp_all add: only_flush)
  with 2 w show ?case
    by (cases ok) (auto simp: copyLogStream.simps(2) [of rw c cs] simp del: copyLogStream.simps(2))
qed simp

lemma only_security_headers: "lax P \<Longrightarrow> only_headers P rw \<Longrightarrow> only_headers P (set_security_headers i rw)"
  unfolding set_security_headers_def Let_def by (auto intro!: only_plain_header)

lemmas only_answers = only_http_error only_write_json only_redirect only_upstream_error only_copyLogStream
  only_write_header

section \<open>Handlers of the API\<close>

lemma emits_probes: "lax P \<Longrightarrow> emits P livezHandler" "lax P \<Longrightarrow> emits P (readyzHandler st)"
  by (rule emitsI; auto simp: livezHandler_def readyzHandler_def split: prod.splits option.splits intro!: only_answers)+

lemma emits_namespaces: "lax P \<Longrightarrow> emits P (namespacesHandler c)"
  by (rule emitsI) (auto simp: namespacesHandler_def split: prod.splits option.splits sum.splits intro!: only_answers)

lemma emits_list: "lax P \<Longrightarrow> emits P (listResourceHandler c g f)"
  by (rule emitsI) (auto simp: listResourceHandler_def writeJSONItems_def Let_def
      split: prod.splits option.splits sum.splits intro!: only_answers)

lemma emits_get: "lax P \<Longrightarrow> emits P (getResourceHandler c g f)"
  by (rule emitsI) (auto simp: getResourceHandler_def Let_def
      split: prod.splits option.splits sum.splits intro!: only_answers)

lemma emits_events: "lax P \<Longrightarrow> emits P (eventsHandler c)"
  by (rule emitsI) (auto simp: eventsHandler_def writeJSONItems_def Let_def
      split: prod.splits option.splits sum.splits intro!: only_answers)

lemma emits_overview: "lax P \<Longrightarrow> emits P (overviewHandler c)"
  by (rule emitsI) (auto simp: overviewHandler_def Let_def
      split: prod.splits option.splits sum.splits intro!: only_answers)

lemma emits_logs: "lax P \<Longrightarrow> emits P (podLogsHandler c)"
  by (rule emitsI) (auto simp: podLogsHandler_def Let_def
      split: prod.splits option.splits sum.splits intro!: only_answers only_plain_header)

lemma emits_requireSession: "lax P \<Longrightarrow> emits P h \<Longrightarrow> emits P (requireSession store i h)"
  by (rule emitsI) (auto simp: requireSession_def split: prod.splits option.splits sum.splits
      intro!: only_answers dest: emitsD)

lemma emits_api_table: "(segs, h) \<in> set (api_table c) \<Longrightarrow> lax P \<Longrightarrow> emits P h"
  unfolding api_table_def
  by (auto simp: emits_namespaces emits_list emits_get emits_events emits_overview emits_logs)

section \<open>Cookies\<close>

text \<open>The two cookies, as they go over the wire.\<close>

definition hardened_cookie :: "bool \<Rightarrow> string \<Rightarrow> bool" where
  "hardened_cookie insecure v \<longleftrightarrow> (\<exists>nm site val age.
     (nm, site) \<in> {(SessionCookieName insecure, ''Strict''), (LoginStateCookieName insecure, ''Lax'')}
     \<and> v = nm @ ''='' @ val @ ''; Path=/'' @ age @ ''; HttpOnly'' @ (if insecure then '''' else ''; Secure'')
         @ ''; SameSite='' @ site
     \<and> CHR '';'' \<notin> set val \<and> (age = '''' \<or> (\<exists>n. age = ''; Max-Age='' @ formatInt n)))"

lemma cookie_names_token: "is_token (SessionCookieName i)" "is_token (LoginStateCookieName i)"
proof -
  have "is_token (SessionCookieName True)" "is_token (SessionCookieName False)"
      "is_token (LoginStateCookieName True)" "is_token (LoginStateCookieName False)"
    by code_simp+
  then show "is_token (SessionCookieName i)" "is_token (LoginStateCookieName i)" by (cases i; simp)+
qed

lemma sanitized_no_semicolon: "CHR '';'' \<notin> set (sanitize_cookie_value v)"
proof -
  have "\<not> cookie_value_char (CHR '';'')" by code_simp
  then show ?thesis by (simp add: sanitize_cookie_value_def Let_def)
qed

lemma hardened_cookie_string:
  assumes "ck_path c = ''/''" "ck_http_only c" "ck_secure c = (\<not> i)"
    and "(ck_name c, ck_same_site c) \<in> {(SessionCookieName i, SameSiteStrictMode), (LoginStateCookieName i, SameSiteLaxMode)}"
  shows "hardened_cookie i (cookie_string c)"
proof -
  define site where "site = (case ck_same_site c of SameSiteLaxMode \<Rightarrow> ''Lax'' | SameSiteStrictMode \<Rightarrow> ''Strict'')"
  define age where "age = (if 0 < ck_max_age c then ''; Max-Age='' @ formatInt (ck_max_age c)
    else if ck_max_age c < 0 then ''; Max-Age='' @ formatInt 0 else '''')"
  have f0: "formatInt 0 = ''0''" by code_simp
  have t: "is_token (ck_name c)" using assms(4) cookie_names_token by auto
  have "cookie_string c = ck_name c @ ''='' @ sanitize_cookie_value (ck_value c) @ ''; Path=/'' @ age @ ''; HttpOnly''
      @ (if i then '''' else ''; Secure'') @ ''; SameSite='' @ site"
    using assms(1-3) t by (simp add: cookie_string_def f0 age_def site_def split: same_site.split)
  moreover have "(ck_name c, site) \<in> {(SessionCookieName i, ''Strict''), (LoginStateCookieName i, ''Lax'')}"
    using assms(4) unfolding site_def by (elim insertE emptyE; simp)
  moreover have "age = '''' \<or> (\<exists>n. age = ''; Max-Age='' @ formatInt n)"
    unfolding age_def by (cases "ck_max_age c = 0") (auto simp del: append_Cons)
  ultimately show ?thesis using sanitized_no_semicolon unfolding hardened_cookie_def by blast
qed

lemma only_cookies:
  assumes "\<And>v. hardened_cookie i v \<Longrightarrow> P ''Set-Cookie'' v" "only_headers P w"
  shows "only_headers P (setLoginStateCookie i s ttl w)" "only_headers P (clearLoginStateCookie i w)"
    "only_headers P (setSessionCookie i s ttl w)" "only_headers P (ClearSessionCookie i w)"
  unfolding setLoginStateCookie_def clearLoginStateCookie_def setSessionCookie_def ClearSessionCookie_def
  by (intro only_set_cookie assms hardened_cookie_string;
      simp add: login_state_cookie_def session_cookie_def)+

section \<open>Redirects\<close>

text \<open>A path on this host: it starts with one slash, so a browser does not take it for another host.\<close>

definition local_path :: "string \<Rightarrow> bool" where
  "local_path p \<longleftrightarrow> p = ''/'' \<or> (\<exists>c s. p = CHR ''/'' # c # s \<and> c \<noteq> CHR ''/'')"

definition proper_seg :: "string \<Rightarrow> bool" where
  "proper_seg s \<longleftrightarrow> s \<noteq> '''' \<and> CHR ''/'' \<notin> set s"

lemma proper_segI: "s \<noteq> '''' \<Longrightarrow> CHR ''/'' \<notin> set s \<Longrightarrow> proper_seg s"
  by (simp add: proper_seg_def)

lemma clean_segs_proper:
  "list_all proper_seg acc \<Longrightarrow> \<forall>s\<in>set ss. CHR ''/'' \<notin> set s \<Longrightarrow> list_all proper_seg (clean_segs acc ss)"
proof (induction acc ss rule: clean_segs.induct)
  case (2 acc s ss)
  have "list_all proper_seg (tl acc)" using 2(4) by (cases acc) auto
  with 2 show ?case by (auto intro: proper_segI)
qed simp

lemma join_slash_local: "list_all proper_seg ss \<Longrightarrow> local_path (CHR ''/'' # join_with ''/'' ss)"
proof (cases ss)
  case (Cons s rest)
  assume "list_all proper_seg ss"
  then obtain c cs where "s = c # cs" "c \<noteq> CHR ''/''" using Cons by (cases s) (auto simp: proper_seg_def)
  then show ?thesis using Cons by (cases rest) (simp_all add: local_path_def)
qed (simp add: local_path_def)

lemma path_clean_local: "local_path (path_clean_rooted p)"
  unfolding path_clean_rooted_def
  by (intro join_slash_local clean_segs_proper) (auto dest: split_on_pieces)

lemma clean_path_local: "local_path (clean_path p)"
proof -
  have app: "local_path (q @ ''/'')" if "local_path q" "q \<noteq> ''/''" for q
    using that unfolding local_path_def by force
  have "local_path ''/''" by (simp add: local_path_def)
  then show ?thesis using path_clean_local app by (simp add: clean_path_def Let_def)
qed

text \<open>Where the server sends browsers: home, to the identity provider, or to the clean form of a path.\<close>

definition redirect_target :: "mux_style \<Rightarrow> 'i party \<Rightarrow> string \<Rightarrow> bool" where
  "redirect_target ms p v \<longleftrightarrow> v = ''/'' \<or> (\<exists>s ch n. v = rp_auth_url p s ch n)
     \<or> (\<exists>path q. local_path path \<and> v = ms_location ms path q)"

definition safe_header :: "mux_style \<Rightarrow> ('s, 'i) Handler \<Rightarrow> string \<Rightarrow> string \<Rightarrow> bool" where
  "safe_header ms h k v \<longleftrightarrow> (k = ''Set-Cookie'' \<longrightarrow> hardened_cookie (h_insecure h) v)
     \<and> (k = ''Location'' \<longrightarrow> redirect_target ms (h_party h) v)"

lemma lax_safe_header [simp]: "lax (safe_header ms h)"
  by (simp add: lax_def safe_header_def)

lemma safe_set_cookie [simp]: "hardened_cookie (h_insecure h) v \<Longrightarrow> safe_header ms h ''Set-Cookie'' v"
  by (simp add: safe_header_def)

lemma safe_targets:
  "safe_header ms h ''Location'' postLoginRedirect" "safe_header ms h ''Location'' (rp_auth_url (h_party h) s ch n)"
  "local_path p \<Longrightarrow> safe_header ms h ''Location'' (ms_location ms p q)"
  by (auto simp: safe_header_def redirect_target_def postLoginRedirect_def)

lemmas safe_cookies = only_cookies [of "h_insecure h" "safe_header ms h" for h ms, OF safe_set_cookie]


lemma emits_login: "emits (safe_header ms h) (LoginHandler h)"
  by (rule emitsI) (auto simp: LoginHandler_def Let_def split: prod.splits option.splits sum.splits
      intro!: only_http_error only_redirect safe_cookies safe_targets)

lemma emits_callback_session: "emits (safe_header ms h) (callback_session h tok)"
  by (rule emitsI) (auto simp: callback_session_def Let_def split: prod.splits option.splits sum.splits
      intro!: only_http_error only_redirect safe_cookies safe_targets)

lemma emits_callback_exchange: "emits (safe_header ms h) (callback_exchange h txn)"
  by (rule emitsI) (auto simp: callback_exchange_def Let_def split: prod.splits option.splits
      intro!: only_http_error emitsD [OF emits_callback_session])

lemma emits_callback: "emits (safe_header ms h) (CallbackHandler h)"
  by (rule emitsI) (auto simp: CallbackHandler_def Let_def split: prod.splits option.splits sum.splits
      intro!: only_http_error safe_cookies emitsD [OF emits_callback_exchange])

lemma emits_session: "emits (safe_header ms h) (SessionHandler h)"
  by (rule emitsI) (auto simp: SessionHandler_def Let_def split: prod.splits intro!: only_http_error only_write_json)

lemma emits_logout: "emits (safe_header ms h) (LogoutHandler h)"
  by (rule emitsI) (auto simp: LogoutHandler_def split: prod.splits option.splits sum.splits
      intro!: only_http_error only_write_header safe_cookies)

lemma emits_route_table:
  "rt \<in> set (route_table h store c i) \<Longrightarrow> emits (safe_header ms h) (rt_handler rt)"
  by (auto simp: route_table_def public_routes_def api_routes_def emits_login emits_callback emits_session
      emits_logout emits_probes dest!: emits_api_table [where P = "safe_header ms h"] intro: emits_requireSession [OF lax_safe_header])

lemma emits_mux_redirect: "emits (safe_header ms h) (mux_redirect ms (clean_path p) :: ('c, 's, 'i) handler)"
proof (rule emitsI)
  fix r :: "'c request" and rw and w :: "('s, 'i) world"
  assume "only_headers (safe_header ms h) rw"
  then have l: "only_headers (safe_header ms h) (set_header ''Location'' (ms_location ms (clean_path p) (rq_query r)) rw)"
    by (intro only_set_header safe_targets clean_path_local)
  then have "only_headers (safe_header ms h) (set_header ''Content-Type'' t
      (set_header ''Location'' (ms_location ms (clean_path p) (rq_query r)) rw))" for t
    by (rule only_plain_header [rotated 3]) (use l in simp_all)
  with l show "only_headers (safe_header ms h) (fst (mux_redirect ms (clean_path p) r rw w))"
    by (simp add: mux_redirect_def Let_def only_write_body only_write_header)
qed

lemma emits_mux:
  assumes "\<forall>rt\<in>set rts. emits (safe_header ms h) (rt_handler rt)" "\<forall>f. catchall = Some f \<longrightarrow> emits (safe_header ms h) f"
  shows "emits (safe_header ms h) (mux_serve ms rts catchall)"
proof (rule emitsI)
  fix r rw and w :: "('b, 'c) world"
  assume k: "only_headers (safe_header ms h) rw"
  then have a: "only_headers (safe_header ms h) (set_header ''Allow'' v rw)"
      "only_headers (safe_header ms h) (set_header ''Connection'' v rw)" for v
    by (auto intro!: only_plain_header)
  have d: "only_headers (safe_header ms h) (fst (mux_dispatch rts catchall p r rw w))" for p
  proof (cases "mux_match rts (rq_method r) (segs_of p)")
    case None
    with k a assms(2) show ?thesis
      by (cases catchall) (auto simp: mux_dispatch_def Let_def intro!: only_http_error dest: emitsD)
  next
    case (Some hv)
    with assms(1) k show ?thesis
      by (cases hv) (auto simp: mux_dispatch_def dest!: mux_match_Some intro: emitsD)
  qed
  show "only_headers (safe_header ms h) (fst (mux_serve ms rts catchall r rw w))"
    using d a k emitsD [OF emits_mux_redirect k] by (auto simp: mux_serve_def intro: only_write_header)
qed



section \<open>A cookie for less than a second\<close>

text \<open>
  A session that lasts less than a second. \<^verbatim>\<open>int(ttl.Seconds())\<close> is then 0, which the cookie
  code of the standard library takes for no \<^verbatim>\<open>Max-Age\<close> at all: the cookie is set without a lifetime,
  and the browser keeps it until it is closed.
\<close>

theorem short_session_cookie_unbounded:
  assumes "0 < ttl" "ttl < second"
  shows "rw_hdr (setSessionCookie i sid ttl rw) ''Set-Cookie'' = rw_hdr rw ''Set-Cookie'' @
    [SessionCookieName i @ ''='' @ sanitize_cookie_value sid @ ''; Path=/; HttpOnly'' @ (if i then '''' else ''; Secure'')
      @ ''; SameSite=Strict'']"
proof -
  have "whole_seconds ttl = 0" using assms by (simp add: whole_seconds_def)
  then have "cookie_string (session_cookie i sid ttl) = SessionCookieName i @ ''='' @ sanitize_cookie_value sid @
      ''; Path=/; HttpOnly'' @ (if i then '''' else ''; Secure'') @ ''; SameSite=Strict''"
    using cookie_names_token by (simp add: cookie_string_def session_cookie_def)
  moreover have "SessionCookieName i \<noteq> ''''" using cookie_names_token(1) [of i] by (auto simp: is_token_def)
  ultimately show ?thesis by (simp add: setSessionCookie_def set_cookie_def add_header_def)
qed

lemma short_session_cookie_unbounded_witness:
  "rw_hdr (setSessionCookie False ''sid'' 1 (new_rw None)) ''Set-Cookie''
   = [''__Host-td-session=sid; Path=/; HttpOnly; Secure; SameSite=Strict'']"
proof -
  have "SessionCookieName False = ''__Host-td-session''" "sanitize_cookie_value ''sid'' = ''sid''" by code_simp+
  moreover have "(0 :: int) < 1" "1 < second" by simp_all
  ultimately show ?thesis
    using short_session_cookie_unbounded [of 1 False "''sid''" "new_rw None"] by (simp add: new_rw_def)
qed

section \<open>The API only reads\<close>

lemma requireSession_reads:
  assumes kv: "kv_contract b view" and h: "keeps_to c h"
    and run: "requireSession \<lparr>st_backend = b, st_enc = e\<rparr> i h r rw w = (rw', w')"
  shows "view (w_kv w') = view (w_kv w) \<and> w_idp w' = w_idp w \<and> w_now w' = w_now w \<and> w_entropy w' = w_entropy w"
proof (cases "req_cookie r (SessionCookieName i)")
  case None
  with run show ?thesis by (simp add: requireSession_def)
next
  case (Some cookie)
  obtain x w1 where g: "getSession \<lparr>st_backend = b, st_enc = e\<rparr> cookie w = (x, w1)" by fastforce
  have w1: "view (w_kv w1) = view (w_kv w)" "w_idp w1 = w_idp w" "w_now w1 = w_now w" "w_entropy w1 = w_entropy w"
    using kv_contract.getSession_view [OF kv g] store_stepD(1,2) [OF store_step_getSession [OF g]] g
    by (auto simp: getSession_def split: prod.splits sum.splits option.splits)
  show ?thesis
  proof (cases x)
    case (Inl er)
    with run Some g w1 show ?thesis by (auto simp: requireSession_def)
  next
    case (Inr rec)
    then have "h (r\<lparr>rq_ctx := Some rec\<rparr>) rw w1 = (rw', w')" using run Some g by (simp add: requireSession_def)
    with h have "sends (allowed_call c (IDToken rec)) w1 w'" by (simp add: keeps_to_def)
    from sendsD [OF this] w1 show ?thesis by simp
  qed
qed

text \<open>
  C24: The API only reads. A request for a path under \<^verbatim>\<open>/api\<close>, whatever its method, cookie and outcome,
  leaves every session and login transaction of the store as it was, draws no random bytes and never
  talks to the identity provider.
\<close>

theorem api_only_reads:
  assumes kv: "kv_contract b view"
    and run: "serve (NewRouter ms auth \<lparr>st_backend = b, st_enc = e\<rparr> c i frontend) a r w = (rw', w')"
    and path: "segs_of (rq_path r) = ''api'' # ss"
    and front: "\<And>h r rw w rw' w'. frontend = Some h \<Longrightarrow> h r rw w = (rw', w') \<Longrightarrow> w' = w"
  shows "view (w_kv w') = view (w_kv w) \<and> w_idp w' = w_idp w \<and> w_now w' = w_now w \<and> w_entropy w' = w_entropy w"
proof -
  let ?r = "r\<lparr>rq_ctx := None, rq_pathvalue := (\<lambda>_. '''')\<rparr>"
  obtain rw1 where m: "mux_serve ms (route_table auth \<lparr>st_backend = b, st_enc = e\<rparr> c i) frontend ?r
      (set_security_headers i (new_rw a)) w = (rw1, w')"
    using run by (auto simp: serve_def NewRouter_def securityHeaders_def split: prod.splits)
  from m show ?thesis
  proof (cases rule: mux_serve_cases)
    case (route rt vals)
    then have "rt \<notin> set (public_routes auth \<lparr>st_backend = b, st_enc = e\<rparr>)" using public_first path by fastforce
    then obtain segs h where "(segs, h) \<in> set (api_table c)" "rt_handler rt = requireSession \<lparr>st_backend = b, st_enc = e\<rparr> i h"
      using route(1) by (auto simp: route_table_def api_routes_def)
    with requireSession_reads [OF kv api_table_keeps_to] route(2) show ?thesis by metis
  next
    case (catchall h)
    with front show ?thesis by blast
  qed simp
qed

lemma api_only_reads_witness:
  "\<exists>rw' w'. serve demo_router None (demo_request ''GET'' ''/api/namespaces'' '''' []) (demo_world demo_session_db) = (rw', w')
    \<and> db_map (w_kv w') = db_map demo_session_db"
proof -
  obtain rw' w' where run: "serve demo_router None (demo_request ''GET'' ''/api/namespaces'' '''' []) (demo_world demo_session_db) = (rw', w')"
    by fastforce
  have "segs_of ''/api/namespaces'' = [''api'', ''namespaces'']" by code_simp
  then have "segs_of (rq_path (demo_request ''GET'' ''/api/namespaces'' '''' [])) = [''api'', ''namespaces'']"
    by (simp add: demo_request_def)
  from api_only_reads [OF ref_kv run [unfolded demo_router_def demo_store_def] this] run show ?thesis
    by (simp add: demo_world_def)
qed

end
