(* ===== verification/Interleaving.thy ===== *)
theory Interleaving
  imports Scenario "HOL-Library.Sublist"
begin

text \<open>
  Callbacks served at the same time. \<^verbatim>\<open>CallbackHandler\<close> touches shared state three times: it takes
  the login transaction from the store, asks the identity provider, and stores the session. Here it
  is cut into these atomic phases, any number of requests and everything else the server does run
  interleaved, and still a transaction is redeemed by one request only.
\<close>

section \<open>The handler in phases\<close>

datatype 'c phase =
    Arrived "'c request" rw
  | Took LoginTransaction "'c request" rw
  | Got tokens "'c request" rw
  | Replied rw

abbreviation state_of :: "'c request \<Rightarrow> string" where
  "state_of r \<equiv> query_get (query_of r) ''state''"

definition callback_take :: "('s, 'i) Handler \<Rightarrow> 'c request \<Rightarrow> rw \<Rightarrow> ('s, 'i) world \<Rightarrow> 'c phase \<times> ('s, 'i) world" where
  "callback_take h r rw0 w =
     (case req_cookie r (LoginStateCookieName (h_insecure h)) of
        None \<Rightarrow> (Replied (http_error ''missing or expired login'' 400 rw0), w)
      | Some cookie \<Rightarrow>
          (let rw = clearLoginStateCookie (h_insecure h) rw0;
               providedState = state_of r in
           if providedState = '''' \<or> \<not> constantTimeEqual providedState cookie
           then (Replied (http_error ''login state mismatch'' 400 rw), w)
           else case takeLoginTransaction (h_store h) providedState w of
             (Inl e, w1) \<Rightarrow> (Replied (http_error ''login expired or already used'' 400 rw), w1)
           | (Inr txn, w1) \<Rightarrow> (Took txn r rw, w1)))"

definition callback_ask :: "('s, 'i) Handler \<Rightarrow> LoginTransaction \<Rightarrow> 'c request \<Rightarrow> rw \<Rightarrow> ('s, 'i) world \<Rightarrow>
    'c phase \<times> ('s, 'i) world" where
  "callback_ask h txn r rw w =
     (let errVal = query_get (query_of r) ''error''; code = query_get (query_of r) ''code'';
          ctx = contextWithExpectedNonce Map.empty (Nonce txn) in
      if errVal \<noteq> '''' then (Replied (http_error (''login failed: '' @ errVal) 400 rw), w)
      else if code = '''' then (Replied (http_error ''missing authorization code'' 400 rw), w)
      else case rp_exchange (h_party h) (w_idp w) (w_now w) (expectedNonceFromContext ctx) code (PKCEVerifier txn) of
        (None, i') \<Rightarrow> (Replied (http_error ''token exchange failed'' 401 rw), w\<lparr>w_idp := i'\<rparr>)
      | (Some tok, i') \<Rightarrow> (Got tok r rw, w\<lparr>w_idp := i'\<rparr>))"

text \<open>Run one after the other the phases are the handler.\<close>

lemma callback_phases:
  "CallbackHandler h r rw w =
     (case callback_take h r rw w of
        (Took txn r1 rw1, w1) \<Rightarrow>
          (case callback_ask h txn r1 rw1 w1 of
             (Got tok r2 rw2, w2) \<Rightarrow> callback_session h tok r2 rw2 w2
           | (Replied rw', w2) \<Rightarrow> (rw', w2))
      | (Replied rw', w1) \<Rightarrow> (rw', w1))"
  by (auto simp: CallbackHandler_def callback_take_def callback_ask_def callback_exchange_def Let_def
      split: option.split sum.split prod.split)

lemma callback_take_Took:
  "callback_take h r rw w = (Took txn r1 rw1, w') \<Longrightarrow>
   r1 = r \<and> takeLoginTransaction (h_store h) (state_of r) w = (Inr txn, w')"
  by (auto simp: callback_take_def Let_def split: option.splits prod.splits sum.splits if_splits)

lemma callback_take_phase: "callback_take h r rw w = (p, w') \<Longrightarrow> (\<exists>rw'. p = Replied rw') \<or> (\<exists>txn rw'. p = Took txn r rw')"
  by (auto simp: callback_take_def Let_def split: option.splits prod.splits sum.splits if_splits)

lemma callback_ask_phase: "callback_ask h txn r rw w = (p, w') \<Longrightarrow>
  w_kv w' = w_kv w \<and> ((\<exists>rw'. p = Replied rw') \<or> (\<exists>tok. p = Got tok r rw))"
  by (auto simp: callback_ask_def Let_def split: option.splits prod.splits if_splits)

section \<open>Requests side by side\<close>

datatype event = Taken nat string | Asked nat string | Opened nat string

fun ev_state :: "event \<Rightarrow> string" where
  "ev_state (Taken i s) = s"
| "ev_state (Asked i s) = s"
| "ev_state (Opened i s) = s"

type_synonym ('c, 's, 'i) server_state = "(nat \<Rightarrow> 'c phase) \<times> ('s, 'i) world \<times> event list"

text \<open>
  One phase of one request, or a step of the environment \<open>env\<close>: any other request, the clock, the
  store's own expiry. The log records what succeeded.
\<close>

inductive server_step :: "('s, 'i) Handler \<Rightarrow> (('s, 'i) world \<Rightarrow> ('s, 'i) world \<Rightarrow> bool) \<Rightarrow>
    ('c, 's, 'i) server_state \<Rightarrow> ('c, 's, 'i) server_state \<Rightarrow> bool" for h env where
  take_fails: "ths i = Arrived r rw \<Longrightarrow> callback_take h r rw w = (Replied rw', w') \<Longrightarrow>
    server_step h env (ths, w, tr) (ths(i := Replied rw'), w', tr)"
| takes: "ths i = Arrived r rw \<Longrightarrow> callback_take h r rw w = (Took txn r' rw', w') \<Longrightarrow>
    server_step h env (ths, w, tr) (ths(i := Took txn r' rw'), w', tr @ [Taken i (state_of r)])"
| ask_fails: "ths i = Took txn r rw \<Longrightarrow> callback_ask h txn r rw w = (Replied rw', w') \<Longrightarrow>
    server_step h env (ths, w, tr) (ths(i := Replied rw'), w', tr)"
| asks: "ths i = Took txn r rw \<Longrightarrow> callback_ask h txn r rw w = (Got tok r' rw', w') \<Longrightarrow>
    server_step h env (ths, w, tr) (ths(i := Got tok r' rw'), w', tr @ [Asked i (state_of r)])"
| opens: "ths i = Got tok r rw \<Longrightarrow> callback_session h tok r rw w = (rw', w') \<Longrightarrow>
    server_step h env (ths, w, tr) (ths(i := Replied rw'), w',
      tr @ (if rw_status rw' = Some 302 then [Opened i (state_of r)] else []))"
| others: "env w w' \<Longrightarrow> server_step h env (ths, w, tr) (ths, w', tr)"

inductive_cases server_stepE: "server_step h env (ths, w, tr) (ths', w', tr')"

section \<open>One redemption\<close>

fun active :: "string \<Rightarrow> 'c phase \<Rightarrow> bool" where
  "active s (Took txn r rw) = (state_of r = s)"
| "active s (Got tok r rw) = (state_of r = s)"
| "active s _ = False"

fun has_tokens :: "string \<Rightarrow> 'c phase \<Rightarrow> bool" where
  "has_tokens s (Got tok r rw) = (state_of r = s)"
| "has_tokens s _ = False"

abbreviation about :: "string \<Rightarrow> event list \<Rightarrow> event list" where
  "about s tr \<equiv> filter (\<lambda>ev. ev_state ev = s) tr"

text \<open>Where the one request that took the transaction stands, and what it has done so far.\<close>

definition progress :: "string \<Rightarrow> nat \<Rightarrow> 'c phase \<Rightarrow> event list \<Rightarrow> bool" where
  "progress s i p es \<longleftrightarrow>
     es = [Taken i s] \<and> \<not> has_tokens s p
   \<or> es = [Taken i s, Asked i s] \<and> (active s p \<longrightarrow> has_tokens s p)
   \<or> es = [Taken i s, Asked i s, Opened i s] \<and> \<not> active s p"

definition one_redeemer :: "string \<Rightarrow> kv_view \<Rightarrow> (nat \<Rightarrow> 'c phase) \<Rightarrow> event list \<Rightarrow> bool" where
  "one_redeemer s m ths tr \<longleftrightarrow>
     about s tr = [] \<and> (\<forall>i. \<not> active s (ths i))
   \<or> m (loginKeyPrefix @ s) = None \<and> (\<exists>i. (\<forall>j. active s (ths j) \<longrightarrow> j = i) \<and> progress s i (ths i) (about s tr))"

text \<open>A step that leaves its request inactive for the state and logs nothing about it.\<close>

lemma one_redeemer_aside:
  assumes "one_redeemer s m ths tr" "\<not> active s p" "about s es = []"
    and "m (loginKeyPrefix @ s) = None \<Longrightarrow> m' (loginKeyPrefix @ s) = None"
  shows "one_redeemer s m' (ths(i := p)) (tr @ es)"
proof -
  have "\<not> has_tokens s p" using assms(2) by (cases p) auto
  then have "progress s j p' l \<Longrightarrow> progress s j (if j = i then p else p') l" for j p' l
    using assms(2) by (auto simp: progress_def)
  then have "progress s j (ths j) l \<Longrightarrow> progress s j ((ths(i := p)) j) l" for j l
    by simp
  moreover have "active s ((ths(i := p)) j) \<Longrightarrow> active s (ths j)" for j
    using assms(2) by (auto split: if_splits)
  moreover have "about s (tr @ es) = about s tr" using assms(3) by simp
  ultimately show ?thesis using assms(1,4) unfolding one_redeemer_def by metis
qed

lemma one_redeemer_active:
  assumes "one_redeemer s m ths tr" "active s (ths i)"
  shows "m (loginKeyPrefix @ s) = None" "active s (ths j) \<Longrightarrow> j = i" "progress s i (ths i) (about s tr)"
  using assms unfolding one_redeemer_def by blast+

context kv_contract
begin

lemma take_gone:
  assumes "takeLoginTransaction \<lparr>st_backend = b, st_enc = e\<rparr> s' w = (r, w')" "view (w_kv w) (loginKeyPrefix @ s) = None"
  shows "view (w_kv w') (loginKeyPrefix @ s) = None"
proof -
  obtain x k' where g: "b_getdel b (w_kv w) (w_now w) (loginKeyPrefix @ s') = (x, k')" by fastforce
  then have "w_kv w' = k'"
    using assms(1) by (auto simp: takeLoginTransaction_def split: sum.splits option.splits)
  with getdel_view [OF g] assms(2) show ?thesis by (auto simp: removed_def)
qed

lemma take_removes:
  assumes "takeLoginTransaction \<lparr>st_backend = b, st_enc = e\<rparr> s w = (Inr txn, w')"
  shows "view (w_kv w') (loginKeyPrefix @ s) = None"
  using assms by (auto simp: takeLoginTransaction_def removed_def split: prod.splits sum.splits option.splits dest!: getdel_value)

lemma take_needs_key:
  assumes "takeLoginTransaction \<lparr>st_backend = b, st_enc = e\<rparr> s w = (Inr txn, w')"
  shows "view (w_kv w) (loginKeyPrefix @ s) \<noteq> None"
  using take_Inr(1) [OF assms] by (cases "view (w_kv w) (loginKeyPrefix @ s)") (simp_all add: login_at_def live_def)

lemma callback_session_login_key:
  assumes st: "h_store h = \<lparr>st_backend = b, st_enc = e\<rparr>" and run: "callback_session h tok r rw w = (rw', w')"
  shows "view (w_kv w') (loginKeyPrefix @ s) = view (w_kv w) (loginKeyPrefix @ s)"
proof (cases "0 < time_until (w_now w) (tk_expiration tok)")
  case False
  with run show ?thesis by (simp add: callback_session_def Let_def)
next
  case True
  obtain t w1 where t: "randomToken w = (t, w1)" by fastforce
  have w1: "w_kv w1 = w_kv w" using quiet_randomToken [OF t] by (simp add: quietD)
  show ?thesis
  proof (cases t)
    case None
    with run True t w1 show ?thesis by (simp add: callback_session_def Let_def)
  next
    case (Some csrf)
    let ?rec = "\<lparr>Subject = tk_subject tok, IDToken = tk_id_token tok, ExpiresAt = tk_expiration tok,
       CreatedAt = w_now w1, CSRFToken = csrf\<rparr>"
    obtain x w2 where c: "createSession \<lparr>st_backend = b, st_enc = e\<rparr> ?rec (time_until (w_now w) (tk_expiration tok)) w1 = (x, w2)"
      by fastforce
    have "w' = w2" using run True t Some c st by (auto simp: callback_session_def Let_def split: sum.splits)
    moreover have "view (w_kv w2) (loginKeyPrefix @ s) = view (w_kv w1) (loginKeyPrefix @ s)"
      using createSession_other [OF c True] by simp
    ultimately show ?thesis using w1 by simp
  qed
qed

text \<open>The invariant: at most one request is past the store, and the key is gone once one was.\<close>

lemma takes_one_redeemer:
  assumes inv: "one_redeemer s (view (w_kv w)) ths tr"
    and t: "takeLoginTransaction \<lparr>st_backend = b, st_enc = e\<rparr> (state_of r) w = (Inr txn, w')"
  shows "one_redeemer s (view (w_kv w')) (ths(i := Took txn r rw)) (tr @ [Taken i (state_of r)])"
proof (cases "state_of r = s")
  case False
  then have "\<not> active s (Took txn r rw)" "about s [Taken i (state_of r)] = []" by simp_all
  from one_redeemer_aside [OF inv this, of "view (w_kv w')" i] take_gone [OF t, of s] show ?thesis by blast
next
  case True
  have "about s tr = []" "\<not> active s (ths j)" for j
    using inv take_needs_key [OF t] unfolding one_redeemer_def True by blast+
  moreover have "view (w_kv w') (loginKeyPrefix @ s) = None" using take_removes [OF t] True by simp
  moreover have "progress s i (Took txn r rw) [Taken i s]" by (simp add: progress_def)
  ultimately show ?thesis
    unfolding one_redeemer_def by (intro disjI2 conjI exI [of _ i]) (simp_all add: True)
qed

lemma asks_one_redeemer:
  assumes inv: "one_redeemer s m ths tr" and i: "ths i = Took txn r rw"
  shows "one_redeemer s m (ths(i := Got tok r rw')) (tr @ [Asked i (state_of r)])"
proof (cases "state_of r = s")
  case False
  then have "\<not> active s (Got tok r rw')" "about s [Asked i (state_of r)] = []" by simp_all
  from one_redeemer_aside [OF inv this, of m i] show ?thesis by simp
next
  case True
  then have a: "active s (ths i)" by (simp add: i)
  note one = one_redeemer_active [OF inv a]
  have "about s tr = [Taken i s]" using one(3) True by (auto simp: progress_def i)
  moreover have "progress s i (Got tok r rw') [Taken i s, Asked i s]" using True by (simp add: progress_def)
  ultimately show ?thesis using one(1,2) True
    unfolding one_redeemer_def by (intro disjI2 conjI exI [of _ i]) auto
qed

lemma opens_one_redeemer:
  assumes inv: "one_redeemer s m ths tr" and i: "ths i = Got tok r rw"
    and key: "m' (loginKeyPrefix @ s) = m (loginKeyPrefix @ s)"
  shows "one_redeemer s m' (ths(i := Replied rw')) (tr @ (if ok then [Opened i (state_of r)] else []))"
proof (cases "state_of r = s \<and> ok")
  case False
  then have "about s (if ok then [Opened i (state_of r)] else []) = []" by auto
  from one_redeemer_aside [OF inv _ this, of "Replied rw'" m' i] key show ?thesis by simp
next
  case True
  then have a: "active s (ths i)" by (simp add: i)
  note one = one_redeemer_active [OF inv a]
  have "about s tr = [Taken i s, Asked i s]" using one(3) True by (auto simp: progress_def i)
  moreover have "progress s i (Replied rw') [Taken i s, Asked i s, Opened i s]" by (simp add: progress_def)
  ultimately show ?thesis using one(1,2) True key
    unfolding one_redeemer_def by (intro disjI2 conjI exI [of _ i]) auto
qed

lemma step_one_redeemer:
  assumes st: "h_store h = \<lparr>st_backend = b, st_enc = e\<rparr>"
    and env: "\<And>w w'. env w w' \<Longrightarrow> view (w_kv w) (loginKeyPrefix @ s) = None \<Longrightarrow> view (w_kv w') (loginKeyPrefix @ s) = None"
    and step: "server_step h env (ths, w, tr) (ths', w', tr')"
    and inv: "one_redeemer s (view (w_kv w)) ths tr"
  shows "one_redeemer s (view (w_kv w')) ths' tr'"
  using step
proof (cases rule: server_stepE [consumes 1, case_names 1 2 3 4 5 6])
  case (1 i r rw rw')
  from 1(2) have "view (w_kv w) (loginKeyPrefix @ s) = None \<longrightarrow> view (w_kv w') (loginKeyPrefix @ s) = None"
    by (auto simp: callback_take_def Let_def st split: option.splits prod.splits sum.splits if_splits dest: take_gone)
  with one_redeemer_aside [OF inv, of "Replied rw'" "[]" "view (w_kv w')" i] 1 show ?thesis by simp
next
  case (2 i r rw txn r' rw')
  from callback_take_Took [OF 2(2)] have t: "r' = r"
      "takeLoginTransaction \<lparr>st_backend = b, st_enc = e\<rparr> (state_of r) w = (Inr txn, w')"
    by (simp_all add: st)
  show ?thesis unfolding 2 t(1) by (rule takes_one_redeemer [OF inv t(2)])
next
  case (3 i txn r rw rw')
  from callback_ask_phase [OF 3(2)] have "w_kv w' = w_kv w" by blast
  with one_redeemer_aside [OF inv, of "Replied rw'" "[]" "view (w_kv w')" i] 3 show ?thesis by simp
next
  case (4 i txn r rw tok r' rw')
  from callback_ask_phase [OF 4(2)] have w': "w_kv w' = w_kv w" "r' = r" by auto
  show ?thesis unfolding 4 w' by (rule asks_one_redeemer [OF inv 4(1)])
next
  case (5 i tok r rw rw')
  show ?thesis unfolding 5 by (rule opens_one_redeemer [OF inv 5(1)], rule callback_session_login_key [OF st 5(2)])
next
  case 6
  with inv env show ?thesis unfolding one_redeemer_def by blast
qed

lemma run_one_redeemer:
  assumes st: "h_store h = \<lparr>st_backend = b, st_enc = e\<rparr>"
    and env: "\<And>w w'. env w w' \<Longrightarrow> view (w_kv w) (loginKeyPrefix @ s) = None \<Longrightarrow> view (w_kv w') (loginKeyPrefix @ s) = None"
    and run: "(server_step h env)\<^sup>*\<^sup>* c c'" and inv: "one_redeemer s (view (w_kv (fst (snd c)))) (fst c) (snd (snd c))"
  shows "one_redeemer s (view (w_kv (fst (snd c')))) (fst c') (snd (snd c'))"
  using run inv
proof (induction rule: rtranclp_induct)
  case (step c1 c2)
  obtain ths1 w1 tr1 ths2 w2 tr2 where c: "c1 = (ths1, w1, tr1)" "c2 = (ths2, w2, tr2)" by (metis prod.exhaust)
  from step_one_redeemer [OF st env step.hyps(2) [unfolded c]] step.IH step.prems show ?case by (simp add: c)
qed

end

text \<open>
  C3: A login transaction is redeemed once, whatever runs at the same time. Let any number of callback
  requests be cut at every point where they touch shared state and interleaved with each other and with
  everything else the server does, as long as no other login draws the same random state. Then at most
  one of the requests presenting that state takes the transaction, the identity provider is asked for
  it at most once, by that request, and at most one session is opened from it, by that request.
\<close>

theorem concurrent_callbacks_redeem_once:
  assumes kv: "kv_contract b view" and st: "h_store h = \<lparr>st_backend = b, st_enc = e\<rparr>"
    and env: "\<And>w w'. env w w' \<Longrightarrow> view (w_kv w) (loginKeyPrefix @ s) = None \<Longrightarrow> view (w_kv w') (loginKeyPrefix @ s) = None"
    and start: "ths = (\<lambda>i. Arrived (reqs i) (new_rw (accepts i)))"
    and run: "(server_step h env)\<^sup>*\<^sup>* (ths, w, []) (ths', w', tr)"
  shows "\<exists>i. prefix (filter (\<lambda>ev. ev_state ev = s) tr) [Taken i s, Asked i s, Opened i s]"
proof -
  have "one_redeemer s (view (w_kv w)) ths []" by (simp add: one_redeemer_def start)
  with kv_contract.run_one_redeemer [OF kv st env run]
  have "one_redeemer s (view (w_kv w')) ths' tr" by simp
  then show ?thesis by (auto simp: one_redeemer_def progress_def)
qed

lemma concurrent_callbacks_redeem_once_witness:
  "\<exists>ths' w' tr. (server_step demo_auth (\<lambda>_ _. False))\<^sup>*\<^sup>*
      (\<lambda>i. Arrived demo_callback (new_rw None), demo_world demo_login_db, []) (ths', w', tr)
    \<and> tr = [Taken 0 ''abc'', Asked 0 ''abc'']
    \<and> (\<exists>i. prefix (filter (\<lambda>ev. ev_state ev = ''abc'') tr) [Taken i ''abc'', Asked i ''abc'', Opened i ''abc''])"
proof -
  let ?step = "server_step demo_auth (\<lambda>_ _. False)"
  let ?w = "demo_world \<lparr>db_map = Map.empty, db_up = True\<rparr>"
  let ?rw = "clearLoginStateCookie False (new_rw None)"
  let ?ths = "\<lambda>i :: nat. Arrived demo_callback (new_rw None)"
  have h: "h_insecure demo_auth = False" "h_store demo_auth = demo_store" "h_party demo_auth = demo_party"
    by (simp_all add: demo_auth_def)
  have "callback_take demo_auth demo_callback (new_rw None) (demo_world demo_login_db) = (Took demo_txn demo_callback ?rw, ?w)"
    by (simp add: callback_take_def demo_callback_parts demo_take h)
  from takes [where ths = ?ths and i = 0 and env = "\<lambda>_ _. False" and tr = "[]", OF refl this] have 1: "?step (?ths, demo_world demo_login_db, [])
      (?ths(0 := Took demo_txn demo_callback ?rw), ?w, [Taken 0 ''abc''])"
    by (simp add: demo_callback_parts)
  obtain tok where "callback_ask demo_auth demo_txn demo_callback ?rw ?w = (Got tok demo_callback ?rw, ?w)"
    by (simp add: callback_ask_def demo_callback_parts h demo_party_def demo_exchange_def)
  from asks [where ths = "?ths(0 := Took demo_txn demo_callback ?rw)" and i = 0 and env = "\<lambda>_ _. False"
      and tr = "[Taken 0 ''abc'']", OF _ this] have 2:
    "?step (?ths(0 := Took demo_txn demo_callback ?rw), ?w, [Taken 0 ''abc''])
      (?ths(0 := Got tok demo_callback ?rw), ?w, [Taken 0 ''abc'', Asked 0 ''abc''])"
    by (simp add: demo_callback_parts)
  from 1 2 have run: "?step\<^sup>*\<^sup>* (?ths, demo_world demo_login_db, [])
      (?ths(0 := Got tok demo_callback ?rw), ?w, [Taken 0 ''abc'', Asked 0 ''abc''])"
    by (rule converse_rtranclp_into_rtranclp [OF _ r_into_rtranclp])
  have st: "h_store demo_auth = \<lparr>st_backend = redis_backend ref_client, st_enc = demo_enc\<rparr>"
    by (simp add: h demo_store_def)
  have "\<exists>i. prefix (filter (\<lambda>ev. ev_state ev = ''abc'') [Taken 0 ''abc'', Asked 0 ''abc''])
      [Taken i ''abc'', Asked i ''abc'', Opened i ''abc'']"
    by (rule concurrent_callbacks_redeem_once [OF ref_kv st _ refl run]) simp
  with run show ?thesis by blast
qed

end
