(* ===== verification/Sealed.thy ===== *)
theory Sealed
  imports Scenario
begin

text \<open>
  What the session store writes is what it reads: records through JSON and AES-GCM and back, and
  nothing but a sealing under the store's key opens.
\<close>

lemma enc_seal_parts:
  "enc_seal e p w = (Some c, w') \<Longrightarrow>
   12 \<le> length (w_entropy w) \<and> c = take 12 (w_entropy w) @ gcm_seal (enc_key e) (take 12 (w_entropy w)) p
   \<and> w' = w\<lparr>w_entropy := drop 12 (w_entropy w)\<rparr>"
  by (auto simp: enc_seal_def gcm_nonce_size_def read_random_def split: prod.splits option.splits if_splits)

lemma enc_open_iff:
  "enc_open e c = Some p \<longleftrightarrow> (\<exists>nonce. length nonce = 12 \<and> c = nonce @ gcm_seal (enc_key e) nonce p)"
proof
  assume "enc_open e c = Some p"
  then show "\<exists>nonce. length nonce = 12 \<and> c = nonce @ gcm_seal (enc_key e) nonce p"
    using enc_open_authentic by (simp add: gcm_nonce_size_def)
next
  assume "\<exists>nonce. length nonce = 12 \<and> c = nonce @ gcm_seal (enc_key e) nonce p"
  then show "enc_open e c = Some p" by (auto simp: enc_open_def gcm_nonce_size_def gcm.unseal_seal)
qed

text \<open>
  C25: A record survives the store's encoding. With a key of the accepted length, 32 bytes, a record of
  UTF-8 text marshalled, sealed, opened and unmarshalled is the record again, nanoseconds
  of its instants included; the ciphertext is the plaintext's length plus nonce and tag, starts with the
  nonce drawn, and is the only one under that nonce that opens to the plaintext, so that a changed byte
  after the nonce is never read back as the same record text.
\<close>

theorem sealed_record_roundtrip:
  assumes key: "newEncryptor key = Some e" and txt1: "marshalRecord rec = Some t" "record_text_ok rec"
    and seal: "enc_seal e t w = (Some c, w')"
  shows "Option.bind (enc_open e c) unmarshalRecord = Some rec
    \<and> length key = 32 \<and> length c = length t + 28 \<and> take 12 c = take 12 (w_entropy w)
    \<and> (\<forall>c'. enc_open e c' = Some t \<longrightarrow> take 12 c' = take 12 c \<longrightarrow> c' = c)"
proof -
  note p = enc_seal_parts [OF seal]
  then have len: "length (take 12 (w_entropy w)) = 12" by simp
  have c: "c = take 12 (w_entropy w) @ gcm_seal (enc_key e) (take 12 (w_entropy w)) t" using p by blast
  have "Option.bind (enc_open e c) unmarshalRecord = Some rec"
    using enc_open_seal [OF seal] unmarshal_marshalRecord [OF txt1] by simp
  moreover have "length key = 32" using key by (simp add: newEncryptor_def SessionKeySize_def split: if_splits)
  moreover have "length c = length t + 28" using arg_cong [OF c, of length] len gcm.length_seal by simp
  moreover have nonce: "take 12 c = take 12 (w_entropy w)" using len by (subst c) simp
  moreover have "c' = c" if "enc_open e c' = Some t" "take 12 c' = take 12 c" for c'
    using that c nonce unfolding enc_open_iff by auto
  ultimately show ?thesis by blast
qed

lemma sealed_record_roundtrip_witness:
  "\<exists>e t c w'. newEncryptor demo_key = Some e \<and> marshalRecord demo_record = Some t
    \<and> enc_seal e t (demo_world empty_db) = (Some c, w') \<and> Option.bind (enc_open e c) unmarshalRecord = Some demo_record"
proof -
  have k: "newEncryptor demo_key = Some demo_enc"
    by (simp add: newEncryptor_def SessionKeySize_def demo_key_def demo_enc_def)
  obtain t where t: "marshalRecord demo_record = Some t"
    using marshal_five by (simp add: marshalRecord_def demo_record_def marshal_epoch)
  have u: "record_text_ok demo_record" by (simp add: record_text_ok_def demo_record_def Let_def)
  obtain c w' where s: "enc_seal demo_enc t (demo_world empty_db) = (Some c, w')"
    by (simp add: enc_seal_def demo_world_def read_random_def gcm_nonce_size_def)
  from sealed_record_roundtrip [OF k t u s] k t s show ?thesis by blast
qed

end
