(* ===== verification/Revocation.thy ===== *)
theory Revocation
  imports Boundary Lifecycle Walkthrough
begin

text \<open>
  A session that was logged out stays out: whatever requests follow or are still in flight, whatever
  time passes and whatever the store evicts, no later request reaches the upstream with it, unless a
  later login draws the very same 256-bit ID.
\<close>

section \<open>What happens after a world\<close>

text \<open>
  One call of the store, as a handler makes it: the rest of a request that was in flight is a sequence
  of these, between the steps of others. A session is created under an ID of its own, with a lifetime.
\<close>

inductive store_call :: "'s Store \<Rightarrow> string \<Rightarrow> ('s, 'i) world \<Rightarrow> ('s, 'i) world \<Rightarrow> bool" for store sid where
  create: "createSession store rec ttl w = (x, w') \<Longrightarrow> 0 < ttl \<Longrightarrow> rawURLEncode (take 32 (w_entropy w)) \<noteq> sid \<Longrightarrow>
    store_call store sid w w'"
| get: "getSession store cookie w = (y, w') \<Longrightarrow> store_call store sid w w'"
| delete: "deleteSession store cookie w = (z, w') \<Longrightarrow> store_call store sid w w'"
| start_login: "createLoginTransaction store txn ttl w = (x, w') \<Longrightarrow> 0 < ttl \<Longrightarrow> store_call store sid w w'"
| finish_login: "takeLoginTransaction store state w = (t, w') \<Longrightarrow> store_call store sid w w'"
| ready: "store_ping store w = (z, w') \<Longrightarrow> store_call store sid w w'"

inductive later :: "(Record, 's, 'i) handler \<Rightarrow> 's Store \<Rightarrow> ('s \<Rightarrow> kv_view) \<Rightarrow> string \<Rightarrow>
    ('s, 'i) world \<Rightarrow> ('s, 'i) world \<Rightarrow> bool"
  for router store view sid w0 where
  start: "later router store view sid w0 w0"
| request: "later router store view sid w0 w \<Longrightarrow> serve router a r w = (rw, w') \<Longrightarrow>
    rawURLEncode (take 32 (drop 32 (w_entropy w))) \<noteq> sid \<Longrightarrow> later router store view sid w0 w'"
| call: "later router store view sid w0 w \<Longrightarrow> store_call store sid w w' \<Longrightarrow> later router store view sid w0 w'"
| tick: "later router store view sid w0 w \<Longrightarrow> w_now w \<le> t \<Longrightarrow> later router store view sid w0 (w\<lparr>w_now := t\<rparr>)"
| evict: "later router store view sid w0 w \<Longrightarrow> view s = (view (w_kv w))(k := None) \<Longrightarrow>
    later router store view sid w0 (w\<lparr>w_kv := s\<rparr>)"
| outside: "later router store view sid w0 w \<Longrightarrow>
    later router store view sid w0 (w\<lparr>w_idp := idp, w_entropy := bytes, w_sent := sent\<rparr>)"

text \<open>The key of a session that is gone, and a step that keeps it so.\<close>

abbreviation session_gone :: "string \<Rightarrow> kv_view \<Rightarrow> bool" where
  "session_gone sid m \<equiv> m (sessionKeyPrefix @ sid) = None"

context kv_contract
begin

lemma get_gone: "getSession \<lparr>st_backend = b, st_enc = e\<rparr> x w = (r, w') \<Longrightarrow>
  session_gone sid (view (w_kv w)) \<Longrightarrow> session_gone sid (view (w_kv w'))"
  by (simp add: getSession_view)

lemma take_keeps_gone: "takeLoginTransaction \<lparr>st_backend = b, st_enc = e\<rparr> s w = (r, w') \<Longrightarrow>
  session_gone sid (view (w_kv w)) \<Longrightarrow> session_gone sid (view (w_kv w')) \<and> w_entropy w' = w_entropy w"
  using take_other [of e s w r w' "sessionKeyPrefix @ sid"]
  by (auto simp: takeLoginTransaction_def split: prod.splits sum.splits option.splits)

lemma delete_gone:
  assumes "deleteSession \<lparr>st_backend = b, st_enc = e\<rparr> x w = (r, w')" "session_gone sid (view (w_kv w))"
  shows "session_gone sid (view (w_kv w'))"
proof -
  obtain er s' where d: "b_del b (w_kv w) (w_now w) (sessionKeyPrefix @ x) = (er, s')" by fastforce
  then have w': "w_kv w' = s'" using assms(1) by (auto simp: deleteSession_def)
  have "view s' = view (w_kv w) \<or> removed (view (w_kv w)) (view s') (sessionKeyPrefix @ x)"
  proof (cases er)
    case None
    with del_ok [OF d [unfolded None]] show ?thesis by blast
  next
    case (Some y)
    from del_err [OF d [unfolded Some]] show ?thesis .
  qed
  with assms(2) w' show ?thesis by (auto simp: removed_def)
qed

lemma createLogin_gone:
  assumes "createLoginTransaction \<lparr>st_backend = b, st_enc = e\<rparr> txn ttl w = (r, w')" "0 < ttl" "session_gone sid (view (w_kv w))"
  shows "session_gone sid (view (w_kv w'))"
  using assms put_other [of e _ _ ttl _ _ w' "sessionKeyPrefix @ sid"]
  by (auto simp: createLoginTransaction_def split: prod.splits option.splits dest!: quiet_generateID simp: quietD)

lemma createSession_gone:
  assumes "createSession \<lparr>st_backend = b, st_enc = e\<rparr> rec ttl w = (r, w')" "0 < ttl"
    and "session_gone sid (view (w_kv w))" "rawURLEncode (take 32 (w_entropy w)) \<noteq> sid"
  shows "session_gone sid (view (w_kv w'))"
proof -
  obtain x w1 where g: "generateID w = (x, w1)" by fastforce
  have w1: "w_kv w1 = w_kv w" using quiet_generateID [OF g] by (simp add: quietD)
  show ?thesis
  proof (cases x)
    case None
    with assms(1,3) g w1 show ?thesis by (simp add: createSession_def)
  next
    case (Some new)
    have "new \<noteq> sid" using generateID_Some [of w new w1] g Some assms(4) by (simp add: idByteLength_def)
    moreover obtain y w2 where p: "store_put \<lparr>st_backend = b, st_enc = e\<rparr> (sessionKeyPrefix @ new) (marshalRecord rec) ttl w1 = (y, w2)"
      by fastforce
    ultimately have "view (w_kv w2) (sessionKeyPrefix @ sid) = view (w_kv w1) (sessionKeyPrefix @ sid)"
      using put_other [OF p assms(2)] by simp
    moreover have "w' = w2" using assms(1) g Some p by (auto simp: createSession_def split: option.splits)
    ultimately show ?thesis using w1 assms(3) by simp
  qed
qed

lemma login_gone:
  assumes "LoginHandler (handler_on p b e i orig) r rw w = (rw', w')" "session_gone sid (view (w_kv w))"
  shows "session_gone sid (view (w_kv w'))"
proof -
  have ttl: "0 < loginTransactionTTL" by (simp add: loginTransactionTTL_def)
  have draw: "randomToken v = (x, v') \<Longrightarrow> w_kv v' = w_kv v" for x and v v' :: "('s, 'd) world"
    using quiet_randomToken quietD(1) by blast
  show ?thesis using assms
    by (auto simp: LoginHandler_def Let_def split: prod.splits option.splits sum.splits
        dest!: draw dest: createLogin_gone [OF _ ttl])
qed

lemma callback_session_gone:
  assumes run: "callback_session (handler_on p b e i orig) tok r rw w = (rw', w')"
    and gone: "session_gone sid (view (w_kv w))" "rawURLEncode (take 32 (drop 32 (w_entropy w))) \<noteq> sid"
  shows "session_gone sid (view (w_kv w'))"
proof (cases "0 < time_until (w_now w) (tk_expiration tok)")
  case False
  with run gone(1) show ?thesis by (simp add: callback_session_def Let_def)
next
  case True
  obtain t w1 where t: "randomToken w = (t, w1)" by fastforce
  have w1: "w_kv w1 = w_kv w" using quiet_randomToken [OF t] by (simp add: quietD)
  show ?thesis
  proof (cases t)
    case None
    with run True t w1 gone(1) show ?thesis by (simp add: callback_session_def Let_def)
  next
    case (Some csrf)
    have "w_entropy w1 = drop 32 (w_entropy w)"
      using randomToken_Some [of w csrf w1] t Some by (simp add: randomTokenBytes_def)
    then have new: "rawURLEncode (take 32 (w_entropy w1)) \<noteq> sid" using gone(2) by simp
    let ?rec = "\<lparr>Subject = tk_subject tok, IDToken = tk_id_token tok, ExpiresAt = tk_expiration tok,
       CreatedAt = w_now w1, CSRFToken = csrf\<rparr>"
    obtain x w2 where c: "createSession \<lparr>st_backend = b, st_enc = e\<rparr> ?rec (time_until (w_now w) (tk_expiration tok)) w1 = (x, w2)"
      by fastforce
    have "w' = w2" using run True t Some c by (auto simp: callback_session_def Let_def split: sum.splits)
    with createSession_gone [OF c True _ new] w1 gone(1) show ?thesis by simp
  qed
qed

lemma callback_exchange_gone:
  assumes "callback_exchange (handler_on p b e i orig) txn r rw w = (rw', w')" "session_gone sid (view (w_kv w))"
    and "rawURLEncode (take 32 (drop 32 (w_entropy w))) \<noteq> sid"
  shows "session_gone sid (view (w_kv w'))"
  using assms by (auto simp: callback_exchange_def Let_def split: if_splits prod.splits option.splits
      dest!: callback_session_gone)

lemma callback_keeps_gone:
  assumes "CallbackHandler (handler_on p b e i orig) r rw w = (rw', w')" "session_gone sid (view (w_kv w))"
    and "rawURLEncode (take 32 (drop 32 (w_entropy w))) \<noteq> sid"
  shows "session_gone sid (view (w_kv w'))"
proof -
  have ex: "session_gone sid (view (w_kv w2))"
    if "callback_exchange (handler_on p b e i orig) txn r rw1 w1 = (rw2, w2)"
      "takeLoginTransaction \<lparr>st_backend = b, st_enc = e\<rparr> s w = (x, w1)" for txn rw1 w1 rw2 w2 s x
    using callback_exchange_gone [OF that(1)] take_keeps_gone [OF that(2) assms(2)] assms(3) by simp
  show ?thesis using assms(1,2)
    by (auto simp: CallbackHandler_def Let_def split: option.splits if_splits prod.splits sum.splits
        dest: take_keeps_gone ex)
qed

lemma session_handler_gone:
  "SessionHandler (handler_on p b e i orig) r rw w = (rw', w') \<Longrightarrow> session_gone sid (view (w_kv w)) \<Longrightarrow>
   session_gone sid (view (w_kv w'))"
  by (auto simp: SessionHandler_def session_status_def Let_def split: if_splits option.splits prod.splits sum.splits
      dest: get_gone)

lemma logout_gone:
  "LogoutHandler (handler_on p b e i orig) r rw w = (rw', w') \<Longrightarrow> session_gone sid (view (w_kv w)) \<Longrightarrow>
   session_gone sid (view (w_kv w'))"
  by (auto simp: LogoutHandler_def split: if_splits option.splits prod.splits sum.splits dest: get_gone delete_gone)

lemma ping_gone: "store_ping \<lparr>st_backend = b, st_enc = e\<rparr> w = (r, w') \<Longrightarrow>
  session_gone sid (view (w_kv w)) \<Longrightarrow> session_gone sid (view (w_kv w'))"
  by (auto simp: store_ping_def split: prod.splits option.splits dest: ping_view)

lemma readyz_gone:
  "readyzHandler \<lparr>st_backend = b, st_enc = e\<rparr> r rw w = (rw', w') \<Longrightarrow> session_gone sid (view (w_kv w)) \<Longrightarrow>
   session_gone sid (view (w_kv w'))"
  by (auto simp: readyzHandler_def split: prod.splits option.splits dest: ping_gone)

lemma route_gone:
  assumes "rt \<in> set (route_table (handler_on p b e i orig) \<lparr>st_backend = b, st_enc = e\<rparr> c i)"
    and "rt_handler rt r rw w = (rw', w')" "session_gone sid (view (w_kv w))"
    and "rawURLEncode (take 32 (drop 32 (w_entropy w))) \<noteq> sid"
  shows "session_gone sid (view (w_kv w'))"
proof (cases "rt \<in> set (public_routes (handler_on p b e i orig) \<lparr>st_backend = b, st_enc = e\<rparr>)")
  case True
  with assms(2-4) show ?thesis
    by (auto simp: public_routes_def livezHandler_def
        dest: login_gone callback_keeps_gone session_handler_gone logout_gone readyz_gone)
next
  case False
  then obtain segs h where h: "(segs, h) \<in> set (api_table c)" "rt_handler rt = requireSession \<lparr>st_backend = b, st_enc = e\<rparr> i h"
    using assms(1) by (auto simp: route_table_def api_routes_def)
  have "requireSession \<lparr>st_backend = b, st_enc = e\<rparr> i h r rw w = (rw', w')" using h(2) assms(2) by simp
  from requireSession_reads [OF kv_contract_axioms api_table_keeps_to [OF h(1)] this] assms(3) show ?thesis by simp
qed

lemma store_call_gone:
  assumes "store_call \<lparr>st_backend = b, st_enc = e\<rparr> sid w w'" "session_gone sid (view (w_kv w))"
  shows "session_gone sid (view (w_kv w'))"
  using assms(1)
  by cases (use assms(2) in \<open>blast dest: createSession_gone get_gone delete_gone createLogin_gone take_keeps_gone ping_gone\<close>)+

lemma later_gone:
  assumes "later (NewRouter ms (handler_on p b e i orig) \<lparr>st_backend = b, st_enc = e\<rparr> c i frontend)
      \<lparr>st_backend = b, st_enc = e\<rparr> view sid w0 w"
    and front: "\<And>h. frontend = Some h \<Longrightarrow> leaves_world h" and gone: "session_gone sid (view (w_kv w0))"
  shows "session_gone sid (view (w_kv w))"
  using assms(1)
proof (induction rule: later.induct)
  case (request w a r rw w')
  let ?rt = "route_table (handler_on p b e i orig) \<lparr>st_backend = b, st_enc = e\<rparr> c i"
  let ?r = "r\<lparr>rq_ctx := None, rq_pathvalue := (\<lambda>_. '''')\<rparr>"
  obtain rw1 where m: "mux_serve ms ?rt frontend ?r (set_security_headers i (new_rw a)) w = (rw1, w')"
    using request.hyps(2) by (auto simp: serve_def NewRouter_def securityHeaders_def split: prod.splits)
  from m show ?case
  proof (cases rule: mux_serve_cases)
    case (route rt vals)
    from route_gone [OF route(1,2) request.IH request.hyps(3)] show ?thesis .
  next
    case (catchall h)
    then have "w_kv w' = w_kv w" using front unfolding leaves_world_def by (metis snd_conv)
    with request.IH show ?thesis by simp
  qed (use request.IH in simp)
next
  case (call w w')
  from store_call_gone [OF call.hyps(2) call.IH] show ?case .
qed (simp_all add: gone)

lemma logout_removes:
  assumes "LogoutHandler (handler_on p b e i orig) r rw w = (rw', w')" "rw_status rw = None" "rw_status rw' = Some 204"
    and "req_cookie r (SessionCookieName i) = Some sid"
  shows "session_gone sid (view (w_kv w'))"
proof -
  have del: "session_gone sid (view (w_kv w2))" if "deleteSession \<lparr>st_backend = b, st_enc = e\<rparr> sid w1 = (None, w2)" for w1 w2
    using that by (auto simp: deleteSession_def removed_def split: prod.splits dest!: del_ok)
  show ?thesis using assms
    by (auto simp: LogoutHandler_def ClearSessionCookie_def split: if_splits prod.splits sum.splits option.splits dest: del)
qed

end

section \<open>Logging out\<close>

text \<open>
  C10: A session that was logged out stays out. After a logout answered 204, through whatever requests,
  single store calls of requests still in flight, waiting, evictions and changes outside follow, the
  store holds no session under that ID and a request with its cookie makes the server ask nothing
  upstream; only a later login that draws the same random ID could change that.
\<close>

theorem logged_out_stays_out:
  fixes w :: "('s, 'i) world"
  assumes kv: "kv_contract b view" and front: "\<And>h. frontend = Some h \<Longrightarrow> leaves_world h"
    and router: "router = NewRouter ms (handler_on p b e i orig) \<lparr>st_backend = b, st_enc = e\<rparr> c i frontend"
    and logout: "LogoutHandler (handler_on p b e i orig) r (new_rw a) w = (rw1, w1)" "rw_status rw1 = Some 204"
      "req_cookie r (SessionCookieName i) = Some sid"
    and run: "later router \<lparr>st_backend = b, st_enc = e\<rparr> view sid w1 w2"
    and again: "serve router a' r' w2 = (rw3, w3)" "req_cookie r' (SessionCookieName i) = Some sid"
  shows "(\<forall>t. session_at e (view (w_kv w2)) t sid = None) \<and> w_sent w3 = w_sent w2"
proof -
  have "session_gone sid (view (w_kv w1))"
    by (rule kv_contract.logout_removes [OF kv logout(1) _ logout(2,3)]) simp
  from kv_contract.later_gone [OF kv run [unfolded router] front this]
  have dead: "live (view (w_kv w2)) t (sessionKeyPrefix @ sid) = None" for t by (simp add: live_def)
  obtain x w' where g: "getSession \<lparr>st_backend = b, st_enc = e\<rparr> sid w2 = (x, w')" by fastforce
  have fr: "w_sent w'' = w_sent v" if "frontend = Some h" "h r rw v = (rw'', w'')" for h r rw v rw'' w''
    using front [OF that(1)] that(2) unfolding leaves_world_def by (metis snd_conv)
  have "w_sent w3 = w_sent w2 \<or> (\<exists>cookie rec. req_cookie r' (SessionCookieName i) = Some cookie
      \<and> fst (getSession \<lparr>st_backend = b, st_enc = e\<rparr> cookie w2) = Inr rec \<and> appends (allowed_call c (IDToken rec)) w2 w3)"
    by (rule upstream_allowlisted [OF again(1) [unfolded router]]) (rule fr)
  with kv_contract.getSession_dead [OF kv dead g] again(2) g have "w_sent w3 = w_sent w2" by auto
  with dead show ?thesis by (simp add: session_at_def)
qed

text \<open>The logged-out cookie again, a minute later.\<close>

definition demo_again :: "Record request" where
  "demo_again = demo_request ''GET'' ''/api/namespaces'' '''' [(''Cookie'', ''__Host-td-session=sid'')]"

lemma demo_again_cookie: "req_cookie demo_again (SessionCookieName False) = Some ''sid''"
  by code_simp

lemma logged_out_stays_out_witness:
  "\<exists>rw1 w1 y v. LogoutHandler demo_auth demo_logout (new_rw None) (demo_world demo_session_db) = (rw1, w1)
    \<and> getSession demo_store ''sid'' w1 = (y, v)
    \<and> w_sent (snd (serve demo_router None demo_again (v\<lparr>w_now := w_now v + minute\<rparr>))) = w_sent v"
proof -
  obtain rw1 w1 where run: "LogoutHandler demo_auth demo_logout (new_rw None) (demo_world demo_session_db) = (rw1, w1)"
    by fastforce
  then have st: "rw_status rw1 = Some 204" using demo_logout_status by simp
  obtain y v where get: "getSession demo_store ''sid'' w1 = (y, v)" by fastforce
  let ?w2 = "v\<lparr>w_now := w_now v + minute\<rparr>"
  have "later demo_router demo_store db_map ''sid'' w1 ?w2"
    by (rule later.tick [OF later.call [OF later.start store_call.get [OF get]]]) simp
  moreover obtain rw3 w3 where again: "serve demo_router None demo_again ?w2 = (rw3, w3)" by fastforce
  ultimately have "(\<forall>t. session_at demo_enc (db_map (w_kv ?w2)) t ''sid'' = None) \<and> w_sent w3 = w_sent ?w2"
    by (intro logged_out_stays_out [OF ref_kv _ demo_router_on run [unfolded demo_auth_on] st demo_logout_parts(1)
          _ _ demo_again_cookie]) (auto simp: demo_store_def)
  then have "w_sent (snd (serve demo_router None demo_again ?w2)) = w_sent v" unfolding again by simp
  with run get show ?thesis by blast
qed

end
