(* ===== verification/EndToEnd.thy ===== *)
theory EndToEnd
  imports Available MockFlow Walkthrough
begin

text \<open>
  The two programs together: the server of \<^verbatim>\<open>cmd/tenantdeck\<close> with the provider of \<^verbatim>\<open>cmd/mockoidc\<close>
  behind it, and the browser in between. The relying-party library in the server is the interface
  \<open>mock_client\<close>: how it builds the authorization URL, and what it makes of the provider's answers.
\<close>

section \<open>The library between the programs\<close>

text \<open>The provider as a process of its own: it has no store of the server's and no requests upstream.\<close>

definition provider_world :: "mock_server \<Rightarrow> go_time \<Rightarrow> (unit, mock_server) world" where
  "provider_world idp t = \<lparr>w_kv = (), w_idp = idp, w_entropy = [], w_now = t, w_sent = []\<rparr>"

definition auth_params :: "mock_config \<Rightarrow> string \<Rightarrow> string \<Rightarrow> string \<Rightarrow> string \<Rightarrow> qvalues" where
  "auth_params cfg redirectURL scope state challenge =
     [(''response_type'', ''code''), (''client_id'', mc_ClientID cfg), (''redirect_uri'', redirectURL),
      (''scope'', scope), (''state'', state), (''code_challenge'', challenge), (''code_challenge_method'', ''S256'')]"

text \<open>The expiry a library reads from the \<^verbatim>\<open>exp\<close> claim: whole seconds.\<close>

definition token_expiry :: "mock_config \<Rightarrow> go_time \<Rightarrow> go_time" where
  "token_expiry cfg t = unix (t + mc_IDTokenTTL cfg) * second"

text \<open>
  The documented behaviour of the library against this provider: \<^verbatim>\<open>NewSHACodeChallenge\<close> is the S256
  transform; the authorization URL is the discovered endpoint with the OAuth parameters and the
  extra ones; the exchange posts code, verifier, redirect URI and client credentials to the token
  endpoint, fails unless the answer is 200, and then returns the claims of the signed ID token when
  its nonce is the expected one.
\<close>

locale mock_client =
  fixes p :: "mock_server party" and j :: jose and cfg :: mock_config and redirectURL scope :: string
    and token_request :: "string \<Rightarrow> string \<Rightarrow> unit request"
  assumes challenge: "rp_challenge p v = rawURLEncode (Sum256 v)"
    and auth_url: "rp_auth_url p s c ps =
      mc_IssuerURL cfg @ ''/authorize?'' @ query_encode (auth_params cfg redirectURL scope s c @ ps)"
    and posts: "\<exists>post ok. ParseForm (token_request code v) = (post, ok)
      \<and> (length code + length v \<le> 1000 \<longrightarrow> ok)
      \<and> (ok \<longrightarrow> authenticateClient cfg post (token_request code v)
          \<and> query_get post ''grant_type'' = ''authorization_code'' \<and> query_get post ''code'' = code
          \<and> query_get post ''redirect_uri'' = redirectURL \<and> query_get post ''code_verifier'' = v)"
    and refused: "handleToken j cfg (token_request code v) (new_rw None) (provider_world idp t) = (rw', w') \<Longrightarrow>
      rw_status rw' \<noteq> Some 200 \<Longrightarrow> rp_exchange p idp t n code v = (None, w_idp w')"
    and exchanged: "handleToken j cfg (token_request code v) (new_rw None) (provider_world idp t) = (rw', w') \<Longrightarrow>
      rw_status rw' = Some 200 \<Longrightarrow> signIDToken j cfg t sub n = Some jwt \<Longrightarrow> n \<noteq> '''' \<Longrightarrow>
      rw_body rw' = json_print (token_response cfg jwt (rawURLEncode x) (rawURLEncode y)) @ [CHR 0x0A] \<Longrightarrow>
      int64_min \<le> unix (t + mc_IDTokenTTL cfg) \<Longrightarrow> unix (t + mc_IDTokenTTL cfg) \<le> int64_max \<Longrightarrow>
      rp_exchange p idp t n code v =
        (Some \<lparr>tk_subject = sub, tk_expiration = token_expiry cfg t, tk_id_token = jwt\<rparr>, w_idp w')"

section \<open>The provider's answers\<close>

lemma query_encode_ascii: "list_all (\<lambda>c. ord c < 128) (query_encode q)"
proof -
  have hex: "k < 16 \<Longrightarrow> ord (upper_hex ! k) < 128" for k
    using upper_hex_alnum [of k] by (auto simp: is_alnum_def is_digit_def is_lower_def is_upper_def)
  have "list_all (\<lambda>c. ord c < 128) (escape_char c)" for c
    using hex [OF byte_digits(1) [of c]] hex [OF byte_digits(2) [of c]]
    by (auto simp: escape_char_def unreserved_def is_alnum_def is_digit_def is_lower_def is_upper_def)
  then have "list_all (\<lambda>c. ord c < 128) (query_escape s)" for s
    by (auto simp: query_escape_def list_all_iff)
  then have p: "list_all (\<lambda>c. ord c < 128) (encode_pair x)" for x
    by (auto simp: encode_pair_def split: prod.split)
  have join: "list_all (list_all (\<lambda>c. ord c < 128)) xs \<Longrightarrow> list_all (\<lambda>c. ord c < 128) (join_with ''&'' xs)" for xs
    by (induction "''&''" xs rule: join_with.induct) auto
  show ?thesis unfolding query_encode_pieces
    by (rule join) (use p in \<open>simp add: list_all_iff\<close>)
qed

lemma cut_query_unique:
  assumes "a @ ''?'' @ x = b @ ''?'' @ y" "CHR ''?'' \<notin> set a" "CHR ''?'' \<notin> set b"
  shows "x = y"
proof -
  have "cut_at (CHR ''?'') (a @ ''?'' @ x) = Some (a, x)" using cut_at_append [OF assms(2)] by simp
  moreover have "cut_at (CHR ''?'') (b @ ''?'' @ y) = Some (b, y)" using cut_at_append [OF assms(3)] by simp
  ultimately show ?thesis unfolding assms(1) by simp
qed

lemma url_parse_empty: "url_parse ip6 '''' = Some empty_url"
  by (simp add: url_parse_def parse_absolute_def get_scheme_def parse_fragment_def parse_hier_def split_query_def
      set_escaped_def url_escape_def empty_url_def)

lemma sent_redirect_to: "rw_status rw = None \<Longrightarrow> rw_sent (redirect_to r l u rw) ''Location'' = [l]"
  by (simp add: redirect_to_def Let_def writer_defs)

text \<open>The query of the page the provider sends the browser back to.\<close>

lemma authorize_location:
  assumes q: "query_get (query_of r) ''response_type'' = ''code''" "query_get (query_of r) ''client_id'' = mc_ClientID cfg"
      "query_get (query_of r) ''redirect_uri'' = u" "u \<noteq> ''''" "query_get (query_of r) ''code_challenge_method'' = ''S256''"
      "query_get (query_of r) ''code_challenge'' \<noteq> ''''" "query_get (query_of r) ''state'' = s" "s \<noteq> ''''"
    and dest: "url_parse (js_ip6 j) u = Some d" "pu_scheme d \<noteq> ''''" "pu_query d = ''''" "pu_fragment d = ''''"
    and run: "handleAuthorize j cfg r (new_rw None) w = (rw', w')"
  shows "rw_status rw' = Some 302" "w' = w\<lparr>w_idp := w_idp w'\<rparr>"
    and "rw_sent rw' ''Location'' = [hex_escape (url_front d) @ ''?''
      @ query_encode [(''code'', rawURLEncode (ms_draws (w_idp w) (ms_drawn (w_idp w)))), (''state'', s)]]"
    and "CHR ''?'' \<notin> set (hex_escape (url_front d))"
    and "rw_sent rw' ''Location'' = [front @ ''?'' @ rest] \<Longrightarrow> CHR ''?'' \<notin> set front \<Longrightarrow>
      rest = query_encode [(''code'', rawURLEncode (ms_draws (w_idp w) (ms_drawn (w_idp w)))), (''state'', s)]"
proof -
  let ?q = "query_encode [(''code'', rawURLEncode (ms_draws (w_idp w) (ms_drawn (w_idp w)))), (''state'', s)]"
  have "parse_query '''' = []" by code_simp
  then have rw: "rw' = full_redirect (js_ip6 j) r (url_string (d\<lparr>pu_query := ?q\<rparr>)) (new_rw None)"
    and w': "w' = w\<lparr>w_idp := w_idp w'\<rparr>"
    using q dest run by (auto simp: handleAuthorize_def mock_randomToken_def query_set_def Let_def)
  from rw show "rw_status rw' = Some 302" by simp
  show "w' = w\<lparr>w_idp := w_idp w'\<rparr>" by (rule w')
  have "?q \<noteq> ''''" by (simp add: query_encode_def sort_key_def join_with.simps)
  with dest have "url_string (d\<lparr>pu_query := ?q\<rparr>) = url_front d @ ''?'' @ ?q" by (simp add: url_string_query)
  with redirect_url_absolute [OF dest(1,2)]
  have "rw' = redirect_to r (hex_escape (url_front d @ ''?'' @ ?q)) (url_front d @ ''?'' @ ?q) (new_rw None)"
    by (simp add: rw full_redirect_def)
  moreover have "hex_escape (''?'' @ ?q) = ''?'' @ ?q"
    by (rule hex_escape_ascii) (use query_encode_ascii in simp)
  ultimately show loc: "rw_sent rw' ''Location'' = [hex_escape (url_front d) @ ''?'' @ ?q]"
    by (simp add: sent_redirect_to)
  show "CHR ''?'' \<notin> set (hex_escape (url_front d))"
    using url_front_no_query [OF dest(1)] by (simp add: hex_escape_no_query)
  then show "rest = ?q" if "rw_sent rw' ''Location'' = [front @ ''?'' @ rest]" "CHR ''?'' \<notin> set front"
    using cut_query_unique that loc by auto
qed

section \<open>The exchange, as the server sees it\<close>

context mock_client
begin

lemma exchange_ok:
  assumes ac: "ms_codes idp code = Some ac" "ac_subject ac = sub" "ac_redirectURI ac = redirectURL" "ac_nonce ac = n"
      "ac_codeChallenge ac = rawURLEncode (Sum256 v)" "t \<le> ac_expiresAt ac"
    and texts: "v \<noteq> ''''" "n \<noteq> ''''" "length code + length v \<le> 1000"
    and sign: "signIDToken j cfg t sub n = Some jwt"
    and range: "int64_min \<le> unix (t + mc_IDTokenTTL cfg)" "unix (t + mc_IDTokenTTL cfg) \<le> int64_max"
  shows "\<exists>idp'. rp_exchange p idp t n code v =
    (Some \<lparr>tk_subject = sub, tk_expiration = token_expiry cfg t, tk_id_token = jwt\<rparr>, idp')"
proof -
  obtain post ok where p: "ParseForm (token_request code v) = (post, ok)" "length code + length v \<le> 1000 \<longrightarrow> ok"
      "ok \<longrightarrow> authenticateClient cfg post (token_request code v)
        \<and> query_get post ''grant_type'' = ''authorization_code'' \<and> query_get post ''code'' = code
        \<and> query_get post ''redirect_uri'' = redirectURL \<and> query_get post ''code_verifier'' = v"
    using posts [of code v] by metis
  have ok by (rule mp [OF p(2) texts(3)])
  then have post: "ParseForm (token_request code v) = (post, True)" "authenticateClient cfg post (token_request code v)"
      "query_get post ''grant_type'' = ''authorization_code''" "query_get post ''code'' = code"
      "query_get post ''redirect_uri'' = redirectURL" "query_get post ''code_verifier'' = v"
    using p(1,3) by simp_all
  obtain rw' w' where run: "handleToken j cfg (token_request code v) (new_rw None) (provider_world idp t) = (rw', w')"
    by fastforce
  have w: "w_idp (provider_world idp t) = idp" "w_now (provider_world idp t) = t" by (simp_all add: provider_world_def)
  have "rw_status rw' = Some 200 \<and> ms_codes (w_idp w') code = None
    \<and> (\<exists>x y. rw_body rw' = json_print (token_response cfg jwt (rawURLEncode x) (rawURLEncode y)) @ [CHR 0x0A]
         \<and> ms_tokens (w_idp w') (rawURLEncode x)
             = Some \<lparr>rt_subject = ac_subject ac, rt_expiresAt = w_now (provider_world idp t) + 60 * minute\<rparr>)"
    by (rule code_exchanged [OF _ _ post(1-4) _ _ _ run])
      (use ac texts(1) post(5,6) sign in \<open>simp_all add: w verifyPKCE_def\<close>)
  with exchanged [OF run _ sign texts(2) _ range] show ?thesis by blast
qed

lemma exchange_foreign:
  assumes ac: "ms_codes idp code = Some ac" "ac_codeChallenge ac \<noteq> rawURLEncode (Sum256 v)"
  shows "\<exists>idp'. rp_exchange p idp t n code v = (None, idp')"
proof -
  obtain post ok where post: "ParseForm (token_request code v) = (post, ok)"
      "ok \<Longrightarrow> query_get post ''grant_type'' = ''authorization_code'' \<and> query_get post ''code'' = code
         \<and> query_get post ''code_verifier'' = v"
    using posts [of code v] by blast
  obtain rw' w' where run: "handleToken j cfg (token_request code v) (new_rw None) (provider_world idp t) = (rw', w')"
    by fastforce
  have w: "w_idp (provider_world idp t) = idp" by (simp add: provider_world_def)
  have "rw_status (fst (handleToken j cfg (token_request code v) (new_rw None) (provider_world idp t))) \<noteq> Some 200"
  proof (cases ok)
    case True
    then have "\<not> code_redeemable j cfg post (provider_world idp t) x" for x
      using ac post(2) by (auto simp: code_redeemable_def w)
    with code_grant_status [of "new_rw None" j cfg post "provider_world idp t"] True post show ?thesis
      by (simp add: handleToken_def Let_def)
  qed (simp add: handleToken_def post(1) Let_def)
  with refused [OF run] run show ?thesis by auto
qed

end

text \<open>A callback whose exchange fails leaves every session as it was.\<close>

lemma callback_exchange_refused:
  assumes kv: "kv_contract b view"
    and run: "CallbackHandler (handler_on p b e i orig) r rw w = (rw', w')"
    and st: "rw_status rw = None"
    and no: "\<And>txn. login_at e (view (w_kv w)) (w_now w) (query_get (query_of r) ''state'') = Some txn \<Longrightarrow>
      fst (rp_exchange p (w_idp w) (w_now w) (Nonce txn) (query_get (query_of r) ''code'') (PKCEVerifier txn)) = None"
  shows "rw_status rw' \<noteq> Some 302"
    and "view (w_kv w') (sessionKeyPrefix @ sid) = view (w_kv w) (sessionKeyPrefix @ sid)"
proof -
  let ?st = "\<lparr>st_backend = b, st_enc = e\<rparr>" and ?s = "query_get (query_of r) ''state''"
  have other: "view (w_kv w1) (sessionKeyPrefix @ sid) = view (w_kv w) (sessionKeyPrefix @ sid)"
    if "takeLoginTransaction ?st ?s w = (x, w1)" for x w1
    by (rule kv_contract.take_other [OF kv that]) (simp add: sessionKeyPrefix_def loginKeyPrefix_def)
  have ex: "rp_exchange p (w_idp w1) (w_now w1) (Nonce txn) (query_get (query_of r) ''code'') (PKCEVerifier txn) \<noteq> (Some tok, idp)"
    if t: "takeLoginTransaction ?st ?s w = (Inr txn, w1)" for txn w1 tok idp
    using store_stepD [OF store_step_take [OF t]] no [OF kv_contract.take_Inr(1) [OF kv t]] by auto
  have rw: "rw_status (clearLoginStateCookie i rw) = None" by (simp add: clearLoginStateCookie_def st)
  have "rw_status rw' \<noteq> Some 302 \<and> view (w_kv w') (sessionKeyPrefix @ sid) = view (w_kv w) (sessionKeyPrefix @ sid)"
    using run st rw
    by (auto simp: CallbackHandler_def callback_exchange_def Let_def dest: other ex
        split: option.splits if_splits prod.splits sum.splits)
  then show "rw_status rw' \<noteq> Some 302"
    and "view (w_kv w') (sessionKeyPrefix @ sid) = view (w_kv w) (sessionKeyPrefix @ sid)" by auto
qed

section \<open>A login through both programs\<close>

lemma auth_params_get:
  "query_get (parse_query (query_encode (auth_params cfg u scp s c @ withNonceParam n))) k
     = query_get (auth_params cfg u scp s c @ withNonceParam n) k"
  by (rule query_get_encode) (simp add: auth_params_def withNonceParam_def)

lemma login_page_values:
  assumes "rq_query ra = query_encode (auth_params cfg u scp s c @ withNonceParam n)"
  shows "query_get (query_of ra) ''response_type'' = ''code''" "query_get (query_of ra) ''client_id'' = mc_ClientID cfg"
    "query_get (query_of ra) ''redirect_uri'' = u" "query_get (query_of ra) ''code_challenge_method'' = ''S256''"
    "query_get (query_of ra) ''code_challenge'' = c" "query_get (query_of ra) ''state'' = s"
    "query_get (query_of ra) ''nonce'' = n" "query_get (query_of ra) ''login_hint'' = ''''"
  unfolding query_of_def assms auth_params_get
  by (simp_all add: auth_params_def withNonceParam_def query_get_def)

lemma return_values:
  assumes "rq_query r = query_encode [(''code'', c), (''state'', s)]"
  shows "query_get (query_of r) ''code'' = c" "query_get (query_of r) ''state'' = s" "query_get (query_of r) ''error'' = ''''"
proof -
  have "query_get (parse_query (query_encode [(''code'', c), (''state'', s)])) k = query_get [(''code'', c), (''state'', s)] k" for k
    by (rule query_get_encode) simp
  then show "query_get (query_of r) ''code'' = c" "query_get (query_of r) ''state'' = s" "query_get (query_of r) ''error'' = ''''"
    unfolding query_of_def assms by (simp_all add: query_get_def)
qed

text \<open>The provider's part: the code it keeps, and where it sends the browser back.\<close>

lemma authorize_leaves:
  assumes q: "rq_query ra = query_encode (auth_params cfg u scp s c @ withNonceParam n)"
    and ne: "u \<noteq> ''''" "c \<noteq> ''''" "s \<noteq> ''''"
    and dest: "url_parse (js_ip6 j) u = Some d" "pu_scheme d \<noteq> ''''" "pu_query d = ''''" "pu_fragment d = ''''"
    and run: "handleAuthorize j cfg ra (new_rw None) w = (rw', w')"
    and home: "rw_sent rw' ''Location'' = [front @ ''?'' @ rq_query r2]" "CHR ''?'' \<notin> set front"
  defines "code \<equiv> rawURLEncode (ms_draws (w_idp w) (ms_drawn (w_idp w)))"
  shows "w' = w\<lparr>w_idp := w_idp w'\<rparr>"
    and "ms_codes (w_idp w') code = Some \<lparr>ac_subject = ''test-user@example.com'', ac_redirectURI = u, ac_nonce = n,
      ac_codeChallenge = c, ac_expiresAt = w_now w + minute\<rparr>"
    and "query_get (query_of r2) ''code'' = code" "query_get (query_of r2) ''state'' = s"
      "query_get (query_of r2) ''error'' = ''''"
proof -
  note v = login_page_values [OF q]
  note loc = authorize_location [OF v(1-3) ne(1) v(4) _ v(6) ne(3) dest run, unfolded v(5), OF ne(2)]
  show "w' = w\<lparr>w_idp := w_idp w'\<rparr>" by (rule loc(2))
  show "ms_codes (w_idp w') code = Some \<lparr>ac_subject = ''test-user@example.com'', ac_redirectURI = u, ac_nonce = n,
      ac_codeChallenge = c, ac_expiresAt = w_now w + minute\<rparr>"
    using authorize_stored(1) [OF run loc(1)] by (simp add: code_def v)
  show "query_get (query_of r2) ''code'' = code" "query_get (query_of r2) ''state'' = s"
      "query_get (query_of r2) ''error'' = ''''"
    using return_values [OF loc(5) [OF home]] by (simp_all add: code_def)
qed

text \<open>
  C4: The two programs complete a login. The browser asks the server for a login, follows the redirect
  to the provider's authorization endpoint and the one back with the cookie it was given, within a
  minute there and five minutes in all; the server's library exchanges the code at the provider. Then
  the browser is redirected to the application, and the server's store holds, under the ID drawn for
  it, the session of the provider's test user with the ID token the provider signed over this login's
  nonce. State, nonce, verifier and code travel through the real query strings.
\<close>

theorem end_to_end_login:
  fixes w :: "('s, mock_server) world"
  assumes kv: "kv_available b view up" and lib: "mock_client p j cfg redirectURL scope token_request"
    and dest: "url_parse (js_ip6 j) redirectURL = Some d" "pu_scheme d \<noteq> ''''" "pu_query d = ''''" "pu_fragment d = ''''"
    and start: "up (w_kv w)" "184 \<le> length (w_entropy w)" "marshal_time (w_now w) \<noteq> None"
      "length (ms_draws (w_idp w) (ms_drawn (w_idp w))) = 32"
    and login: "LoginHandler (handler_on p b e i orig) r (new_rw None) w = (rw1, w1)"
    and there: "rw_sent rw1 ''Location'' = [mc_IssuerURL cfg @ ''/authorize?'' @ rq_query ra]"
      "handleAuthorize j cfg ra (new_rw None) (w1\<lparr>w_now := t1\<rparr>) = (rwa, wa)"
    and home: "rw_sent rwa ''Location'' = [front @ ''?'' @ rq_query r2]" "CHR ''?'' \<notin> set front"
      "req_cookie r2 (LoginStateCookieName i) = Some (draw_at 64 w)"
      "CallbackHandler (handler_on p b e i orig) r2 (new_rw None) (wa\<lparr>w_now := t2\<rparr>) = (rw2, w3)"
    and times: "t2 \<le> t1 + minute" "t2 + millisecond \<le> w_now w + 5 * minute" "marshal_time t2 \<noteq> None"
    and token: "signIDToken j cfg t2 ''test-user@example.com'' (draw_at 0 w) = Some jwt" "valid_utf8 jwt"
      "t2 < token_expiry cfg t2" "marshal_time (token_expiry cfg t2) \<noteq> None"
      "int64_min \<le> unix (t2 + mc_IDTokenTTL cfg)" "unix (t2 + mc_IDTokenTTL cfg) \<le> int64_max"
  shows "rw_sent rw2 ''Location'' = [''/'']
    \<and> (\<exists>csrf. \<forall>t. t + millisecond \<le> t2 + time_until t2 (token_expiry cfg t2) \<longrightarrow>
        session_at e (view (w_kv w3)) t (draw_at 140 w) = Some \<lparr>Subject = ''test-user@example.com'',
          IDToken = jwt, ExpiresAt = token_expiry cfg t2, CreatedAt = t2, CSRFToken = csrf\<rparr>)"
proof -
  let ?h = "handler_on p b e i orig" and ?w2 = "wa\<lparr>w_now := t2\<rparr>"
  let ?code = "rawURLEncode (ms_draws (w_idp w) (ms_drawn (w_idp w)))"
  let ?txn = "\<lparr>Nonce = draw_at 0 w, PKCEVerifier = draw_at 32 w, TxnCreatedAt = w_now w\<rparr>"
  let ?tok = "\<lparr>tk_subject = ''test-user@example.com'', tk_expiration = token_expiry cfg t2, tk_id_token = jwt\<rparr>"
  have h: "h_store ?h = \<lparr>st_backend = b, st_enc = e\<rparr>" "h_party ?h = p" "h_insecure ?h = i" by (simp_all add: handler_on_def)
  have draws: "draw_at 32 w \<noteq> ''''" "draw_at 0 w \<noteq> ''''" "?code \<noteq> ''''" "length ?code + length (draw_at 32 w) \<le> 1000"
    using start(2,4) by (auto simp: draw_at_def length_rawURLEncode)
  note l = login_leaves [OF kv h(1) login start(1-3), unfolded h]
  have ra: "rq_query ra = query_encode (auth_params cfg redirectURL scope (draw_at 64 w)
      (rawURLEncode (Sum256 (draw_at 32 w))) @ withNonceParam (draw_at 0 w))"
    using there(1) l(6) by (simp add: mock_client.auth_url [OF lib] mock_client.challenge [OF lib])
  have "pu_scheme empty_url = ''''" by (simp add: empty_url_def)
  then have u: "redirectURL \<noteq> ''''" using dest(1,2) url_parse_empty [of "js_ip6 j"] by (metis option.inject)
  have c: "rawURLEncode (Sum256 (draw_at 32 w)) \<noteq> ''''" by simp
  note a = authorize_leaves [OF ra u c l(4) dest there(2) home(1,2)]
  have wa: "w_kv wa = w_kv w1" "w_entropy wa = drop 108 (w_entropy w)"
    using arg_cong [OF a(1), of w_kv] arg_cong [OF a(1), of w_entropy] l(2) by simp_all
  have ac: "ms_codes (w_idp wa) ?code = Some \<lparr>ac_subject = ''test-user@example.com'', ac_redirectURI = redirectURL,
      ac_nonce = draw_at 0 w, ac_codeChallenge = rawURLEncode (Sum256 (draw_at 32 w)), ac_expiresAt = t1 + minute\<rparr>"
    using a(2) l(3) by simp
  obtain idp' where ex: "rp_exchange p (w_idp wa) t2 (draw_at 0 w) ?code (draw_at 32 w) = (Some ?tok, idp')"
    using mock_client.exchange_ok [OF lib ac _ _ _ _ _ draws(1,2,4) token(1,5,6)] times(1) by auto
  have txn: "login_at e (view (w_kv ?w2)) (w_now ?w2) (draw_at 64 w) = Some ?txn"
    using l(7) [of t2] times(2) by (simp add: wa loginTransactionTTL_def)
  have w2: "up (w_kv ?w2)" "76 \<le> length (w_entropy ?w2)" "marshal_time (w_now ?w2) \<noteq> None"
    using l(1) start(2) times(3) by (simp_all add: wa)
  obtain csrf where "rw2 = http_redirect r2 ''/'' (setSessionCookie i (draw_at 32 ?w2) (time_until t2 (token_expiry cfg t2))
        (clearLoginStateCookie i (new_rw None)))"
    "\<And>t. t \<le> t2 + time_until t2 (token_expiry cfg t2) - millisecond \<Longrightarrow>
        session_at e (view (w_kv w3)) t (draw_at 32 ?w2) = Some \<lparr>Subject = ''test-user@example.com'', IDToken = jwt,
          ExpiresAt = token_expiry cfg t2, CreatedAt = t2, CSRFToken = csrf\<rparr>"
    using kv_available.CallbackHandler_up [OF kv h(1) w2 _ _ l(4) _ _ _ txn, of r2 ?code ?tok idp' "new_rw None"]
      home(3,4) a(3-5) l(3) ex token(2-4) draws(3) by (auto simp: h)
  moreover have "draw_at 32 ?w2 = draw_at 140 w" by (simp add: draw_at_def wa)
  ultimately show ?thesis by (auto simp: sent_redirect setSessionCookie_def clearLoginStateCookie_def)
qed

text \<open>
  C7: A code of somebody else's login is worth nothing. When a callback brings a code that the provider
  keeps for another challenge than the one of this login's verifier (a code injected into the victim's
  callback, or the victim's code in an attacker's), the provider refuses the exchange, the browser is
  not sent to the application, and no session appears in the store.
\<close>

theorem foreign_code_rejected:
  fixes w :: "('s, mock_server) world"
  assumes kv: "kv_contract b view" and lib: "mock_client p j cfg redirectURL scope token_request"
    and run: "CallbackHandler (handler_on p b e i orig) r (new_rw a) w = (rw', w')"
    and code: "ms_codes (w_idp w) (query_get (query_of r) ''code'') = Some ac"
    and foreign: "\<And>txn. login_at e (view (w_kv w)) (w_now w) (query_get (query_of r) ''state'') = Some txn \<Longrightarrow>
      ac_codeChallenge ac \<noteq> rawURLEncode (Sum256 (PKCEVerifier txn))"
  shows "rw_status rw' \<noteq> Some 302 \<and> session_at e (view (w_kv w')) t sid = session_at e (view (w_kv w)) t sid"
proof -
  have "fst (rp_exchange p (w_idp w) (w_now w) (Nonce txn) (query_get (query_of r) ''code'') (PKCEVerifier txn)) = None"
    if "login_at e (view (w_kv w)) (w_now w) (query_get (query_of r) ''state'') = Some txn" for txn
    using mock_client.exchange_foreign [OF lib code foreign [OF that]] by (metis fst_conv)
  from callback_exchange_refused [OF kv run _ this] show ?thesis by (simp add: session_at_def live_def)
qed

section \<open>A library\<close>

text \<open>
  A library with the documented behaviour, against the provider of \<^verbatim>\<open>MockFlow\<close>'s example with a signer
  that publishes the claims themselves: it posts the form, and reads the token from the answer's text.
\<close>

definition plain_jose :: jose where
  "plain_jose = \<lparr>js_sign = (\<lambda>a k c. if json_ok c \<and> valid_utf8 (json_print c) then Some (json_print c) else None),
     js_jwk = (\<lambda>k a u. JObj [(''kid'', JStr k)]), js_ip6 = (\<lambda>_. False)\<rparr>"

definition plain_redirect :: string where "plain_redirect = ''https://td.example/auth/callback''"

definition plain_form :: "string \<Rightarrow> string \<Rightarrow> qvalues" where
  "plain_form code v = [(''grant_type'', ''authorization_code''), (''code'', code), (''redirect_uri'', plain_redirect),
     (''code_verifier'', v), (''client_id'', ''td''), (''client_secret'', ''s'')]"

definition plain_request :: "string \<Rightarrow> string \<Rightarrow> unit request" where
  "plain_request code v = demo_idp_request ''POST'' ''/token'' [] (plain_form code v)"

definition str_member :: "string \<Rightarrow> json \<Rightarrow> string option" where
  "str_member k v = (case v of
     JObj ms \<Rightarrow> (case map_of ms k of Some (JStr s) \<Rightarrow> Some s | _ \<Rightarrow> None) | _ \<Rightarrow> None)"

definition int_member :: "string \<Rightarrow> json \<Rightarrow> int option" where
  "int_member k v = (case v of
     JObj ms \<Rightarrow> (case map_of ms k of Some (JNum s) \<Rightarrow> parseInt int64_min int64_max s | _ \<Rightarrow> None) | _ \<Rightarrow> None)"

definition plain_tokens :: "string \<Rightarrow> string \<Rightarrow> tokens option" where
  "plain_tokens n body =
     Option.bind (json_parse (butlast body)) (\<lambda>answer.
     Option.bind (str_member ''id_token'' answer) (\<lambda>jwt.
     Option.bind (json_parse jwt) (\<lambda>claims.
     Option.bind (str_member ''sub'' claims) (\<lambda>sub.
     Option.bind (int_member ''exp'' claims) (\<lambda>expiry.
     if str_member ''nonce'' claims = Some n
     then Some \<lparr>tk_subject = sub, tk_expiration = expiry * second, tk_id_token = jwt\<rparr> else None)))))"

definition plain_exchange :: "mock_server \<Rightarrow> go_time \<Rightarrow> string \<Rightarrow> string \<Rightarrow> string \<Rightarrow> tokens option \<times> mock_server" where
  "plain_exchange idp t n code v =
     (let (rw', w') = handleToken plain_jose demo_idp (plain_request code v) (new_rw None) (provider_world idp t)
      in (if rw_status rw' = Some 200 then plain_tokens n (rw_body rw') else None, w_idp w'))"

definition plain_party :: "mock_server party" where
  "plain_party = \<lparr>rp_challenge = (\<lambda>v. rawURLEncode (Sum256 v)),
     rp_auth_url = (\<lambda>s c ps. ''https://idp/authorize?'' @ query_encode (auth_params demo_idp plain_redirect ''openid'' s c @ ps)),
     rp_exchange = plain_exchange\<rparr>"

lemma plain_form_get: "query_get (sort_key fst (plain_form c v)) k = query_get (plain_form c v) k"
proof -
  have "distinct (map fst (plain_form c v))" by (simp add: plain_form_def)
  from query_get_encode [OF this] show ?thesis by (simp add: parse_query_encode)
qed

lemma plain_form_length: "length (query_encode (plain_form code v)) \<le> 1000 + 3 * (length code + length v)"
proof -
  have "length (query_escape s) \<le> 3 * length s" for s by (rule length_query_escape)
  from this [of code] this [of v] this [of "''grant_type''"] this [of "''authorization_code''"] this [of "''code''"]
    this [of "''redirect_uri''"] this [of plain_redirect] this [of "''code_verifier''"] this [of "''client_id''"]
    this [of "''td''"] this [of "''client_secret''"] this [of "''s''"]
  show ?thesis by (simp add: query_encode_pieces plain_form_def encode_pair_def plain_redirect_def)
qed

lemma plain_posts:
  "\<exists>post ok. ParseForm (plain_request code v) = (post, ok)
    \<and> (length code + length v \<le> 1000 \<longrightarrow> ok)
    \<and> (ok \<longrightarrow> authenticateClient demo_idp post (plain_request code v)
        \<and> query_get post ''grant_type'' = ''authorization_code'' \<and> query_get post ''code'' = code
        \<and> query_get post ''redirect_uri'' = plain_redirect \<and> query_get post ''code_verifier'' = v)"
proof (cases "length (query_encode (plain_form code v)) \<le> maxFormSize")
  case True
  have "ParseForm (plain_request code v) = (sort_key fst (plain_form code v), True)"
    by (rule ParseForm_post)
      (simp_all add: plain_request_def demo_idp_request_def hdr_get_def True, simp add: query_encode_def)
  moreover have "authenticateClient demo_idp (sort_key fst (plain_form code v)) (plain_request code v)"
    by (simp add: authenticateClient_def plain_form_get BasicAuth_def hdr_get_def plain_request_def
      demo_idp_request_def) (simp add: plain_form_def query_get_def demo_idp_def)
  moreover have "query_get (sort_key fst (plain_form code v)) ''grant_type'' = ''authorization_code''"
    "query_get (sort_key fst (plain_form code v)) ''code'' = code"
    "query_get (sort_key fst (plain_form code v)) ''redirect_uri'' = plain_redirect"
    "query_get (sort_key fst (plain_form code v)) ''code_verifier'' = v"
    unfolding plain_form_get by (simp_all add: plain_form_def query_get_def)
  ultimately show ?thesis by blast
next
  case False
  have "\<not> length code + length v \<le> 1000"
    using False plain_form_length [of code v] by (simp add: maxFormSize_def)
  moreover have "form_type \<noteq> ''''" by (simp add: form_type_def)
  then have "parsePostForm (plain_request code v) = ([], False)"
    using False by (simp add: parsePostForm_def plain_request_def demo_idp_request_def hdr_get_def form_media_type
        readAll_def limitReader_def concat_limit_chunks)
  then have "ParseForm (plain_request code v) = ([], False)"
    by (simp add: ParseForm_def plain_request_def demo_idp_request_def)
  ultimately show ?thesis by blast
qed

lemma plain_answer_ok:
  assumes "valid_utf8 jwt"
  shows "json_ok (token_response demo_idp jwt (rawURLEncode x) (rawURLEncode y))"
proof -
  have "formatInt (whole_seconds (mc_IDTokenTTL demo_idp)) = ''300''" "json_ok (JNum ''300'')"
    "valid_utf8 ''access_token''" "valid_utf8 ''expires_in''" "valid_utf8 ''id_token''" "valid_utf8 ''refresh_token''"
    "valid_utf8 ''token_type''" "valid_utf8 ''Bearer''" by code_simp+
  with assms show ?thesis by (simp add: token_response_def rawURLEncode_utf8 del: valid_utf8.simps json_ok.simps(1))
qed

lemma plain_sign:
  assumes "signIDToken plain_jose cfg t sub n = Some jwt"
  shows "json_parse jwt = Some (claims_json cfg t sub n)" "valid_utf8 jwt"
  using assms json_parse_print by (auto simp: signIDToken_def plain_jose_def split: if_splits)

lemma plain_tokens_read:
  assumes "signIDToken plain_jose demo_idp t sub n = Some jwt" "n \<noteq> ''''"
    and "int64_min \<le> unix (t + mc_IDTokenTTL demo_idp)" "unix (t + mc_IDTokenTTL demo_idp) \<le> int64_max"
  shows "plain_tokens n (json_print (token_response demo_idp jwt (rawURLEncode x) (rawURLEncode y)) @ [CHR 0x0A])
    = Some \<lparr>tk_subject = sub, tk_expiration = token_expiry demo_idp t, tk_id_token = jwt\<rparr>"
proof -
  have "json_parse (json_print (token_response demo_idp jwt (rawURLEncode x) (rawURLEncode y)))
      = Some (token_response demo_idp jwt (rawURLEncode x) (rawURLEncode y))"
    by (rule json_parse_print [OF plain_answer_ok [OF plain_sign(2) [OF assms(1)]]])
  moreover have "str_member ''id_token'' (token_response demo_idp jwt (rawURLEncode x) (rawURLEncode y)) = Some jwt"
    by (simp add: str_member_def token_response_def)
  moreover have "str_member ''sub'' (claims_json demo_idp t sub n) = Some sub"
    "str_member ''nonce'' (claims_json demo_idp t sub n) = Some n"
    "int_member ''exp'' (claims_json demo_idp t sub n) = Some (unix (t + mc_IDTokenTTL demo_idp))"
    using assms(2) parseInt_formatInt [OF assms(3,4)] by (simp_all add: str_member_def int_member_def claims_json_def)
  ultimately show ?thesis
    using plain_sign(1) [OF assms(1)] by (simp add: plain_tokens_def token_expiry_def)
qed

interpretation plain: mock_client plain_party plain_jose demo_idp plain_redirect "''openid''" plain_request
proof (unfold_locales, goal_cases)
  case (1 v)
  show ?case by (simp add: plain_party_def)
next
  case (2 s c ps)
  show ?case by (simp add: plain_party_def demo_idp_def)
next
  case (3 code v)
  show ?case by (rule plain_posts)
next
  case (4 code v idp t rw' w' n)
  then show ?case by (simp add: plain_party_def plain_exchange_def)
next
  case (5 code v idp t rw' w' sub n jwt x y)
  then show ?case by (simp add: plain_party_def plain_exchange_def plain_tokens_read)
qed

section \<open>The run, from an empty store\<close>

definition e2e_auth :: "(redis_db, mock_server) Handler" where
  "e2e_auth = handler_on plain_party (redis_backend ref_client) demo_enc False ''https://td.example''"

definition e2e_world :: "(redis_db, mock_server) world" where
  "e2e_world = \<lparr>w_kv = empty_db, w_idp = newServer demo_draws, w_entropy = replicate 400 (CHR 0x00), w_now = 0, w_sent = []\<rparr>"

definition e2e_page :: "Record request" where
  "e2e_page = demo_request ''GET'' ''/authorize'' (query_encode (auth_params demo_idp plain_redirect ''openid'' demo_state
     (rawURLEncode (Sum256 demo_state)) @ withNonceParam demo_state)) []"

definition e2e_return :: "Record request" where
  "e2e_return = demo_request ''GET'' ''/auth/callback'' (query_encode [(''code'', rawURLEncode (demo_draws 0)), (''state'', demo_state)])
     [(''Cookie'', ''__Host-td-login-state='' @ demo_state)]"

definition e2e_jwt :: string where
  "e2e_jwt = json_print (claims_json demo_idp minute ''test-user@example.com'' demo_state)"

lemma e2e_sign: "signIDToken plain_jose demo_idp minute ''test-user@example.com'' demo_state = Some e2e_jwt"
proof -
  have "json_ok (claims_json demo_idp minute ''test-user@example.com'' demo_state)" "valid_utf8 e2e_jwt" by code_simp+
  then show ?thesis by (simp add: signIDToken_def plain_jose_def e2e_jwt_def)
qed

lemma e2e_cookie: "req_cookie e2e_return (LoginStateCookieName False) = Some demo_state"
  by code_simp

lemma e2e_draws: "n \<le> 300 \<Longrightarrow> draw_at n e2e_world = demo_state"
  by (simp add: draw_at_def e2e_world_def zero_token)

lemma e2e_expiry: "token_expiry demo_idp minute = minute + 5 * minute"
  by (simp add: token_expiry_def demo_idp_def unix_def)

lemma plain_redirect_parts:
  obtains d where "url_parse (js_ip6 plain_jose) plain_redirect = Some d" "pu_scheme d = ''https''" "pu_query d = ''''"
    "pu_fragment d = ''''"
proof -
  have "map_option (\<lambda>d. (pu_scheme d, pu_query d, pu_fragment d)) (url_parse (\<lambda>_. False) plain_redirect) = Some (''https'', '''', '''')"
    by code_simp
  then show thesis using that by (auto simp: plain_jose_def)
qed

lemma e2e_start: "db_up (w_kv e2e_world)" "184 \<le> length (w_entropy e2e_world)" "marshal_time (w_now e2e_world) \<noteq> None"
    "length (ms_draws (w_idp e2e_world) (ms_drawn (w_idp e2e_world))) = 32"
    "w_idp e2e_world = newServer demo_draws" "w_now e2e_world = 0"
  using demo_times(1) by (simp_all add: e2e_world_def empty_db_def newServer_def demo_draws_def)

lemma e2e_login:
  assumes "LoginHandler e2e_auth r (new_rw None) e2e_world = (rw1, w1)"
  shows "rw_sent rw1 ''Location'' = [mc_IssuerURL demo_idp @ ''/authorize?'' @ rq_query e2e_page]"
    and "w_idp w1 = newServer demo_draws"
proof -
  have h: "h_store e2e_auth = \<lparr>st_backend = redis_backend ref_client, st_enc = demo_enc\<rparr>" "h_party e2e_auth = plain_party"
    by (simp_all add: e2e_auth_def handler_on_def)
  note l = login_leaves [OF ref_up.kv_available_axioms h(1) assms e2e_start(1-3), unfolded h]
  have d: "draw_at 0 e2e_world = demo_state" "draw_at 32 e2e_world = demo_state" "draw_at 64 e2e_world = demo_state"
    by (simp_all add: e2e_draws)
  show "w_idp w1 = newServer demo_draws" using l(3) e2e_start(5) by simp
  show "rw_sent rw1 ''Location'' = [mc_IssuerURL demo_idp @ ''/authorize?'' @ rq_query e2e_page]"
    using l(6) unfolding d plain.auth_url plain.challenge by (simp add: e2e_page_def demo_request_def)
qed

lemma e2e_authorize:
  fixes w1 :: "(redis_db, mock_server) world"
  assumes "w_idp w1 = newServer demo_draws" "handleAuthorize plain_jose demo_idp e2e_page (new_rw None) w1 = (rwa, wa)"
  obtains front where "rw_sent rwa ''Location'' = [front @ ''?'' @ rq_query e2e_return]" "CHR ''?'' \<notin> set front"
proof -
  obtain d where d: "url_parse (js_ip6 plain_jose) plain_redirect = Some d" "pu_scheme d = ''https''" "pu_query d = ''''"
    "pu_fragment d = ''''" by (rule plain_redirect_parts)
  have q: "rq_query e2e_page = query_encode (auth_params demo_idp plain_redirect ''openid'' demo_state
      (rawURLEncode (Sum256 demo_state)) @ withNonceParam demo_state)" by (simp add: e2e_page_def demo_request_def)
  have ne: "plain_redirect \<noteq> ''''" "demo_state \<noteq> ''''" "pu_scheme d \<noteq> ''''" "rawURLEncode (Sum256 demo_state) \<noteq> ''''"
    using d(2) by (simp_all add: plain_redirect_def demo_state_def)
  note v = login_page_values [OF q]
  note loc = authorize_location [OF v(1-3) ne(1) v(4) _ v(6) ne(2) d(1) ne(3) d(3,4) assms(2), unfolded v(5), OF ne(4)]
  have "rq_query e2e_return = query_encode [(''code'', rawURLEncode (ms_draws (w_idp w1) (ms_drawn (w_idp w1)))), (''state'', demo_state)]"
    by (simp add: assms(1) newServer_def e2e_return_def demo_request_def)
  from that [OF loc(3) [folded this] loc(4)] show thesis .
qed

lemma end_to_end_login_witness:
  "\<exists>rw1 w1 rwa wa rw2 w3. LoginHandler e2e_auth demo_login_request (new_rw None) e2e_world = (rw1, w1)
    \<and> handleAuthorize plain_jose demo_idp e2e_page (new_rw None) (w1\<lparr>w_now := minute\<rparr>) = (rwa, wa)
    \<and> CallbackHandler e2e_auth e2e_return (new_rw None) (wa\<lparr>w_now := minute\<rparr>) = (rw2, w3)
    \<and> rw_sent rw2 ''Location'' = [''/''] \<and> session_at demo_enc (db_map (w_kv w3)) (5 * minute) demo_state \<noteq> None"
proof -
  obtain rw1 w1 where login: "LoginHandler e2e_auth demo_login_request (new_rw None) e2e_world = (rw1, w1)" by fastforce
  obtain rwa wa where auth: "handleAuthorize plain_jose demo_idp e2e_page (new_rw None) (w1\<lparr>w_now := minute\<rparr>) = (rwa, wa)"
    by fastforce
  obtain rw2 w3 where call: "CallbackHandler e2e_auth e2e_return (new_rw None) (wa\<lparr>w_now := minute\<rparr>) = (rw2, w3)" by fastforce
  obtain d where d: "url_parse (js_ip6 plain_jose) plain_redirect = Some d" "pu_scheme d = ''https''" "pu_query d = ''''"
    "pu_fragment d = ''''" by (rule plain_redirect_parts)
  note page = e2e_login [OF login]
  obtain front where home: "rw_sent rwa ''Location'' = [front @ ''?'' @ rq_query e2e_return]" "CHR ''?'' \<notin> set front"
    by (rule e2e_authorize [OF _ auth]) (simp_all add: page(2))
  have dr: "draw_at 0 e2e_world = demo_state" "draw_at 64 e2e_world = demo_state" "draw_at 140 e2e_world = demo_state"
    by (simp_all add: e2e_draws)
  have "rw_sent rw2 ''Location'' = [''/'']
    \<and> (\<exists>csrf. \<forall>t. t + millisecond \<le> minute + time_until minute (token_expiry demo_idp minute) \<longrightarrow>
        session_at demo_enc (db_map (w_kv w3)) t (draw_at 140 e2e_world) = Some \<lparr>Subject = ''test-user@example.com'',
          IDToken = e2e_jwt, ExpiresAt = token_expiry demo_idp minute, CreatedAt = minute, CSRFToken = csrf\<rparr>)"
    by (rule end_to_end_login [OF ref_up.kv_available_axioms plain.mock_client_axioms d(1) _ d(3,4) e2e_start(1-4)
          login [unfolded e2e_auth_def] page(1) auth home _ call [unfolded e2e_auth_def]])
      (use plain_sign(2) [OF e2e_sign] demo_times in
        \<open>simp_all add: d(2) dr e2e_cookie e2e_start(6) e2e_sign e2e_expiry, simp_all add: demo_idp_def unix_def int64_min_def int64_max_def\<close>)
  moreover have "5 * minute + millisecond \<le> minute + time_until minute (token_expiry demo_idp minute)"
    by (simp add: e2e_expiry time_until_def int64_min_def int64_max_def)
  ultimately show ?thesis using login auth call unfolding dr by fastforce
qed

text \<open>A code the provider issued for another challenge, brought into this login.\<close>

definition foreign_world :: "(redis_db, mock_server) world" where
  "foreign_world = \<lparr>w_kv = demo_login_db, w_idp = (newServer demo_draws)\<lparr>ms_codes := [''good'' \<mapsto>
     \<lparr>ac_subject = ''mallory'', ac_redirectURI = plain_redirect, ac_nonce = ''n'', ac_codeChallenge = ''theirs'',
      ac_expiresAt = minute\<rparr>]\<rparr>, w_entropy = replicate 400 (CHR 0x00), w_now = 0, w_sent = []\<rparr>"

lemma foreign_code_rejected_witness:
  "rw_status (fst (CallbackHandler e2e_auth demo_callback (new_rw None) foreign_world)) \<noteq> Some 302"
proof -
  obtain rw' w' where run: "CallbackHandler e2e_auth demo_callback (new_rw None) foreign_world = (rw', w')" by fastforce
  have ne: "''theirs'' \<noteq> rawURLEncode (Sum256 v)" for v
    by (rule notI, drule arg_cong [where f = length]) (simp add: length_rawURLEncode)
  have "rw_status rw' \<noteq> Some 302 \<and> session_at demo_enc (db_map (w_kv w')) 0 ''sid'' = session_at demo_enc (db_map (w_kv foreign_world)) 0 ''sid''"
    by (rule foreign_code_rejected [OF ref_kv plain.mock_client_axioms run [unfolded e2e_auth_def], where ac =
          "\<lparr>ac_subject = ''mallory'', ac_redirectURI = plain_redirect, ac_nonce = ''n'', ac_codeChallenge = ''theirs'',
            ac_expiresAt = minute\<rparr>"])
      (simp_all add: foreign_world_def demo_callback_parts newServer_def ne)
  with run show ?thesis by simp
qed

end
