(* ===== verification/Spec2Isabelle.thy ===== *)
theory Spec2Isabelle
  imports Startup MockFlow StoreSpec Answers Boundary Interleaving Sealed Revocation EndToEnd
begin

text \<open>
  \<^bold>\<open>TenantDeck's backend-for-frontend.\<close> A Go server that logs a browser in through OpenID Connect, keeps
  the ID token in a server-side session, and forwards a fixed list of read-only Kubernetes requests to
  a Capsule Proxy with that token; it also serves the embedded frontend. A second program, the mock
  provider of the end-to-end tests, is modelled as well. The sources are under \<^verbatim>\<open>src/\<close>.

  \<^bold>\<open>The model.\<close> A handler is a function from a request, a response writer and a world to a writer and a
  world (\<open>Http\<close>, \<open>World\<close>). The world holds the server of the session store, the identity provider's
  state, the random bytes still to come, the clock and the requests sent upstream so far. A response
  writer keeps headers, status, body and whether the peer still accepts data, so that headers changed
  after \<^verbatim>\<open>WriteHeader\<close> and writes to a closed connection behave as in \<^verbatim>\<open>net/http\<close>. Strings and byte
  slices are lists of 8-bit characters; instants and durations are nanoseconds; errors are values of
  sums and options. What lies outside \<^verbatim>\<open>src/\<close> is a parameter: the go-redis client, the network behind
  \<^verbatim>\<open>http.Client\<close> with the times at which its answers arrive, the relying-party and JOSE libraries, the
  embedded files. Their documented behaviour is stated as locales or named hypotheses where a theorem needs it.

  \<^bold>\<open>Standard library.\<close>
  \<^item> \<open>Prelude\<close>: \<^verbatim>\<open>strings\<close>, \<^verbatim>\<open>strconv\<close>. \<open>Base64\<close>: \<^verbatim>\<open>encoding/base64\<close>. \<open>AesGcm\<close>: AES-256-GCM and the
    locale \<open>aead\<close>. \<open>Sha256\<close>: \<^verbatim>\<open>crypto/sha256\<close>. \<open>GoTime\<close>: RFC 3339 instants.
  \<^item> \<open>Json\<close>, \<open>JsonText\<close>, \<open>JsonDecode\<close>, \<open>GoFloat\<close>: \<^verbatim>\<open>encoding/json\<close>, from text to struct fields, with
    the round trip \<open>json_parse_print\<close>.
  \<^item> \<open>Url\<close>, \<open>UrlParse\<close>, \<open>Redirect\<close>, \<open>Http\<close>, \<open>Form\<close>: \<^verbatim>\<open>net/url\<close> (parsing and printing), \<^verbatim>\<open>path\<close>,
    \<^verbatim>\<open>net/http\<close> requests, cookies, writers, redirects and forms. \<open>Transport\<close>: \<^verbatim>\<open>http.Client\<close> under
    a timeout and a context deadline.

  \<^bold>\<open>Components.\<close>
  \<^item> Session store, \<^verbatim>\<open>internal/session\<close>: \<open>Backend\<close> (interface, Redis implementation, locales
    \<open>kv_contract\<close>, \<open>kv_expiring\<close>, \<open>redis_service\<close>), \<open>BackendInstances\<close> (their interpretations),
    \<open>Session\<close> (\<^verbatim>\<open>crypto.go\<close>, records), \<open>Store\<close> (\<^verbatim>\<open>store.go\<close>).
  \<^item> Capsule client, \<^verbatim>\<open>internal/capsule\<close>: \<open>Capsule\<close>.
  \<^item> Auth handlers, \<^verbatim>\<open>internal/auth\<close>: \<open>Auth\<close>.
  \<^item> HTTP API, \<^verbatim>\<open>internal/httpapi\<close>: \<open>Validate\<close>, \<open>Summaries\<close>, \<open>HttpApi\<close>, \<open>Router\<close>.
  \<^item> Configuration, \<^verbatim>\<open>internal/config\<close>: \<open>Config\<close>. Frontend handler, \<^verbatim>\<open>internal/webassets\<close>:
    \<open>Webassets\<close>. Wiring, \<^verbatim>\<open>cmd/tenantdeck\<close>: \<open>Startup\<close>.
  \<^item> Mock provider, \<^verbatim>\<open>cmd/mockoidc\<close>: \<open>Mockoidc\<close>.

  \<^bold>\<open>What is shown.\<close>
  \<^item> \<open>Allowlist\<close>: upstream requests are allowlisted GETs under the session's token. \<open>Responses\<close>: security
    headers everywhere, and no answer of the API without a session. \<open>Boundary\<close>: cookie attributes,
    redirect targets, and that the API only reads the store.
  \<^item> \<open>LoginFlow\<close>: login, callback, session status and logout, each against the store's contents.
    \<open>Interleaving\<close>: callbacks running at the same time redeem a login once. \<open>Lifecycle\<close>: the server as a
    state machine, its store invariant, and that no expired token is forwarded. \<open>Revocation\<close>: a
    session logged out stays out. \<open>Available\<close>: while the store answers, a login completes.
  \<^item> \<open>StoreSpec\<close>: the store refines two maps. \<open>Sealed\<close>: its encoding loses nothing.
  \<^item> \<open>Answers\<close>: routes, list answers, late upstreams, pod summaries, names. \<open>Streams\<close>: log options,
    log streams and the end of the copy loop.
  \<^item> \<open>Config\<close>, \<open>Webassets\<close>, \<open>Startup\<close>: what loads, what is served, when the server starts and what it then
    guarantees. \<open>MockFlow\<close>: the code flow of the mock provider. \<open>EndToEnd\<close>: a login
    through both programs, over the interface \<open>mock_client\<close> of the library between them.
  \<^item> \<open>Scenario\<close>, \<open>Walkthrough\<close> and the ends of the theories: one concrete deployment, and a login and a
    request run through it from an empty store, to which the theorems are applied.

  \<^bold>\<open>Bounds and fuel.\<close> No definition takes fuel: recursions are structural or have a termination proof, and
  the log copy loop is also run as \<open>while_option\<close>, which is shown to end. A body or stream is a finite
  list of chunks with an end of file or an error after it; an upstream that never ends is one
  that ends after every deadline, and the deadline turns it into such an error. Limits are those of the
  code: 10 seconds and 10 MiB per upstream response, 10 minutes and 50 MiB per log stream, 4096 bytes
  per read.

  \<^bold>\<open>Concurrency.\<close> A request is one step of \<open>Lifecycle\<close>'s machine. Requests share nothing but the store
  and the identity provider. The callback, whose accesses depend on one another, is cut at each of them
  in \<open>Interleaving\<close>, and \<open>Revocation\<close> lets the single store calls of requests in flight run between the
  steps of others. Elsewhere a handler is taken as atomic, though a logout makes two store calls,
  reading the session and deleting it.

  \<^bold>\<open>Not modelled.\<close> Log output; the timeouts of the store's ping and of the server's header reading (they
  show up as the errors they cause), the graceful shutdown's waiting, and the time that passes while a
  handler runs, which is seen only by the deadlines of its upstream calls; the text of
  error values beyond what responses show; the directory listing and range answers of the file server (parameters of \<open>Webassets\<close>); the limit newer Go releases put on the
  number of query parameters; the TypeScript frontend, the container, the Helm chart and the tests.
\<close>

end
